(* ===== verification/Prelude.thy ===== *)
theory Prelude
  imports Main "HOL-Library.List_Lexorder" "HOL-Library.Char_ord"
    "HOL-Library.Product_Lexorder" "HOL-Library.Option_ord"
begin

text \<open>
  What the components share: the vocabulary of the Rust standard library the
  controller's sources use (results, options, iterators, slices, byte strings),
  the collections of rewrite rules, and the interfaces (locales) several
  components rely on.

  A Rust \<open>String\<close> or \<open>&str\<close> is its UTF-8 byte sequence, as its \<open>len\<close>, \<open>==\<close> and
  \<open>Ord\<close> are: a \<open>string\<close> (a list of \<open>char\<close>, 8 bits each), compared byte by byte
  in the lexicographic order of \<open>List_Lexorder\<close> and \<open>Char_ord\<close>.
  A \<open>Result<T, E>\<close> is a sum \<open>'e + 'a\<close> with \<open>Inl\<close> the error.
\<close>

named_theorems rust_simps \<open>unfolding rules for the standard-library vocabulary\<close>

section \<open>Results and the question-mark operator\<close>

definition res_bind :: "'e + 'a \<Rightarrow> ('a \<Rightarrow> 'e + 'b) \<Rightarrow> 'e + 'b" where
  "res_bind r f = (case r of Inl e \<Rightarrow> Inl e | Inr a \<Rightarrow> f a)"

lemma res_bind_simps [simp]:
  "res_bind (Inl e) f = Inl e"
  "res_bind (Inr a) f = f a"
  by (simp_all add: res_bind_def)

lemma res_bind_Inr_iff [simp]:
  "res_bind r f = Inr b \<longleftrightarrow> (\<exists>a. r = Inr a \<and> f a = Inr b)"
  by (cases r) simp_all

lemma res_bind_Inl_iff:
  "res_bind r f = Inl e \<longleftrightarrow> r = Inl e \<or> (\<exists>a. r = Inr a \<and> f a = Inl e)"
  by (cases r) auto

lemma res_bind_cong [fundef_cong]:
  "r = r' \<Longrightarrow> (\<And>a. r' = Inr a \<Longrightarrow> f a = g a) \<Longrightarrow> res_bind r f = res_bind r' g"
  by (cases r') (auto simp: res_bind_def)

text \<open>The pattern \<open>require(cond, "diagnostic")?\<close>.\<close>

definition require :: "bool \<Rightarrow> 'e \<Rightarrow> 'e + unit" where
  "require b e = (if b then Inr () else Inl e)"

lemma require_Inr [simp]: "require b e = Inr u \<longleftrightarrow> b"
  by (simp add: require_def)

lemma require_Inl [simp]: "require b e = Inl e' \<longleftrightarrow> \<not> b \<and> e' = e"
  by (auto simp: require_def)

lemma require_bool [simp]: "require True e = Inr ()" "require False e = Inl e"
  by (simp_all add: require_def)

text \<open>\<open>Option::ok_or\<close>, \<open>Result::ok\<close> and \<open>Result::is_err\<close>.\<close>

definition ok_or :: "'a option \<Rightarrow> 'e \<Rightarrow> 'e + 'a" where
  "ok_or x e = (case x of None \<Rightarrow> Inl e | Some a \<Rightarrow> Inr a)"

lemma ok_or_simps [simp]:
  "ok_or None e = Inl e" "ok_or (Some a) e = Inr a"
  by (simp_all add: ok_or_def)

lemma ok_or_Inr [simp]: "ok_or x e = Inr a \<longleftrightarrow> x = Some a"
  by (cases x) auto

definition res_ok :: "'e + 'a \<Rightarrow> 'a option" where
  "res_ok r = (case r of Inl _ \<Rightarrow> None | Inr a \<Rightarrow> Some a)"

lemma res_ok_simps [simp]: "res_ok (Inl e) = None" "res_ok (Inr a) = Some a"
  by (simp_all add: res_ok_def)

lemma res_ok_the: "res_ok r \<noteq> None \<Longrightarrow> r = Inr (the (res_ok r))"
  by (cases r) simp_all

text \<open>\<open>Result::map_err\<close>.\<close>

definition map_err :: "('e \<Rightarrow> 'f) \<Rightarrow> 'e + 'a \<Rightarrow> 'f + 'a" where
  "map_err f r = (case r of Inl e \<Rightarrow> Inl (f e) | Inr a \<Rightarrow> Inr a)"

lemma map_err_simps [simp]: "map_err f (Inl e) = Inl (f e)" "map_err f (Inr a) = Inr a"
  by (simp_all add: map_err_def)

lemma map_err_Inr [simp]: "map_err f r = Inr a \<longleftrightarrow> r = Inr a"
  by (cases r) auto

text \<open>A call that may panic (\<open>unwrap\<close>, \<open>expect\<close>).\<close>

datatype 'a call = Returned 'a | Panicked

definition call_bind :: "'a call \<Rightarrow> ('a \<Rightarrow> 'b call) \<Rightarrow> 'b call" where
  "call_bind c f = (case c of Returned a \<Rightarrow> f a | Panicked \<Rightarrow> Panicked)"

lemma call_bind_simps [simp]: "call_bind (Returned a) f = f a" "call_bind Panicked f = Panicked"
  by (simp_all add: call_bind_def)

lemma call_bind_Returned [simp]: "call_bind c f = Returned b \<longleftrightarrow> (\<exists>a. c = Returned a \<and> f a = Returned b)"
  by (cases c) simp_all

section \<open>Options\<close>

definition is_some :: "'a option \<Rightarrow> bool" where
  [rust_simps]: "is_some x = (x \<noteq> None)"

definition is_none :: "'a option \<Rightarrow> bool" where
  [rust_simps]: "is_none x = (x = None)"

lemma is_some_simps [simp]: "\<not> is_some None" "is_some (Some a)"
  by (simp_all add: rust_simps)

lemma is_none_simps [simp]: "is_none None" "\<not> is_none (Some a)"
  by (simp_all add: rust_simps)

text \<open>\<open>is_some_and\<close> (and \<open>map_or(false, f)\<close>), \<open>is_none_or\<close> (and \<open>map_or(true, f)\<close>).\<close>

fun is_some_and :: "'a option \<Rightarrow> ('a \<Rightarrow> bool) \<Rightarrow> bool" where
  "is_some_and None f = False"
| "is_some_and (Some a) f = f a"

fun is_none_or :: "'a option \<Rightarrow> ('a \<Rightarrow> bool) \<Rightarrow> bool" where
  "is_none_or None f = True"
| "is_none_or (Some a) f = f a"

lemma is_some_and_iff: "is_some_and x f \<longleftrightarrow> (\<exists>a. x = Some a \<and> f a)"
  by (cases x) auto

lemma is_none_or_iff: "is_none_or x f \<longleftrightarrow> (\<forall>a. x = Some a \<longrightarrow> f a)"
  by (cases x) auto

definition unwrap_or :: "'a option \<Rightarrow> 'a \<Rightarrow> 'a" where
  "unwrap_or x d = (case x of None \<Rightarrow> d | Some a \<Rightarrow> a)"

lemma unwrap_or_simps [simp]: "unwrap_or None d = d" "unwrap_or (Some a) d = a"
  by (simp_all add: unwrap_or_def)

definition option_filter :: "('a \<Rightarrow> bool) \<Rightarrow> 'a option \<Rightarrow> 'a option" where
  "option_filter p x = (case x of None \<Rightarrow> None | Some a \<Rightarrow> if p a then Some a else None)"

lemma option_filter_simps [simp]:
  "option_filter p None = None"
  "option_filter p (Some a) = (if p a then Some a else None)"
  by (simp_all add: option_filter_def)

lemma option_filter_Some [simp]: "option_filter p x = Some a \<longleftrightarrow> x = Some a \<and> p a"
  by (cases x) auto

text \<open>\<open>Option::or\<close> and \<open>get_or_insert_with\<close>: the first value stays.\<close>

definition option_or :: "'a option \<Rightarrow> 'a option \<Rightarrow> 'a option" where
  "option_or x y = (case x of None \<Rightarrow> y | Some a \<Rightarrow> Some a)"

lemma option_or_simps [simp]: "option_or None y = y" "option_or (Some a) y = Some a"
  by (simp_all add: option_or_def)

lemma option_or_eq_None [simp]: "option_or x y = None \<longleftrightarrow> x = None \<and> y = None"
  by (cases x) auto

section \<open>Iterators over slices\<close>

text \<open>\<open>iter().position(p)\<close>: the index of the first element that satisfies \<open>p\<close>.\<close>

fun position :: "('a \<Rightarrow> bool) \<Rightarrow> 'a list \<Rightarrow> nat option" where
  "position p [] = None"
| "position p (x # xs) = (if p x then Some 0 else map_option Suc (position p xs))"

lemma position_Some:
  "position p xs = Some i \<longleftrightarrow> i < length xs \<and> p (xs ! i) \<and> (\<forall>j < i. \<not> p (xs ! j))"
proof (induction xs arbitrary: i)
  case (Cons x xs)
  show ?case
    by (cases i) (auto simp: Cons.IH All_less_Suc2)
qed simp

lemma position_None: "position p xs = None \<longleftrightarrow> (\<forall>x \<in> set xs. \<not> p x)"
  by (induction xs) auto

text \<open>\<open>slice.get(i)\<close>.\<close>

definition nth_opt :: "'a list \<Rightarrow> nat \<Rightarrow> 'a option" where
  "nth_opt xs i = (if i < length xs then Some (xs ! i) else None)"

lemma nth_opt_Some: "nth_opt xs i = Some x \<longleftrightarrow> i < length xs \<and> xs ! i = x"
  by (auto simp: nth_opt_def)

lemma nth_opt_Nil [simp]: "nth_opt [] i = None"
  by (simp add: nth_opt_def)

lemma nth_opt_Cons [simp]:
  "nth_opt (x # xs) i = (if i = 0 then Some x else nth_opt xs (i - 1))"
  by (cases i) (auto simp: nth_opt_def)

text \<open>\<open>Vec::remove(i)\<close> for an index in range.\<close>

definition remove_at :: "nat \<Rightarrow> 'a list \<Rightarrow> 'a list" where
  "remove_at i xs = take i xs @ drop (Suc i) xs"

lemma set_remove_at_subset: "set (remove_at i xs) \<subseteq> set xs"
  by (auto simp: remove_at_def dest: in_set_takeD in_set_dropD)

lemma set_remove_at: "i < length xs \<Longrightarrow> set xs = insert (xs ! i) (set (remove_at i xs))"
proof -
  assume "i < length xs"
  then have "xs = take i xs @ xs ! i # drop (Suc i) xs"
    by (rule id_take_nth_drop)
  then have "set xs = set (take i xs @ xs ! i # drop (Suc i) xs)" by simp
  then show ?thesis by (simp add: remove_at_def)
qed

lemma length_remove_at: "i < length xs \<Longrightarrow> length (remove_at i xs) = length xs - 1"
  by (simp add: remove_at_def)

text \<open>\<open>filter_map\<close>.\<close>

definition filter_map :: "('a \<Rightarrow> 'b option) \<Rightarrow> 'a list \<Rightarrow> 'b list" where
  "filter_map f xs = List.map_filter f xs"

lemma filter_map_simps [simp]:
  "filter_map f [] = []"
  "filter_map f (x # xs) = (case f x of None \<Rightarrow> filter_map f xs | Some y \<Rightarrow> y # filter_map f xs)"
  by (auto simp: filter_map_def List.map_filter_def split: option.splits)

lemma set_filter_map: "y \<in> set (filter_map f xs) \<longleftrightarrow> (\<exists>x \<in> set xs. f x = Some y)"
  by (induction xs) (auto split: option.splits)

text \<open>
  A fallible traversal (\<open>iter().map(f).collect::<Result<Vec<_>, _>>()\<close>) stops at the
  first error; \<open>f\<close> sees the index, as \<open>enumerate()\<close> gives it.
\<close>

fun try_map_from :: "nat \<Rightarrow> (nat \<Rightarrow> 'a \<Rightarrow> 'e + 'b) \<Rightarrow> 'a list \<Rightarrow> 'e + 'b list" where
  "try_map_from i f [] = Inr []"
| "try_map_from i f (x # xs) =
     res_bind (f i x) (\<lambda>y. res_bind (try_map_from (Suc i) f xs) (\<lambda>ys. Inr (y # ys)))"

abbreviation try_map :: "(nat \<Rightarrow> 'a \<Rightarrow> 'e + 'b) \<Rightarrow> 'a list \<Rightarrow> 'e + 'b list" where
  "try_map \<equiv> try_map_from 0"

lemma try_map_from_Inr:
  "try_map_from k f xs = Inr ys \<longleftrightarrow>
     length ys = length xs \<and> (\<forall>i < length xs. f (k + i) (xs ! i) = Inr (ys ! i))"
proof (induction xs arbitrary: k ys)
  case (Cons x xs)
  show ?case
    by (cases ys) (auto simp: Cons.IH All_less_Suc2)
qed auto

lemma try_map_Inl_ex: "try_map_from k f xs = Inl e \<Longrightarrow>
    \<exists>i < length xs. f (k + i) (xs ! i) = Inl e"
proof (induction xs arbitrary: k)
  case (Cons x xs)
  show ?case
  proof (cases "f k x")
    case (Inr y)
    with Cons.prems have "try_map_from (Suc k) f xs = Inl e"
      by (auto simp: res_bind_Inl_iff)
    from Cons.IH [OF this] obtain i where "i < length xs" "f (Suc k + i) (xs ! i) = Inl e" by blast
    then show ?thesis by (intro exI [of _ "Suc i"]) simp
  qed (use Cons.prems in auto)
qed simp

section \<open>Byte strings\<close>

fun starts_with :: "string \<Rightarrow> string \<Rightarrow> bool" where
  "starts_with s [] = True"
| "starts_with [] (p # ps) = False"
| "starts_with (c # cs) (p # ps) = (c = p \<and> starts_with cs ps)"

lemma starts_with_iff: "starts_with s p \<longleftrightarrow> (\<exists>r. s = p @ r)"
  by (induction s p rule: starts_with.induct) auto

definition ends_with :: "string \<Rightarrow> string \<Rightarrow> bool" where
  "ends_with s p = starts_with (rev s) (rev p)"

text \<open>\<open>strip_prefix\<close>.\<close>

definition strip_prefix :: "string \<Rightarrow> string \<Rightarrow> string option" where
  "strip_prefix p s = (if starts_with s p then Some (drop (length p) s) else None)"

lemma strip_prefix_Some: "strip_prefix p s = Some r \<longleftrightarrow> s = p @ r"
  by (auto simp: strip_prefix_def starts_with_iff)

definition is_ascii_digit :: "char \<Rightarrow> bool" where
  "is_ascii_digit c = (of_char c \<ge> (48::nat) \<and> of_char c \<le> (57::nat))"

definition is_ascii_alphabetic :: "char \<Rightarrow> bool" where
  "is_ascii_alphabetic c =
     ((of_char c \<ge> (65::nat) \<and> of_char c \<le> (90::nat)) \<or> (of_char c \<ge> (97::nat) \<and> of_char c \<le> (122::nat)))"

definition is_ascii_alphanumeric :: "char \<Rightarrow> bool" where
  "is_ascii_alphanumeric c = (is_ascii_digit c \<or> is_ascii_alphabetic c)"

definition is_ascii_hexdigit :: "char \<Rightarrow> bool" where
  "is_ascii_hexdigit c = (is_ascii_digit c \<or>
     (of_char c \<ge> (65::nat) \<and> of_char c \<le> (70::nat)) \<or> (of_char c \<ge> (97::nat) \<and> of_char c \<le> (102::nat)))"

definition is_lower_hexdigit :: "char \<Rightarrow> bool" where
  "is_lower_hexdigit c = (is_ascii_digit c \<or> (of_char c \<ge> (97::nat) \<and> of_char c \<le> (102::nat)))"

definition nul :: char where "nul = CHR 0x00"

text \<open>\<open>usize::to_string\<close> and the decimal \<open>Display\<close> of unsigned integers.\<close>

fun nat_digits :: "nat \<Rightarrow> string" where
  "nat_digits n = (if n < 10 then [char_of (48 + n)] else nat_digits (n div 10) @ [char_of (48 + n mod 10)])"

declare nat_digits.simps [simp del]

section \<open>Ordered sets of strings\<close>

text \<open>
  A \<open>BTreeSet<T>\<close> is its ascending list without duplicates: the order its iterator
  yields. \<open>set_insert\<close> is \<open>insert\<close>.
\<close>

definition set_insert :: "'a::linorder \<Rightarrow> 'a list \<Rightarrow> 'a list" where
  "set_insert x xs = insort_insert x xs"

definition btree_set :: "'a::linorder list \<Rightarrow> bool" where
  "btree_set xs = (sorted xs \<and> distinct xs)"

lemma set_set_insert [simp]: "set (set_insert x xs) = insert x (set xs)"
  by (simp add: set_insert_def set_insort_insert)

lemma btree_set_insert [simp]: "btree_set xs \<Longrightarrow> btree_set (set_insert x xs)"
  by (simp add: btree_set_def set_insert_def sorted_insort_insert distinct_insort_insert)

lemma btree_set_Nil [simp]: "btree_set []"
  by (simp add: btree_set_def)

lemma btree_set_eq: "btree_set xs \<Longrightarrow> btree_set ys \<Longrightarrow> set xs = set ys \<Longrightarrow> xs = ys"
  by (simp add: btree_set_def sorted_distinct_set_unique)

lemma sort_Nil_iff [simp]: "sort xs = [] \<longleftrightarrow> xs = []"
  by (metis length_0_conv length_sort)

lemma concat_if_Nil: "concat (map (\<lambda>x. if p x then [] else [g x]) xs) = [] \<longleftrightarrow> list_all p xs"
  by (induction xs) auto

section \<open>Interface: stateful steps folded over a list\<close>

text \<open>
  Many of the controller's loops thread one mutable state through a list. A step that
  keeps an invariant keeps it over the whole loop.
\<close>

locale state_loop =
  fixes step :: "'a \<Rightarrow> 's \<Rightarrow> 's"
    and inv :: "'s \<Rightarrow> bool"
  assumes step_inv: "inv s \<Longrightarrow> inv (step x s)"
begin

lemma fold_inv: "inv s \<Longrightarrow> inv (fold step xs s)"
  by (induction xs arbitrary: s) (simp_all add: step_inv)

end

end
