(* ===== verification/Json.thy ===== *)
theory Json
  imports Complex_Main Prelude
begin

text \<open>
  JSON values as the controller reads them: the public \<open>Value\<close> enum of its JSON crate
  (null, booleans, numbers, strings, arrays, objects) with the documented behaviour of
  the accessors the sources call. The crate is used without its \<open>preserve_order\<close>
  feature (controller/Cargo.toml), so an object iterates in ascending key order and
  holds each key once: \<open>wf_json\<close>. Text parsing and printing are not modelled here;
  where a component calls them they are parameters.

  The second part is the interface of a keyed store (\<open>key_map\<close>) that the request
  editing components rely on, with the JSON object as its instance.
\<close>

section \<open>Values and accessors\<close>

text \<open>
  A number is a nonnegative 64-bit integer, a negative 64-bit integer or a finite
  double. A double is represented by the rational it denotes.
\<close>

datatype number = PosInt nat | NegInt int | Float rat

datatype json =
    JNull
  | JBool bool
  | JNum number
  | JStr string
  | JArr "json list"
  | JObj "(string \<times> json) list"

type_synonym json_map = "(string \<times> json) list"

definition u64_max :: nat where "u64_max = 18446744073709551615"
definition i64_max :: nat where "i64_max = 9223372036854775807"
definition u32_max :: nat where "u32_max = 4294967295"
definition i32_max :: nat where "i32_max = 2147483647"

fun number_is_u64 :: "number \<Rightarrow> bool" where
  "number_is_u64 (PosInt n) = True"
| "number_is_u64 (NegInt n) = False"
| "number_is_u64 (Float r) = False"

fun number_is_i64 :: "number \<Rightarrow> bool" where
  "number_is_i64 (PosInt n) = (n \<le> i64_max)"
| "number_is_i64 (NegInt n) = True"
| "number_is_i64 (Float r) = False"

fun number_as_u64 :: "number \<Rightarrow> nat option" where
  "number_as_u64 (PosInt n) = Some n"
| "number_as_u64 (NegInt n) = None"
| "number_as_u64 (Float r) = None"

fun number_as_i64 :: "number \<Rightarrow> int option" where
  "number_as_i64 (PosInt n) = (if n \<le> i64_max then Some (int n) else None)"
| "number_as_i64 (NegInt n) = Some n"
| "number_as_i64 (Float r) = None"

text \<open>
  \<open>as_f64\<close>: an integer beyond the 53-bit mantissa rounds to a neighbouring integral
  double; the two questions the sources ask of the result (is the fractional part
  zero, is it a small constant) do not depend on that rounding.
\<close>

fun number_as_f64 :: "number \<Rightarrow> rat" where
  "number_as_f64 (PosInt n) = of_nat n"
| "number_as_f64 (NegInt n) = of_int n"
| "number_as_f64 (Float r) = r"

fun wf_number :: "number \<Rightarrow> bool" where
  "wf_number (PosInt n) = (n \<le> u64_max)"
| "wf_number (NegInt n) = (n < 0 \<and> - 9223372036854775808 \<le> n)"
| "wf_number (Float r) = True"

fun as_str :: "json \<Rightarrow> string option" where
  "as_str (JStr s) = Some s"
| "as_str _ = None"

fun as_bool :: "json \<Rightarrow> bool option" where
  "as_bool (JBool b) = Some b"
| "as_bool _ = None"

fun as_u64 :: "json \<Rightarrow> nat option" where
  "as_u64 (JNum n) = number_as_u64 n"
| "as_u64 _ = None"

fun as_i64 :: "json \<Rightarrow> int option" where
  "as_i64 (JNum n) = number_as_i64 n"
| "as_i64 _ = None"

fun as_array :: "json \<Rightarrow> json list option" where
  "as_array (JArr xs) = Some xs"
| "as_array _ = None"

fun as_object :: "json \<Rightarrow> json_map option" where
  "as_object (JObj m) = Some m"
| "as_object _ = None"

definition is_null :: "json \<Rightarrow> bool" where "is_null v = (v = JNull)"
definition is_string :: "json \<Rightarrow> bool" where "is_string v = is_some (as_str v)"
definition is_boolean :: "json \<Rightarrow> bool" where "is_boolean v = is_some (as_bool v)"
definition is_array :: "json \<Rightarrow> bool" where "is_array v = is_some (as_array v)"
definition is_object :: "json \<Rightarrow> bool" where "is_object v = is_some (as_object v)"

lemma is_kind_simps [simp]:
  "is_null JNull" "\<not> is_null (JBool b)" "\<not> is_null (JNum n)" "\<not> is_null (JStr s)"
  "\<not> is_null (JArr a)" "\<not> is_null (JObj m)"
  "is_object (JObj m)" "\<not> is_object JNull" "\<not> is_object (JBool b)" "\<not> is_object (JNum n)"
  "\<not> is_object (JStr s)" "\<not> is_object (JArr a)"
  "is_array (JArr a)" "\<not> is_array JNull" "\<not> is_array (JBool b)" "\<not> is_array (JNum n)"
  "\<not> is_array (JStr s)" "\<not> is_array (JObj m)"
  "is_string (JStr s)" "\<not> is_string JNull" "\<not> is_string (JBool b)" "\<not> is_string (JNum n)"
  "\<not> is_string (JArr a)" "\<not> is_string (JObj m)"
  "is_boolean (JBool b)" "\<not> is_boolean JNull" "\<not> is_boolean (JStr s)" "\<not> is_boolean (JNum n)"
  "\<not> is_boolean (JArr a)" "\<not> is_boolean (JObj m)"
  by (simp_all add: is_null_def is_object_def is_array_def is_string_def is_boolean_def)

lemma as_str_Some [simp]: "as_str v = Some s \<longleftrightarrow> v = JStr s"
  by (cases v) auto

lemma Some_as_str [simp]: "Some s = as_str v \<longleftrightarrow> v = JStr s"
  by (cases v) auto

lemma as_array_Some [simp]: "as_array v = Some xs \<longleftrightarrow> v = JArr xs"
  by (cases v) auto

lemma as_object_Some [simp]: "as_object v = Some m \<longleftrightarrow> v = JObj m"
  by (cases v) auto

lemma as_bool_Some [simp]: "as_bool v = Some b \<longleftrightarrow> v = JBool b"
  by (cases v) auto

text \<open>\<open>v.get(key)\<close> is \<open>None\<close> on a value that is no object; \<open>v[key]\<close> then reads null.\<close>

definition jget :: "json \<Rightarrow> string \<Rightarrow> json option" where
  "jget v k = (case v of JObj m \<Rightarrow> map_of m k | _ \<Rightarrow> None)"

definition jix :: "json \<Rightarrow> string \<Rightarrow> json" where
  "jix v k = unwrap_or (jget v k) JNull"

lemma jget_simps [simp]:
  "jget (JObj m) k = map_of m k" "jget JNull k = None" "jget (JBool b) k = None"
  "jget (JNum n) k = None" "jget (JStr s) k = None" "jget (JArr a) k = None"
  by (simp_all add: jget_def)

lemma jix_eq_not_null: "jix v k = w \<Longrightarrow> w \<noteq> JNull \<Longrightarrow> jget v k = Some w"
  by (cases "jget v k") (simp_all add: jix_def)

text \<open>\<open>v[i]\<close> with a number, and the unsigned/signed comparisons \<open>v == 1\<close>, \<open>v == -1\<close>.\<close>

definition jnth :: "json \<Rightarrow> nat \<Rightarrow> json" where
  "jnth v i = (case v of JArr xs \<Rightarrow> unwrap_or (nth_opt xs i) JNull | _ \<Rightarrow> JNull)"

definition jint_eq :: "json \<Rightarrow> int \<Rightarrow> bool" where
  "jint_eq v n = (as_i64 v = Some n)"

text \<open>\<open>as_array().unwrap_or(&empty)\<close>.\<close>

definition jarray :: "json \<Rightarrow> json list" where
  "jarray v = unwrap_or (as_array v) []"

lemma jarray_simps [simp]:
  "jarray (JArr xs) = xs" "jarray JNull = []" "jarray (JObj m) = []" "jarray (JStr s) = []"
  "jarray (JBool b) = []" "jarray (JNum n) = []"
  by (simp_all add: jarray_def)

text \<open>The comparison \<open>v == "text"\<close> and the chains \<open>v.get(key).and_then(as_...)\<close>.\<close>

definition str_eq :: "json \<Rightarrow> string \<Rightarrow> bool" where "str_eq v s = (v = JStr s)"

definition get_str :: "json \<Rightarrow> string \<Rightarrow> string option" where
  "get_str v k = Option.bind (jget v k) as_str"

definition get_i64 :: "json \<Rightarrow> string \<Rightarrow> int option" where
  "get_i64 v k = Option.bind (jget v k) as_i64"

definition get_u64 :: "json \<Rightarrow> string \<Rightarrow> nat option" where
  "get_u64 v k = Option.bind (jget v k) as_u64"

lemma get_str_jix: "get_str v k = as_str (jix v k)"
  by (cases "jget v k") (simp_all add: get_str_def jix_def)

lemma get_i64_jix: "get_i64 v k = as_i64 (jix v k)"
  by (cases "jget v k") (simp_all add: get_i64_def jix_def)


text \<open>\<open>i32::try_from\<close>.\<close>

definition i32_of :: "int \<Rightarrow> int option" where
  "i32_of n = (if - 2147483648 \<le> n \<and> n \<le> 2147483647 then Some n else None)"

section \<open>Well-formed values\<close>

definition strict_keys :: "json_map \<Rightarrow> bool" where
  "strict_keys m = sorted_wrt (<) (map fst m)"

fun wf_json :: "json \<Rightarrow> bool" where
  "wf_json JNull = True"
| "wf_json (JBool b) = True"
| "wf_json (JNum n) = wf_number n"
| "wf_json (JStr s) = True"
| "wf_json (JArr xs) = list_all wf_json xs"
| "wf_json (JObj m) = (strict_keys m \<and> list_all (\<lambda>p. wf_json (snd p)) m)"

section \<open>Objects\<close>

fun obj_insert :: "string \<Rightarrow> json \<Rightarrow> json_map \<Rightarrow> json_map" where
  "obj_insert k v [] = [(k, v)]"
| "obj_insert k v (p # m) =
     (if k < fst p then (k, v) # p # m
      else if k = fst p then (k, v) # m
      else p # obj_insert k v m)"

definition obj_remove :: "string \<Rightarrow> json_map \<Rightarrow> json_map" where
  "obj_remove k m = filter (\<lambda>p. fst p \<noteq> k) m"

abbreviation obj_get :: "json_map \<Rightarrow> string \<Rightarrow> json option" where
  "obj_get \<equiv> map_of"

lemma strict_keys_Nil [simp]: "strict_keys []"
  by (simp add: strict_keys_def)

lemma strict_keys_Cons [simp]:
  "strict_keys (p # m) \<longleftrightarrow> (\<forall>q \<in> set m. fst p < fst q) \<and> strict_keys m"
  by (auto simp: strict_keys_def)

lemma set_obj_insert_fst: "fst ` set (obj_insert k v m) = insert k (fst ` set m)"
  by (induction m) auto

lemma strict_keys_insert: "strict_keys m \<Longrightarrow> strict_keys (obj_insert k v m)"
proof (induction m)
  case (Cons p m)
  have lt: "fst p < fst q" if "fst p < k" "q \<in> set (obj_insert k v m)" for q
  proof -
    from that(2) have "fst q \<in> insert k (fst ` set m)"
      unfolding set_obj_insert_fst [of k v m, symmetric] by blast
    with that(1) Cons.prems show ?thesis by auto
  qed
  consider "k < fst p" | "k = fst p" | "fst p < k" by (rule linorder_cases)
  then show ?case
  proof cases
    case 1
    with Cons.prems have "\<forall>q \<in> set m. k < fst q" by auto
    with 1 Cons.prems show ?thesis by simp
  next
    case 2
    with Cons.prems show ?thesis by simp
  next
    case 3
    then have "obj_insert k v (p # m) = p # obj_insert k v m" by auto
    with Cons lt [OF 3] show ?thesis by simp
  qed
qed simp

lemma map_of_obj_insert: "map_of (obj_insert k v m) = (map_of m)(k \<mapsto> v)"
  by (induction m) (auto simp: fun_eq_iff)

lemma strict_keys_remove: "strict_keys m \<Longrightarrow> strict_keys (obj_remove k m)"
  by (induction m) (auto simp: obj_remove_def)

lemma map_of_obj_remove: "map_of (obj_remove k m) = (map_of m)(k := None)"
  by (induction m) (auto simp: obj_remove_def fun_eq_iff)

lemma map_of_SomeD_wf: "list_all (\<lambda>p. wf_json (snd p)) m \<Longrightarrow> map_of m k = Some v \<Longrightarrow> wf_json v"
  by (induction m) (auto split: if_splits)

lemma wf_values_insert:
  "list_all (\<lambda>p. wf_json (snd p)) m \<Longrightarrow> wf_json v \<Longrightarrow> list_all (\<lambda>p. wf_json (snd p)) (obj_insert k v m)"
  by (induction m) auto

lemma wf_values_remove:
  "list_all (\<lambda>p. wf_json (snd p)) m \<Longrightarrow> list_all (\<lambda>p. wf_json (snd p)) (obj_remove k m)"
  by (induction m) (auto simp: obj_remove_def)

lemma wf_json_insert: "wf_json (JObj m) \<Longrightarrow> wf_json v \<Longrightarrow> wf_json (JObj (obj_insert k v m))"
  by (simp add: strict_keys_insert wf_values_insert)

lemma wf_json_remove: "wf_json (JObj m) \<Longrightarrow> wf_json (JObj (obj_remove k m))"
  by (simp add: strict_keys_remove wf_values_remove)

lemma wf_json_jget: "wf_json v \<Longrightarrow> jget v k = Some w \<Longrightarrow> wf_json w"
  by (cases v) (auto dest: map_of_SomeD_wf)

section \<open>Interface: a keyed store\<close>

text \<open>
  What the request editing code relies on: lookups after an insert and a removal, and
  that both keep the store's invariant. The client's facts are proved from these laws
  alone.
\<close>

locale key_map =
  fixes lookup :: "'m \<Rightarrow> 'k \<Rightarrow> 'v option"
    and insert :: "'k \<Rightarrow> 'v \<Rightarrow> 'm \<Rightarrow> 'm"
    and remove :: "'k \<Rightarrow> 'm \<Rightarrow> 'm"
    and inv :: "'m \<Rightarrow> bool"
  assumes lookup_insert: "inv m \<Longrightarrow> lookup (insert k v m) k' = (if k' = k then Some v else lookup m k')"
    and lookup_remove: "inv m \<Longrightarrow> lookup (remove k m) k' = (if k' = k then None else lookup m k')"
    and inv_insert: "inv m \<Longrightarrow> inv (insert k v m)"
    and inv_remove: "inv m \<Longrightarrow> inv (remove k m)"
begin

lemma inv_remove_all: "inv m \<Longrightarrow> inv (fold remove ks m)"
  by (induction ks arbitrary: m) (simp_all add: inv_remove)

lemma lookup_remove_all:
  "inv m \<Longrightarrow> lookup (fold remove ks m) k = (if k \<in> set ks then None else lookup m k)"
proof (induction ks arbitrary: m)
  case (Cons k' ks)
  have "lookup (fold remove ks (remove k' m)) k = (if k \<in> set ks then None else lookup (remove k' m) k)"
    by (rule Cons.IH) (rule inv_remove [OF Cons.prems])
  with Cons.prems show ?case by (simp add: lookup_remove)
qed simp

lemma remove_insert_other:
  "inv m \<Longrightarrow> k \<noteq> k' \<Longrightarrow> lookup (insert k' v (remove k m)) k = None"
  by (simp add: lookup_insert lookup_remove inv_remove)

end

text \<open>A store that also lists its keys, in ascending order and without repetition.\<close>

locale ordered_key_map = key_map lookup insert remove inv
  for lookup :: "'m \<Rightarrow> 'k::linorder \<Rightarrow> 'v option"
    and insert :: "'k \<Rightarrow> 'v \<Rightarrow> 'm \<Rightarrow> 'm"
    and remove :: "'k \<Rightarrow> 'm \<Rightarrow> 'm"
    and inv :: "'m \<Rightarrow> bool" +
  fixes keys :: "'m \<Rightarrow> 'k list"
  assumes keys_lookup: "inv m \<Longrightarrow> k \<in> set (keys m) \<longleftrightarrow> lookup m k \<noteq> None"
    and keys_btree: "inv m \<Longrightarrow> btree_set (keys m)"
begin

lemma keys_ext: "inv m \<Longrightarrow> inv m' \<Longrightarrow> (\<And>k. lookup m k = None \<longleftrightarrow> lookup m' k = None) \<Longrightarrow> keys m = keys m'"
  by (rule btree_set_eq) (auto simp: keys_btree keys_lookup)

lemma keys_remove_all: "inv m \<Longrightarrow> set (keys (fold remove ks m)) = set (keys m) - set ks"
  by (auto simp: keys_lookup inv_remove_all lookup_remove_all split: if_splits)

end

definition obj_keys :: "json_map \<Rightarrow> string list" where
  "obj_keys m = map fst m"

lemma strict_keys_btree: "strict_keys m \<Longrightarrow> btree_set (obj_keys m)"
  by (simp add: strict_keys_def btree_set_def obj_keys_def strict_sorted_iff)

lemma obj_keys_lookup: "k \<in> set (obj_keys m) \<longleftrightarrow> map_of m k \<noteq> None"
  by (simp add: obj_keys_def map_of_eq_None_iff del: not_None_eq)

interpretation obj: ordered_key_map obj_get obj_insert obj_remove strict_keys obj_keys
  by unfold_locales
    (simp_all add: map_of_obj_insert map_of_obj_remove strict_keys_insert strict_keys_remove
      strict_keys_btree obj_keys_lookup del: not_None_eq)

end
