(* ===== verification/Paths.thy ===== *)
theory Paths
  imports Prelude
begin

text \<open>
  The part of the standard library's \<open>Path\<close> the controller uses, on the path's text:
  components (repeated separators and interior \<open>.\<close> segments are dropped), equality and
  prefix tests by component, joining and parents.
\<close>

type_synonym path = string

datatype path_component = RootDir | CurDir | ParentDir | Normal string

abbreviation slash :: char where "slash \<equiv> CHR 0x2F"

fun split_slash :: "string \<Rightarrow> string \<Rightarrow> string list" where
  "split_slash acc [] = [acc]"
| "split_slash acc (c # cs) = (if c = slash then acc # split_slash [] cs else split_slash (acc @ [c]) cs)"

definition segment :: "string \<Rightarrow> path_component" where
  "segment s = (if s = ''..'' then ParentDir else Normal s)"

definition inner_segments :: "string list \<Rightarrow> path_component list" where
  "inner_segments parts = map segment (filter (\<lambda>s. s \<noteq> [] \<and> s \<noteq> ''.'') parts)"

definition path_components :: "path \<Rightarrow> path_component list" where
  "path_components p =
     (case split_slash [] p of
        [] \<Rightarrow> []
      | first # rest \<Rightarrow>
          (if starts_with p [slash] then RootDir # inner_segments (first # rest)
           else if first = ''.'' then CurDir # inner_segments rest
           else inner_segments (first # rest)))"

definition path_eq :: "path \<Rightarrow> path \<Rightarrow> bool" where
  "path_eq p q = (path_components p = path_components q)"

definition is_absolute :: "path \<Rightarrow> bool" where
  "is_absolute p = starts_with p [slash]"

definition path_join :: "path \<Rightarrow> path \<Rightarrow> path" where
  "path_join base rel =
     (if is_absolute rel then rel
      else if base = [] \<or> ends_with base [slash] then base @ rel
      else base @ slash # rel)"

text \<open>\<open>Path::starts_with\<close> compares whole components.\<close>

definition path_starts_with :: "path \<Rightarrow> path \<Rightarrow> bool" where
  "path_starts_with p q = (take (length (path_components q)) (path_components p) = path_components q)"

text \<open>\<open>parent()\<close> and \<open>file_name()\<close>, as components: no parent for the root or the empty path.\<close>

definition parent_components :: "path_component list \<Rightarrow> path_component list option" where
  "parent_components cs = (if cs = [] \<or> cs = [RootDir] then None else Some (butlast cs))"

definition file_name_component :: "path_component list \<Rightarrow> string option" where
  "file_name_component cs = (if cs = [] then None else case last cs of Normal s \<Rightarrow> Some s | _ \<Rightarrow> None)"

text \<open>
  \<open>parent()\<close> on the text: the last component is cut, then trailing separators and \<open>.\<close> segments, as
  \<open>Components::as_path\<close> trims them (on the reversed text).
\<close>

fun trim_rev :: "string \<Rightarrow> string" where
  "trim_rev [] = []"
| "trim_rev (c # cs) =
     (if c = slash \<and> cs \<noteq> [] then trim_rev cs
      else if c = CHR ''.'' \<and> cs \<noteq> [] \<and> hd cs = slash then trim_rev cs
      else c # cs)"

definition path_parent :: "path \<Rightarrow> path option" where
  "path_parent p =
     (if parent_components (path_components p) = None then None
      else Some (rev (trim_rev (dropWhile (\<lambda>c. c \<noteq> slash) (trim_rev (rev p))))))"

lemma path_eq_refl [simp]: "path_eq p p"
  by (simp add: path_eq_def)

lemma path_eq_sym: "path_eq p q \<Longrightarrow> path_eq q p"
  by (simp add: path_eq_def)

lemma path_eq_trans: "path_eq p q \<Longrightarrow> path_eq q r \<Longrightarrow> path_eq p r"
  by (simp add: path_eq_def)

end
