(* ===== verification/Runner_Registry.thy ===== *)
theory Runner_Registry
  imports Json Paths "HOL-Library.Multiset"
begin

text \<open>
  The external runner registry (controller/src/runner_manager.rs): its records, the
  lookup, installation and removal transactions and ownership judgements. The operating system (launchd, the plist file, the registry
  file) is a record of operations over an arbitrary world state, the source's
  \<open>CleanupSystem\<close> trait and its \<open>save_registry\<close>; what a transaction does to it is read
  off a log that wraps those operations.
\<close>

section \<open>Data\<close>

definition RUNNER_REGISTRY_SCHEMA_VERSION :: nat where "RUNNER_REGISTRY_SCHEMA_VERSION = 1"
definition RUNNER_PROTOCOL_VERSION :: nat where "RUNNER_PROTOCOL_VERSION = 3"
definition TEARDOWN_WAIT_MS :: nat where "TEARDOWN_WAIT_MS = 1000"
definition TEARDOWN_POLL_INTERVAL_MS :: nat where "TEARDOWN_POLL_INTERVAL_MS = 50"

datatype runner_kind = Standard | Byoxpc
datatype runner_scope = User | System
datatype runner_state = Pending | Installed

fun kind_parse :: "string \<Rightarrow> runner_kind option" where
  "kind_parse s =
     (if s = ''standard'' then Some Standard else if s = ''byoxpc'' then Some Byoxpc else None)"

fun kind_as_str :: "runner_kind \<Rightarrow> string" where
  "kind_as_str Standard = ''standard''"
| "kind_as_str Byoxpc = ''byoxpc''"

lemma kind_parse_as_str [simp]: "kind_parse (kind_as_str k) = Some k"
  by (cases k) simp_all

lemma kind_parse_Some: "kind_parse s = Some k \<longleftrightarrow> s = kind_as_str k"
  by (cases k) auto

fun scope_parse :: "string \<Rightarrow> runner_scope option" where
  "scope_parse s =
     (if s = ''user'' then Some User else if s = ''system'' then Some System else None)"

record runner_signature =
  team_id :: "string option"
  identity :: "string option"
  cdhash :: "string option"
  sig_valid :: bool
  adhoc :: bool

record runner_entitlements =
  raw_plist :: "string option"
  ent_keys :: "string list"
  granted :: "string list"
  ent_error :: "string option"

record runner_ownership =
  plist_path :: path
  launchd_domain :: string
  owner_uid :: nat
  plist_sha256 :: string

record runner_record =
  state :: runner_state
  ownership :: "runner_ownership option"
  runner_id :: string
  service_name :: string
  bundle_path :: path
  executable_path :: path
  bundle_id :: "string option"
  scope :: runner_scope
  protocol_version :: nat
  signature :: runner_signature
  entitlements :: runner_entitlements
  installed_at_unix_ms :: nat
  kind :: "runner_kind option"
  worker_signature :: "runner_signature option"
  worker_entitlements :: "runner_entitlements option"
  unentitled_worker_signature :: "runner_signature option"
  unentitled_worker_entitlements :: "runner_entitlements option"
  unentitled_worker_sha256 :: "string option"
  worker_equipment_inventory :: "json option"
  source_worker_equipment_inventory :: "json option"
  validator_signature :: "runner_signature option"
  validator_entitlements :: "runner_entitlements option"
  issuer_signature :: "runner_signature option"
  issuer_entitlements :: "runner_entitlements option"

datatype presence = Present | Absent | UnknownPresence
datatype owner = Owned | Unowned | Ambiguous | UnknownOwner

record service_observation =
  so_presence :: presence
  so_executable_path :: "path option"
  so_error :: "string option"

record plist_observation =
  po_presence :: presence
  po_config :: "json option"
  po_sha256 :: "string option"
  po_owner_uid :: "nat option"
  po_regular :: bool
  po_error :: "string option"

record teardown_record =
  reads :: nat
  waited_ms :: nat
  poll_interval_ms :: nat
  budget_ms :: nat

text \<open>The observations a cleanup keeps; \<open>Loaded\<close> stands for entries read back from disk.\<close>

datatype cleanup_observation =
    Loaded json
  | Before service_observation plist_observation owner owner
  | After service_observation plist_observation teardown_record

record pending_cleanup =
  pc_runner :: runner_record
  cleanup_started_at_unix_ms :: nat
  observations :: "cleanup_observation list"

record runner_registry =
  schema_version :: nat
  runners :: "runner_record list"
  pending :: "pending_cleanup list"

section \<open>Lookup and admission\<close>

datatype manager_error =
    ProtocolMismatch nat
  | SaveError string
  | PendingRetained manager_error string string
  | InstallError string

definition require_current_protocol :: "nat \<Rightarrow> manager_error + unit" where
  "require_current_protocol version =
     (if version = RUNNER_PROTOCOL_VERSION then Inr () else Inl (ProtocolMismatch version))"

definition registry_find :: "runner_registry \<Rightarrow> string option \<Rightarrow> string option \<Rightarrow> runner_record option" where
  "registry_find reg rid service =
     (case rid of
        Some i \<Rightarrow> find (\<lambda>r. runner_id r = i) (runners reg)
      | None \<Rightarrow> (case service of
           Some s \<Rightarrow> find (\<lambda>r. service_name r = s) (runners reg)
         | None \<Rightarrow> None))"

definition conflicting_record ::
    "runner_registry \<Rightarrow> string \<Rightarrow> path \<Rightarrow> path \<Rightarrow> runner_record option" where
  "conflicting_record reg service bundle executable =
     find (\<lambda>r. service_name r = service \<or> bundle_path r = bundle \<or> executable_path r = executable)
       (runners reg @ map pc_runner (pending reg))"

text \<open>\<open>Map\<close> iteration is in key order, so \<open>keys\<close> and \<open>granted\<close> are sorted by the source's sort.\<close>

definition entitlements_from_json :: "json \<Rightarrow> runner_entitlements" where
  "entitlements_from_json value =
     (let (ks, gs) = (case value of
           JObj m \<Rightarrow> (sort (obj_keys m), sort (map fst (filter (\<lambda>(k, v). v = JBool True) m)))
         | _ \<Rightarrow> ([], [])) in
      \<lparr>raw_plist = None, ent_keys = ks, granted = gs, ent_error = None\<rparr>)"

section \<open>Ownership judgements\<close>

text \<open>\<open>str::lines\<close>, \<open>trim\<close> (ASCII white space), \<open>contains\<close>.\<close>

fun split_char :: "char \<Rightarrow> string \<Rightarrow> string \<Rightarrow> string list" where
  "split_char d acc [] = (if acc = [] then [] else [acc])"
| "split_char d acc (c # cs) = (if c = d then acc # split_char d [] cs else split_char d (acc @ [c]) cs)"

definition strip_cr :: "string \<Rightarrow> string" where
  "strip_cr s = (if s \<noteq> [] \<and> last s = CHR 0x0D then butlast s else s)"

definition str_lines :: "string \<Rightarrow> string list" where
  "str_lines s = map strip_cr (split_char (CHR 0x0A) [] s)"

definition is_space :: "char \<Rightarrow> bool" where
  "is_space c = (c = CHR '' '' \<or> ((9::nat) \<le> of_char c \<and> of_char c \<le> (13::nat)))"

definition str_trim :: "string \<Rightarrow> string" where
  "str_trim s = rev (dropWhile is_space (rev (dropWhile is_space s)))"

fun str_contains :: "string \<Rightarrow> string \<Rightarrow> bool" where
  "str_contains [] p = (p = [])"
| "str_contains (c # cs) p = (starts_with (c # cs) p \<or> str_contains cs p)"

definition classify_service_output ::
    "bool \<Rightarrow> string \<Rightarrow> string \<Rightarrow> string \<Rightarrow> service_observation" where
  "classify_service_output success stdout stderr service =
     (if success then
        let programs = filter_map (\<lambda>line. strip_prefix ''program = '' (str_trim line)) (str_lines stdout) in
        \<lparr>so_presence = Present,
         so_executable_path = (if length programs = 1 then Some (hd programs) else None),
         so_error = None\<rparr>
      else
        let absent = str_contains stderr (''Could not find service '' @ [CHR 0x22] @ service @ [CHR 0x22]) in
        \<lparr>so_presence = (if absent then Absent else UnknownPresence),
         so_executable_path = None,
         so_error = (if absent then None else Some (''launchctl print: '' @ str_trim stderr))\<rparr>)"

definition plist_owner :: "runner_record \<Rightarrow> plist_observation \<Rightarrow> owner" where
  "plist_owner record obs =
     (if po_presence obs = UnknownPresence then UnknownOwner
      else if po_presence obs = Absent then Ambiguous
      else if \<not> po_regular obs then Unowned
      else case po_config obs of
        None \<Rightarrow> UnknownOwner
      | Some config \<Rightarrow>
          let expected_args = JArr [JStr (executable_path record), JStr ''--mach-service'',
                JStr (service_name record)];
              expected_services = JObj [(service_name record, JBool True)] in
          if Option.bind (jget config ''Label'') as_str \<noteq> Some (service_name record)
             \<or> jget config ''ProgramArguments'' \<noteq> Some expected_args
             \<or> jget config ''MachServices'' \<noteq> Some expected_services
             \<or> Option.bind (Option.bind (jget config ''EnvironmentVariables'')
                 (\<lambda>e. jget e ''XPC_SERVICE_PATH'')) as_str \<noteq> Some (bundle_path record)
          then Unowned
          else case ownership record of
            None \<Rightarrow> Owned
          | Some owned \<Rightarrow>
              if po_owner_uid obs \<noteq> Some (owner_uid owned) \<or> po_sha256 obs \<noteq> Some (plist_sha256 owned)
              then Unowned else Owned)"

definition service_owner :: "runner_record \<Rightarrow> service_observation \<Rightarrow> owner" where
  "service_owner record obs =
     (case so_presence obs of
        UnknownPresence \<Rightarrow> UnknownOwner
      | Absent \<Rightarrow> Ambiguous
      | Present \<Rightarrow>
         (case so_executable_path obs of
            Some p \<Rightarrow> if p = executable_path record then Owned else Unowned
          | None \<Rightarrow> Ambiguous))"

definition cleanup_complete :: "service_observation \<Rightarrow> plist_observation \<Rightarrow> bool" where
  "cleanup_complete service plist = (so_presence service = Absent \<and> po_presence plist = Absent)"

lemma plist_owner_Owned_Present: "plist_owner r obs = Owned \<Longrightarrow> po_presence obs = Present"
  by (cases "po_presence obs") (auto simp: plist_owner_def split: option.splits)

lemma service_owner_Owned:
  "service_owner r obs = Owned \<longleftrightarrow> so_presence obs = Present \<and> so_executable_path obs = Some (executable_path r)"
  by (auto simp: service_owner_def split: presence.splits option.splits)

section \<open>Transactions over the operating system\<close>

text \<open>
  The \<open>CleanupSystem\<close> trait, together with the registry file (\<open>save_registry\<close>) and the clock:
  each operation answers and changes a world of any type.
\<close>

record 'w cleanup_system =
  sys_location :: "runner_record \<Rightarrow> 'w \<Rightarrow> (string + path \<times> string) \<times> 'w"
  sys_service :: "string \<Rightarrow> string \<Rightarrow> 'w \<Rightarrow> service_observation \<times> 'w"
  sys_plist :: "path \<Rightarrow> 'w \<Rightarrow> plist_observation \<times> 'w"
  sys_bootout :: "string \<Rightarrow> string \<Rightarrow> 'w \<Rightarrow> (string + unit) \<times> 'w"
  sys_remove_plist :: "path \<Rightarrow> 'w \<Rightarrow> (string + unit) \<times> 'w"
  sys_wait :: "nat \<Rightarrow> 'w \<Rightarrow> 'w"
  sys_save :: "runner_registry \<Rightarrow> 'w \<Rightarrow> (string + unit) \<times> 'w"
  sys_now :: "'w \<Rightarrow> nat \<times> 'w"

text \<open>\<open>install_record\<close>: the registry is mutated whether or not the call succeeds.\<close>

definition install_record ::
    "'w cleanup_system \<Rightarrow> ('w \<Rightarrow> (string + unit) \<times> 'w) \<Rightarrow> runner_registry \<Rightarrow> runner_record \<Rightarrow> 'w
      \<Rightarrow> (manager_error + runner_record) \<times> runner_registry \<times> 'w" where
  "install_record sys install reg record w0 =
     (let pending_record = record\<lparr>state := Pending\<rparr>;
          reg1 = reg\<lparr>runners := runners reg @ [pending_record]\<rparr>;
          (saved, w1) = sys_save sys reg1 w0 in
      case saved of
        Inl e \<Rightarrow> (Inl (SaveError e), reg1, w1)
      | Inr _ \<Rightarrow>
          (let (installed, w2) = install w1 in
           case installed of
             Inl e \<Rightarrow>
               (Inl (PendingRetained (InstallError e) (runner_id record) (service_name record)), reg1, w2)
           | Inr _ \<Rightarrow>
               (let done_record = record\<lparr>state := Installed\<rparr>;
                    reg2 = reg1\<lparr>runners := butlast (runners reg1) @ [done_record]\<rparr>;
                    (saved2, w3) = sys_save sys reg2 w2 in
                case saved2 of
                  Inl e \<Rightarrow>
                    (Inl (PendingRetained (SaveError e) (runner_id record) (service_name record)), reg2, w3)
                | Inr _ \<Rightarrow> (Inr done_record, reg2, w3))))"

text \<open>The teardown wait: re-reads while the job is still listed, within the budget.\<close>

function teardown_loop ::
    "'w cleanup_system \<Rightarrow> string \<Rightarrow> string \<Rightarrow> bool \<Rightarrow> service_observation \<Rightarrow> nat \<Rightarrow> nat \<Rightarrow> 'w
      \<Rightarrow> service_observation \<times> nat \<times> nat \<times> 'w" where
  "teardown_loop sys domain name booted_out obs n waited w =
     (if booted_out \<and> so_presence obs = Present \<and> waited < TEARDOWN_WAIT_MS then
        let w1 = sys_wait sys TEARDOWN_POLL_INTERVAL_MS w;
            (obs', w2) = sys_service sys domain name w1 in
        teardown_loop sys domain name booted_out obs' (n + 1) (waited + TEARDOWN_POLL_INTERVAL_MS) w2
      else (obs, n, waited, w))"
  by pat_completeness auto

termination
  by (relation "measure (\<lambda>(sys, domain, name, b, obs, n, waited, w). TEARDOWN_WAIT_MS - waited)")
    (auto simp: TEARDOWN_WAIT_MS_def TEARDOWN_POLL_INTERVAL_MS_def)

declare teardown_loop.simps [simp del]

definition service_after_bootout ::
    "'w cleanup_system \<Rightarrow> string \<Rightarrow> string \<Rightarrow> bool \<Rightarrow> 'w \<Rightarrow> service_observation \<times> teardown_record \<times> 'w" where
  "service_after_bootout sys domain name booted_out w0 =
     (let (obs0, w1) = sys_service sys domain name w0;
          (obs, n, waited, w2) = teardown_loop sys domain name booted_out obs0 1 0 w1 in
      (obs, \<lparr>reads = n, waited_ms = waited, poll_interval_ms = TEARDOWN_POLL_INTERVAL_MS,
             budget_ms = TEARDOWN_WAIT_MS\<rparr>, w2))"

record cleanup_report =
  rep_runner_id :: string
  rep_service_name :: string
  rep_plist_path :: path
  booted_out :: bool
  plist_removed :: bool
  cleanup_retained :: bool
  retained_record :: "pending_cleanup option"
  warnings :: "string list"

fun owner_debug :: "owner \<Rightarrow> string" where
  "owner_debug Owned = ''Owned''"
| "owner_debug Unowned = ''Unowned''"
| "owner_debug Ambiguous = ''Ambiguous''"
| "owner_debug UnknownOwner = ''Unknown''"

text \<open>The \<open>matches\<close> closure: the id decides when one is given, else the service name.\<close>

definition record_matches :: "string option \<Rightarrow> string option \<Rightarrow> runner_record \<Rightarrow> bool" where
  "record_matches rid service record =
     (case rid of Some i \<Rightarrow> i = runner_id record | None \<Rightarrow> service = Some (service_name record))"

text \<open>
  The three stages of the \<open>Ok((plist_path, domain))\<close> arm of \<open>remove_record\<close>: the bootout, the
  plist removal, and both in order with the final observations.
\<close>

definition bootout_stage ::
    "'w cleanup_system \<Rightarrow> runner_record \<Rightarrow> string \<Rightarrow> bool \<Rightarrow> service_observation \<Rightarrow> 'w
      \<Rightarrow> bool \<times> string list \<times> 'w" where
  "bootout_stage sys record domain skip_bootout service w =
     (if so_presence service \<noteq> Absent \<and> \<not> skip_bootout then
        if service_owner record service = Owned then
          (case sys_bootout sys domain (service_name record) w of
             (Inr _, w') \<Rightarrow> (True, [], w')
           | (Inl e, w') \<Rightarrow> (False, [e], w'))
        else (False,
          [''service ownership is '' @ owner_debug (service_owner record service) @ ''; bootout refused''], w)
      else (False, [], w))"

definition plist_stage ::
    "'w cleanup_system \<Rightarrow> runner_record \<Rightarrow> path \<Rightarrow> plist_observation \<Rightarrow> 'w
      \<Rightarrow> bool \<times> string list \<times> 'w" where
  "plist_stage sys record ppath plist w =
     (if po_presence plist \<noteq> Absent then
        if plist_owner record plist = Owned then
          (let (current, w1) = sys_plist sys ppath w in
           if plist_owner record current = Owned then
             (case sys_remove_plist sys ppath w1 of
                (Inr _, w2) \<Rightarrow> (True, [], w2)
              | (Inl e, w2) \<Rightarrow> (False, [''failed to remove plist '' @ ppath @ '': '' @ e], w2))
           else (False, [''plist ownership changed; removal refused''], w1))
        else (False,
          [''plist ownership is '' @ owner_debug (plist_owner record plist) @ ''; removal refused''], w)
      else (False, [], w))"

record cleanup_outcome =
  out_booted :: bool
  out_removed :: bool
  out_complete :: bool
  out_observations :: "cleanup_observation list"
  out_warnings :: "string list"

definition cleanup_stage ::
    "'w cleanup_system \<Rightarrow> runner_record \<Rightarrow> bool \<Rightarrow> path \<Rightarrow> string \<Rightarrow> 'w \<Rightarrow> cleanup_outcome \<times> 'w" where
  "cleanup_stage sys record skip_bootout ppath domain w0 =
     (let (service, w1) = sys_service sys domain (service_name record) w0;
          (plist, w2) = sys_plist sys ppath w1;
          before = Before service plist (service_owner record service) (plist_owner record plist);
          (booted, warn1, w3) = bootout_stage sys record domain skip_bootout service w2;
          (removed, warn2, w4) = plist_stage sys record ppath plist w3;
          (service_after, teardown, w5) = service_after_bootout sys domain (service_name record) booted w4;
          (plist_after, w6) = sys_plist sys ppath w5;
          complete = (cleanup_complete service_after plist_after \<and> warn1 @ warn2 = []) in
      (\<lparr>out_booted = booted, out_removed = removed, out_complete = complete,
        out_observations = [before, After service_after plist_after teardown],
        out_warnings = warn1 @ warn2 @
          (if complete then [] else [''service/plist absence is not confirmed; cleanup record retained''])\<rparr>,
       w6))"

text \<open>
  The part of \<open>remove_record\<close> after the record has been found in \<open>pending_cleanup\<close> at \<open>index\<close>:
  locate, clean up, update the registry, save it and report.
\<close>

definition cleanup_pending ::
    "'w cleanup_system \<Rightarrow> runner_registry \<Rightarrow> nat \<Rightarrow> bool \<Rightarrow> 'w \<Rightarrow> cleanup_report \<times> runner_registry \<times> 'w" where
  "cleanup_pending sys reg index skip_bootout w0 =
     (let cleanup0 = pending reg ! index;
          record = pc_runner cleanup0;
          (loc, w1) = sys_location sys record w0;
          (path_text, out, w2) = (case loc of
             Inl e \<Rightarrow> (case ownership record of None \<Rightarrow> [] | Some own \<Rightarrow> plist_path own,
                \<lparr>out_booted = False, out_removed = False, out_complete = False,
                  out_observations = [], out_warnings = [e]\<rparr>, w1)
           | Inr (p, domain) \<Rightarrow> (p, cleanup_stage sys record skip_bootout p domain w1));
          cleanup = cleanup0\<lparr>observations := observations cleanup0 @ out_observations out\<rparr>;
          kept = (pending reg)[index := cleanup];
          reg' = reg\<lparr>pending := if out_complete out then remove_at index kept else kept\<rparr>;
          (saved, w3) = sys_save sys reg' w2;
          complete = (out_complete out \<and> res_ok saved \<noteq> None);
          save_warning = (case saved of Inr _ \<Rightarrow> []
             | Inl e \<Rightarrow> [''cleanup persistence failed; prior recovery record retained: '' @ e]) in
      (\<lparr>rep_runner_id = runner_id record, rep_service_name = service_name record,
        rep_plist_path = path_text, booted_out = out_booted out, plist_removed = out_removed out,
        cleanup_retained = (\<not> complete), retained_record = (if complete then None else Some cleanup),
        warnings = out_warnings out @ save_warning\<rparr>, reg', w3))"

definition remove_record ::
    "'w cleanup_system \<Rightarrow> runner_registry \<Rightarrow> string option \<Rightarrow> string option \<Rightarrow> bool \<Rightarrow> 'w
      \<Rightarrow> (manager_error + cleanup_report option) \<times> runner_registry \<times> 'w" where
  "remove_record sys reg rid service skip_bootout w0 =
     (let (saved, reg1, w2) =
        (case position (record_matches rid service) (runners reg) of
           None \<Rightarrow> (Inr (), reg, w0)
         | Some i \<Rightarrow>
             (let (now, w1) = sys_now sys w0;
                  reg1 = reg\<lparr>runners := remove_at i (runners reg),
                    pending := pending reg @ [\<lparr>pc_runner = runners reg ! i,
                      cleanup_started_at_unix_ms = now, observations = []\<rparr>]\<rparr>;
                  (saved, w2) = sys_save sys reg1 w1 in (saved, reg1, w2))) in
      case saved of
        Inl e \<Rightarrow> (Inl (SaveError e), reg1, w2)
      | Inr _ \<Rightarrow>
          (case position (\<lambda>c. record_matches rid service (pc_runner c)) (pending reg1) of
             None \<Rightarrow> (Inr None, reg1, w2)
           | Some index \<Rightarrow>
               (case cleanup_pending sys reg1 index skip_bootout w2 of
                  (report, reg2, w3) \<Rightarrow> (Inr (Some report), reg2, w3))))"

section \<open>The log of a transaction\<close>

text \<open>
  \<open>logged sys\<close> performs the operations of \<open>sys\<close> and keeps a log of them, newest first: what a
  transaction did to the system, in order, with what the system answered.
\<close>

datatype event =
    EvLocation runner_record
  | EvService string string service_observation
  | EvPlist path plist_observation
  | EvBootout string string bool
  | EvRemovePlist path bool
  | EvWait nat
  | EvSave runner_registry bool
  | EvNow nat
  | EvInstall bool

abbreviation succeeded :: "string + unit \<Rightarrow> bool" where
  "succeeded r \<equiv> res_ok r \<noteq> None"

definition logged :: "'w cleanup_system \<Rightarrow> ('w \<times> event list) cleanup_system" where
  "logged sys = \<lparr>
     sys_location = (\<lambda>r (w, l). let (x, w') = sys_location sys r w in (x, w', EvLocation r # l)),
     sys_service = (\<lambda>d n (w, l). let (x, w') = sys_service sys d n w in (x, w', EvService d n x # l)),
     sys_plist = (\<lambda>p (w, l). let (x, w') = sys_plist sys p w in (x, w', EvPlist p x # l)),
     sys_bootout = (\<lambda>d n (w, l). let (x, w') = sys_bootout sys d n w in (x, w', EvBootout d n (succeeded x) # l)),
     sys_remove_plist = (\<lambda>p (w, l). let (x, w') = sys_remove_plist sys p w in (x, w', EvRemovePlist p (succeeded x) # l)),
     sys_wait = (\<lambda>t (w, l). (sys_wait sys t w, EvWait t # l)),
     sys_save = (\<lambda>reg (w, l). let (x, w') = sys_save sys reg w in (x, w', EvSave reg (succeeded x) # l)),
     sys_now = (\<lambda>(w, l). let (x, w') = sys_now sys w in (x, w', EvNow x # l))\<rparr>"

definition logged_install ::
    "('w \<Rightarrow> (string + unit) \<times> 'w) \<Rightarrow> 'w \<times> event list \<Rightarrow> (string + unit) \<times> 'w \<times> event list" where
  "logged_install install = (\<lambda>(w, l). let (x, w') = install w in (x, w', EvInstall (succeeded x) # l))"

text \<open>
  What is on disk after a log: the registry of the last save that succeeded. A save that fails
  leaves the previous file, since the source writes a temporary file and renames it last.
\<close>

fun durable :: "runner_registry \<Rightarrow> event list \<Rightarrow> runner_registry" where
  "durable reg [] = reg"
| "durable reg (EvSave reg' True # past) = reg'"
| "durable reg (_ # past) = durable reg past"

definition known_records :: "runner_registry \<Rightarrow> runner_record list" where
  "known_records reg = runners reg @ map pc_runner (pending reg)"

text \<open>The latest answers about the service and the plist in a log.\<close>

fun last_service :: "event list \<Rightarrow> service_observation option" where
  "last_service [] = None"
| "last_service (EvService d n x # past) = Some x"
| "last_service (_ # past) = last_service past"

fun last_plist :: "event list \<Rightarrow> plist_observation option" where
  "last_plist [] = None"
| "last_plist (EvPlist p x # past) = Some x"
| "last_plist (_ # past) = last_plist past"

definition absence_confirmed :: "event list \<Rightarrow> bool" where
  "absence_confirmed l =
     (is_some_and (last_service l) (\<lambda>s. so_presence s = Absent) \<and>
      is_some_and (last_plist l) (\<lambda>p. po_presence p = Absent))"

text \<open>
  Every destructive action of a log is authorised by what the log holds before it: a bootout by
  an observation that the service is owned by the record, an unlink by two observations that the
  plist is, the second of them the event just before.
\<close>

fun authorised :: "runner_record \<Rightarrow> event list \<Rightarrow> bool" where
  "authorised r [] = True"
| "authorised r (EvBootout d n ok # past) =
     (n = service_name r \<and>
      list_ex (\<lambda>e. case e of EvService d' n' x \<Rightarrow> d' = d \<and> n' = n \<and> service_owner r x = Owned
                 | _ \<Rightarrow> False) past \<and> authorised r past)"
| "authorised r (EvRemovePlist p ok # past) =
     ((case past of
         EvPlist p' x # older \<Rightarrow> p' = p \<and> plist_owner r x = Owned \<and>
           list_ex (\<lambda>e. case e of EvPlist p'' y \<Rightarrow> p'' = p \<and> plist_owner r y = Owned | _ \<Rightarrow> False) older
       | _ \<Rightarrow> False) \<and> authorised r past)"
| "authorised r (_ # past) = authorised r past"

fun is_action :: "event \<Rightarrow> bool" where
  "is_action (EvBootout d n ok) = True"
| "is_action (EvRemovePlist p ok) = True"
| "is_action (EvInstall ok) = True"
| "is_action _ = False"

lemma logged_simps [simp]:
  "sys_location (logged sys) r (w, l) = (fst (sys_location sys r w), snd (sys_location sys r w), EvLocation r # l)"
  "sys_service (logged sys) d n (w, l) =
     (fst (sys_service sys d n w), snd (sys_service sys d n w), EvService d n (fst (sys_service sys d n w)) # l)"
  "sys_plist (logged sys) p (w, l) =
     (fst (sys_plist sys p w), snd (sys_plist sys p w), EvPlist p (fst (sys_plist sys p w)) # l)"
  "sys_bootout (logged sys) d n (w, l) =
     (fst (sys_bootout sys d n w), snd (sys_bootout sys d n w),
      EvBootout d n (succeeded (fst (sys_bootout sys d n w))) # l)"
  "sys_remove_plist (logged sys) p (w, l) =
     (fst (sys_remove_plist sys p w), snd (sys_remove_plist sys p w),
      EvRemovePlist p (succeeded (fst (sys_remove_plist sys p w))) # l)"
  "sys_wait (logged sys) t (w, l) = (sys_wait sys t w, EvWait t # l)"
  "sys_save (logged sys) reg (w, l) =
     (fst (sys_save sys reg w), snd (sys_save sys reg w), EvSave reg (succeeded (fst (sys_save sys reg w))) # l)"
  "sys_now (logged sys) (w, l) = (fst (sys_now sys w), snd (sys_now sys w), EvNow (fst (sys_now sys w)) # l)"
  by (simp_all add: logged_def split_def Let_def)

fun is_save :: "event \<Rightarrow> bool" where
  "is_save (EvSave reg ok) = True"
| "is_save _ = False"

text \<open>Observations, waits and clock reads: events that neither act nor persist.\<close>

definition quiet :: "event \<Rightarrow> bool" where
  "quiet e = (\<not> is_save e \<and> \<not> is_action e)"

lemma durable_Cons: "\<not> is_save e \<Longrightarrow> durable reg (e # l) = durable reg l"
  by (cases e) auto

lemma durable_append: "list_all (\<lambda>e. \<not> is_save e) x \<Longrightarrow> durable reg (x @ l) = durable reg l"
  by (induction x) (auto simp: durable_Cons)

lemma authorised_quiet: "quiet e \<Longrightarrow> authorised r (e # l) = authorised r l"
  by (cases e) (auto simp: quiet_def)

lemma authorised_append_quiet: "list_all quiet x \<Longrightarrow> authorised r (x @ l) = authorised r l"
  by (induction x) (auto simp: authorised_quiet)

lemma quiet_no_save: "list_all quiet x \<Longrightarrow> list_all (\<lambda>e. \<not> is_save e) x"
  by (induction x) (auto simp: quiet_def)

subsection \<open>The teardown wait\<close>

lemma teardown_loop_bounds:
  assumes "teardown_loop sys d m b obs n waited w = (obs', n', waited', w')"
    and "waited = 50 * (n - 1)" and "1 \<le> n" and "n \<le> 21"
  shows "waited' = 50 * (n' - 1) \<and> n \<le> n' \<and> n' \<le> 21 \<and>
    (b \<longrightarrow> so_presence obs' = Present \<longrightarrow> waited' = TEARDOWN_WAIT_MS)"
  using assms
proof (induction sys d m b obs n waited w rule: teardown_loop.induct)
  case (1 sys d m b obs n waited w)
  show ?case
  proof (cases "b \<and> so_presence obs = Present \<and> waited < TEARDOWN_WAIT_MS")
    case True
    obtain o2 w2 where s: "sys_service sys d m (sys_wait sys TEARDOWN_POLL_INTERVAL_MS w) = (o2, w2)"
      by (cases "sys_service sys d m (sys_wait sys TEARDOWN_POLL_INTERVAL_MS w)")
    from "1.prems"(1) True s
    have "teardown_loop sys d m b o2 (n + 1) (waited + TEARDOWN_POLL_INTERVAL_MS) w2 = (obs', n', waited', w')"
      by (subst (asm) teardown_loop.simps) simp
    then have "waited' = 50 * (n' - 1) \<and> n + 1 \<le> n' \<and> n' \<le> 21 \<and>
        (b \<longrightarrow> so_presence obs' = Present \<longrightarrow> waited' = TEARDOWN_WAIT_MS)"
      using "1.prems"(2-4) True s
      by (intro "1.IH" [OF True refl s [symmetric]])
        (auto simp: TEARDOWN_WAIT_MS_def TEARDOWN_POLL_INTERVAL_MS_def)
    then show ?thesis by (metis add_leD1)
  next
    case False
    have "teardown_loop sys d m b obs n waited w = (obs, n, waited, w)"
      by (subst teardown_loop.simps) (simp only: False if_False)
    with "1.prems"(1) have [simp]: "obs' = obs" "n' = n" "waited' = waited" by simp_all
    from False "1.prems"(2-4) show ?thesis
      by (auto simp: TEARDOWN_WAIT_MS_def)
  qed
qed

lemma teardown_loop_log:
  assumes "teardown_loop (logged sys) d m b obs n waited (w, l) = (obs', n', waited', w', l')"
  shows "\<exists>x. l' = x @ l \<and> list_all quiet x \<and> last_plist l' = last_plist l \<and>
    (last_service l = Some obs \<longrightarrow> last_service l' = Some obs')"
  using assms
proof (induction "TEARDOWN_WAIT_MS - waited" arbitrary: obs n waited w l rule: less_induct)
  case less
  show ?case
  proof (cases "b \<and> so_presence obs = Present \<and> waited < TEARDOWN_WAIT_MS")
    case True
    let ?w1 = "sys_wait sys TEARDOWN_POLL_INTERVAL_MS w"
    let ?o2 = "fst (sys_service sys d m ?w1)" and ?w2 = "snd (sys_service sys d m ?w1)"
    let ?l2 = "EvService d m ?o2 # EvWait TEARDOWN_POLL_INTERVAL_MS # l"
    from less.prems True
    have run: "teardown_loop (logged sys) d m b ?o2 (n + 1) (waited + TEARDOWN_POLL_INTERVAL_MS) (?w2, ?l2)
        = (obs', n', waited', w', l')"
      by (subst (asm) teardown_loop.simps) simp
    have "TEARDOWN_WAIT_MS - (waited + TEARDOWN_POLL_INTERVAL_MS) < TEARDOWN_WAIT_MS - waited"
      using True by (auto simp: TEARDOWN_WAIT_MS_def TEARDOWN_POLL_INTERVAL_MS_def)
    from less.hyps [OF this run] obtain x where
      "l' = x @ ?l2" "list_all quiet x" "last_plist l' = last_plist l" "last_service l' = Some obs'"
      by auto
    then show ?thesis
      by (intro exI [of _ "x @ [EvService d m ?o2, EvWait TEARDOWN_POLL_INTERVAL_MS]"])
        (simp add: quiet_def)
  next
    case False
    with less.prems show ?thesis
      by (subst (asm) teardown_loop.simps) (intro exI [of _ "[]"], auto)
  qed
qed

lemma service_after_bootout_log:
  assumes "service_after_bootout (logged sys) d m b (w, l) = (obs, td, w', l')"
  shows "\<exists>x. l' = x @ l \<and> list_all quiet x \<and> last_plist l' = last_plist l \<and> last_service l' = Some obs"
proof -
  from assms obtain n waited where
    "teardown_loop (logged sys) d m b (fst (sys_service sys d m w)) 1 0
       (snd (sys_service sys d m w), EvService d m (fst (sys_service sys d m w)) # l) = (obs, n, waited, w', l')"
    by (auto simp: service_after_bootout_def Let_def split: prod.splits)
  from teardown_loop_log [OF this] obtain x where
    "l' = x @ EvService d m (fst (sys_service sys d m w)) # l" "list_all quiet x"
    "last_plist l' = last_plist l" "last_service l' = Some obs" by auto
  then show ?thesis
    by (intro exI [of _ "x @ [EvService d m (fst (sys_service sys d m w))]"]) (simp add: quiet_def)
qed

subsection \<open>The stages of a removal\<close>

lemma bootout_stage_log:
  assumes "bootout_stage (logged sys) r d skip service (w, l) = (booted, warn, w', l')"
    and "EvService d (service_name r) service \<in> set l" and "authorised r l"
  shows "\<exists>x. l' = x @ l \<and> list_all (\<lambda>e. \<not> is_save e) x \<and> authorised r l' \<and>
    (\<forall>e \<in> set x. \<exists>ok. e = EvBootout d (service_name r) ok)"
proof (cases "so_presence service \<noteq> Absent \<and> \<not> skip \<and> service_owner r service = Owned")
  case True
  let ?e = "EvBootout d (service_name r) (succeeded (fst (sys_bootout sys d (service_name r) w)))"
  from assms(1) True have "l' = ?e # l"
    by (auto simp: bootout_stage_def split: sum.splits)
  moreover from True assms(2, 3) have "authorised r (?e # l)"
    by (auto simp: list_ex_iff intro!: bexI [of _ "EvService d (service_name r) service"])
  ultimately show ?thesis by (intro exI [of _ "[?e]"]) simp
next
  case False
  with assms have "l' = l" by (auto simp: bootout_stage_def split: if_splits)
  with assms(3) show ?thesis by (intro exI [of _ "[]"]) simp
qed

lemma plist_stage_log:
  assumes "plist_stage (logged sys) r p plist (w, l) = (removed, warn, w', l')"
    and "EvPlist p plist \<in> set l" and "authorised r l"
  shows "\<exists>x. l' = x @ l \<and> list_all (\<lambda>e. \<not> is_save e) x \<and> authorised r l'"
proof -
  let ?c = "fst (sys_plist sys p w)"
  let ?e = "EvRemovePlist p (succeeded (fst (sys_remove_plist sys p (snd (sys_plist sys p w)))))"
  consider (keep) "l' = l"
    | (look) "l' = EvPlist p ?c # l"
    | (unlink) "l' = ?e # EvPlist p ?c # l" "plist_owner r plist = Owned" "plist_owner r ?c = Owned"
    using assms(1) by (auto simp: plist_stage_def Let_def split: if_splits sum.splits)
  then show ?thesis
  proof cases
    case keep
    with assms(3) show ?thesis by (intro exI [of _ "[]"]) simp
  next
    case look
    with assms(3) show ?thesis by (intro exI [of _ "[EvPlist p ?c]"]) simp
  next
    case unlink
    with assms(2, 3) have "authorised r l'"
      by (auto simp: list_ex_iff intro!: bexI [of _ "EvPlist p plist"])
    with unlink show ?thesis by (intro exI [of _ "[?e, EvPlist p ?c]"]) simp
  qed
qed

lemma last_plist_EvPlist: "last_service (EvPlist p x # l) = last_service l"
  by simp

lemma cleanup_stage_log:
  assumes run: "cleanup_stage (logged sys) r skip p d (w, l) = (out, w', l')" and auth: "authorised r l"
  shows "\<exists>x. l' = x @ l \<and> list_all (\<lambda>e. \<not> is_save e) x \<and> authorised r l' \<and>
    (out_complete out \<longrightarrow> absence_confirmed l' \<and> out_warnings out = [])"
proof -
  define s where "s = fst (sys_service sys d (service_name r) w)"
  define w1 where "w1 = snd (sys_service sys d (service_name r) w)"
  define q where "q = fst (sys_plist sys p w1)"
  define l2 where "l2 = EvPlist p q # EvService d (service_name r) s # l"
  obtain booted warn1 w3 l3 where b:
    "bootout_stage (logged sys) r d skip s (snd (sys_plist sys p w1), l2) = (booted, warn1, w3, l3)"
    by (metis prod_cases4)
  obtain removed warn2 w4 l4 where pl:
    "plist_stage (logged sys) r p q (w3, l3) = (removed, warn2, w4, l4)" by (metis prod_cases4)
  obtain sa td w5 l5 where sv:
    "service_after_bootout (logged sys) d (service_name r) booted (w4, l4) = (sa, td, w5, l5)"
    by (metis prod_cases4)
  define pa where "pa = fst (sys_plist sys p w5)"
  have res: "l' = EvPlist p pa # l5"
      "out_complete out \<longleftrightarrow> cleanup_complete sa pa \<and> warn1 = [] \<and> warn2 = []"
      "out_complete out \<Longrightarrow> out_warnings out = []"
    using run b pl sv
    by (auto simp: cleanup_stage_def Let_def s_def w1_def q_def l2_def pa_def)
  have "authorised r l2" "EvService d (service_name r) s \<in> set l2" "EvPlist p q \<in> set l2"
    using auth by (simp_all add: l2_def)
  with bootout_stage_log [OF b] obtain x1 where x1: "l3 = x1 @ l2"
    "list_all (\<lambda>e. \<not> is_save e) x1" "authorised r l3" by blast
  then have "EvPlist p q \<in> set l3" by (simp add: l2_def)
  with plist_stage_log [OF pl] x1 obtain x2 where x2: "l4 = x2 @ l3"
    "list_all (\<lambda>e. \<not> is_save e) x2" "authorised r l4" by blast
  from service_after_bootout_log [OF sv] obtain x3 where x3: "l5 = x3 @ l4" "list_all quiet x3"
    "last_service l5 = Some sa" by blast
  have "authorised r l'" using x2 x3 res by (simp add: authorised_append_quiet)
  moreover have "out_complete out \<longrightarrow> absence_confirmed l' \<and> out_warnings out = []"
    using res x3 by (auto simp: absence_confirmed_def cleanup_complete_def)
  ultimately show ?thesis
    using res(1) x1 x2 x3 quiet_no_save [OF x3(2)]
    by (intro exI [of _ "EvPlist p pa # x3 @ x2 @ x1 @ [EvPlist p q, EvService d (service_name r) s]"])
      (simp add: l2_def)
qed

subsection \<open>Removal\<close>

text \<open>The record a removal works on, and the log of the removal from an empty log.\<close>

definition target_record :: "runner_registry \<Rightarrow> string option \<Rightarrow> string option \<Rightarrow> runner_record option" where
  "target_record reg rid service =
     find (record_matches rid service)
       (map pc_runner (pending reg) @
        (case find (record_matches rid service) (runners reg) of None \<Rightarrow> [] | Some r \<Rightarrow> [r]))"

definition removal_log ::
    "'w cleanup_system \<Rightarrow> runner_registry \<Rightarrow> string option \<Rightarrow> string option \<Rightarrow> bool \<Rightarrow> 'w \<Rightarrow> event list" where
  "removal_log sys reg rid service skip w =
     snd (snd (snd (remove_record (logged sys) reg rid service skip (w, []))))"

text \<open>
  At every moment of a log, the registry on disk still knows the record, unless the absence of
  both the service and the plist is the latest observation; and no action is taken before the
  registry on disk holds the record as a pending cleanup.
\<close>

fun recoverable :: "runner_registry \<Rightarrow> runner_record \<Rightarrow> event list \<Rightarrow> bool" where
  "recoverable reg r [] = True"
| "recoverable reg r (e # past) =
     ((is_action e \<longrightarrow> r \<in> pc_runner ` set (pending (durable reg past))) \<and>
      (r \<in> set (known_records (durable reg (e # past))) \<or> absence_confirmed (e # past)) \<and>
      recoverable reg r past)"

lemma find_position: "find p xs = map_option (\<lambda>i. xs ! i) (position p xs)"
  by (induction xs) (auto simp: option.map_comp comp_def)

lemma position_map: "position p (map f xs) = position (\<lambda>x. p (f x)) xs"
  by (induction xs) auto

lemma recoverable_append:
  assumes "list_all (\<lambda>e. \<not> is_save e) x" and "recoverable reg r l"
    and "r \<in> pc_runner ` set (pending (durable reg l))"
  shows "recoverable reg r (x @ l)"
  using assms(1)
proof (induction x)
  case (Cons e x)
  then have "durable reg ((e # x) @ l) = durable reg l" "durable reg (x @ l) = durable reg l"
    by (intro durable_append, simp)+
  with Cons assms(3) show ?case by (auto simp: known_records_def)
qed (simp add: assms(2))

lemma absence_confirmed_save [simp]: "absence_confirmed (EvSave reg ok # l) = absence_confirmed l"
  by (simp add: absence_confirmed_def)

lemma authorised_location [simp]: "authorised r (EvLocation r' # l) = authorised r l"
  by simp

text \<open>The middle of \<open>cleanup_pending\<close>: the location and, if it is known, the cleanup.\<close>

lemma cleanup_pending_log:
  assumes run: "cleanup_pending (logged sys) reg i skip (w, l) = (rep, reg', w', l')"
    and i: "i < length (pending reg)" and r: "r = pc_runner (pending reg ! i)" and auth: "authorised r l"
  shows "\<exists>x ok complete. l' = EvSave reg' ok # x @ l \<and> list_all (\<lambda>e. \<not> is_save e) x \<and> authorised r l' \<and>
    (complete \<longrightarrow> absence_confirmed (x @ l)) \<and> cleanup_retained rep = (\<not> (complete \<and> ok)) \<and>
    runners reg' = runners reg \<and>
    map pc_runner (pending reg') =
      (if complete then remove_at i (map pc_runner (pending reg)) else map pc_runner (pending reg)) \<and>
    (\<not> cleanup_retained rep \<longrightarrow> warnings rep = [] \<and> retained_record rep = None) \<and>
    (cleanup_retained rep \<longrightarrow> map_option pc_runner (retained_record rep) = Some r)"
proof -
  define w1 where "w1 = snd (sys_location sys r w)"
  define stage where "stage = (case fst (sys_location sys r w) of
      Inl e \<Rightarrow> (\<lparr>out_booted = False, out_removed = False, out_complete = False,
                  out_observations = [], out_warnings = [e]\<rparr>, w1, EvLocation r # l)
    | Inr (p, d) \<Rightarrow> cleanup_stage (logged sys) r skip p d (w1, EvLocation r # l))"
  obtain out w2 l2 where st: "stage = (out, w2, l2)" by (metis prod_cases3)
  define cl where "cl = (pending reg ! i)\<lparr>observations := observations (pending reg ! i) @ out_observations out\<rparr>"
  define ok where "ok = succeeded (fst (sys_save sys reg' w2))"
  have "\<exists>x. l2 = x @ EvLocation r # l \<and> list_all (\<lambda>e. \<not> is_save e) x \<and> authorised r l2 \<and>
      (out_complete out \<longrightarrow> absence_confirmed l2 \<and> out_warnings out = [])"
  proof (cases "fst (sys_location sys r w)")
    case (Inl e)
    with st auth show ?thesis by (auto simp: stage_def)
  next
    case (Inr pd)
    then obtain p d where pd: "fst (sys_location sys r w) = Inr (p, d)" by (cases pd) auto
    with st have "cleanup_stage (logged sys) r skip p d (w1, EvLocation r # l) = (out, w2, l2)"
      by (simp add: stage_def)
    from cleanup_stage_log [OF this] auth show ?thesis by simp
  qed
  then obtain x where x: "l2 = x @ EvLocation r # l" "list_all (\<lambda>e. \<not> is_save e) x" "authorised r l2"
    "out_complete out \<Longrightarrow> absence_confirmed l2 \<and> out_warnings out = []" by blast
  have stage_fst: "out = fst stage" "(w2, l2) = snd stage" using st by simp_all
  have reg': "reg' = reg\<lparr>pending := if out_complete out then remove_at i ((pending reg)[i := cl])
        else (pending reg)[i := cl]\<rparr>" and l': "l' = EvSave reg' ok # l2"
    and rep: "cleanup_retained rep = (\<not> (out_complete out \<and> ok))"
      "retained_record rep = (if out_complete out \<and> ok then None else Some cl)"
      "ok \<Longrightarrow> warnings rep = out_warnings out"
    using run st
    by (auto simp: cleanup_pending_def Let_def stage_def w1_def cl_def ok_def r split: sum.splits prod.splits)
  have "map pc_runner ((pending reg)[i := cl]) = map pc_runner (pending reg)"
    using i by (simp add: map_update cl_def list_update_same_conv)
  with reg' have "map pc_runner (pending reg') =
      (if out_complete out then remove_at i (map pc_runner (pending reg)) else map pc_runner (pending reg))"
    by (auto simp: remove_at_def take_map [symmetric] drop_map [symmetric])
  moreover have "pc_runner cl = r" by (simp add: cl_def r)
  ultimately show ?thesis
    using reg' l' rep x
    by (intro exI [of _ "x @ [EvLocation r]"] exI [of _ ok] exI [of _ "out_complete out"]) auto
qed

text \<open>\<open>begin_removal\<close>: the registry after the record has moved to the pending cleanups.\<close>

definition begin_removal :: "runner_registry \<Rightarrow> nat \<Rightarrow> nat \<Rightarrow> runner_registry" where
  "begin_removal reg i now = reg\<lparr>runners := remove_at i (runners reg),
     pending := pending reg @ [\<lparr>pc_runner = runners reg ! i, cleanup_started_at_unix_ms = now, observations = []\<rparr>]\<rparr>"

lemma mset_remove_at: "i < length xs \<Longrightarrow> mset (remove_at i xs) = mset xs - {#xs ! i#}"
proof -
  assume "i < length xs"
  then have "mset xs = mset (take i xs @ xs ! i # drop (Suc i) xs)"
    using id_take_nth_drop [of i xs] by simp
  then show ?thesis by (simp add: remove_at_def)
qed

lemma known_begin_removal:
  assumes "i < length (runners reg)"
  shows "mset (known_records (begin_removal reg i now)) = mset (known_records reg)"
proof -
  from assms have "runners reg ! i \<in># mset (runners reg)" by simp
  then show ?thesis
    using assms by (simp add: begin_removal_def known_records_def mset_remove_at)
qed

lemma target_record_position:
  "target_record reg rid service = map_option (\<lambda>j. pc_runner (pending reg' ! j))
     (position (\<lambda>c. record_matches rid service (pc_runner c)) (pending reg'))"
  if "map pc_runner (pending reg') = map pc_runner (pending reg) @
        (case find (record_matches rid service) (runners reg) of None \<Rightarrow> [] | Some r \<Rightarrow> [r])"
proof -
  from that have "target_record reg rid service = find (record_matches rid service) (map pc_runner (pending reg'))"
    by (simp add: target_record_def)
  then show ?thesis
    by (simp add: find_position position_map option.map_comp comp_def)
      (auto simp: position_Some intro!: option.map_cong0)
qed

text \<open>
  The shape of every run of \<open>remove_record\<close>: no target and nothing done; a first save that
  failed; or a cleanup of the target, on a registry whose first save succeeded if it was needed.
\<close>

lemma remove_record_cases:
  assumes run: "remove_record (logged sys) reg rid service skip (w, []) = (res, reg', w', l)"
  obtains (none) "target_record reg rid service = None" "res = Inr None" "l = []" "reg' = reg"
  | (unsaved) e reg1 now r where "res = Inl (SaveError e)" "l = [EvSave reg1 False, EvNow now]"
      "target_record reg rid service = Some r" "r \<in> set (known_records reg)"
  | (clean) reg1 i w1 l1 rep r where "res = Inr (Some rep)" "target_record reg rid service = Some r"
      "cleanup_pending (logged sys) reg1 i skip (w1, l1) = (rep, reg', w', l)"
      "i < length (pending reg1)" "r = pc_runner (pending reg1 ! i)"
      "mset (known_records reg1) = mset (known_records reg)"
      "durable reg l1 = reg1" "authorised r l1" "recoverable reg r l1"
proof (cases "position (record_matches rid service) (runners reg)")
  case None
  then have t: "target_record reg rid service = map_option (\<lambda>j. pc_runner (pending reg ! j))
     (position (\<lambda>c. record_matches rid service (pc_runner c)) (pending reg))"
    by (intro target_record_position) (simp add: find_position)
  show ?thesis
  proof (cases "position (\<lambda>c. record_matches rid service (pc_runner c)) (pending reg)")
    case None': None
    with None run t show ?thesis by (intro none) (auto simp: remove_record_def Let_def)
  next
    case (Some i)
    obtain rep reg2 w3 where c: "cleanup_pending (logged sys) reg i skip (w, []) = (rep, reg2, w3)"
      by (metis prod_cases3)
    from None Some run c have "res = Inr (Some rep)"
      and clean_run: "cleanup_pending (logged sys) reg i skip (w, []) = (rep, reg', w', l)"
      by (simp_all add: remove_record_def Let_def)
    moreover from t Some have "target_record reg rid service = Some (pc_runner (pending reg ! i))" by simp
    moreover from Some have "i < length (pending reg)" by (simp add: position_Some)
    ultimately show ?thesis by (intro clean [OF _ _ clean_run]) simp_all
  qed
next
  case (Some k)
  define now where "now = fst (sys_now sys w)"
  define w1 where "w1 = snd (sys_now sys w)"
  define reg1 where "reg1 = begin_removal reg k now"
  define saved where "saved = fst (sys_save sys reg1 w1)"
  define w2 where "w2 = snd (sys_save sys reg1 w1)"
  have k: "k < length (runners reg)" "record_matches rid service (runners reg ! k)"
    using Some by (simp_all add: position_Some)
  have pend: "map pc_runner (pending reg1) = map pc_runner (pending reg) @ [runners reg ! k]"
    by (simp add: reg1_def begin_removal_def)
  with Some have t: "target_record reg rid service = map_option (\<lambda>j. pc_runner (pending reg1 ! j))
     (position (\<lambda>c. record_matches rid service (pc_runner c)) (pending reg1))"
    by (intro target_record_position) (simp add: find_position)
  obtain i where i: "position (\<lambda>c. record_matches rid service (pc_runner c)) (pending reg1) = Some i"
    using k(2) by (cases "position (\<lambda>c. record_matches rid service (pc_runner c)) (pending reg1)")
      (auto simp: position_None reg1_def begin_removal_def)
  then have il: "i < length (pending reg1)" by (simp add: position_Some)
  define r where "r = pc_runner (pending reg1 ! i)"
  have known1: "mset (known_records reg1) = mset (known_records reg)"
    unfolding reg1_def using k(1) by (rule known_begin_removal)
  have "r \<in> set (known_records reg1)" using il by (simp add: r_def known_records_def)
  with known1 have known: "r \<in> set (known_records reg)" by (metis set_mset_mset)
  have tr: "target_record reg rid service = Some r" using t i by (simp add: r_def)
  show ?thesis
  proof (cases saved)
    case (Inl e)
    with Some run have "res = Inl (SaveError e)" "l = [EvSave reg1 False, EvNow now]"
      by (auto simp: remove_record_def Let_def saved_def reg1_def begin_removal_def now_def w1_def)
    then show ?thesis using tr known by (intro unsaved)
  next
    case (Inr u)
    let ?l1 = "[EvSave reg1 True, EvNow now]"
    obtain rep reg2 w3 where c: "cleanup_pending (logged sys) reg1 i skip (w2, ?l1) = (rep, reg2, w3)"
      by (metis prod_cases3)
    from Some run i c Inr have "res = Inr (Some rep)"
      and clean_run: "cleanup_pending (logged sys) reg1 i skip (w2, ?l1) = (rep, reg', w', l)"
      by (auto simp: remove_record_def Let_def saved_def reg1_def begin_removal_def now_def w1_def w2_def)
    moreover have "recoverable reg r ?l1"
      using known il by (simp add: known_records_def r_def)
    ultimately show ?thesis using tr il known1 by (intro clean [OF _ _ clean_run]) (simp_all add: r_def)
  qed
qed

lemma removal_log_eq:
  "remove_record (logged sys) reg rid service skip (w, []) = (res, reg', w', l) \<Longrightarrow>
     removal_log sys reg rid service skip w = l"
  by (simp add: removal_log_def)

section \<open>Properties of the transactions\<close>

text \<open>
  C5: whatever the operating system answers, a removal only boots out a service it has observed
  to be owned by the record it removes, and only unlinks a plist it has observed twice to be owned
  by that record, the second time immediately before the unlink. With no matching record it does
  nothing.
\<close>

theorem remove_record_authorised:
  "case target_record reg rid service of
     None \<Rightarrow> removal_log sys reg rid service skip w = []
   | Some r \<Rightarrow> authorised r (removal_log sys reg rid service skip w)"
proof -
  obtain res reg' w' l where run: "remove_record (logged sys) reg rid service skip (w, []) = (res, reg', w', l)"
    by (metis prod_cases4)
  note log = removal_log_eq [OF run]
  from run show ?thesis
  proof (cases rule: remove_record_cases)
    case (clean reg1 i w1 l1 rep r)
    from cleanup_pending_log [OF clean(3-5) clean(8)] have "authorised r l" by blast
    with clean log show ?thesis by simp
  qed (simp_all add: log)
qed

text \<open>
  C4: a removal is crash-safe. At every moment of it, whatever the system answers, the registry on
  disk still knows the record, unless the latest observations are that both the service and the
  plist are absent; and every bootout or unlink happens with the record on disk as a pending
  cleanup.
\<close>

theorem remove_record_recoverable:
  "case target_record reg rid service of
     None \<Rightarrow> removal_log sys reg rid service skip w = []
   | Some r \<Rightarrow> recoverable reg r (removal_log sys reg rid service skip w)"
proof -
  obtain res reg' w' l where run: "remove_record (logged sys) reg rid service skip (w, []) = (res, reg', w', l)"
    by (metis prod_cases4)
  note log = removal_log_eq [OF run]
  from run show ?thesis
  proof (cases rule: remove_record_cases)
    case (unsaved e reg1 now r)
    then show ?thesis by (simp add: known_records_def log)
  next
    case (clean reg1 i w1 l1 rep r)
    from cleanup_pending_log [OF clean(3-5) clean(8)] obtain x ok complete where
      l: "l = EvSave reg' ok # x @ l1" and x: "list_all (\<lambda>e. \<not> is_save e) x"
      and conf: "complete \<longrightarrow> absence_confirmed (x @ l1)"
      and pend: "map pc_runner (pending reg') =
        (if complete then remove_at i (map pc_runner (pending reg1)) else map pc_runner (pending reg1))"
      by blast
    have r: "r \<in> pc_runner ` set (pending (durable reg l1))" using clean by simp
    with x clean(9) have rest: "recoverable reg r (x @ l1)" by (intro recoverable_append)
    have "r \<in> set (known_records (durable reg l)) \<or> absence_confirmed l"
    proof (cases "ok \<and> complete")
      case True
      with conf l show ?thesis by simp
    next
      case False
      have "set (map pc_runner (pending reg')) = set (map pc_runner (pending reg1))" if "\<not> complete"
        using pend that by simp
      with False r clean(7) l durable_append [OF x, of reg l1] show ?thesis
        by (cases ok) (auto simp: known_records_def)
    qed
    with rest l clean log show ?thesis by simp
  qed (simp add: log)
qed

text \<open>
  C6: the outcome of a removal is exact. The registry on disk afterwards holds the records it held
  before, less exactly the removed one and only when the report says that nothing is retained;
  then the absence of service and plist was observed and there is no warning. A retained cleanup is
  reported with its record, and an error leaves every record on disk.
\<close>

theorem remove_record_exact:
  "case remove_record (logged sys) reg rid service skip (w, []) of
     (Inl e, reg', w', l) \<Rightarrow> mset (known_records (durable reg l)) = mset (known_records reg)
   | (Inr None, reg', w', l) \<Rightarrow> target_record reg rid service = None \<and> reg' = reg \<and> l = []
   | (Inr (Some rep), reg', w', l) \<Rightarrow>
       (\<exists>r. target_record reg rid service = Some r \<and>
         (if cleanup_retained rep
          then mset (known_records (durable reg l)) = mset (known_records reg) \<and>
            map_option pc_runner (retained_record rep) = Some r
          else add_mset r (mset (known_records (durable reg l))) = mset (known_records reg) \<and>
            durable reg l = reg' \<and> absence_confirmed l \<and> warnings rep = []))"
proof -
  obtain res reg' w' l where run: "remove_record (logged sys) reg rid service skip (w, []) = (res, reg', w', l)"
    by (metis prod_cases4)
  then show ?thesis
  proof (cases rule: remove_record_cases)
    case (clean reg1 i w1 l1 rep r)
    from cleanup_pending_log [OF clean(3-5) clean(8)] obtain x ok complete where
      l: "l = EvSave reg' ok # x @ l1" and x: "list_all (\<lambda>e. \<not> is_save e) x"
      and conf: "complete \<longrightarrow> absence_confirmed (x @ l1)"
      and run': "runners reg' = runners reg1"
      and pend: "map pc_runner (pending reg') =
        (if complete then remove_at i (map pc_runner (pending reg1)) else map pc_runner (pending reg1))"
      and rep: "cleanup_retained rep = (\<not> (complete \<and> ok))"
        "\<not> cleanup_retained rep \<longrightarrow> warnings rep = [] \<and> retained_record rep = None"
        "cleanup_retained rep \<longrightarrow> map_option pc_runner (retained_record rep) = Some r"
      by blast
    have i': "i < length (map pc_runner (pending reg1))" using clean(4) by simp
    have "r \<in># mset (map pc_runner (pending reg1))" using clean(4, 5) by simp
    then have gone: "add_mset r (mset (known_records reg')) = mset (known_records reg1)" if complete
      using that pend run' mset_remove_at [OF i'] clean(4, 5)
      by (simp add: known_records_def flip: mset_map)
    have kept: "mset (known_records reg') = mset (known_records reg1)" if "\<not> complete"
      using that pend run' by (simp add: known_records_def flip: mset_map)
    have "durable reg l = (if ok then reg' else reg1)"
      using l durable_append [OF x, of reg l1] clean(7) by simp
    with run clean gone kept conf l rep show ?thesis by (cases complete; cases ok) auto
  qed (simp_all add: run)
qed

text \<open>
  C8: the teardown wait ends within its budget: after the first read it re-reads the service at
  most twenty times, 50 ms apart, so the wait never passes 1000 ms, and it only gives up on a job
  that is still listed when the whole budget is spent. Without a bootout it reads once.
\<close>

theorem service_after_bootout_bounded:
  "case service_after_bootout sys domain name booted w of
     (obs, td, w') \<Rightarrow> reads td \<in> {1..21} \<and> waited_ms td = 50 * (reads td - 1) \<and>
       waited_ms td \<le> budget_ms td \<and>
       (if booted then so_presence obs \<in> {Absent, UnknownPresence} \<or> waited_ms td = budget_ms td
        else reads td = 1)"
proof -
  obtain obs0 w1 where s: "sys_service sys domain name w = (obs0, w1)" by (metis surj_pair)
  obtain obs n waited w2 where t: "teardown_loop sys domain name booted obs0 1 0 w1 = (obs, n, waited, w2)"
    by (metis prod_cases4)
  have "waited = 50 * (n - 1) \<and> 1 \<le> n \<and> n \<le> 21 \<and>
      (booted \<longrightarrow> so_presence obs = Present \<longrightarrow> waited = TEARDOWN_WAIT_MS)"
    using teardown_loop_bounds [OF t, simplified] by (metis One_nat_def)
  moreover have "n = 1" if "\<not> booted"
    using t that by (subst (asm) teardown_loop.simps) simp
  moreover have "so_presence obs \<in> {Absent, UnknownPresence}" if "so_presence obs \<noteq> Present"
    using that by (cases "so_presence obs") simp_all
  ultimately show ?thesis using s t
    by (auto simp: service_after_bootout_def TEARDOWN_WAIT_MS_def)
qed

subsection \<open>Installation\<close>

text \<open>Every action of a log was taken with a registry on disk that satisfies \<open>P\<close>.\<close>

fun actions_backed :: "runner_registry \<Rightarrow> (runner_registry \<Rightarrow> bool) \<Rightarrow> event list \<Rightarrow> bool" where
  "actions_backed reg P [] = True"
| "actions_backed reg P (e # past) =
     ((if is_action e then P (durable reg past) else True) \<and> actions_backed reg P past)"

text \<open>
  C7: installation persists before it acts. The installation actions run only with the record on
  disk as pending; on success the registry on disk ends with the record as installed; on any later
  failure it still ends with the record as pending, so that it can be removed; and when the first
  save fails nothing was done and the disk is as before.
\<close>

theorem install_record_durable:
  "case install_record (logged sys) (logged_install install) reg record (w, []) of
     (res, reg', w', l) \<Rightarrow>
       actions_backed reg (\<lambda>disk. disk = reg\<lparr>runners := runners reg @ [record\<lparr>state := Pending\<rparr>]\<rparr>) l \<and>
       (case res of
          Inr r \<Rightarrow> r = record\<lparr>state := Installed\<rparr> \<and> durable reg l = reg\<lparr>runners := runners reg @ [r]\<rparr> \<and> reg' = durable reg l
        | Inl (SaveError e) \<Rightarrow> durable reg l = reg \<and> list_all (\<lambda>e. \<not> is_action e) l
        | Inl (PendingRetained e i s) \<Rightarrow>
            durable reg l = reg\<lparr>runners := runners reg @ [record\<lparr>state := Pending\<rparr>]\<rparr> \<and>
            i = runner_id record \<and> s = service_name record
        | Inl _ \<Rightarrow> False)"
proof (cases "fst (sys_save sys (reg\<lparr>runners := runners reg @ [record\<lparr>state := Pending\<rparr>]\<rparr>) w)")
  case (Inl e)
  then show ?thesis by (simp add: install_record_def Let_def)
next
  case first: (Inr u)
  let ?w1 = "snd (sys_save sys (reg\<lparr>runners := runners reg @ [record\<lparr>state := Pending\<rparr>]\<rparr>) w)"
  show ?thesis
  proof (cases "fst (install ?w1)")
    case (Inl e)
    with first show ?thesis by (simp add: install_record_def Let_def logged_install_def split_def)
  next
    case (Inr v)
    with first show ?thesis
      by (cases "fst (sys_save sys (reg\<lparr>runners := runners reg @ [record\<lparr>state := Installed\<rparr>]\<rparr>) (snd (install ?w1)))")
        (simp_all add: install_record_def Let_def logged_install_def split_def)
  qed
qed

end
