(* ===== verification/Launchd_Plist.thy ===== *)
theory Launchd_Plist
  imports Runner_Registry
begin

text \<open>
  The launchd property list of an installed runner (controller/src/runner_manager.rs,
  \<open>build_launchd_plist\<close>), and a reader of such documents as its specification: what is written is
  read back as the configuration the ownership judgement expects.
\<close>

section \<open>Writing\<close>

definition BYOXPC_THROTTLE_INTERVAL_SECONDS :: nat where "BYOXPC_THROTTLE_INTERVAL_SECONDS = 1"

text \<open>\<open>str::replace\<close> of one character.\<close>

definition replace_char :: "char \<Rightarrow> string \<Rightarrow> string \<Rightarrow> string" where
  "replace_char c r s = concat (map (\<lambda>x. if x = c then r else [x]) s)"

definition plist_escape :: "string \<Rightarrow> string" where
  "plist_escape value =
     replace_char (CHR ''>'') ''&gt;'' (replace_char (CHR ''<'') ''&lt;'' (replace_char (CHR ''&'') ''&amp;'' value))"

abbreviation nl :: char where "nl \<equiv> CHR 0x0A"
abbreviation dq :: char where "dq \<equiv> CHR 0x22"

definition env_entry :: "string \<times> string \<Rightarrow> string" where
  "env_entry p = ''    <key>'' @ plist_escape (fst p) @ ''</key>'' @ [nl]
     @ ''    <string>'' @ plist_escape (snd p) @ ''</string>'' @ [nl]"

definition env_block :: "(string \<times> string) list option \<Rightarrow> string" where
  "env_block env =
     (case env of
        None \<Rightarrow> []
      | Some m \<Rightarrow>
          if m = [] then []
          else ''  <key>EnvironmentVariables</key>'' @ [nl] @ ''  <dict>'' @ [nl] @ concat (map env_entry m)
            @ ''  </dict>'' @ [nl])"

definition plist_args :: "string \<Rightarrow> path \<Rightarrow> runner_kind \<Rightarrow> string list" where
  "plist_args service exe knd = [exe] @ (if knd = Byoxpc then [''--mach-service'', service] else [])"

definition args_block :: "string list \<Rightarrow> string" where
  "args_block args = concat (map (\<lambda>a. ''    <string>'' @ plist_escape a @ ''</string>'' @ [nl]) args)"

definition plist_head :: string where
  "plist_head = ''<?xml version='' @ [dq] @ ''1.0'' @ [dq] @ '' encoding='' @ [dq] @ ''UTF-8'' @ [dq] @ ''?>'' @ [nl]
     @ ''<!DOCTYPE plist PUBLIC '' @ [dq] @ ''-//Apple//DTD PLIST 1.0//EN'' @ [dq] @ '' '' @ [dq]
     @ ''http://www.apple.com/DTDs/PropertyList-1.0.dtd'' @ [dq] @ ''>'' @ [nl]
     @ ''<plist version='' @ [dq] @ ''1.0'' @ [dq] @ ''>'' @ [nl]"

definition build_launchd_plist :: "string \<Rightarrow> path \<Rightarrow> (string \<times> string) list option \<Rightarrow> runner_kind \<Rightarrow> string" where
  "build_launchd_plist service exe env knd =
     plist_head @ ''<dict>'' @ [nl]
     @ ''  <key>Label</key>'' @ [nl] @ ''  <string>'' @ service @ ''</string>'' @ [nl]
     @ ''  <key>ProgramArguments</key>'' @ [nl] @ ''  <array>'' @ [nl] @ args_block (plist_args service exe knd)
     @ ''  </array>'' @ [nl]
     @ ''  <key>MachServices</key>'' @ [nl] @ ''  <dict>'' @ [nl] @ ''    <key>'' @ service @ ''</key>'' @ [nl]
     @ ''    <true/>'' @ [nl] @ ''  </dict>'' @ [nl]
     @ env_block env
     @ ''  <key>RunAtLoad</key>'' @ [nl] @ ''  <true/>'' @ [nl] @ ''  <key>ThrottleInterval</key>'' @ [nl]
     @ ''  <integer>'' @ nat_digits BYOXPC_THROTTLE_INTERVAL_SECONDS @ ''</integer>'' @ [nl]
     @ ''</dict>'' @ [nl] @ ''</plist>'' @ [nl]"

section \<open>Reading\<close>

text \<open>
  A document as its tags, in order; character data counts after an opening \<open>key\<close>, \<open>string\<close> or
  \<open>integer\<close> and is white space elsewhere.
\<close>

function xml_tags :: "string \<Rightarrow> (string \<times> string) list" where
  "xml_tags s =
     (case s of
        [] \<Rightarrow> []
      | c # cs \<Rightarrow>
          if c \<noteq> CHR ''<'' then xml_tags cs
          else
            let tag = takeWhile (\<lambda>c. c \<noteq> CHR ''>'') cs; rest = tl (dropWhile (\<lambda>c. c \<noteq> CHR ''>'') cs) in
            (tag, if tag \<in> {''key'', ''string'', ''integer''} then takeWhile (\<lambda>c. c \<noteq> CHR ''<'') rest else []) # xml_tags rest)"
  by pat_completeness auto
termination
proof (relation "measure length", goal_cases)
  case (3 s c cs tag rest)
  have "length (tl (dropWhile (\<lambda>c. c \<noteq> CHR ''>'') cs)) \<le> length cs"
    by (metis diff_le_self length_dropWhile_le length_tl order_trans)
  with 3 show ?case by simp
qed auto

declare xml_tags.simps [simp del]

text \<open>The five named entities.\<close>

fun unescape :: "string \<Rightarrow> string" where
  "unescape s =
     (case s of
        [] \<Rightarrow> []
      | c # cs \<Rightarrow>
          if starts_with s ''&amp;'' then CHR ''&'' # unescape (drop 5 s)
          else if starts_with s ''&lt;'' then CHR ''<'' # unescape (drop 4 s)
          else if starts_with s ''&gt;'' then CHR ''>'' # unescape (drop 4 s)
          else if starts_with s ''&quot;'' then CHR 0x22 # unescape (drop 6 s)
          else if starts_with s ''&apos;'' then CHR 0x27 # unescape (drop 6 s)
          else c # unescape cs)"

declare unescape.simps [simp del]

text \<open>Values; the first argument bounds the nesting.\<close>

fun read_value :: "nat \<Rightarrow> (string \<times> string) list \<Rightarrow> (json \<times> (string \<times> string) list) option"
and read_dict :: "nat \<Rightarrow> (string \<times> string) list \<Rightarrow> (json_map \<times> (string \<times> string) list) option"
and read_array :: "nat \<Rightarrow> (string \<times> string) list \<Rightarrow> (json list \<times> (string \<times> string) list) option" where
  "read_value 0 ts = None"
| "read_value (Suc n) ts =
     (case ts of
        (tag, t) # rest \<Rightarrow>
          if tag = ''true/'' then Some (JBool True, rest)
          else if tag = ''string'' then
            (case rest of (close, _) # rest' \<Rightarrow> if close = ''/string'' then Some (JStr (unescape t), rest') else None | [] \<Rightarrow> None)
          else if tag = ''integer'' then
            (case rest of (close, _) # rest' \<Rightarrow>
               if close = ''/integer'' then Some (JNum (PosInt (foldl (\<lambda>a c. 10 * a + (of_char c - 48)) 0 t)), rest') else None
             | [] \<Rightarrow> None)
          else if tag = ''dict'' then map_option (\<lambda>(m, r). (JObj m, r)) (read_dict n rest)
          else if tag = ''array'' then map_option (\<lambda>(xs, r). (JArr xs, r)) (read_array n rest)
          else None
      | [] \<Rightarrow> None)"
| "read_dict 0 ts = None"
| "read_dict (Suc n) ts =
     (case ts of
        (tag, k) # rest \<Rightarrow>
          if tag = ''/dict'' then Some ([], rest)
          else if tag = ''key'' then
            Option.bind (read_value n (tl rest)) (\<lambda>(v, r). map_option (\<lambda>(m, r'). (obj_insert (unescape k) v m, r')) (read_dict n r))
          else None
      | [] \<Rightarrow> None)"
| "read_array 0 ts = None"
| "read_array (Suc n) ts =
     (case ts of
        (tag, _) # rest \<Rightarrow>
          if tag = ''/array'' then Some ([], rest)
          else Option.bind (read_value n ts) (\<lambda>(v, r). map_option (\<lambda>(xs, r'). (v # xs, r')) (read_array n r))
      | [] \<Rightarrow> None)"

definition read_plist :: "string \<Rightarrow> json option" where
  "read_plist s =
     (let ts = dropWhile (\<lambda>p. fst p \<noteq> ''dict'') (xml_tags s) in
      map_option fst (read_value (2 * length ts + 2) ts))"

section \<open>Escaping\<close>

definition escape_char :: "char \<Rightarrow> string" where
  "escape_char c =
     (if c = CHR ''&'' then ''&amp;'' else if c = CHR ''<'' then ''&lt;'' else if c = CHR ''>'' then ''&gt;'' else [c])"

lemma replace_char_simps [simp]:
  "replace_char c r [] = []" "replace_char c r (x # xs) = (if x = c then r else [x]) @ replace_char c r xs"
  "replace_char c r (xs @ ys) = replace_char c r xs @ replace_char c r ys"
  by (simp_all add: replace_char_def)

text \<open>The three passes amount to one: no pass touches what an earlier one wrote.\<close>

lemma plist_escape_simps [simp]:
  "plist_escape [] = []" "plist_escape (c # cs) = escape_char c @ plist_escape cs"
  by (simp_all add: plist_escape_def escape_char_def)

lemma plist_escape_clean: "CHR ''<'' \<notin> set (plist_escape s)"
  by (induction s) (auto simp: escape_char_def split: if_splits)

lemma unescape_other: "c \<noteq> CHR ''&'' \<Longrightarrow> unescape (c # cs) = c # unescape cs"
  by (subst unescape.simps) simp

lemma unescape_entities:
  "unescape (''&amp;'' @ s) = CHR ''&'' # unescape s" "unescape (''&lt;'' @ s) = CHR ''<'' # unescape s"
  "unescape (''&gt;'' @ s) = CHR ''>'' # unescape s" "unescape [] = []"
  by (subst unescape.simps, simp)+

lemma unescape_plist_escape: "unescape (plist_escape s) = s"
proof (induction s)
  case (Cons c cs)
  consider "c = CHR ''&''" | "c = CHR ''<''" | "c = CHR ''>''" | "c \<notin> {CHR ''&'', CHR ''<'', CHR ''>''}" by blast
  then show ?case
    using Cons unescape_entities(1-3) [of "plist_escape cs"]
    by cases (simp_all add: escape_char_def unescape_other)
qed (simp add: unescape_entities)

lemma unescape_plain: "CHR ''&'' \<notin> set s \<Longrightarrow> unescape s = s"
  by (induction s) (auto simp: unescape_entities unescape_other [OF not_sym])

section \<open>The document read back\<close>

lemma xml_tags_Nil [simp]: "xml_tags [] = []"
  by (simp add: xml_tags.simps)

lemma xml_tags_gap [simp]: "c \<noteq> CHR ''<'' \<Longrightarrow> xml_tags (c # cs) = xml_tags cs"
  by (simp add: xml_tags.simps)

lemma xml_tags_skip: "CHR ''<'' \<notin> set s \<Longrightarrow> xml_tags (s @ r) = xml_tags r"
  by (induction s) auto

lemma xml_tags_tag:
  "xml_tags (CHR ''<'' # cs) =
     (takeWhile (\<lambda>c. c \<noteq> CHR ''>'') cs,
      if takeWhile (\<lambda>c. c \<noteq> CHR ''>'') cs \<in> {''key'', ''string'', ''integer''}
      then takeWhile (\<lambda>c. c \<noteq> CHR ''<'') (tl (dropWhile (\<lambda>c. c \<noteq> CHR ''>'') cs)) else []) #
     xml_tags (tl (dropWhile (\<lambda>c. c \<noteq> CHR ''>'') cs))"
  by (subst xml_tags.simps) (simp add: Let_def)

lemma takeWhile_until: "c \<notin> set s \<Longrightarrow> takeWhile (\<lambda>x. x \<noteq> c) (s @ c # r) = s"
  by (induction s) auto

text \<open>An element with character data, and what follows it.\<close>

lemma xml_tags_leaf:
  assumes "CHR ''<'' \<notin> set x"
  shows "xml_tags (''<key>'' @ x @ ''</key>'' @ r) = (''key'', x) # (''/key'', []) # xml_tags r"
    and "xml_tags (''<string>'' @ x @ ''</string>'' @ r) = (''string'', x) # (''/string'', []) # xml_tags r"
  using assms by (simp_all add: xml_tags_tag takeWhile_until xml_tags_skip Let_def)

lemma xml_tags_env:
  "xml_tags (concat (map env_entry m) @ r) =
     concat (map (\<lambda>p. [(''key'', plist_escape (fst p)), (''/key'', []), (''string'', plist_escape (snd p)), (''/string'', [])]) m)
     @ xml_tags r"
proof (induction m)
  case (Cons p m)
  have "xml_tags (env_entry p @ s) = [(''key'', plist_escape (fst p)), (''/key'', []), (''string'', plist_escape (snd p)), (''/string'', [])]
      @ xml_tags s" for s
    using xml_tags_leaf(1) [OF plist_escape_clean, of "fst p" "nl # ''    <string>'' @ plist_escape (snd p) @ ''</string>'' @ nl # s"]
      xml_tags_leaf(2) [OF plist_escape_clean, of "snd p" "nl # s"]
    by (simp add: env_entry_def)
  with Cons show ?case by simp
qed simp

definition env_tags :: "(string \<times> string) list option \<Rightarrow> (string \<times> string) list" where
  "env_tags env =
     (case env of
        None \<Rightarrow> []
      | Some m \<Rightarrow>
          if m = [] then []
          else [(''key'', ''EnvironmentVariables''), (''/key'', []), (''dict'', [])] @
            concat (map (\<lambda>p. [(''key'', plist_escape (fst p)), (''/key'', []), (''string'', plist_escape (snd p)), (''/string'', [])]) m) @
            [(''/dict'', [])])"

lemma env_block_tags: "xml_tags (env_block env @ r) = env_tags env @ xml_tags r"
proof (cases "env = None \<or> env = Some []")
  case False
  then obtain m where m: "env = Some m" "m \<noteq> []" by auto
  have "xml_tags (concat (map env_entry m) @ ''  </dict>'' @ nl # r) =
      concat (map (\<lambda>p. [(''key'', plist_escape (fst p)), (''/key'', []), (''string'', plist_escape (snd p)), (''/string'', [])]) m)
      @ (''/dict'', []) # xml_tags r"
    by (simp add: xml_tags_env xml_tags_tag)
  with m show ?thesis by (simp add: env_block_def env_tags_def xml_tags_tag)
qed (auto simp: env_block_def env_tags_def)

lemma args_block_tags:
  "xml_tags (args_block args @ r) = concat (map (\<lambda>a. [(''string'', plist_escape a), (''/string'', [])]) args) @ xml_tags r"
proof (induction args)
  case (Cons a args)
  then show ?case
    using xml_tags_leaf(2) [OF plist_escape_clean, of a "nl # args_block args @ r"] by (simp add: args_block_def)
qed (simp add: args_block_def)

definition head_tags :: "(string \<times> string) list" where
  "head_tags =
     [(''?xml version='' @ [dq] @ ''1.0'' @ [dq] @ '' encoding='' @ [dq] @ ''UTF-8'' @ [dq] @ ''?'', []),
      (''!DOCTYPE plist PUBLIC '' @ [dq] @ ''-//Apple//DTD PLIST 1.0//EN'' @ [dq] @ '' '' @ [dq]
       @ ''http://www.apple.com/DTDs/PropertyList-1.0.dtd'' @ [dq], []),
      (''plist version='' @ [dq] @ ''1.0'' @ [dq], [])]"

lemma plist_head_tags: "xml_tags (plist_head @ r) = head_tags @ xml_tags r"
  by (simp add: plist_head_def head_tags_def xml_tags_tag)

lemma document_tags:
  assumes "CHR ''<'' \<notin> set service"
  shows "xml_tags (build_launchd_plist service exe env knd) = head_tags @
      [(''dict'', []), (''key'', ''Label''), (''/key'', []), (''string'', service), (''/string'', []),
       (''key'', ''ProgramArguments''), (''/key'', []), (''array'', [])] @
      concat (map (\<lambda>a. [(''string'', plist_escape a), (''/string'', [])]) (plist_args service exe knd)) @
      [(''/array'', []), (''key'', ''MachServices''), (''/key'', []), (''dict'', []), (''key'', service), (''/key'', []),
       (''true/'', []), (''/dict'', [])] @ env_tags env @
      [(''key'', ''RunAtLoad''), (''/key'', []), (''true/'', []), (''key'', ''ThrottleInterval''), (''/key'', []),
       (''integer'', ''1''), (''/integer'', []), (''/dict'', []), (''/plist'', [])]"
proof -
  define tail where "tail = ''  <key>RunAtLoad</key>'' @ [nl] @ ''  <true/>'' @ [nl] @ ''  <key>ThrottleInterval</key>'' @ [nl]
     @ ''  <integer>'' @ nat_digits BYOXPC_THROTTLE_INTERVAL_SECONDS @ ''</integer>'' @ [nl]
     @ ''</dict>'' @ [nl] @ ''</plist>'' @ [nl]"
  have one: "nat_digits BYOXPC_THROTTLE_INTERVAL_SECONDS = ''1''" by code_simp
  have tl: "xml_tags tail = [(''key'', ''RunAtLoad''), (''/key'', []), (''true/'', []), (''key'', ''ThrottleInterval''), (''/key'', []),
       (''integer'', ''1''), (''/integer'', []), (''/dict'', []), (''/plist'', [])]"
    unfolding tail_def one by (simp add: xml_tags_tag)
  define mach where "mach = ''  </array>'' @ [nl] @ ''  <key>MachServices</key>'' @ [nl] @ ''  <dict>'' @ [nl] @ ''    <key>'' @ service
     @ ''</key>'' @ [nl] @ ''    <true/>'' @ [nl] @ ''  </dict>'' @ [nl] @ env_block env @ tail"
  have m: "xml_tags mach = [(''/array'', []), (''key'', ''MachServices''), (''/key'', []), (''dict'', []), (''key'', service), (''/key'', []),
       (''true/'', []), (''/dict'', [])] @ env_tags env @ xml_tags tail"
    unfolding mach_def using assms by (simp add: xml_tags_tag takeWhile_until xml_tags_skip env_block_tags)
  have doc: "build_launchd_plist service exe env knd = plist_head @ ''<dict>'' @ [nl]
     @ ''  <key>Label</key>'' @ [nl] @ ''  <string>'' @ service @ ''</string>'' @ [nl]
     @ ''  <key>ProgramArguments</key>'' @ [nl] @ ''  <array>'' @ [nl] @ args_block (plist_args service exe knd) @ mach"
    by (simp add: build_launchd_plist_def mach_def tail_def)
  show ?thesis
    unfolding doc plist_head_tags using assms
    by (simp add: xml_tags_tag takeWhile_until xml_tags_skip args_block_tags m tl)
qed

definition env_config :: "(string \<times> string) list \<Rightarrow> json_map" where
  "env_config m = map (\<lambda>p. (fst p, JStr (snd p))) m"

text \<open>The configuration the document stands for.\<close>

definition plist_config :: "string \<Rightarrow> path \<Rightarrow> (string \<times> string) list option \<Rightarrow> runner_kind \<Rightarrow> json" where
  "plist_config service exe env knd =
     JObj ((case env of None \<Rightarrow> [] | Some m \<Rightarrow> if m = [] then [] else [(''EnvironmentVariables'', JObj (env_config m))]) @
       [(''Label'', JStr service), (''MachServices'', JObj [(service, JBool True)]),
        (''ProgramArguments'', JArr (map JStr (plist_args service exe knd))), (''RunAtLoad'', JBool True),
        (''ThrottleInterval'', JNum (PosInt 1))])"

lemma env_config_Cons [simp]: "env_config [] = []" "env_config (p # m) = (fst p, JStr (snd p)) # env_config m"
  by (simp_all add: env_config_def)

lemma read_env_dict:
  assumes "sorted_wrt (<) (map fst m)"
  shows "read_dict (n + length m + 3)
     (concat (map (\<lambda>p. [(''key'', plist_escape (fst p)), (''/key'', []), (''string'', plist_escape (snd p)), (''/string'', [])]) m)
        @ (''/dict'', []) # r) = Some (env_config m, r)"
  using assms
proof (induction m)
  case (Cons p m)
  have first: "obj_insert (fst p) v (env_config m) = (fst p, v) # env_config m" for v
    using Cons.prems by (cases m) auto
  have fuel: "n + length (p # m) + 3 = Suc (Suc (n + length m + 2))" "n + length m + 3 = Suc (n + length m + 2)" by simp_all
  have "read_dict (Suc (n + length m + 2))
     (concat (map (\<lambda>p. [(''key'', plist_escape (fst p)), (''/key'', []), (''string'', plist_escape (snd p)), (''/string'', [])]) m)
        @ (''/dict'', []) # r) = Some (env_config m, r)"
    using Cons by (simp add: fuel(2))
  then show ?case
    unfolding fuel(1) by (simp add: unescape_plist_escape first)
qed (simp add: eval_nat_numeral)

lemma read_string_array:
  "read_array (n + length xs + 2) (concat (map (\<lambda>a. [(''string'', plist_escape a), (''/string'', [])]) xs) @ (''/array'', []) # r) =
     Some (map JStr xs, r)"
proof (induction xs)
  case (Cons a xs)
  have fuel: "n + length (a # xs) + 2 = Suc (Suc (n + length xs + 1))" "n + length xs + 2 = Suc (n + length xs + 1)" by simp_all
  from Cons show ?case unfolding fuel by (simp add: unescape_plist_escape)
qed (simp add: eval_nat_numeral)

lemma read_env_dict_le:
  assumes "sorted_wrt (<) (map fst m)" and "length m + 3 \<le> f"
  shows "read_dict f
     (concat (map (\<lambda>p. [(''key'', plist_escape (fst p)), (''/key'', []), (''string'', plist_escape (snd p)), (''/string'', [])]) m)
        @ (''/dict'', []) # r) = Some (env_config m, r)"
proof -
  from assms(2) obtain j where "f = length m + 3 + j" using le_Suc_ex by blast
  then have f: "f = j + length m + 3" by simp
  show ?thesis unfolding f by (rule read_env_dict [OF assms(1)])
qed

lemma read_string_array_le:
  assumes "length xs + 2 \<le> f"
  shows "read_array f (concat (map (\<lambda>a. [(''string'', plist_escape a), (''/string'', [])]) xs) @ (''/array'', []) # r) =
     Some (map JStr xs, r)"
proof -
  from assms obtain j where "f = length xs + 2 + j" using le_Suc_ex by blast
  then have f: "f = j + length xs + 2" by simp
  show ?thesis unfolding f by (rule read_string_array)
qed

text \<open>A bound given as successors, so that the reader unfolds without arithmetic.\<close>

lemma fuel_steps: "k + 4 \<le> f \<Longrightarrow> \<exists>a b c d. f = Suc a \<and> a = Suc b \<and> b = Suc c \<and> c = Suc d \<and> k \<le> d"
  by (intro exI [of _ "f - 1"] exI [of _ "f - 2"] exI [of _ "f - 3"] exI [of _ "f - 4"]) linarith

lemma dropWhile_head_tags: "dropWhile (\<lambda>p. fst p \<noteq> ''dict'') (head_tags @ (''dict'', x) # ts) = (''dict'', x) # ts"
  by (simp add: head_tags_def)

definition tail_tags :: "(string \<times> string) list" where
  "tail_tags = [(''key'', ''RunAtLoad''), (''/key'', []), (''true/'', []), (''key'', ''ThrottleInterval''), (''/key'', []),
     (''integer'', ''1''), (''/integer'', []), (''/dict'', []), (''/plist'', [])]"

lemma unescape_keys [simp]:
  "unescape ''RunAtLoad'' = ''RunAtLoad''" "unescape ''ThrottleInterval'' = ''ThrottleInterval''"
  "unescape ''EnvironmentVariables'' = ''EnvironmentVariables''" "unescape ''Label'' = ''Label''"
  "unescape ''ProgramArguments'' = ''ProgramArguments''" "unescape ''MachServices'' = ''MachServices''"
  by (simp_all add: unescape_plain)

lemma read_tail:
  assumes "4 \<le> n"
  shows "read_dict n tail_tags = Some ([(''RunAtLoad'', JBool True), (''ThrottleInterval'', JNum (PosInt 1))], [(''/plist'', [])])"
proof -
  from fuel_steps [of 0 n] assms obtain a b c d where "n = Suc a" "a = Suc b" "b = Suc c" "c = Suc d" by auto
  then show ?thesis by (simp add: tail_tags_def)
qed

lemma read_env:
  assumes "sorted_wrt (<) (map fst (unwrap_or env []))" and "length (unwrap_or env []) + 7 \<le> n"
  shows "read_dict n (env_tags env @ tail_tags) =
    Some ((case env of None \<Rightarrow> [] | Some m \<Rightarrow> if m = [] then [] else [(''EnvironmentVariables'', JObj (env_config m))]) @
      [(''RunAtLoad'', JBool True), (''ThrottleInterval'', JNum (PosInt 1))], [(''/plist'', [])])"
proof (cases "env = None \<or> env = Some []")
  case True
  then show ?thesis using read_tail [of n] assms(2) by (auto simp: env_tags_def)
next
  case False
  then obtain m where m: "env = Some m" "m \<noteq> []" by auto
  from fuel_steps [of "length m + 3" n] assms(2) m obtain a b c d where
    n: "n = Suc a" "a = Suc b" "b = Suc c" "c = Suc d" "length m + 3 \<le> d" by auto
  have t: "read_dict a tail_tags =
      Some ([(''RunAtLoad'', JBool True), (''ThrottleInterval'', JNum (PosInt 1))], [(''/plist'', [])])"
    using n by (intro read_tail) simp
  have "read_dict b (concat (map (\<lambda>p. [(''key'', plist_escape (fst p)), (''/key'', []), (''string'', plist_escape (snd p)), (''/string'', [])]) m)
      @ (''/dict'', []) # tail_tags) = Some (env_config m, tail_tags)"
    using assms(1) m n by (intro read_env_dict_le) auto
  with m t show ?thesis unfolding n(1) by (simp add: env_tags_def n(2) del: read_dict.simps(2)) (simp add: n(2))
qed

lemma written_plist_read:
  assumes "CHR ''<'' \<notin> set service" and "CHR ''&'' \<notin> set service" and "sorted_wrt (<) (map fst (unwrap_or env []))"
  shows "read_plist (build_launchd_plist service exe env knd) = Some (plist_config service exe env knd)"
proof -
  define args where "args = concat (map (\<lambda>a. [(''string'', plist_escape a), (''/string'', [])]) (plist_args service exe knd))"
  define ts where "ts = [(''key'', ''Label''), (''/key'', []), (''string'', service), (''/string'', []),
       (''key'', ''ProgramArguments''), (''/key'', []), (''array'', [])] @ args @
      [(''/array'', []), (''key'', ''MachServices''), (''/key'', []), (''dict'', []), (''key'', service), (''/key'', []),
       (''true/'', []), (''/dict'', [])] @ env_tags env @ tail_tags"
  have "xml_tags (build_launchd_plist service exe env knd) = head_tags @ (''dict'', []) # ts"
    using document_tags [OF assms(1), of exe env knd] by (simp add: ts_def args_def tail_tags_def)
  note tags = this
  define f where "f = 2 * length ((''dict'', [] :: string) # ts) + 2"
  have doc: "read_plist (build_launchd_plist service exe env knd) = map_option fst (read_value f ((''dict'', []) # ts))"
    unfolding read_plist_def tags Let_def dropWhile_head_tags f_def ..
  have "length (unwrap_or env []) + 16 \<le> f"
    by (cases env) (auto simp: f_def ts_def tail_tags_def env_tags_def length_concat comp_def sum_list_triv)
  from fuel_steps [of "length (unwrap_or env []) + 12" f] this obtain a b c d where
    n: "f = Suc a" "a = Suc b" "b = Suc c" "c = Suc d" and d: "length (unwrap_or env []) + 12 \<le> d" by auto
  from fuel_steps [of 8 d] d obtain d1 d2 d3 d4 where d': "d = Suc d1" "d1 = Suc d2" "d2 = Suc d3" "d3 = Suc d4" by auto
  have e: "read_dict d (env_tags env @ tail_tags) =
    Some ((case env of None \<Rightarrow> [] | Some m \<Rightarrow> if m = [] then [] else [(''EnvironmentVariables'', JObj (env_config m))]) @
      [(''RunAtLoad'', JBool True), (''ThrottleInterval'', JNum (PosInt 1))], [(''/plist'', [])])"
    using assms(3) d by (intro read_env) simp_all
  have ar: "read_array d (args @ (''/array'', []) # r) = Some (map JStr (plist_args service exe knd), r)" for r
    unfolding args_def using d by (intro read_string_array_le) (simp add: plist_args_def)
  have mach: "read_dict d1 ((''key'', service) # (''/key'', []) # (''true/'', []) # (''/dict'', []) # r) =
      Some ([(service, JBool True)], r)" for r
    unfolding d' using assms(2) by (simp add: unescape_plain)
  have mv: "read_value d ((''dict'', []) # (''key'', service) # (''/key'', []) # (''true/'', []) # (''/dict'', []) # r) =
      Some (JObj [(service, JBool True)], r)" for r
    unfolding d'(1) using mach by (simp add: d'(1))
  have av: "read_value c ((''array'', []) # args @ (''/array'', []) # r) = Some (JArr (map JStr (plist_args service exe knd)), r)" for r
    unfolding n(4) using ar by simp
  define cfg where "cfg = (case env of None \<Rightarrow> [] | Some m \<Rightarrow> if m = [] then [] else [(''EnvironmentVariables'', JObj (env_config m))]) @
      [(''RunAtLoad'', JBool True), (''ThrottleInterval'', JNum (PosInt 1))]"
  have s1: "read_dict c ((''key'', ''MachServices'') # (''/key'', []) # (''dict'', []) # (''key'', service) # (''/key'', []) #
      (''true/'', []) # (''/dict'', []) # env_tags env @ tail_tags) =
      Some (obj_insert ''MachServices'' (JObj [(service, JBool True)]) cfg, [(''/plist'', [])])"
    unfolding n(4) using mv e by (simp add: cfg_def)
  have s2: "read_dict b ((''key'', ''ProgramArguments'') # (''/key'', []) # (''array'', []) # args @ (''/array'', []) #
      (''key'', ''MachServices'') # (''/key'', []) # (''dict'', []) # (''key'', service) # (''/key'', []) #
      (''true/'', []) # (''/dict'', []) # env_tags env @ tail_tags) =
      Some (obj_insert ''ProgramArguments'' (JArr (map JStr (plist_args service exe knd)))
        (obj_insert ''MachServices'' (JObj [(service, JBool True)]) cfg), [(''/plist'', [])])"
    unfolding n(3) using av s1 by simp
  have "read_dict a ts = Some (obj_insert ''Label'' (JStr service) (obj_insert ''ProgramArguments'' (JArr (map JStr (plist_args service exe knd)))
        (obj_insert ''MachServices'' (JObj [(service, JBool True)]) cfg)), [(''/plist'', [])])"
    unfolding n(2) ts_def using s2 assms(2) by (simp add: n(3) unescape_plain)
  then have "read_value f ((''dict'', []) # ts) = Some (JObj (obj_insert ''Label'' (JStr service) (obj_insert ''ProgramArguments''
        (JArr (map JStr (plist_args service exe knd))) (obj_insert ''MachServices'' (JObj [(service, JBool True)]) cfg))), [(''/plist'', [])])"
    unfolding n(1) by simp
  then show ?thesis unfolding doc by (auto simp: cfg_def plist_config_def less_char_def split: option.splits)
qed



end
