(* ===== verification/Registry_Store.thy ===== *)
theory Registry_Store
  imports Runner_Registry
begin

text \<open>
  The registry file (controller/src/runner_manager.rs: \<open>runner_registry_path\<close>, \<open>load_registry\<close>,
  \<open>lock_registry\<close>, \<open>save_registry\<close>, \<open>random_id\<close>): the atomic replacement through a temporary file,
  on a disk whose calls may fail at any point and which remembers every state it was in. The
  transactions of \<open>Runner_Registry\<close> run on it: what is on disk is what their log calls durable.
\<close>

section \<open>The disk\<close>

text \<open>
  A file is named by the components of its path and holds bytes. \<open>answers\<close> is what the operating
  system answers to the calls to come, in order (an exhausted list answers success): a fault
  carries its message and how many bytes of a write reached the file. \<open>held\<close> are the files under
  an exclusive lock, \<open>special\<close> the names of directories, \<open>history\<close> the contents after every change,
  newest first.
\<close>

type_synonym file_id = "path_component list"
type_synonym contents = "file_id \<Rightarrow> string option"

datatype answer = Fine | Fault nat string

record disk =
  files :: contents
  answers :: "answer list"
  held :: "file_id set"
  special :: "file_id set"
  history :: "contents list"

definition next_answer :: "disk \<Rightarrow> answer \<times> disk" where
  "next_answer d = (case answers d of [] \<Rightarrow> (Fine, d) | a # as \<Rightarrow> (a, d\<lparr>answers := as\<rparr>))"

definition set_files :: "contents \<Rightarrow> disk \<Rightarrow> disk" where
  "set_files c d = d\<lparr>files := c, history := c # history d\<rparr>"

text \<open>A call that fails without an effect, or acts.\<close>

definition io_call :: "(disk \<Rightarrow> (string + unit) \<times> disk) \<Rightarrow> disk \<Rightarrow> (string + unit) \<times> disk" where
  "io_call act d = (case next_answer d of (Fault _ e, d') \<Rightarrow> (Inl e, d') | (Fine, d') \<Rightarrow> act d')"

definition create_dir_all :: "disk \<Rightarrow> (string + unit) \<times> disk" where
  "create_dir_all = io_call (\<lambda>d. (Inr (), d))"

definition create_new :: "file_id \<Rightarrow> disk \<Rightarrow> (string + unit) \<times> disk" where
  "create_new f = io_call (\<lambda>d.
     if files d f \<noteq> None \<or> f \<in> special d then (Inl ''File exists'', d)
     else (Inr (), set_files ((files d)(f := Some [])) d))"

definition write_all :: "file_id \<Rightarrow> string \<Rightarrow> disk \<Rightarrow> (string + unit) \<times> disk" where
  "write_all f bytes d =
     (case next_answer d of
        (Fault n e, d') \<Rightarrow>
          (Inl e, set_files ((files d')(f := map_option (\<lambda>c. c @ take n bytes) (files d' f))) d')
      | (Fine, d') \<Rightarrow> (Inr (), set_files ((files d')(f := map_option (\<lambda>c. c @ bytes) (files d' f))) d'))"

text \<open>
  A flush succeeds or fails and changes nothing a reader sees; what survives a power failure is not
  modelled. A rename replaces its target in one step; that the target is a directory or of another kind
  is among the failures the disk may answer with.
\<close>

definition sync_all :: "disk \<Rightarrow> (string + unit) \<times> disk" where
  "sync_all = io_call (\<lambda>d. (Inr (), d))"

definition rename_file :: "file_id \<Rightarrow> file_id \<Rightarrow> disk \<Rightarrow> (string + unit) \<times> disk" where
  "rename_file f g = io_call (\<lambda>d.
     case files d f of
       None \<Rightarrow> (Inl ''No such file or directory'', d)
     | Some c \<Rightarrow> (Inr (), set_files ((files d)(f := None, g := Some c)) d))"

definition remove_file :: "file_id \<Rightarrow> disk \<Rightarrow> (string + unit) \<times> disk" where
  "remove_file f = io_call (\<lambda>d.
     if files d f = None then (Inl ''No such file or directory'', d)
     else (Inr (), set_files ((files d)(f := None)) d))"

text \<open>The question-mark operator over the disk.\<close>

definition io_bind :: "('e + 'a) \<times> disk \<Rightarrow> ('a \<Rightarrow> disk \<Rightarrow> ('e + 'b) \<times> disk) \<Rightarrow> ('e + 'b) \<times> disk" where
  "io_bind r f = (case r of (Inl e, d) \<Rightarrow> (Inl e, d) | (Inr a, d) \<Rightarrow> f a d)"

text \<open>\<open>map_err(|e| format!("...: {e}"))\<close>.\<close>

definition io_context :: "string \<Rightarrow> (string + 'a) \<times> disk \<Rightarrow> (string + 'a) \<times> disk" where
  "io_context ctx r = (case r of (Inl e, d) \<Rightarrow> (Inl (ctx @ '': '' @ e), d) | (Inr a, d) \<Rightarrow> (Inr a, d))"

definition read_file :: "file_id \<Rightarrow> disk \<Rightarrow> (string + string) \<times> disk" where
  "read_file f d =
     (case next_answer d of
        (Fault _ e, d') \<Rightarrow> (Inl e, d')
      | (Fine, d') \<Rightarrow> (case files d' f of None \<Rightarrow> (Inl ''Is a directory'', d') | Some c \<Rightarrow> (Inr c, d')))"

section \<open>Paths and identifiers\<close>

text \<open>\<open>std::env::var\<close> is the function \<open>env\<close>, \<open>None\<close> for a variable that is unset or not UTF-8.\<close>

definition runner_registry_path :: "(string \<Rightarrow> string option) \<Rightarrow> string + path" where
  "runner_registry_path env =
     (case option_filter (\<lambda>p. p \<noteq> []) (env ''PW_RUNNER_REGISTRY'') of
        Some p \<Rightarrow> Inr p
      | None \<Rightarrow>
         (case env ''HOME'' of
            None \<Rightarrow> Inl ''HOME is not set; cannot locate runner registry''
          | Some home \<Rightarrow>
              Inr (path_join (path_join (path_join (path_join home ''Library'') ''Application Support'')
                ''PolicyWitness'') ''runners.json'')))"

definition hex_digit :: "nat \<Rightarrow> char" where
  "hex_digit n = (''0123456789abcdef'' ! (n mod 16))"

text \<open>The sixteen bytes read from \<open>/dev/urandom\<close>, or the failure to read them, are the argument.\<close>

definition random_id :: "string + nat list \<Rightarrow> string + string" where
  "random_id urandom =
     res_bind urandom (\<lambda>buf. Inr (''runner-'' @ concat (map (\<lambda>b. [hex_digit (b div 16), hex_digit b]) buf)))"

text \<open>
  \<open>with_file_name\<close>, by components, for a name without a slash: the last component is replaced, or
  the name appended to a path that has no file name.
\<close>

definition with_file_name :: "path \<Rightarrow> string \<Rightarrow> file_id" where
  "with_file_name p n =
     (let cs = path_components p in
      (if file_name_component cs = None then cs else butlast cs) @ [Normal n])"

text \<open>The text of the same path, as messages quote it.\<close>

definition sibling_text :: "path \<Rightarrow> string \<Rightarrow> path" where
  "sibling_text p n = path_join (unwrap_or (path_parent p) []) n"

text \<open>\<open>create_dir_all\<close> of a parent that is not empty, under the message \<open>ctx\<close>.\<close>

definition create_parent :: "(path \<Rightarrow> string) \<Rightarrow> path \<Rightarrow> disk \<Rightarrow> (string + unit) \<times> disk" where
  "create_parent ctx p d =
     (case option_filter (\<lambda>q. q \<noteq> []) (path_parent p) of
        None \<Rightarrow> (Inr (), d)
      | Some q \<Rightarrow> io_context (ctx q) (create_dir_all d))"

section \<open>Locking, saving and loading\<close>

definition lock_name :: "string \<Rightarrow> string" where "lock_name n = n @ ''.lock''"

text \<open>
  \<open>lock_registry\<close>: the lock file is opened, created empty when absent and never truncated, and locked
  unless another holder has it.
\<close>

definition lock_registry :: "path \<Rightarrow> disk \<Rightarrow> (string + file_id) \<times> disk" where
  "lock_registry p d0 =
     io_bind (create_parent (\<lambda>_. ''create registry directory'') p d0) (\<lambda>_ d1.
       case file_name_component (path_components p) of
         None \<Rightarrow> (Inl ''registry has no filename'', d1)
       | Some n \<Rightarrow>
           (let f = with_file_name p (lock_name n) in
            if f \<in> special d1 then (Inl ''registry lock is not a regular file'', d1)
            else
              io_bind (io_context (''open registry lock '' @ sibling_text p (lock_name n))
                (io_call (\<lambda>d. (Inr (),
                   if files d f = None then set_files ((files d)(f := Some [])) d else d)) d1)) (\<lambda>_ d2.
              io_bind (io_context ''runner registry busy or lock unavailable''
                (io_call (\<lambda>d.
                   if f \<in> held d then (Inl ''try_lock failed because the operation would block'', d)
                   else (Inr (), d\<lparr>held := insert f (held d)\<rparr>)) d2)) (\<lambda>_ d3.
              (Inr f, d3)))))"

definition temp_name :: "string \<Rightarrow> string \<Rightarrow> string" where
  "temp_name n rid = ''.'' @ n @ ''.'' @ rid @ ''.tmp''"

definition publish :: "file_id \<Rightarrow> file_id \<Rightarrow> string \<Rightarrow> disk \<Rightarrow> (string + unit) \<times> disk" where
  "publish temporary target bytes d0 =
     io_bind (create_new temporary d0) (\<lambda>_ d1.
     io_bind (write_all temporary bytes d1) (\<lambda>_ d2.
     io_bind (sync_all d2) (\<lambda>_ d3.
     rename_file temporary target d3)))"

text \<open>
  \<open>encode\<close> is \<open>serde_json::to_vec_pretty\<close> on a registry, \<open>urandom\<close> what the identifier is drawn from.
\<close>

definition save_registry ::
    "(runner_registry \<Rightarrow> string + string) \<Rightarrow> string + nat list \<Rightarrow> path \<Rightarrow> runner_registry \<Rightarrow> disk \<Rightarrow> (string + unit) \<times> disk" where
  "save_registry encode urandom p reg d0 =
     io_bind (create_parent (\<lambda>q. ''failed to create '' @ q) p d0) (\<lambda>_ d1.
       case encode reg of
         Inl e \<Rightarrow> (Inl (''failed to encode registry JSON: '' @ e), d1)
       | Inr bytes \<Rightarrow>
          (case file_name_component (path_components p) of
             None \<Rightarrow> (Inl ''registry has no filename'', d1)
           | Some n \<Rightarrow>
              (case random_id urandom of
                 Inl e \<Rightarrow> (Inl e, d1)
               | Inr rid \<Rightarrow>
                   (let temporary = with_file_name p (temp_name n rid);
                        (result, d2) = publish temporary (path_components p) bytes d1;
                        d3 = (case result of Inr _ \<Rightarrow> d2 | Inl _ \<Rightarrow> snd (remove_file temporary d2)) in
                    io_context (''failed to atomically save '' @ p) (result, d3)))))"

text \<open>\<open>decode\<close> is \<open>serde_json::from_str\<close> into a registry.\<close>

definition empty_registry :: runner_registry where
  "empty_registry = \<lparr>schema_version = RUNNER_REGISTRY_SCHEMA_VERSION, runners = [], pending = []\<rparr>"

definition load_registry_file ::
    "(string \<Rightarrow> string + runner_registry) \<Rightarrow> path \<Rightarrow> disk \<Rightarrow> (string + runner_registry) \<times> disk" where
  "load_registry_file decode p d0 =
     (let f = path_components p in
      if files d0 f = None \<and> f \<notin> special d0 then (Inr empty_registry, d0)
      else
        io_bind (io_context (''failed to read '' @ p) (read_file f d0)) (\<lambda>bytes d1.
        io_bind (io_context (''failed to parse '' @ p) (decode bytes, d1)) (\<lambda>reg d2.
          if schema_version reg \<noteq> RUNNER_REGISTRY_SCHEMA_VERSION
          then (Inl (''unsupported runner registry schema_version '' @ nat_digits (schema_version reg)
            @ '' (expected '' @ nat_digits RUNNER_REGISTRY_SCHEMA_VERSION @ '')''), d2)
          else (Inr reg, d2))))"

section \<open>Atomic replacement\<close>

text \<open>
  \<open>passes P d d'\<close>: from \<open>d\<close> on, every state up to \<open>d'\<close> satisfies \<open>P\<close>, the locks are as they were, and the
  newest state is the present one.
\<close>

definition since :: "disk \<Rightarrow> disk \<Rightarrow> contents list" where
  "since d d' = take (length (history d') - length (history d)) (history d')"

definition passes :: "(contents \<Rightarrow> bool) \<Rightarrow> disk \<Rightarrow> disk \<Rightarrow> bool" where
  "passes P d d' = (\<exists>new. history d' = new @ history d \<and> list_all P new \<and> held d' = held d \<and> special d' = special d \<and>
     files d' = (if new = [] then files d else hd new))"

lemma passes_refl [simp]: "passes P d d"
  unfolding passes_def by (rule exI [of _ "[]"]) simp

lemma passes_trans [trans]: "passes P d d' \<Longrightarrow> passes P d' d'' \<Longrightarrow> passes P d d''"
proof -
  assume "passes P d d'" "passes P d' d''"
  then obtain n m where "history d' = n @ history d" "list_all P n" "held d' = held d" "special d' = special d"
      "files d' = (if n = [] then files d else hd n)"
    and "history d'' = m @ history d'" "list_all P m" "held d'' = held d'" "special d'' = special d'"
      "files d'' = (if m = [] then files d' else hd m)" by (auto simp only: passes_def)
  then show "passes P d d''" unfolding passes_def by (intro exI [of _ "m @ n"]) simp
qed

lemma passes_since: "passes P d d' \<Longrightarrow> list_all P (since d d')"
  by (auto simp: passes_def since_def)

lemma passes_files: "passes P d d' \<Longrightarrow> P (files d) \<Longrightarrow> P (files d')"
  unfolding passes_def by (elim exE conjE) (simp add: list_all_iff)

lemma passes_mono: "passes P d d' \<Longrightarrow> (\<And>s. P s \<Longrightarrow> Q s) \<Longrightarrow> passes Q d d'"
proof -
  assume "passes P d d'" and PQ: "\<And>s. P s \<Longrightarrow> Q s"
  then obtain new where "history d' = new @ history d" "list_all P new" "held d' = held d" "special d' = special d"
      "files d' = (if new = [] then files d else hd new)" by (auto simp only: passes_def)
  with PQ show "passes Q d d'" unfolding passes_def by (intro exI [of _ new]) (simp add: list_all_iff)
qed

lemma passes_set_files: "P c \<Longrightarrow> passes P d (set_files c d)"
  unfolding passes_def by (rule exI [of _ "[c]"]) (simp add: set_files_def)

lemma set_files_simps [simp]:
  "files (set_files c d) = c" "held (set_files c d) = held d" "special (set_files c d) = special d"
  by (simp_all add: set_files_def)

lemma next_answer_passes: "next_answer d = (a, d') \<Longrightarrow> passes P d d' \<and> files d' = files d"
  unfolding passes_def by (rule conjI, rule exI [of _ "[]"]) (auto simp: next_answer_def split: list.splits)

lemma io_call_cases:
  assumes "io_call act d = (r, d')"
  obtains (fault) e where "r = Inl e" "passes (\<lambda>_. False) d d'" "files d' = files d"
  | (acted) d1 where "act d1 = (r, d')" "passes (\<lambda>_. False) d d1" "files d1 = files d"
  using assms next_answer_passes [of d _ _ "\<lambda>_. False"]
  by (auto simp: io_call_def split: prod.splits answer.splits)

text \<open>A call on the temporary file leaves every condition on the other files alone.\<close>

definition apart :: "file_id \<Rightarrow> (contents \<Rightarrow> bool) \<Rightarrow> bool" where
  "apart t P = (\<forall>s c. P s \<longrightarrow> P (s(t := c)))"

lemma silent: "passes (\<lambda>_. False) d d' \<Longrightarrow> passes P d d'"
  by (erule passes_mono) simp

lemma create_new_passes:
  assumes "apart t P" and "P (files d)" and "create_new t d = (r, d')"
  shows "passes P d d' \<and> P (files d') \<and> (r = Inr () \<longrightarrow> files d t = None \<and> files d' = (files d)(t := Some []))"
  using assms(3) [unfolded create_new_def]
proof (cases rule: io_call_cases)
  case (fault e) then show ?thesis using assms(2) by (auto intro: silent)
next
  case (acted d1)
  then have "passes P d d1" "P (files d1)" using assms(2) by (auto intro: silent)
  with acted assms(1) show ?thesis
    by (auto simp: apart_def split: if_splits intro: passes_trans [OF _ passes_set_files])
qed

lemma write_all_passes:
  assumes "apart t P" and "P (files d)" and "write_all t bytes d = (r, d')"
  shows "passes P d d' \<and> P (files d') \<and> (r = Inr () \<longrightarrow> files d t = Some [] \<longrightarrow> files d' = (files d)(t := Some bytes))"
proof -
  obtain a d1 where a: "next_answer d = (a, d1)" by fastforce
  then have "passes P d d1" "files d1 = files d" using next_answer_passes by blast+
  with a assms show ?thesis
    by (cases a) (auto simp: write_all_def apart_def intro: passes_trans [OF _ passes_set_files])
qed

lemma sync_all_passes: "sync_all d = (r, d') \<Longrightarrow> passes P d d' \<and> files d' = files d"
  by (auto simp: sync_all_def elim!: io_call_cases intro: silent)

lemma remove_file_passes:
  assumes "apart t P" and "P (files d)"
  shows "passes P d (snd (remove_file t d)) \<and> P (files (snd (remove_file t d)))"
proof -
  obtain r d' where r: "remove_file t d = (r, d')" by fastforce
  from r [unfolded remove_file_def] show ?thesis
  proof (cases rule: io_call_cases)
    case (fault e) then show ?thesis using assms(2) r by (auto intro: silent)
  next
    case (acted d1)
    then have "passes P d d1" "P (files d1)" using assms(2) by (auto intro: silent)
    with acted assms(1) r show ?thesis
      by (auto simp: apart_def split: if_splits intro: passes_trans [OF _ passes_set_files])
  qed
qed

lemma rename_file_passes:
  assumes "rename_file t g d = (r, d')" and "files d t = Some bytes" and "P (files d)"
    and "P ((files d)(t := None, g := Some bytes))"
  shows "passes P d d' \<and> files d' = (if r = Inr () then (files d)(t := None, g := Some bytes) else files d)"
  using assms(1) [unfolded rename_file_def]
proof (cases rule: io_call_cases)
  case (fault e) then show ?thesis by (auto intro: silent)
next
  case (acted d1)
  then have "passes P d d1" by (auto intro: silent)
  with acted assms show ?thesis by (auto intro: passes_trans [OF _ passes_set_files])
qed

definition only_touches :: "file_id set \<Rightarrow> contents \<Rightarrow> contents \<Rightarrow> bool" where
  "only_touches F s s' = (\<forall>f. f \<notin> F \<longrightarrow> s' f = s f)"

text \<open>What every moment of a replacement looks like: the old file or the whole new one.\<close>

definition old_or_new :: "file_id \<Rightarrow> file_id set \<Rightarrow> string option \<Rightarrow> contents \<Rightarrow> contents \<Rightarrow> bool" where
  "old_or_new g T new s0 s = ((s g = s0 g \<or> new \<noteq> None \<and> s g = new) \<and> only_touches (insert g T) s0 s)"

lemma apart_old_or_new: "t \<in> T \<Longrightarrow> t \<noteq> g \<Longrightarrow> apart t (old_or_new g T new s0)"
  by (auto simp: apart_def old_or_new_def only_touches_def)

lemma old_or_new_refl [simp]: "old_or_new g T new s s"
  by (simp add: old_or_new_def only_touches_def)

lemma apart_other: "t \<noteq> g \<Longrightarrow> apart t (\<lambda>s. s g = c)"
  by (simp add: apart_def)

lemma publish_passes:
  assumes run: "publish t g bytes d = (r, d')" and t: "t \<noteq> g" "t \<in> T"
  shows "passes (old_or_new g T (Some bytes) (files d)) d d' \<and>
    (if r = Inr () then files d' = (files d)(g := Some bytes) else files d' g = files d g)"
proof -
  let ?P = "old_or_new g T (Some bytes) (files d)" and ?O = "\<lambda>s. s g = files d g"
  note ap = apart_old_or_new [OF t(2, 1), of "Some bytes" "files d"] and ao = apart_other [OF t(1), of "files d g"]
  obtain r1 d1 where c: "create_new t d = (r1, d1)" by fastforce
  from create_new_passes [OF ap _ c] create_new_passes [OF ao _ c]
  have c1: "passes ?P d d1" "?P (files d1)" "?O (files d1)" "r1 = Inr () \<Longrightarrow> files d t = None \<and> files d1 = (files d)(t := Some [])"
    by auto
  show ?thesis
  proof (cases r1)
    case (Inl e) with c c1 run show ?thesis by (auto simp: publish_def io_bind_def)
  next
    case (Inr u)
    obtain r2 d2 where w: "write_all t bytes d1 = (r2, d2)" by fastforce
    from write_all_passes [OF ap c1(2) w] write_all_passes [OF ao c1(3) w] c1(1) c1(4) Inr
    have w1: "passes ?P d d2" "?P (files d2)" "?O (files d2)" "r2 = Inr () \<Longrightarrow> files d t = None \<and> files d2 = (files d)(t := Some bytes)"
      by (auto intro: passes_trans)
    obtain r3 d3 where s: "sync_all d2 = (r3, d3)" by fastforce
    from sync_all_passes [OF s] w1 have s1: "passes ?P d d3" "files d3 = files d2" by (auto intro: passes_trans)
    show ?thesis
    proof (cases "\<exists>u v. r2 = Inr u \<and> r3 = Inr v")
      case False
      with c w s Inr w1 s1 run show ?thesis by (auto simp: publish_def io_bind_def split: sum.splits)
    next
      case True
      with c w s Inr run have rn: "rename_file t g d3 = (r, d')" by (auto simp: publish_def io_bind_def)
      from True w1(4) s1 t have f: "files d t = None" "files d3 = (files d)(t := Some bytes)" by auto
      then have "(files d3)(t := None, g := Some bytes) = (files d)(g := Some bytes)"
        by (simp add: fun_upd_idem)
      moreover have "?P ((files d)(g := Some bytes))" by (simp add: old_or_new_def only_touches_def)
      ultimately have "passes ?P d3 d' \<and> files d' = (if r = Inr () then (files d)(g := Some bytes) else files d3)"
        using rename_file_passes [OF rn, of bytes ?P] w1(2) s1(2) fun_cong [OF f(2), of t] by simp
      then show ?thesis using s1 w1(3) passes_trans [of ?P d d3 d'] by auto
    qed
  qed
qed

text \<open>The temporary file of a save, if it comes to one; never the registry itself nor its lock.\<close>

definition temporaries :: "path \<Rightarrow> string + nat list \<Rightarrow> file_id set" where
  "temporaries p urandom =
     (case (file_name_component (path_components p), random_id urandom) of
        (Some n, Inr rid) \<Rightarrow> {with_file_name p (temp_name n rid)}
      | _ \<Rightarrow> {})"

lemma target_name:
  assumes "file_name_component (path_components p) = Some n"
  shows "path_components p = with_file_name p n"
proof -
  from assms have "path_components p \<noteq> []" "last (path_components p) = Normal n"
    by (auto simp: file_name_component_def split: if_splits path_component.splits)
  then show ?thesis
    using assms append_butlast_last_id [of "path_components p"] by (simp add: with_file_name_def)
qed

lemma with_file_name_inject [simp]: "with_file_name p n = with_file_name p m \<longleftrightarrow> n = m"
  by (simp add: with_file_name_def Let_def)

lemma temp_name_fresh: "temp_name n rid \<noteq> n" "temp_name n rid \<noteq> lock_name m" "lock_name n \<noteq> n"
proof -
  have "length (temp_name n rid) \<noteq> length n" by (simp add: temp_name_def)
  then show "temp_name n rid \<noteq> n" by metis
  have "last (temp_name n rid) \<noteq> last (lock_name m)" by (simp add: temp_name_def lock_name_def)
  then show "temp_name n rid \<noteq> lock_name m" by metis
qed (simp add: lock_name_def)

lemma create_parent_passes: "create_parent ctx p d = (r, d') \<Longrightarrow> passes P d d' \<and> files d' = files d"
  by (auto simp: create_parent_def create_dir_all_def io_context_def split: option.splits prod.splits sum.splits
      elim!: io_call_cases intro: silent)

lemma save_registry_passes:
  assumes run: "save_registry encode urandom p reg d = (r, d')"
  shows "passes (old_or_new (path_components p) (temporaries p urandom) (res_ok (encode reg)) (files d)) d d' \<and>
    (if succeeded r then res_ok (encode reg) \<noteq> None \<and>
       files d' = (files d)(path_components p := res_ok (encode reg))
     else files d' (path_components p) = files d (path_components p))"
proof -
  let ?g = "path_components p" and ?T = "temporaries p urandom"
  let ?P = "old_or_new ?g ?T (res_ok (encode reg)) (files d)"
  obtain r1 d1 where c: "create_parent (\<lambda>q. ''failed to create '' @ q) p d = (r1, d1)" by fastforce
  from create_parent_passes [OF this] have d1: "passes ?P d d1" "files d1 = files d" by auto
  show ?thesis
  proof (cases "\<exists>u bytes n rid. r1 = Inr u \<and> encode reg = Inr bytes \<and> file_name_component ?g = Some n \<and> random_id urandom = Inr rid")
    case False
    with run c d1 show ?thesis
      by (auto simp: save_registry_def io_bind_def split: sum.splits option.splits)
  next
    case True
    then obtain u bytes n rid where e: "r1 = Inr u" "encode reg = Inr bytes" "file_name_component ?g = Some n"
      "random_id urandom = Inr rid" by blast
    let ?t = "with_file_name p (temp_name n rid)"
    obtain r2 d2 where pub: "publish ?t ?g bytes d1 = (r2, d2)" by fastforce
    have T: "?T = {?t}" by (simp add: temporaries_def e)
    have t: "?t \<noteq> ?g" using temp_name_fresh(1) [of n rid] target_name [OF e(3)] by (metis with_file_name_inject)
    from publish_passes [OF pub t, of ?T] T d1 e
    have p2: "passes ?P d d2" "if r2 = Inr () then files d2 = (files d)(?g := Some bytes) else files d2 ?g = files d ?g"
      by (auto intro: passes_trans)
    have "?P (files d2)" by (rule passes_files [OF p2(1)]) simp
    then have rm: "passes ?P d2 (snd (remove_file ?t d2))"
      using remove_file_passes [OF apart_old_or_new [of ?t ?T ?g]] T t by simp
    have rg: "r2 \<noteq> Inr () \<Longrightarrow> files (snd (remove_file ?t d2)) ?g = files d ?g"
      using remove_file_passes [OF apart_other [OF t, of "files d ?g"], of d2] p2(2) by simp
    have "save_registry encode urandom p reg d = io_context (''failed to atomically save '' @ p)
        (r2, case r2 of Inr _ \<Rightarrow> d2 | Inl _ \<Rightarrow> snd (remove_file ?t d2))"
      using c e pub by (simp add: save_registry_def io_bind_def)
    with run p2 rm rg e show ?thesis
      by (cases r2) (auto simp: io_context_def intro: passes_trans)
  qed
qed

text \<open>
  C10: the registry file is replaced atomically. Whatever the operating system answers to the calls
  of a save, at every moment the registry file is the one before the save or the complete new one,
  and no other file than the save's own temporary is touched; the lock stays held. A save that
  reports success has replaced exactly the registry file and left no temporary; one that reports an
  error has left it unchanged.
\<close>

theorem save_registry_atomic:
  "case save_registry encode urandom p reg d of (r, d') \<Rightarrow>
     list_all (old_or_new (path_components p) (temporaries p urandom) (res_ok (encode reg)) (files d)) (since d d') \<and>
     held d' = held d \<and>
     (if succeeded r
      then (\<exists>bytes. encode reg = Inr bytes \<and> files d' = (files d)(path_components p := Some bytes))
      else files d' (path_components p) = files d (path_components p))"
proof -
  obtain r d' where run: "save_registry encode urandom p reg d = (r, d')" by fastforce
  from save_registry_passes [OF run] show ?thesis
    by (cases "encode reg") (auto simp: run passes_since passes_def)
qed

section \<open>The transactions on the disk\<close>

text \<open>
  What a condition on the world needs to survive a registry transaction: that every operation of
  the system keeps it.
\<close>

locale cleanup_invariant =
  fixes sys :: "'w cleanup_system" and P :: "'w \<Rightarrow> bool"
  assumes keeps_location: "P w \<Longrightarrow> P (snd (sys_location sys r w))"
    and keeps_service: "P w \<Longrightarrow> P (snd (sys_service sys dmn n w))"
    and keeps_plist: "P w \<Longrightarrow> P (snd (sys_plist sys f w))"
    and keeps_bootout: "P w \<Longrightarrow> P (snd (sys_bootout sys dmn n w))"
    and keeps_remove_plist: "P w \<Longrightarrow> P (snd (sys_remove_plist sys f w))"
    and keeps_wait: "P w \<Longrightarrow> P (sys_wait sys t w)"
    and keeps_save: "P w \<Longrightarrow> P (snd (sys_save sys reg w))"
    and keeps_now: "P w \<Longrightarrow> P (snd (sys_now sys w))"
begin

lemma keeps_service_of: "sys_service sys dmn n w = (x, w') \<Longrightarrow> P w \<Longrightarrow> P w'"
  and keeps_plist_of: "sys_plist sys f w = (y, w') \<Longrightarrow> P w \<Longrightarrow> P w'"
  and keeps_location_of: "sys_location sys r w = (z, w') \<Longrightarrow> P w \<Longrightarrow> P w'"
  and keeps_bootout_of: "sys_bootout sys dmn n w = (u, w') \<Longrightarrow> P w \<Longrightarrow> P w'"
  and keeps_remove_plist_of: "sys_remove_plist sys f w = (u, w') \<Longrightarrow> P w \<Longrightarrow> P w'"
  and keeps_save_of: "sys_save sys reg w = (u, w') \<Longrightarrow> P w \<Longrightarrow> P w'"
  and keeps_now_of: "sys_now sys w = (m, w') \<Longrightarrow> P w \<Longrightarrow> P w'"
  using keeps_service [of w dmn n] keeps_plist [of w f] keeps_location [of w r] keeps_bootout [of w dmn n]
    keeps_remove_plist [of w f] keeps_save [of w reg] keeps_now [of w] by simp_all

lemma keeps_teardown: "teardown_loop sys dmn n b obs k t w = (obs', k', t', w') \<Longrightarrow> P w \<Longrightarrow> P w'"
proof (induction "TEARDOWN_WAIT_MS - t" arbitrary: obs k t w rule: less_induct)
  case less
  show ?case
  proof (cases "b \<and> so_presence obs = Present \<and> t < TEARDOWN_WAIT_MS")
    case False with less.prems show ?thesis by (subst (asm) teardown_loop.simps) (auto split: if_splits)
  next
    case True
    obtain o1 w1 where s: "sys_service sys dmn n (sys_wait sys TEARDOWN_POLL_INTERVAL_MS w) = (o1, w1)" by fastforce
    with True less.prems have "teardown_loop sys dmn n b o1 (k + 1) (t + TEARDOWN_POLL_INTERVAL_MS) w1 = (obs', k', t', w')"
      by (subst (asm) teardown_loop.simps) simp
    moreover have "P w1" using keeps_service_of [OF s] keeps_wait less.prems(2) by blast
    moreover have "TEARDOWN_WAIT_MS - (t + TEARDOWN_POLL_INTERVAL_MS) < TEARDOWN_WAIT_MS - t"
      using True by (auto simp: TEARDOWN_POLL_INTERVAL_MS_def)
    ultimately show ?thesis using less.hyps by blast
  qed
qed

lemma keeps_after_bootout: "service_after_bootout sys dmn n b w = (obs, rec, w') \<Longrightarrow> P w \<Longrightarrow> P w'"
  by (auto simp: service_after_bootout_def Let_def split: prod.splits dest: keeps_service_of intro: keeps_teardown)

lemma keeps_bootout_stage: "bootout_stage sys r dmn skip s w = (x, y, w') \<Longrightarrow> P w \<Longrightarrow> P w'"
  by (auto simp: bootout_stage_def split: if_splits prod.splits sum.splits dest: keeps_bootout_of)

lemma keeps_plist_stage: "plist_stage sys r f pob w = (x, y, w') \<Longrightarrow> P w \<Longrightarrow> P w'"
  by (auto simp: plist_stage_def Let_def split: if_splits prod.splits sum.splits
      dest!: keeps_plist_of keeps_remove_plist_of)

lemma keeps_cleanup_stage: "cleanup_stage sys r skip f dmn w = (out, w') \<Longrightarrow> P w \<Longrightarrow> P w'"
  by (auto simp: cleanup_stage_def Let_def split: prod.splits
      dest!: keeps_service_of keeps_plist_of keeps_bootout_stage keeps_plist_stage keeps_after_bootout)

lemma keeps_cleanup_pending: "cleanup_pending sys reg i skip w = (rep, reg', w') \<Longrightarrow> P w \<Longrightarrow> P w'"
  by (auto simp: cleanup_pending_def Let_def split: prod.splits sum.splits
      dest!: keeps_location_of keeps_cleanup_stage keeps_save_of)

lemma keeps_remove_record: "remove_record sys reg rid service skip w = (res, reg', w') \<Longrightarrow> P w \<Longrightarrow> P w'"
  by (auto simp: remove_record_def Let_def split: prod.splits sum.splits option.splits
      dest!: keeps_now_of keeps_save_of keeps_cleanup_pending)

lemma keeps_install_record:
  "install_record sys act reg r w = (res, reg', w') \<Longrightarrow> (\<And>w. P w \<Longrightarrow> P (snd (act w))) \<Longrightarrow> P w \<Longrightarrow> P w'"
  by (auto simp: install_record_def Let_def split: prod.splits sum.splits dest!: keeps_save_of)
    (metis keeps_save_of snd_conv)+

end

text \<open>
  A system whose registry saves go to the disk; its other operations (launchd, the property list,
  the clock) act on a world of their own. \<open>urandom\<close> gives the bytes drawn at a save.
\<close>

definition beside :: "('w \<Rightarrow> 'a \<times> 'w) \<Rightarrow> 'w \<times> disk \<Rightarrow> 'a \<times> 'w \<times> disk" where
  "beside f wd = (case f (fst wd) of (x, w') \<Rightarrow> (x, w', snd wd))"

definition with_store ::
    "(runner_registry \<Rightarrow> string + string) \<Rightarrow> (disk \<Rightarrow> string + nat list) \<Rightarrow> path \<Rightarrow> 'w cleanup_system
      \<Rightarrow> ('w \<times> disk) cleanup_system" where
  "with_store encode urandom p sys = \<lparr>
     sys_location = (\<lambda>r. beside (sys_location sys r)),
     sys_service = (\<lambda>d n. beside (sys_service sys d n)),
     sys_plist = (\<lambda>f. beside (sys_plist sys f)),
     sys_bootout = (\<lambda>d n. beside (sys_bootout sys d n)),
     sys_remove_plist = (\<lambda>f. beside (sys_remove_plist sys f)),
     sys_wait = (\<lambda>t (w, d). (sys_wait sys t w, d)),
     sys_save = (\<lambda>reg (w, d). case save_registry encode (urandom d) p reg d of (r, d') \<Rightarrow> (r, w, d')),
     sys_now = beside (sys_now sys)\<rparr>"

text \<open>The registry file a log leaves: the text of its last successful save.\<close>

fun stored :: "(runner_registry \<Rightarrow> string + string) \<Rightarrow> string option \<Rightarrow> event list \<Rightarrow> string option" where
  "stored encode old [] = old"
| "stored encode old (EvSave reg ok # l) = (if ok then res_ok (encode reg) else stored encode old l)"
| "stored encode old (e # l) = stored encode old l"

fun save_succeeded :: "event \<Rightarrow> bool" where
  "save_succeeded (EvSave reg ok) = ok"
| "save_succeeded e = False"

lemma stored_durable:
  "stored encode old l = (if list_ex save_succeeded l then res_ok (encode (durable reg l)) else old)"
  by (induction encode old l rule: stored.induct) auto

definition saved_texts :: "(runner_registry \<Rightarrow> string + string) \<Rightarrow> event list \<Rightarrow> string set" where
  "saved_texts encode l = {bytes. \<exists>reg ok. EvSave reg ok \<in> set l \<and> encode reg = Inr bytes}"

text \<open>\<open>moments\<close>: the registry file after each change since \<open>d0\<close> was the first one or a saved text.\<close>

definition moments :: "string option \<Rightarrow> string set \<Rightarrow> file_id \<Rightarrow> disk \<Rightarrow> disk \<Rightarrow> bool" where
  "moments old texts g d0 d = passes (\<lambda>s. s g \<in> insert old (Some ` texts)) d0 d"

definition on_disk ::
    "(runner_registry \<Rightarrow> string + string) \<Rightarrow> path \<Rightarrow> disk \<Rightarrow> ('w \<times> disk) \<times> event list \<Rightarrow> bool" where
  "on_disk encode p d0 st = (case st of ((w, d), l) \<Rightarrow>
     files d (path_components p) = stored encode (files d0 (path_components p)) l \<and>
     stored encode (files d0 (path_components p)) l \<in> insert (files d0 (path_components p)) (Some ` saved_texts encode l) \<and>
     moments (files d0 (path_components p)) (saved_texts encode l) (path_components p) d0 d)"

lemma saved_texts_Cons [simp]:
  "\<not> is_save e \<Longrightarrow> saved_texts encode (e # l) = saved_texts encode l"
  "saved_texts encode (EvSave reg ok # l) = set_option (res_ok (encode reg)) \<union> saved_texts encode l"
  by (cases e; auto simp: saved_texts_def) (cases "encode reg"; auto simp: saved_texts_def)

lemma stored_Cons [simp]: "\<not> is_save e \<Longrightarrow> stored encode old (e # l) = stored encode old l"
  by (cases e) auto

lemma on_disk_quiet: "\<not> is_save e \<Longrightarrow> on_disk encode p d0 ((w, d), l) \<Longrightarrow> on_disk encode p d0 ((w', d), e # l)"
  by (simp add: on_disk_def)

lemma on_disk_save:
  assumes "on_disk encode p d0 ((w, d), l)" and run: "save_registry encode u p reg d = (r, d')"
  shows "on_disk encode p d0 ((w', d'), EvSave reg (succeeded r) # l)"
proof -
  let ?g = "path_components p"
  let ?old = "files d0 ?g"
  let ?Q = "\<lambda>s. s ?g \<in> insert ?old (Some ` (set_option (res_ok (encode reg)) \<union> saved_texts encode l))"
  from assms(1) have f: "files d ?g = stored encode ?old l" "files d ?g \<in> insert ?old (Some ` saved_texts encode l)"
    and m: "passes ?Q d0 d"
    by (auto simp: on_disk_def moments_def elim!: passes_mono)
  from save_registry_passes [OF run] have "passes ?Q d d'"
    by (auto elim!: passes_mono simp: old_or_new_def) (use f in auto)+
  with m have "passes ?Q d0 d'" by (rule passes_trans)
  with save_registry_passes [OF run] f show ?thesis
    by (cases "succeeded r") (auto simp: on_disk_def moments_def)
qed

interpretation disk_log: cleanup_invariant "logged (with_store encode urandom p sys)" "on_disk encode p d0"
  for encode urandom p sys d0
  by unfold_locales
    (auto simp: logged_def with_store_def beside_def Let_def split: prod.splits
      intro: on_disk_quiet on_disk_save simp del: not_None_eq)

text \<open>
  C9: the registry on disk refines the durable registry of the transaction log. When a removal runs
  with its saves going to the file, then whatever the disk and the system answer, the registry file
  at the end is the text of the log's durable registry, the last one whose save succeeded (or the file
  as it was when there is none), and at every moment in between it was a complete text: the initial one, or one the
  removal had handed to a save.
\<close>

theorem remove_record_on_disk:
  "case remove_record (logged (with_store encode urandom p sys)) reg rid service skip ((w, d), []) of
     (res, reg', (w', d'), l) \<Rightarrow>
       files d' (path_components p) =
         (if list_ex save_succeeded l then res_ok (encode (durable reg l)) else files d (path_components p)) \<and>
       list_all (\<lambda>s. s (path_components p) \<in> insert (files d (path_components p)) (Some ` saved_texts encode l)) (since d d')"
proof -
  obtain res reg' w' d' l where run:
    "remove_record (logged (with_store encode urandom p sys)) reg rid service skip ((w, d), []) = (res, reg', (w', d'), l)"
    by (metis prod_cases5 prod.collapse)
  have "on_disk encode p d ((w, d), [])" by (simp add: on_disk_def moments_def)
  from disk_log.keeps_remove_record [OF run this] show ?thesis
    by (simp add: run on_disk_def moments_def passes_since stored_durable [of encode _ l reg])
qed

section \<open>The lock, and reading back\<close>

text \<open>Only one holder at a time: a lock is obtained only on a file nobody holds, and is then held.\<close>

lemma next_answer_held: "next_answer d = (a, d') \<Longrightarrow> held d' = held d \<and> special d' = special d"
  by (auto simp: next_answer_def split: list.splits)

lemma io_call_held: "(\<And>d r d'. act d = (r, d') \<Longrightarrow> held d' = held d) \<Longrightarrow> io_call act d = (r, d') \<Longrightarrow> held d' = held d"
  by (auto simp: io_call_def split: prod.splits answer.splits dest: next_answer_held)

lemma create_parent_held: "create_parent ctx p d = (r, d') \<Longrightarrow> held d' = held d"
  using create_parent_passes [of ctx p d r d' "\<lambda>_. True"] by (auto simp: passes_def)

lemma lock_registry_exclusive:
  assumes "lock_registry p d = (Inr f, d')"
  shows "f \<notin> held d \<and> held d' = insert f (held d) \<and> (\<exists>n. f = with_file_name p (lock_name n))"
proof -
  let ?open = "\<lambda>f d. (Inr () :: string + unit, if files d f = None then set_files ((files d)(f := Some [])) d else d)"
  let ?lock = "\<lambda>f d :: disk. if f \<in> held d then (Inl ''try_lock failed because the operation would block'', d)
    else (Inr (), d\<lparr>held := insert f (held d)\<rparr>)"
  obtain r1 d1 where c: "create_parent (\<lambda>_. ''create registry directory'') p d = (r1, d1)" by fastforce
  from assms c obtain n where n: "f = with_file_name p (lock_name n)"
      "io_bind (io_context (''open registry lock '' @ sibling_text p (lock_name n)) (io_call (?open f) d1)) (\<lambda>_ d2.
       io_bind (io_context ''runner registry busy or lock unavailable'' (io_call (?lock f) d2)) (\<lambda>_ d3. (Inr f, d3))) = (Inr f, d')"
    by (auto simp: lock_registry_def io_bind_def Let_def split: sum.splits option.splits if_splits prod.splits)
  obtain r2 d2 where o: "io_call (?open f) d1 = (r2, d2)" by fastforce
  obtain r3 d3 where l: "io_call (?lock f) d2 = (r3, d3)" by fastforce
  from n(2) o l have ok: "r3 = Inr ()" "d' = d3"
    by (auto simp: io_bind_def io_context_def split: sum.splits)
  have "held d2 = held d1" by (rule io_call_held [OF _ o]) auto
  with create_parent_held [OF c] have "held d2 = held d" by simp
  with l ok n(1) show ?thesis
    by (auto simp: io_call_def dest: next_answer_held split: prod.splits answer.splits if_splits)
qed

text \<open>What a successful save wrote, the next load reads.\<close>

lemma load_after_save:
  assumes "save_registry encode urandom p reg d = (Inr (), d')" and "\<And>bytes. encode reg = Inr bytes \<Longrightarrow> decode bytes = Inr reg"
    and "schema_version reg = RUNNER_REGISTRY_SCHEMA_VERSION" and "answers d' = []"
  shows "load_registry_file decode p d' = (Inr reg, d')"
proof -
  from save_registry_passes [OF assms(1)] obtain bytes where
    "encode reg = Inr bytes" "files d' (path_components p) = Some bytes" by (cases "encode reg") auto
  then show ?thesis
    using assms(2-4) by (simp add: load_registry_file_def Let_def read_file_def next_answer_def io_bind_def io_context_def)
qed

end
