(* ===== verification/Delivery.thy ===== *)
theory Delivery
  imports Json
begin

text \<open>
  The controller's child-process plumbing (controller/src/utils.rs): the request writer, the
  retention of a child's output and its parsing. The pipe is a function over an arbitrary
  world; the lossy UTF-8 conversion and the JSON parser are parameters. The writer retries an
  interrupted write for as long as it is interrupted, so its loop is a partial function.
\<close>

section \<open>Writing the request\<close>

datatype write_result = Wrote nat | Interrupted | WriteError string

type_synonym 'w writer = "string \<Rightarrow> 'w \<Rightarrow> write_result \<times> 'w"

record request_delivery =
  bytes_written :: nat
  d_error :: "string option"

definition CHUNK :: nat where "CHUNK = 64 * 1024"

partial_function (option) write_loop ::
    "'w writer \<Rightarrow> ('w \<Rightarrow> string option \<times> 'w) \<Rightarrow> string \<Rightarrow> nat \<Rightarrow> 'w \<Rightarrow> (request_delivery \<times> 'w) option" where
  "write_loop write flush input written w =
     (if written < length input then
        let remaining = take (min (length input) (written + CHUNK) - written) (drop written input) in
        case write remaining w of
          (Wrote n, w') \<Rightarrow>
            if n = 0 then
              Some (\<lparr>bytes_written = written,
                d_error = Some (''request delivery failed after '' @ nat_digits written @ '' bytes: write zero'')\<rparr>, w')
            else write_loop write flush input (written + n) w'
        | (Interrupted, w') \<Rightarrow> write_loop write flush input written w'
        | (WriteError e, w') \<Rightarrow>
            Some (\<lparr>bytes_written = written,
              d_error = Some (''request delivery failed after '' @ nat_digits written @ '' bytes: '' @ e)\<rparr>, w')
      else
        case flush w of
          (err, w') \<Rightarrow> Some (\<lparr>bytes_written = written,
             d_error = map_option (\<lambda>e. ''request delivery flush failed after '' @ nat_digits written @ '' bytes: '' @ e) err\<rparr>, w'))"

declare write_loop.simps [simp del]

definition write_request ::
    "'w writer \<Rightarrow> ('w \<Rightarrow> string option \<times> 'w) \<Rightarrow> string \<Rightarrow> 'w \<Rightarrow> (request_delivery \<times> 'w) option" where
  "write_request write flush input w = write_loop write flush input 0 w"

text \<open>What \<open>Write::write\<close> documents: the count never exceeds the buffer.\<close>

definition sound_writer :: "'w writer \<Rightarrow> bool" where
  "sound_writer write = (\<forall>buf w. case write buf w of (Wrote n, w') \<Rightarrow> n \<le> length buf | _ \<Rightarrow> True)"

text \<open>
  The pipe's view: every answer it gave, the bytes it accepted, and what each flush returned. An answer
  stops the writer when it is an error or accepts nothing; a short write or an interruption does not.
\<close>

record 'w pipe =
  pipe_world :: 'w
  pipe_got :: string
  pipe_answers :: "write_result list"
  pipe_flushes :: "string option list"

definition fresh_pipe :: "'w \<Rightarrow> 'w pipe" where
  "fresh_pipe w = \<lparr>pipe_world = w, pipe_got = [], pipe_answers = [], pipe_flushes = []\<rparr>"

fun accepted_bytes :: "string \<Rightarrow> write_result \<Rightarrow> string" where
  "accepted_bytes buf (Wrote n) = take n buf"
| "accepted_bytes buf _ = []"

fun stop_cause :: "write_result \<Rightarrow> string option" where
  "stop_cause (Wrote n) = (if n = 0 then Some ''write zero'' else None)"
| "stop_cause Interrupted = None"
| "stop_cause (WriteError e) = Some e"

definition recorded :: "'w writer \<Rightarrow> 'w pipe writer" where
  "recorded write buf s = (case write buf (pipe_world s) of (r, w') \<Rightarrow>
     (r, s\<lparr>pipe_world := w', pipe_got := pipe_got s @ accepted_bytes buf r, pipe_answers := pipe_answers s @ [r]\<rparr>))"

definition recorded_flush :: "('w \<Rightarrow> string option \<times> 'w) \<Rightarrow> 'w pipe \<Rightarrow> string option \<times> 'w pipe" where
  "recorded_flush flush s = (case flush (pipe_world s) of (e, w') \<Rightarrow>
     (e, s\<lparr>pipe_world := w', pipe_flushes := pipe_flushes s @ [e]\<rparr>))"

section \<open>Retaining and parsing output\<close>

definition RUNNER_CAPTURE_BYTES :: nat where "RUNNER_CAPTURE_BYTES = 272 * 1024 * 1024"
definition HELPER_CAPTURE_BYTES :: nat where "HELPER_CAPTURE_BYTES = 8 * 1024 * 1024"

definition truncate_output :: "(string \<Rightarrow> string) \<Rightarrow> string \<Rightarrow> nat \<Rightarrow> string \<times> bool" where
  "truncate_output lossy bytes limit =
     (if length bytes \<le> limit then (lossy bytes, False) else (lossy (take limit bytes), True))"

record json_output_capture =
  stdout_parse_error :: "string option"
  stdout_truncated :: bool
  stdout_capture_error :: "string option"
  stdout_bytes_received :: "nat option"
  stdout_bytes_retained :: "nat option"
  stderr_bytes_received :: "nat option"
  stderr_bytes_retained :: "nat option"
  capture_limit_bytes :: nat
  stdout_raw :: "string option"
  stderr_text :: string
  stderr_truncated :: bool

definition capture_unavailable :: "string \<Rightarrow> nat \<Rightarrow> json_output_capture" where
  "capture_unavailable note limit =
     \<lparr>stdout_parse_error = None, stdout_truncated = False, stdout_capture_error = None,
      stdout_bytes_received = None, stdout_bytes_retained = None, stderr_bytes_received = None,
      stderr_bytes_retained = None, capture_limit_bytes = limit, stdout_raw = None, stderr_text = note,
      stderr_truncated = False\<rparr>"

record process_output =
  out_stdout :: string
  out_stderr :: string
  out_code :: "int option"

definition capture_json_output ::
    "(string \<Rightarrow> string) \<Rightarrow> (string \<Rightarrow> string + json) \<Rightarrow> process_output \<Rightarrow> string \<Rightarrow> nat
      \<Rightarrow> json_output_capture \<times> json option" where
  "capture_json_output lossy from_slice out producer limit =
     (let (stdout, out_trunc) = truncate_output lossy (out_stdout out) limit;
          (stderr, err_trunc) = truncate_output lossy (out_stderr out) limit;
          received = length (out_stdout out);
          capture_error = (if out_trunc then Some (''controller truncated '' @ producer @ '' stdout: received ''
             @ nat_digits received @ '' bytes, retained '' @ nat_digits (min received limit) @ '' bytes (cap ''
             @ nat_digits limit @ '')'') else None);
          result = (if \<not> out_trunc \<and> out_stdout out \<noteq> [] then Some (from_slice (out_stdout out)) else None);
          parsed = Option.bind result res_ok;
          parse_error = (case result of Some (Inl e) \<Rightarrow> Some e | _ \<Rightarrow> None) in
      (\<lparr>stdout_parse_error = parse_error, stdout_truncated = out_trunc, stdout_capture_error = capture_error,
        stdout_bytes_received = Some received, stdout_bytes_retained = Some (min received limit),
        stderr_bytes_received = Some (length (out_stderr out)),
        stderr_bytes_retained = Some (min (length (out_stderr out)) limit),
        capture_limit_bytes = limit,
        stdout_raw = (if parse_error \<noteq> None \<or> out_trunc then Some stdout else None),
        stderr_text = stderr, stderr_truncated = err_trunc\<rparr>, parsed))"

lemma capture_json_output_parts:
  assumes "capture_json_output lossy from_slice out producer limit = (c, v)"
  shows "limit < length (out_stdout out) \<Longrightarrow> stdout_capture_error c \<noteq> None \<and> v = None"
    and "out_stdout out = [] \<Longrightarrow> stdout_capture_error c = None \<and> stdout_parse_error c = None \<and> v = None"
    and "out_stdout out \<noteq> [] \<Longrightarrow> length (out_stdout out) \<le> limit \<Longrightarrow> stdout_capture_error c = None \<and>
      (case from_slice (out_stdout out) of
         Inl e \<Rightarrow> stdout_parse_error c = Some e \<and> v = None
       | Inr j \<Rightarrow> stdout_parse_error c = None \<and> v = Some j)"
  using assms by (auto simp: capture_json_output_def truncate_output_def Let_def res_ok_def
      split: if_splits sum.splits prod.splits)

lemma capture_parsed:
  "capture_json_output lossy from_slice out producer limit = (c, Some v) \<Longrightarrow>
     from_slice (out_stdout out) = Inr v \<and> length (out_stdout out) \<le> limit \<and>
     stdout_parse_error c = None \<and> stdout_capture_error c = None \<and> \<not> stdout_truncated c"
  by (auto simp: capture_json_output_def truncate_output_def Let_def res_ok_def
      split: if_splits sum.splits option.splits)

section \<open>Properties\<close>

text \<open>
  The loop keeps the accepted bytes equal to the prefix it counts, with no stopping answer and no flush
  so far; when it returns, the delivery reports what the pipe saw.
\<close>

definition under_way :: "string \<Rightarrow> nat \<Rightarrow> 'w pipe \<Rightarrow> bool" where
  "under_way input k s =
     (k \<le> length input \<and> pipe_got s = take k input \<and> (\<forall>a \<in> set (pipe_answers s). stop_cause a = None) \<and>
      pipe_flushes s = [])"

definition delivered :: "string \<Rightarrow> request_delivery \<times> 'w pipe \<Rightarrow> bool" where
  "delivered input y = (case y of (d, s) \<Rightarrow>
     pipe_got s = take (bytes_written d) input \<and> bytes_written d \<le> length input \<and>
     (case d_error d of
        None \<Rightarrow> pipe_got s = input \<and> (\<forall>a \<in> set (pipe_answers s). stop_cause a = None) \<and> pipe_flushes s = [None]
      | Some e \<Rightarrow>
          (\<exists>as a cause. pipe_answers s = as @ [a] \<and> (\<forall>a \<in> set as. stop_cause a = None) \<and> stop_cause a = Some cause \<and>
             pipe_flushes s = [] \<and> bytes_written d < length input \<and>
             e = ''request delivery failed after '' @ nat_digits (bytes_written d) @ '' bytes: '' @ cause) \<or>
          (\<exists>cause. pipe_got s = input \<and> (\<forall>a \<in> set (pipe_answers s). stop_cause a = None) \<and> pipe_flushes s = [Some cause] \<and>
             e = ''request delivery flush failed after '' @ nat_digits (bytes_written d) @ '' bytes: '' @ cause)))"

lemma recorded_step:
  assumes "sound_writer write" and "under_way input k s" and "k < length input"
    and "recorded write (take (min (length input) (k + CHUNK) - k) (drop k input)) s = (r, s')"
  shows "pipe_answers s' = pipe_answers s @ [r] \<and> pipe_flushes s' = []"
    and "r = Wrote n \<Longrightarrow> n \<noteq> 0 \<Longrightarrow> under_way input (k + n) s'"
    and "r = Interrupted \<Longrightarrow> under_way input k s'"
    and "stop_cause r = Some cause \<Longrightarrow> pipe_got s' = take k input"
proof -
  let ?buf = "take (min (length input) (k + CHUNK) - k) (drop k input)"
  from assms(4) obtain w' where w: "write ?buf (pipe_world s) = (r, w')"
    and s': "s' = s\<lparr>pipe_world := w', pipe_got := pipe_got s @ accepted_bytes ?buf r, pipe_answers := pipe_answers s @ [r]\<rparr>"
    by (auto simp: recorded_def split: prod.splits)
  note u = assms(2) [unfolded under_way_def]
  show "pipe_answers s' = pipe_answers s @ [r] \<and> pipe_flushes s' = []" using s' u by simp
  show "under_way input k s'" if "r = Interrupted" using s' u that by (auto simp: under_way_def)
  show "pipe_got s' = take k input" if "stop_cause r = Some cause"
    using s' u that by (cases r) (auto split: if_splits)
  show "under_way input (k + n) s'" if r: "r = Wrote n" "n \<noteq> 0"
  proof -
    from assms(1) have "case write ?buf (pipe_world s) of (Wrote n, w') \<Rightarrow> n \<le> length ?buf | _ \<Rightarrow> True"
      unfolding sound_writer_def by (elim allE)
    with w r have "n \<le> length ?buf" by simp
    then have n: "n \<le> min (length input) (k + CHUNK) - k" by simp
    then have "take n ?buf = take n (drop k input)" by (simp add: min_absorb1)
    then show ?thesis using s' u r n assms(3) by (auto simp: under_way_def take_add)
  qed
qed

lemma write_loop_recorded:
  "write_loop wr fl inp k s = Some y \<Longrightarrow> sound_writer write \<Longrightarrow> wr = recorded write \<Longrightarrow>
     fl = recorded_flush flush \<Longrightarrow> under_way inp k s \<Longrightarrow> delivered inp y"
proof (induction wr fl inp k s y rule: write_loop.raw_induct [rotated 1, consumes 1])
  case (1 loop wr fl inp k s y)
  show ?case
  proof (cases "k < length inp")
    case False
    obtain e w' where f: "flush (pipe_world s) = (e, w')" by fastforce
    with False "1.hyps" "1.prems"(3) have "y = (\<lparr>bytes_written = k, d_error = map_option
        (\<lambda>e. ''request delivery flush failed after '' @ nat_digits k @ '' bytes: '' @ e) e\<rparr>,
        s\<lparr>pipe_world := w', pipe_flushes := pipe_flushes s @ [e]\<rparr>)"
      by (simp add: recorded_flush_def)
    with False "1.prems"(4) show ?thesis by (cases e) (simp_all add: delivered_def under_way_def)
  next
    case True
    let ?buf = "take (min (length inp) (k + CHUNK) - k) (drop k inp)"
    obtain r s' where step: "wr ?buf s = (r, s')" by (cases "wr ?buf s")
    note next_state = recorded_step [OF "1.prems"(1,4) True step [unfolded "1.prems"(2)]]
    show ?thesis
    proof (cases "stop_cause r")
      case None
      then consider n where "r = Wrote n" "n \<noteq> 0" | "r = Interrupted" by (cases r) (auto split: if_splits)
      then show ?thesis
      proof cases
        case 1
        with True "1.hyps" step have "loop wr fl inp (k + n) s' = Some y" by simp
        from "1.IH" [OF this "1.prems"(1-3)] next_state(2) [OF 1] show ?thesis by blast
      next
        case 2
        with True "1.hyps" step have "loop wr fl inp k s' = Some y" by simp
        from "1.IH" [OF this "1.prems"(1-3)] next_state(3) [OF 2] show ?thesis by blast
      qed
    next
      case (Some cause)
      with True "1.hyps" step have "y = (\<lparr>bytes_written = k,
          d_error = Some (''request delivery failed after '' @ nat_digits k @ '' bytes: '' @ cause)\<rparr>, s')"
        by (cases r) (auto split: if_splits)
      with Some True next_state(1) next_state(4) [OF Some] "1.prems"(4) show ?thesis
        by (auto simp: delivered_def under_way_def)
    qed
  qed
qed

text \<open>Only finitely many interruptions: each one uses up some of \<open>patience\<close>.\<close>

definition finitely_interrupted :: "('w \<Rightarrow> nat) \<Rightarrow> 'w writer \<Rightarrow> bool" where
  "finitely_interrupted patience write =
     (\<forall>buf w. case write buf w of (Interrupted, w') \<Rightarrow> patience w' < patience w
        | (_, w') \<Rightarrow> patience w' \<le> patience w)"

lemma finitely_interruptedD:
  "finitely_interrupted patience write \<Longrightarrow> write buf w = (r, w') \<Longrightarrow>
     patience w' \<le> patience w \<and> (r = Interrupted \<longrightarrow> patience w' < patience w)"
  unfolding finitely_interrupted_def
  by (drule spec [of _ buf], drule spec [of _ w]) (auto split: write_result.splits)

lemma write_loop_returns:
  assumes "sound_writer write" and "finitely_interrupted patience write"
  shows "under_way inp k s \<Longrightarrow> write_loop (recorded write) fl inp k s \<noteq> None"
proof (induction "length inp - k + patience (pipe_world s)" arbitrary: k s rule: less_induct)
  case less
  let ?buf = "take (min (length inp) (k + CHUNK) - k) (drop k inp)"
  obtain r s' where step: "recorded write ?buf s = (r, s')" by fastforce
  then have "write ?buf (pipe_world s) = (r, pipe_world s')" by (auto simp: recorded_def split: prod.splits)
  note fin = finitely_interruptedD [OF assms(2) this]
  show ?case
  proof (cases "k < length inp")
    case True
    note next_state = recorded_step [OF assms(1) less.prems True step]
    show ?thesis
    proof (cases r)
      case (Wrote n)
      have "write_loop (recorded write) fl inp (k + n) s' \<noteq> None" if "n \<noteq> 0"
        using True that fin next_state(2) [OF Wrote that] by (intro less.hyps) linarith+
      with True step Wrote show ?thesis by (subst write_loop.simps) (simp add: Let_def)
    next
      case Interrupted
      with fin next_state(3) have "write_loop (recorded write) fl inp k s' \<noteq> None"
        by (intro less.hyps) simp_all
      with True step Interrupted show ?thesis by (subst write_loop.simps) (simp add: Let_def)
    next
      case (WriteError e)
      with True step show ?thesis by (subst write_loop.simps) (simp add: Let_def)
    qed
  qed (subst write_loop.simps, simp split: prod.splits)
qed

text \<open>
  C28: the request reaches the pipe in order, as far as the pipe takes it, and the delivery says exactly
  how far. On any pipe that keeps the contract of \<open>write\<close> and interrupts it finitely often, writing the
  request returns, and the bytes the pipe accepted are the first \<open>bytes_written\<close> bytes of the request.
  There is no error exactly when the whole request was accepted and the one flush succeeded. An error
  means either that the last write failed or accepted nothing, with that cause, before the end and
  without a flush, or that the whole request was accepted and its one flush failed, with that cause;
  a short write or an interruption never stops the delivery.
\<close>

theorem write_request_delivers:
  assumes "sound_writer write" and "finitely_interrupted patience write"
  shows "\<exists>d s. write_request (recorded write) (recorded_flush flush) input (fresh_pipe w) = Some (d, s) \<and>
    pipe_got s = take (bytes_written d) input \<and> bytes_written d \<le> length input \<and>
    (case d_error d of
       None \<Rightarrow> pipe_got s = input \<and> (\<forall>a \<in> set (pipe_answers s). stop_cause a = None) \<and> pipe_flushes s = [None]
     | Some e \<Rightarrow>
         (\<exists>as a cause. pipe_answers s = as @ [a] \<and> (\<forall>a \<in> set as. stop_cause a = None) \<and> stop_cause a = Some cause \<and>
            pipe_flushes s = [] \<and> bytes_written d < length input \<and>
            e = ''request delivery failed after '' @ nat_digits (bytes_written d) @ '' bytes: '' @ cause) \<or>
         (\<exists>cause. pipe_got s = input \<and> (\<forall>a \<in> set (pipe_answers s). stop_cause a = None) \<and> pipe_flushes s = [Some cause] \<and>
            e = ''request delivery flush failed after '' @ nat_digits (bytes_written d) @ '' bytes: '' @ cause))"
proof -
  have start: "under_way input 0 (fresh_pipe w)" by (simp add: under_way_def fresh_pipe_def)
  then obtain d s where y: "write_loop (recorded write) (recorded_flush flush) input 0 (fresh_pipe w) = Some (d, s)"
    using write_loop_returns [OF assms] by fastforce
  have "delivered input (d, s)"
    using y assms(1) by (rule write_loop_recorded) (simp_all add: start)
  with y show ?thesis unfolding write_request_def delivered_def by simp
qed

text \<open>A pipe that takes three bytes at a time and is interrupted twice first.\<close>

definition slow_pipe :: "nat writer" where
  "slow_pipe buf w = (if w > 0 then (Interrupted, w - 1) else (Wrote (min 3 (length buf)), w))"

text \<open>It never stops the writer, so the whole request is delivered.\<close>

lemma slow_pipe_answers:
  "write_request (recorded slow_pipe) (recorded_flush (\<lambda>w. (None, w))) ''abcdefgh'' (fresh_pipe 2) =
     Some (\<lparr>bytes_written = 8, d_error = None\<rparr>,
       \<lparr>pipe_world = 0, pipe_got = ''abcdefgh'', pipe_answers = [Interrupted, Interrupted, Wrote 3, Wrote 3, Wrote 2],
        pipe_flushes = [None]\<rparr>)"
  by (simp add: write_request_def write_loop.simps recorded_def recorded_flush_def slow_pipe_def fresh_pipe_def CHUNK_def)

theorem write_request_delivers_witness:
  "sound_writer slow_pipe \<and> finitely_interrupted (\<lambda>w. w) slow_pipe \<and>
   (\<exists>d s. write_request (recorded slow_pipe) (recorded_flush (\<lambda>w. (None, w))) ''abcdefgh'' (fresh_pipe 2) = Some (d, s) \<and>
      d_error d = None \<and> pipe_got s = ''abcdefgh'' \<and> pipe_flushes s = [None])"
proof -
  have s: "sound_writer slow_pipe" and f: "finitely_interrupted (\<lambda>w. w) slow_pipe"
    by (auto simp: sound_writer_def finitely_interrupted_def slow_pipe_def)
  from write_request_delivers [OF s f, of "\<lambda>w. (None, w)" "''abcdefgh''" 2] s f show ?thesis
    unfolding slow_pipe_answers by auto
qed

end
