(* ===== verification/Runner_Host.thy ===== *)
theory Runner_Host
  imports Launchd_Plist Registry_Store Delivery
begin

text \<open>
  The controller's dealings with the host (controller/src/runner_manager.rs, app_layout.rs): the
  commands \<open>plutil\<close>, \<open>codesign\<close>, \<open>launchctl\<close> and \<open>id\<close> and how their output is read, the location of a
  runner's property list, its inspection, and the production instance of the cleanup operations.

  The host is a record of operations over a world of any type. A query (a command that only
  inspects, a file read) is a function of the world; an action returns a new one. The lossy UTF-8
  conversion, UTF-8 validity, the \<open>Debug\<close> form of a string, the JSON parser and SHA-256 are among its
  fields.
\<close>

section \<open>The host\<close>

datatype io_failure = NotFound string | OtherIo string

fun io_text :: "io_failure \<Rightarrow> string" where
  "io_text (NotFound e) = e"
| "io_text (OtherIo e) = e"

record file_meta =
  mt_uid :: nat
  mt_regular :: bool
  mt_symlink :: bool
  mt_len :: nat
  mt_mode :: nat

text \<open>A child given input: which of its three stages failed.\<close>

datatype pipe_failure = SpawnFailed string | StdinFailed string | WaitFailed string

record 'w host =
  h_env :: "string \<Rightarrow> string option"
  h_lossy :: "string \<Rightarrow> string"
  h_is_utf8 :: "string \<Rightarrow> bool"
  h_debug :: "string \<Rightarrow> string"
  h_from_slice :: "string \<Rightarrow> string + json"
  h_sha256_hex :: "string \<Rightarrow> string"
  h_query :: "'w \<Rightarrow> path \<Rightarrow> string list \<Rightarrow> string + process_output"
  h_pipe :: "'w \<Rightarrow> path \<Rightarrow> string list \<Rightarrow> string \<Rightarrow> pipe_failure + process_output"
  h_metadata :: "'w \<Rightarrow> file_id \<Rightarrow> io_failure + file_meta"
  h_read :: "'w \<Rightarrow> path \<Rightarrow> io_failure + string"
  h_canonical :: "'w \<Rightarrow> path \<Rightarrow> string + path"
  h_exists :: "'w \<Rightarrow> path \<Rightarrow> bool"
  h_is_file :: "'w \<Rightarrow> path \<Rightarrow> bool"
  h_is_dir :: "'w \<Rightarrow> path \<Rightarrow> bool"
  h_read_dir :: "'w \<Rightarrow> path \<Rightarrow> io_failure + (string + path) list"
  h_action :: "path \<Rightarrow> string list \<Rightarrow> 'w \<Rightarrow> (string + process_output) \<times> 'w"
  h_mkdirs :: "path \<Rightarrow> 'w \<Rightarrow> (string + unit) \<times> 'w"
  h_create_new :: "path \<Rightarrow> 'w \<Rightarrow> (string + unit) \<times> 'w"
  h_write_all :: "path \<Rightarrow> string \<Rightarrow> 'w \<Rightarrow> (string + unit) \<times> 'w"
  h_sync_all :: "path \<Rightarrow> 'w \<Rightarrow> (string + unit) \<times> 'w"
  h_rename :: "path \<Rightarrow> path \<Rightarrow> 'w \<Rightarrow> (string + unit) \<times> 'w"
  h_unlink :: "path \<Rightarrow> 'w \<Rightarrow> (string + unit) \<times> 'w"
  h_urandom :: "'w \<Rightarrow> (string + nat list) \<times> 'w"
  h_sleep :: "nat \<Rightarrow> 'w \<Rightarrow> 'w"
  h_now :: "'w \<Rightarrow> nat \<times> 'w"

abbreviation success :: "process_output \<Rightarrow> bool" where "success out \<equiv> out_code out = Some 0"

definition stderr_trimmed :: "'w host \<Rightarrow> process_output \<Rightarrow> string" where
  "stderr_trimmed h out = str_trim (h_lossy h (out_stderr out))"

definition plutil_json_from_bytes :: "'w host \<Rightarrow> 'w \<Rightarrow> string \<Rightarrow> string + json" where
  "plutil_json_from_bytes h w bytes =
     (case h_pipe h w ''/usr/bin/plutil'' [''-convert'', ''json'', ''-o'', ''-'', ''-''] bytes of
        Inl (SpawnFailed e) \<Rightarrow> Inl (''failed to run plutil: '' @ e)
      | Inl (StdinFailed e) \<Rightarrow> Inl (''failed to write plutil stdin: '' @ e)
      | Inl (WaitFailed e) \<Rightarrow> Inl (''failed to read plutil output: '' @ e)
      | Inr out \<Rightarrow>
          if \<not> success out then Inl (''plutil failed: '' @ stderr_trimmed h out)
          else map_err (\<lambda>e. ''plutil JSON parse failed: '' @ e) (h_from_slice h (out_stdout out)))"

section \<open>Identity and paths\<close>

definition current_uid_string :: "'w host \<Rightarrow> 'w \<Rightarrow> string + string" where
  "current_uid_string h w =
     res_bind (map_err (\<lambda>e. ''failed to run id -u: '' @ e) (h_query h w ''/usr/bin/id'' [''-u''])) (\<lambda>out.
     if \<not> success out then Inl (''id -u failed: '' @ stderr_trimmed h out)
     else
       let uid = str_trim (h_lossy h (out_stdout out)) in
       if uid = [] \<or> \<not> list_all is_ascii_digit uid then Inl ''id -u returned a non-numeric uid'' else Inr uid)"

text \<open>\<open>parse::<u32>\<close> on a string of digits.\<close>

definition decimal_value :: "string \<Rightarrow> nat" where
  "decimal_value s = fold (\<lambda>c n. 10 * n + (of_char c - 48)) s 0"

definition parse_u32 :: "string \<Rightarrow> nat option" where
  "parse_u32 s =
     (if s \<noteq> [] \<and> list_all is_ascii_digit s \<and> decimal_value s < 2 ^ 32 then Some (decimal_value s) else None)"

definition current_uid :: "'w host \<Rightarrow> 'w \<Rightarrow> string + nat" where
  "current_uid h w = res_bind (current_uid_string h w) (\<lambda>s. ok_or (parse_u32 s) ''invalid uid'')"

definition launchctl_target :: "'w host \<Rightarrow> 'w \<Rightarrow> runner_scope \<Rightarrow> string + string" where
  "launchctl_target h w scp =
     (case scp of
        User \<Rightarrow> res_bind (current_uid_string h w) (\<lambda>uid. Inr (''gui/'' @ uid))
      | System \<Rightarrow> Inr ''system'')"

definition launchd_plist_path :: "(string \<Rightarrow> string option) \<Rightarrow> string \<Rightarrow> runner_scope \<Rightarrow> string + path" where
  "launchd_plist_path env service scp =
     res_bind (case scp of
         User \<Rightarrow> (case env ''HOME'' of
            None \<Rightarrow> Inl ''HOME is not set; cannot locate LaunchAgents''
          | Some home \<Rightarrow> Inr (path_join (path_join home ''Library'') ''LaunchAgents''))
       | System \<Rightarrow> Inr ''/Library/LaunchDaemons'') (\<lambda>base.
     Inr (path_join base (service @ ''.plist'')))"

definition BUNDLE_MACOS_REL :: path where "BUNDLE_MACOS_REL = ''Contents/MacOS''"

text \<open>The characters a recorded service name may have.\<close>

definition valid_service_name :: "string \<Rightarrow> bool" where
  "valid_service_name s = (s \<noteq> [] \<and> list_all (\<lambda>c. is_ascii_alphanumeric c \<or> c \<in> set ''._-'') s)"

text \<open>\<open>ancestors().skip(1)\<close> of an absolute path, nearest first.\<close>

definition proper_ancestors :: "file_id \<Rightarrow> file_id list" where
  "proper_ancestors cs = map (\<lambda>n. take n cs) (rev [1..<length cs])"

fun scope_parent :: "runner_scope \<Rightarrow> string" where
  "scope_parent User = ''LaunchAgents''"
| "scope_parent System = ''LaunchDaemons''"

definition ownership_consistent :: "runner_record \<Rightarrow> runner_ownership \<Rightarrow> nat \<Rightarrow> string \<Rightarrow> bool" where
  "ownership_consistent r own uid domain =
     (let plist = path_components (plist_path own) in
      owner_uid own = uid \<and> launchd_domain own = domain \<and> is_absolute (plist_path own) \<and>
      ParentDir \<notin> set plist \<and>
      file_name_component plist = Some (service_name r @ ''.plist'') \<and>
      Option.bind (parent_components plist) file_name_component = Some (scope_parent (scope r)) \<and>
      parent_components (path_components (executable_path r)) =
        Some (path_components (path_join (bundle_path r) BUNDLE_MACOS_REL)))"

fun redirected :: "(file_id \<Rightarrow> io_failure + file_meta) \<Rightarrow> file_id list \<Rightarrow> string option" where
  "redirected meta [] = None"
| "redirected meta (f # fs) =
     (case meta f of
        Inr m \<Rightarrow> if mt_symlink m then Some ''recorded plist parent is a symlink'' else redirected meta fs
      | Inl (NotFound _) \<Rightarrow> redirected meta fs
      | Inl (OtherIo e) \<Rightarrow> Some e)"

definition record_location :: "'w host \<Rightarrow> 'w \<Rightarrow> runner_record \<Rightarrow> string + path \<times> string" where
  "record_location h w r =
     (if \<not> valid_service_name (service_name r) then Inl ''invalid recorded service name''
      else
        res_bind (launchctl_target h w (scope r)) (\<lambda>domain.
        case ownership r of
          Some own \<Rightarrow>
            res_bind (current_uid h w) (\<lambda>uid.
            if \<not> ownership_consistent r own uid domain
            then Inl ''recorded cleanup ownership is inconsistent with this user, scope or paths''
            else
              (case redirected (h_metadata h w) (proper_ancestors (path_components (plist_path own))) of
                 Some e \<Rightarrow> Inl e
               | None \<Rightarrow> Inr (plist_path own, domain)))
        | None \<Rightarrow>
            res_bind (launchd_plist_path (h_env h) (service_name r) (scope r)) (\<lambda>p. Inr (p, domain))))"

section \<open>Observation and action\<close>

definition inspect_service :: "'w host \<Rightarrow> 'w \<Rightarrow> string \<Rightarrow> string \<Rightarrow> service_observation" where
  "inspect_service h w domain service =
     (case h_query h w ''/bin/launchctl'' [''print'', domain @ ''/'' @ service] of
        Inr out \<Rightarrow>
          classify_service_output (success out) (h_lossy h (out_stdout out)) (h_lossy h (out_stderr out)) service
      | Inl e \<Rightarrow> \<lparr>so_presence = UnknownPresence, so_executable_path = None, so_error = Some e\<rparr>)"

definition unobserved_plist :: plist_observation where
  "unobserved_plist = \<lparr>po_presence = UnknownPresence, po_config = None, po_sha256 = None, po_owner_uid = None,
     po_regular = False, po_error = None\<rparr>"

definition inspect_plist :: "'w host \<Rightarrow> 'w \<Rightarrow> path \<Rightarrow> plist_observation" where
  "inspect_plist h w p =
     (case h_metadata h w (path_components p) of
        Inl (NotFound _) \<Rightarrow> unobserved_plist\<lparr>po_presence := Absent\<rparr>
      | Inl (OtherIo e) \<Rightarrow> unobserved_plist\<lparr>po_error := Some e\<rparr>
      | Inr m \<Rightarrow>
          let seen = unobserved_plist\<lparr>po_presence := Present, po_owner_uid := Some (mt_uid m), po_regular := mt_regular m\<rparr> in
          if \<not> mt_regular m then seen\<lparr>po_error := Some ''plist is not a regular file''\<rparr>
          else
            (case h_read h w p of
               Inr bytes \<Rightarrow>
                 let hashed = seen\<lparr>po_sha256 := Some (h_sha256_hex h bytes)\<rparr> in
                 (case plutil_json_from_bytes h w bytes of
                    Inr v \<Rightarrow> hashed\<lparr>po_config := Some v\<rparr>
                  | Inl e \<Rightarrow> hashed\<lparr>po_error := Some e\<rparr>)
             | Inl e \<Rightarrow> seen\<lparr>po_presence := UnknownPresence, po_error := Some (io_text e)\<rparr>))"

definition bootout_service :: "'w host \<Rightarrow> string \<Rightarrow> string \<Rightarrow> 'w \<Rightarrow> (string + unit) \<times> 'w" where
  "bootout_service h domain service w =
     (case h_action h ''/bin/launchctl'' [''bootout'', domain @ ''/'' @ service] w of
        (Inl e, w') \<Rightarrow> (Inl (''launchctl bootout: '' @ e), w')
      | (Inr out, w') \<Rightarrow>
          (if success out then Inr () else Inl (''launchctl bootout: '' @ stderr_trimmed h out), w'))"

definition launchctl_bootstrap :: "'w host \<Rightarrow> runner_scope \<Rightarrow> path \<Rightarrow> 'w \<Rightarrow> (string + unit) \<times> 'w" where
  "launchctl_bootstrap h scp p w =
     (case launchctl_target h w scp of
        Inl e \<Rightarrow> (Inl e, w)
      | Inr target \<Rightarrow>
         (case h_action h ''/bin/launchctl'' [''bootstrap'', target, p] w of
            (Inl e, w') \<Rightarrow> (Inl (''failed to run launchctl: '' @ e), w')
          | (Inr out, w') \<Rightarrow>
              (if success out then Inr () else Inl (''launchctl bootstrap failed: '' @ stderr_trimmed h out), w')))"

text \<open>The question-mark operator over the world.\<close>

definition w_bind :: "('e + 'a) \<times> 'w \<Rightarrow> ('a \<Rightarrow> 'w \<Rightarrow> ('e + 'b) \<times> 'w) \<Rightarrow> ('e + 'b) \<times> 'w" where
  "w_bind r f = (case r of (Inl e, w) \<Rightarrow> (Inl e, w) | (Inr a, w) \<Rightarrow> f a w)"

lemma w_bind_simps [simp]: "w_bind (Inl e, w) f = (Inl e, w)" "w_bind (Inr a, w) f = f a w"
  by (simp_all add: w_bind_def)

lemma w_bind_Inr: "w_bind r f = (Inr b, w') \<longleftrightarrow> (\<exists>a w. r = (Inr a, w) \<and> f a w = (Inr b, w'))"
  by (cases r; cases "fst r") (auto simp: w_bind_def)

definition w_context :: "string \<Rightarrow> (string + 'a) \<times> 'w \<Rightarrow> (string + 'a) \<times> 'w" where
  "w_context ctx r = (map_err (\<lambda>e. ctx @ '': '' @ e) (fst r), snd r)"

definition write_launchd_plist :: "'w host \<Rightarrow> path \<Rightarrow> string \<Rightarrow> 'w \<Rightarrow> (string + unit) \<times> 'w" where
  "write_launchd_plist h p content w0 =
     w_bind (case path_parent p of
         None \<Rightarrow> (Inr (), w0)
       | Some q \<Rightarrow> w_context (''failed to create '' @ q) (h_mkdirs h q w0)) (\<lambda>_ w1.
     w_bind (w_context (''failed to create '' @ p) (h_create_new h p w1)) (\<lambda>_ w2.
     w_context (''failed to write '' @ p) (h_write_all h p content w2)))"

text \<open>\<open>NativeCleanup\<close>, with the clock and a registry save.\<close>

definition native_cleanup ::
    "'w host \<Rightarrow> (runner_registry \<Rightarrow> 'w \<Rightarrow> (string + unit) \<times> 'w) \<Rightarrow> 'w cleanup_system" where
  "native_cleanup h save = \<lparr>
     sys_location = (\<lambda>r w. (record_location h w r, w)),
     sys_service = (\<lambda>domain name w. (inspect_service h w domain name, w)),
     sys_plist = (\<lambda>p w. (inspect_plist h w p, w)),
     sys_bootout = bootout_service h,
     sys_remove_plist = h_unlink h,
     sys_wait = h_sleep h,
     sys_save = save,
     sys_now = h_now h\<rparr>"

section \<open>Code signatures\<close>

definition EQUIPMENT_ENTITLEMENT_BYTES :: nat where "EQUIPMENT_ENTITLEMENT_BYTES = 65536"

definition failed_entitlements :: "string option \<Rightarrow> string option \<Rightarrow> runner_entitlements" where
  "failed_entitlements raw e = \<lparr>raw_plist = raw, ent_keys = [], granted = [], ent_error = e\<rparr>"

definition from_utf8_ok :: "'w host \<Rightarrow> string \<Rightarrow> string option" where
  "from_utf8_ok h bytes = (if h_is_utf8 h bytes then Some bytes else None)"

text \<open>\<open>u8::is_ascii_whitespace\<close>: space, tab, line feed, form feed, carriage return.\<close>

definition ascii_whitespace :: "char \<Rightarrow> bool" where
  "ascii_whitespace c = (c \<in> {CHR '' '', CHR 0x09, CHR 0x0A, CHR 0x0C, CHR 0x0D})"

definition entitlements_from_codesign :: "'w host \<Rightarrow> 'w \<Rightarrow> path \<Rightarrow> runner_entitlements" where
  "entitlements_from_codesign h w target =
     (case h_query h w ''/usr/bin/codesign'' [''-d'', ''--entitlements'', '':-'', target] of
        Inl e \<Rightarrow> failed_entitlements None (Some (''failed to run codesign: '' @ e))
      | Inr out \<Rightarrow>
          if \<not> success out then failed_entitlements None (Some (''codesign failed: '' @ stderr_trimmed h out))
          else if length (out_stdout out) > EQUIPMENT_ENTITLEMENT_BYTES then
            failed_entitlements None (Some ''entitlement read-back exceeds equipment observation limit'')
          else if list_all ascii_whitespace (out_stdout out) then failed_entitlements None None
          else
            (case plutil_json_from_bytes h w (out_stdout out) of
               Inr v \<Rightarrow> (entitlements_from_json v)\<lparr>raw_plist := from_utf8_ok h (out_stdout out)\<rparr>
             | Inl e \<Rightarrow> failed_entitlements (from_utf8_ok h (out_stdout out)) (Some e)))"

text \<open>One line of \<open>codesign -dv\<close>: the first authority stays, later team identifiers and hashes win.\<close>

definition metadata_line :: "string \<Rightarrow> runner_signature \<Rightarrow> runner_signature" where
  "metadata_line line s =
     (case strip_prefix ''Authority='' line of
        Some rest \<Rightarrow> (if identity s = None then s\<lparr>identity := Some (str_trim rest)\<rparr> else s)
      | None \<Rightarrow>
         (case strip_prefix ''TeamIdentifier='' line of
            Some rest \<Rightarrow> s\<lparr>team_id := Some (str_trim rest)\<rparr>
          | None \<Rightarrow>
             (case strip_prefix ''CDHash='' line of
                Some rest \<Rightarrow> s\<lparr>cdhash := Some (str_trim rest)\<rparr>
              | None \<Rightarrow> if str_contains line ''Signature=adhoc'' then s\<lparr>adhoc := True\<rparr> else s)))"

definition blank_signature :: "bool \<Rightarrow> runner_signature" where
  "blank_signature v = \<lparr>team_id = None, identity = None, cdhash = None, sig_valid = v, adhoc = False\<rparr>"

definition codesign_metadata :: "'w host \<Rightarrow> 'w \<Rightarrow> path \<Rightarrow> string + runner_signature" where
  "codesign_metadata h w target =
     res_bind (map_err (\<lambda>e. ''failed to run codesign: '' @ e)
       (h_query h w ''/usr/bin/codesign'' [''-dv'', ''--verbose=4'', target])) (\<lambda>out.
     if \<not> success out then Inl (''codesign metadata failed: '' @ stderr_trimmed h out)
     else Inr (fold metadata_line (str_lines (h_lossy h (out_stderr out))) (blank_signature True)))"

definition codesign_check :: "'w host \<Rightarrow> 'w \<Rightarrow> string list \<Rightarrow> string + unit" where
  "codesign_check h w args =
     res_bind (map_err (\<lambda>e. ''failed to run codesign: '' @ e) (h_query h w ''/usr/bin/codesign'' args)) (\<lambda>out.
     if success out then Inr () else Inl (''codesign verify failed: '' @ stderr_trimmed h out))"

definition codesign_verify :: "'w host \<Rightarrow> 'w \<Rightarrow> path \<Rightarrow> string + unit" where
  "codesign_verify h w target =
     codesign_check h w [''--verify'', ''--deep'', ''--strict'', ''--verbose=2'', target]"

definition codesign_verify_binary :: "'w host \<Rightarrow> 'w \<Rightarrow> path \<Rightarrow> string + unit" where
  "codesign_verify_binary h w target = codesign_check h w [''--verify'', ''--strict'', ''--verbose=2'', target]"

definition read_back :: "'w host \<Rightarrow> 'w \<Rightarrow> path \<Rightarrow> string + runner_signature \<times> runner_entitlements" where
  "read_back h w target =
     res_bind (map_err (\<lambda>e. ''read-back of '' @ target @ '' failed: '' @ e) (codesign_metadata h w target))
       (\<lambda>s. Inr (s, entitlements_from_codesign h w target))"

text \<open>An ad-hoc signature (identity \<open>-\<close>) asks for no trusted timestamp.\<close>

definition codesign_sign :: "'w host \<Rightarrow> path \<Rightarrow> string \<Rightarrow> path option \<Rightarrow> 'w \<Rightarrow> (string + unit) \<times> 'w" where
  "codesign_sign h target ident ents w =
     (case h_action h ''/usr/bin/codesign''
        ([''--force'', ''--options'', ''runtime'', ''-s'', ident]
         @ (if ident \<noteq> ''-'' then [''--timestamp''] else [])
         @ (case ents of None \<Rightarrow> [] | Some e \<Rightarrow> [''--entitlements'', e]) @ [target]) w of
        (Inl e, w') \<Rightarrow> (Inl (''failed to run codesign: '' @ e), w')
      | (Inr out, w') \<Rightarrow>
          (if success out then Inr () else Inl (''codesign sign failed: '' @ stderr_trimmed h out), w'))"

end
