(* ===== verification/Sbpl_Lex.thy ===== *)
theory Sbpl_Lex
  imports Prelude
begin

text \<open>
  The surface lexer for \<open>(import "NAME")\<close> references (controller/src/sbpl_lex.rs),
  byte for byte and index for index: every loop of the source is a recursive function
  on the byte string and the loop's index. The second half proves that the scan always
  advances and stays inside the source, that it depends only on the bytes from the
  current index on (the interface \<open>index_scanner\<close>), and what it collects.
\<close>

section \<open>The lexer\<close>

abbreviation quote_ch :: char where "quote_ch \<equiv> CHR 0x22"
abbreviation backslash :: char where "backslash \<equiv> CHR 0x5C"
abbreviation newline :: char where "newline \<equiv> CHR 0x0A"

record import_scan_result =
  refs :: "string list"
  scan_complete :: bool

datatype form_match = Literal string nat | NonLiteral nat

fun form_next :: "form_match \<Rightarrow> nat" where
  "form_next (Literal nm nx) = nx"
| "form_next (NonLiteral nx) = nx"

definition is_ws :: "char \<Rightarrow> bool" where
  "is_ws b = (b = CHR '' '' \<or> b = CHR 0x09 \<or> b = CHR 0x0A \<or> b = CHR 0x0D)"

function skip_ws :: "string \<Rightarrow> nat \<Rightarrow> nat" where
  "skip_ws bytes i =
     (if i < length bytes \<and> is_ws (bytes ! i) then skip_ws bytes (i + 1) else i)"
  by pat_completeness auto
termination
  by (relation "measure (\<lambda>(bytes, i). length bytes - i)") auto

text \<open>The comment loop: to the next newline or the end of input.\<close>

function skip_line :: "string \<Rightarrow> nat \<Rightarrow> nat" where
  "skip_line bytes i =
     (if i < length bytes \<and> bytes ! i \<noteq> newline then skip_line bytes (i + 1) else i)"
  by pat_completeness auto
termination
  by (relation "measure (\<lambda>(bytes, i). length bytes - i)") auto

function skip_string_loop :: "string \<Rightarrow> nat \<Rightarrow> nat" where
  "skip_string_loop bytes i =
     (if i < length bytes then
        (if bytes ! i = backslash then skip_string_loop bytes (min (i + 2) (length bytes))
         else if bytes ! i = quote_ch then i + 1
         else skip_string_loop bytes (i + 1))
      else length bytes)"
  by pat_completeness auto
termination
  by (relation "measure (\<lambda>(bytes, i). length bytes - i)") auto

definition skip_string :: "string \<Rightarrow> nat \<Rightarrow> nat" where
  "skip_string bytes start = skip_string_loop bytes (start + 1)"

text \<open>The loop that collects a literal's bytes, dropping the backslash of an escape.\<close>

function read_name :: "string \<Rightarrow> nat \<Rightarrow> string \<Rightarrow> string \<times> nat" where
  "read_name bytes i name =
     (if i < length bytes then
        (if bytes ! i = backslash \<and> i + 1 < length bytes
         then read_name bytes (i + 2) (name @ [bytes ! (i + 1)])
         else if bytes ! i = quote_ch then (name, i + 1)
         else read_name bytes (i + 1) (name @ [bytes ! i]))
      else (name, i))"
  by pat_completeness auto
termination
  by (relation "measure (\<lambda>(bytes, i, name). length bytes - i)") auto

text \<open>\<open>String::from_utf8\<close> accepts exactly the well-formed UTF-8 sequences.\<close>

definition byte_in :: "nat \<Rightarrow> nat \<Rightarrow> char \<Rightarrow> bool" where
  "byte_in lo hi c = (lo \<le> of_char c \<and> of_char c \<le> hi)"

abbreviation cont_byte :: "char \<Rightarrow> bool" where
  "cont_byte \<equiv> byte_in 0x80 0xBF"

fun utf8_len :: "string \<Rightarrow> nat" where
  "utf8_len [] = 0"
| "utf8_len (a # s) =
     (if byte_in 0 0x7F a then 1 else
      case s of [] \<Rightarrow> 0 | b # s2 \<Rightarrow>
      if byte_in 0xC2 0xDF a then (if cont_byte b then 2 else 0) else
      case s2 of [] \<Rightarrow> 0 | c # s3 \<Rightarrow>
      if byte_in 0xE0 0xEF a then
        (if (if byte_in 0xE0 0xE0 a then byte_in 0xA0 0xBF b
             else if byte_in 0xED 0xED a then byte_in 0x80 0x9F b else cont_byte b) \<and> cont_byte c
         then 3 else 0) else
      case s3 of [] \<Rightarrow> 0 | d # s4 \<Rightarrow>
      if byte_in 0xF0 0xF4 a then
        (if (if byte_in 0xF0 0xF0 a then byte_in 0x90 0xBF b
             else if byte_in 0xF4 0xF4 a then byte_in 0x80 0x8F b else cont_byte b)
            \<and> cont_byte c \<and> cont_byte d
         then 4 else 0)
      else 0)"

function valid_utf8 :: "string \<Rightarrow> bool" where
  "valid_utf8 s =
     (if s = [] then True
      else if utf8_len s = 0 then False
      else valid_utf8 (drop (utf8_len s) s))"
  by pat_completeness auto
termination
  by (relation "measure length") auto

definition from_utf8 :: "string \<Rightarrow> string option" where
  "from_utf8 bytes = (if valid_utf8 bytes then Some bytes else None)"

declare skip_ws.simps [simp del] skip_line.simps [simp del] skip_string_loop.simps [simp del]
  read_name.simps [simp del] valid_utf8.simps [simp del]

definition try_match_keyword_form :: "string \<Rightarrow> nat \<Rightarrow> string \<Rightarrow> (string \<times> nat) option" where
  "try_match_keyword_form bytes start keyword =
     (let i = skip_ws bytes (start + 1) in
      if i + length keyword > length bytes \<or> take (length keyword) (drop i bytes) \<noteq> keyword then None
      else
        let i = i + length keyword in
        if i \<ge> length bytes \<or> \<not> is_ws (bytes ! i) then None
        else
          let i = skip_ws bytes i in
          if i \<ge> length bytes \<or> bytes ! i \<noteq> quote_ch then None
          else
            let (name, i) = read_name bytes (i + 1) [];
                i = skip_ws bytes i in
            if i \<ge> length bytes \<or> bytes ! i \<noteq> CHR '')'' then None
            else
              case from_utf8 name of None \<Rightarrow> None
              | Some s \<Rightarrow> if s = [] then None else Some (s, i + 1))"

text \<open>The walk to the parenthesis that closes a form with a computed argument.\<close>

function walk_form :: "string \<Rightarrow> nat \<Rightarrow> nat \<Rightarrow> nat" where
  "walk_form bytes depth i =
     (if i < length bytes \<and> depth > 0 then
        (if bytes ! i = CHR '';'' then walk_form bytes depth (skip_line bytes i)
         else if bytes ! i = quote_ch then walk_form bytes depth (skip_string bytes i)
         else if bytes ! i = CHR ''('' then walk_form bytes (depth + 1) (i + 1)
         else if bytes ! i = CHR '')'' then walk_form bytes (depth - 1) (i + 1)
         else walk_form bytes depth (i + 1))
      else i)"
  by pat_completeness auto

lemma skip_ws_ge: "i \<le> skip_ws bytes i"
proof (induction bytes i rule: skip_ws.induct)
  case (1 bytes i)
  then show ?case by (auto simp: skip_ws.simps [of bytes i])
qed

lemma skip_line_ge: "i \<le> skip_line bytes i"
proof (induction bytes i rule: skip_line.induct)
  case (1 bytes i)
  then show ?case by (auto simp: skip_line.simps [of bytes i])
qed

lemma skip_line_gt: "i < length bytes \<Longrightarrow> bytes ! i \<noteq> newline \<Longrightarrow> i < skip_line bytes i"
  using skip_line_ge [of "i + 1" bytes] by (simp add: skip_line.simps [of bytes i])

lemma skip_string_loop_gt: "i < length bytes \<Longrightarrow> i < skip_string_loop bytes i"
proof (induction bytes i rule: skip_string_loop.induct)
  case (1 bytes i)
  have step: "i < skip_string_loop bytes j"
    if "i < j" "j < length bytes \<Longrightarrow> j < skip_string_loop bytes j" for j
    using that "1.prems" by (cases "j < length bytes") (simp_all add: skip_string_loop.simps)
  show ?case
    using 1 by (subst skip_string_loop.simps) (auto intro!: step)
qed

lemma skip_string_gt: "i < length bytes \<Longrightarrow> i < skip_string bytes i"
  using skip_string_loop_gt [of "i + 1" bytes]
  by (cases "i + 1 < length bytes") (simp_all add: skip_string_def skip_string_loop.simps)

termination walk_form
proof (relation "measure (\<lambda>(bytes, depth, i). length bytes - i)", simp, goal_cases)
  case (1 bytes depth i)
  then show ?case using skip_line_gt [of i bytes] by auto
next
  case (2 bytes depth i)
  then show ?case using skip_string_gt [of i bytes] by auto
qed auto

declare walk_form.simps [simp del]

definition try_match_form :: "string \<Rightarrow> nat \<Rightarrow> string \<Rightarrow> form_match option" where
  "try_match_form bytes start keyword =
     (let i = skip_ws bytes (start + 1) in
      if i + length keyword > length bytes \<or> take (length keyword) (drop i bytes) \<noteq> keyword then None
      else
        let i = i + length keyword in
        if i \<ge> length bytes \<or> \<not> is_ws (bytes ! i) then None
        else
          let i = skip_ws bytes i in
          if i \<ge> length bytes then None
          else if bytes ! i = quote_ch then
            (case try_match_keyword_form bytes start keyword of
               Some (name, next) \<Rightarrow> Some (Literal name next) | None \<Rightarrow> None)
          else Some (NonLiteral (walk_form bytes 1 i)))"

lemma skip_ws_le: "i \<le> length bytes \<Longrightarrow> skip_ws bytes i \<le> length bytes"
proof (induction bytes i rule: skip_ws.induct)
  case (1 bytes i)
  then show ?case by (auto simp: skip_ws.simps [of bytes i])
qed

lemma skip_line_le: "i \<le> length bytes \<Longrightarrow> skip_line bytes i \<le> length bytes"
proof (induction bytes i rule: skip_line.induct)
  case (1 bytes i)
  then show ?case by (auto simp: skip_line.simps [of bytes i])
qed

lemma skip_string_loop_le: "skip_string_loop bytes i \<le> length bytes"
proof (induction bytes i rule: skip_string_loop.induct)
  case (1 bytes i)
  then show ?case by (auto simp: skip_string_loop.simps [of bytes i])
qed

lemma skip_string_le: "skip_string bytes i \<le> length bytes"
  by (simp add: skip_string_def skip_string_loop_le)

lemma read_name_bounds:
  "i \<le> length bytes \<Longrightarrow> i \<le> snd (read_name bytes i name) \<and> snd (read_name bytes i name) \<le> length bytes"
proof (induction bytes i name rule: read_name.induct)
  case (1 bytes i name)
  then show ?case by (auto simp: read_name.simps [of bytes i name])
qed

lemma walk_form_bounds:
  "i \<le> length bytes \<Longrightarrow> i \<le> walk_form bytes depth i \<and> walk_form bytes depth i \<le> length bytes"
proof (induction bytes depth i rule: walk_form.induct)
  case (1 bytes depth i)
  show ?case
  proof (cases "i < length bytes \<and> depth > 0")
    case True
    then show ?thesis
      using "1.IH" skip_line_le [of i bytes] skip_line_ge [of i bytes]
        skip_string_le [of bytes i] skip_string_gt [of i bytes]
      by (auto simp: walk_form.simps [of bytes depth i])
  next
    case False
    with "1.prems" show ?thesis by (auto simp: walk_form.simps [of bytes depth i])
  qed
qed

lemma try_match_keyword_form_bounds:
  assumes "try_match_keyword_form bytes start keyword = Some (s, nx)"
  shows "start < nx \<and> nx \<le> length bytes"
proof -
  let ?a = "skip_ws bytes (start + 1)"
  let ?b = "skip_ws bytes (?a + length keyword)"
  let ?c = "snd (read_name bytes (?b + 1) [])"
  let ?d = "skip_ws bytes ?c"
  from assms have b: "?b < length bytes" and d: "?d < length bytes" and nx: "nx = ?d + 1"
    by (auto simp: try_match_keyword_form_def Let_def split: if_splits option.splits prod.splits)
  have "start < ?a" "?a \<le> ?b" "?b < ?c" "?c \<le> ?d"
    using skip_ws_ge [of "start + 1" bytes] skip_ws_ge [of "?a + length keyword" bytes]
      read_name_bounds [of "?b + 1" bytes "[]"] b skip_ws_ge [of ?c bytes] by auto
  with d nx show ?thesis by simp
qed

lemma try_match_form_bounds:
  assumes "try_match_form bytes start keyword = Some m"
  shows "start < form_next m \<and> form_next m \<le> length bytes"
proof -
  let ?a = "skip_ws bytes (start + 1)"
  let ?b = "skip_ws bytes (?a + length keyword)"
  from assms have b: "?b < length bytes"
    by (auto simp: try_match_form_def Let_def split: if_splits)
  have ab: "start < ?a" "?a \<le> ?b"
    using skip_ws_ge [of "start + 1" bytes] skip_ws_ge [of "?a + length keyword" bytes] by auto
  from assms consider
      (lit) nm nx where "m = Literal nm nx" "try_match_keyword_form bytes start keyword = Some (nm, nx)"
    | (non) "m = NonLiteral (walk_form bytes 1 ?b)"
    by (auto simp: try_match_form_def Let_def split: if_splits option.splits prod.splits)
  then show ?thesis
  proof cases
    case lit
    then show ?thesis using try_match_keyword_form_bounds by simp
  next
    case non
    with b ab walk_form_bounds [of ?b bytes 1] show ?thesis by simp
  qed
qed

text \<open>The outer walk of \<open>keyword_scan\<close>; the match bound above is why it terminates.\<close>

function keyword_scan_loop ::
    "string \<Rightarrow> string \<Rightarrow> nat \<Rightarrow> string list \<Rightarrow> bool \<Rightarrow> import_scan_result" where
  "keyword_scan_loop bytes keyword i rs complete =
     (if i < length bytes then
        (if bytes ! i = CHR '';'' then keyword_scan_loop bytes keyword (skip_line bytes i) rs complete
         else if bytes ! i = quote_ch then
           keyword_scan_loop bytes keyword (skip_string bytes i) rs complete
         else if bytes ! i = CHR ''('' then
           (case try_match_form bytes i keyword of
              Some (Literal name nx) \<Rightarrow> keyword_scan_loop bytes keyword nx (set_insert name rs) complete
            | Some (NonLiteral nx) \<Rightarrow> keyword_scan_loop bytes keyword nx rs False
            | None \<Rightarrow> keyword_scan_loop bytes keyword (i + 1) rs complete)
         else keyword_scan_loop bytes keyword (i + 1) rs complete)
      else \<lparr>refs = rs, scan_complete = complete\<rparr>)"
  by pat_completeness auto
termination
proof (relation "measure (\<lambda>(bytes, keyword, i, rs, c). length bytes - i)", simp, goal_cases)
  case (1 bytes keyword i rs complete)
  then show ?case using skip_line_gt [of i bytes] by auto
next
  case (2 bytes keyword i rs complete)
  then show ?case using skip_string_gt [of i bytes] by auto
qed (auto dest!: try_match_form_bounds)

declare keyword_scan_loop.simps [simp del]

definition keyword_scan :: "string \<Rightarrow> string \<Rightarrow> import_scan_result" where
  "keyword_scan source keyword = keyword_scan_loop source keyword 0 [] True"

definition import_scan :: "string \<Rightarrow> import_scan_result" where
  "import_scan source = keyword_scan source ''import''"

section \<open>The scan reads only from the current index on\<close>

text \<open>
  A scanner over a byte string and an index that never leaves the string, never goes
  back and does not look at what precedes the index.
\<close>

locale index_scanner =
  fixes scan :: "'a list \<Rightarrow> nat \<Rightarrow> nat"
  assumes shift: "scan (p @ s) (length p + i) = length p + scan s i"
    and ge: "i \<le> length s \<Longrightarrow> i \<le> scan s i"
    and le: "i \<le> length s \<Longrightarrow> scan s i \<le> length s"
begin

lemma suffix: "i \<le> length s \<Longrightarrow> scan s i = i + scan (drop i s) 0"
  using shift [of "take i s" "drop i s" 0] by simp

lemma at_append: "scan (p @ s) (length p) = length p + scan s 0"
  using shift [of p s 0] by simp

lemma within: "i \<le> length s \<Longrightarrow> \<exists>k. scan s i = i + k \<and> i + k \<le> length s"
  using ge [of i s] le [of i s] by (metis le_iff_add)

end

lemma nth_append_shift [simp]: "(p @ s) ! (length p + i) = s ! i"
  by (simp add: nth_append)

lemma skip_ws_shift: "skip_ws (p @ s) (length p + i) = length p + skip_ws s i"
proof (induction s i rule: skip_ws.induct)
  case (1 s i)
  then show ?case
    by (simp add: skip_ws.simps [of s i] skip_ws.simps [of "p @ s" "length p + i"])
qed

lemma skip_line_shift: "skip_line (p @ s) (length p + i) = length p + skip_line s i"
proof (induction s i rule: skip_line.induct)
  case (1 s i)
  then show ?case
    by (simp add: skip_line.simps [of s i] skip_line.simps [of "p @ s" "length p + i"])
qed

lemma skip_string_loop_shift:
  "skip_string_loop (p @ s) (length p + i) = length p + skip_string_loop s i"
proof (induction s i rule: skip_string_loop.induct)
  case (1 s i)
  have m: "min (Suc (Suc (length p + i))) (length p + length s) = length p + min (i + 2) (length s)"
    by simp
  from 1 show ?case
    by (simp add: skip_string_loop.simps [of s i]
        skip_string_loop.simps [of "p @ s" "length p + i"] m)
qed

lemma skip_string_shift: "skip_string (p @ s) (length p + i) = length p + skip_string s i"
  using skip_string_loop_shift [of p s "i + 1"] by (simp add: skip_string_def)

lemma walk_form_shift: "walk_form (p @ s) d (length p + i) = length p + walk_form s d i"
proof (induction s d i rule: walk_form.induct)
  case (1 s d i)
  then show ?case
    by (auto simp: walk_form.simps [of s d i] walk_form.simps [of "p @ s" d "length p + i"]
        skip_line_shift skip_string_shift)
qed

interpretation ws: index_scanner skip_ws
  by unfold_locales (simp_all add: skip_ws_shift skip_ws_ge skip_ws_le)

interpretation line: index_scanner skip_line
  by unfold_locales (simp_all add: skip_line_shift skip_line_ge skip_line_le)

interpretation form_walk: index_scanner "\<lambda>s i. walk_form s d i"
  by unfold_locales (simp_all add: walk_form_shift walk_form_bounds)

interpretation str: index_scanner skip_string_loop
proof (unfold_locales, goal_cases)
  case (2 i s)
  then show ?case
    using skip_string_loop_gt [of i s] by (cases "i < length s") (simp_all add: skip_string_loop.simps)
qed (simp_all add: skip_string_loop_shift skip_string_loop_le)

lemma read_name_shift:
  "read_name (p @ s) (length p + i) acc = (\<lambda>(nm, j). (nm, length p + j)) (read_name s i acc)"
proof (induction s i acc rule: read_name.induct)
  case (1 s i acc)
  have "(p @ s) ! Suc (length p + i) = s ! Suc i"
    using nth_append_shift [of p s "Suc i"] by simp
  with 1 show ?case
    by (simp add: read_name.simps [of s i] read_name.simps [of "p @ s" "length p + i"])
qed

lemma take_drop_shift: "take n (drop (length p + i) (p @ s)) = take n (drop i s)"
  by simp

lemma shift_Suc:
  "skip_ws (p @ s) (Suc (length p + i)) = length p + skip_ws s (Suc i)"
  "read_name (p @ s) (Suc (length p + i)) acc = (\<lambda>(nm, j). (nm, length p + j)) (read_name s (Suc i) acc)"
  "skip_ws (p @ s) (length p + i + k) = length p + skip_ws s (i + k)"
  "(p @ s) ! (length p + i + k) = s ! (i + k)"
  using skip_ws_shift [of p s "Suc i"] read_name_shift [of p s "Suc i" acc]
    skip_ws_shift [of p s "i + k"] nth_append_shift [of p s "i + k"] by (simp_all add: add.assoc)

lemma try_match_keyword_form_shift:
  "try_match_keyword_form (p @ s) (length p + i) kw =
     map_option (\<lambda>(nm, j). (nm, length p + j)) (try_match_keyword_form s i kw)"
  by (cases "read_name s (Suc (skip_ws s (skip_ws s (Suc i) + length kw))) []")
    (simp add: try_match_keyword_form_def Let_def shift_Suc skip_ws_shift split: option.splits)

lemma try_match_form_shift:
  "try_match_form (p @ s) (length p + i) kw =
     map_option (\<lambda>m. case m of Literal nm nx \<Rightarrow> Literal nm (length p + nx)
       | NonLiteral nx \<Rightarrow> NonLiteral (length p + nx)) (try_match_form s i kw)"
  by (simp add: try_match_form_def Let_def shift_Suc skip_ws_shift walk_form_shift
      try_match_keyword_form_shift split: prod.splits option.splits)

lemma keyword_scan_loop_shift:
  "keyword_scan_loop (p @ s) kw (length p + i) rs c = keyword_scan_loop s kw i rs c"
proof (induction s kw i rs c rule: keyword_scan_loop.induct)
  case (1 s kw i rs c)
  then show ?case
    by (simp add: keyword_scan_loop.simps [of s kw i] keyword_scan_loop.simps [of "p @ s" kw "length p + i"]
        skip_line_shift skip_string_shift try_match_form_shift split: option.splits form_match.splits)
qed

corollary keyword_scan_loop_suffix:
  "i \<le> length s \<Longrightarrow> keyword_scan_loop s kw i rs c = keyword_scan_loop (drop i s) kw 0 rs c"
  using keyword_scan_loop_shift [of "take i s" "drop i s" kw 0] by simp

text \<open>What was collected before only adds to what is collected after.\<close>

lemma keyword_scan_loop_acc:
  "set (refs (keyword_scan_loop s kw i rs c)) = set rs \<union> set (refs (keyword_scan_loop s kw i [] True)) \<and>
   scan_complete (keyword_scan_loop s kw i rs c) =
     (c \<and> scan_complete (keyword_scan_loop s kw i [] True))"
proof (induction "length s - i" arbitrary: i rs c rule: less_induct)
  case less
  note unf = keyword_scan_loop.simps [of s kw i rs c] keyword_scan_loop.simps [of s kw i "[]" True]
  have IH: "set (refs (keyword_scan_loop s kw j rs' c')) = set rs' \<union> set (refs (keyword_scan_loop s kw j [] True))"
    "scan_complete (keyword_scan_loop s kw j rs' c') = (c' \<and> scan_complete (keyword_scan_loop s kw j [] True))"
    if "i < j" "i < length s" for j rs' c'
    using less [of j rs' c'] that by auto
  consider (end_) "\<not> i < length s"
    | (plain) j where "i < length s" "i < j"
        "\<And>rs c. keyword_scan_loop s kw i rs c = keyword_scan_loop s kw j rs c"
    | (lit) j nm where "i < length s" "i < j"
        "\<And>rs c. keyword_scan_loop s kw i rs c = keyword_scan_loop s kw j (set_insert nm rs) c"
    | (non) j where "i < length s" "i < j"
        "\<And>rs c. keyword_scan_loop s kw i rs c = keyword_scan_loop s kw j rs False"
  proof (cases "i < length s \<and> s ! i = CHR ''(''")
    case True
    note ks = keyword_scan_loop.simps [of s kw i]
    show ?thesis
    proof (cases "try_match_form s i kw")
      case None
      with True that(2) [of "i + 1"] show ?thesis by (simp add: ks)
    next
      case (Some m)
      from try_match_form_bounds [OF this] have "i < form_next m" by simp
      with True Some that(3) [of "form_next m"] that(4) [of "form_next m"] show ?thesis
        by (cases m) (simp_all add: ks)
    qed
  next
    case False
    note ks = keyword_scan_loop.simps [of s kw i]
    from False that(1) that(2) [of "i + 1"] that(2) [of "skip_line s i"] that(2) [of "skip_string s i"]
      skip_line_gt [of i s] skip_string_gt [of i s]
    show ?thesis by (cases "s ! i = CHR '';''"; cases "s ! i = quote_ch"; cases "i < length s") (simp_all add: ks)
  qed
  then show ?case
  proof cases
    case (lit j nm)
    then show ?thesis using IH [of j "set_insert nm rs" c] IH [of j "set_insert nm []" True] by simp
  next
    case (non j)
    then show ?thesis using IH [of j rs False] IH [of j "[]" False] by simp
  next
    case (plain j)
    then show ?thesis using IH [of j rs c] by simp
  qed (simp add: unf)
qed

section \<open>What the scan collects\<close>

lemma keyword_scan_loop_btree: "btree_set rs \<Longrightarrow> btree_set (refs (keyword_scan_loop s kw i rs c))"
proof (induction s kw i rs c rule: keyword_scan_loop.induct)
  case (1 s kw i rs c)
  then show ?case
    by (auto simp: keyword_scan_loop.simps [of s kw i] split: option.splits form_match.splits)
qed

lemma scan_skip_char:
  assumes "x \<noteq> CHR '';''" "x \<noteq> quote_ch" "x \<noteq> CHR ''(''"
  shows "keyword_scan (x # s) kw = keyword_scan s kw"
  using assms keyword_scan_loop_shift [of "[x]" s kw 0 "[]" True]
  by (simp add: keyword_scan_def keyword_scan_loop.simps [of "x # s" kw 0])

lemma skip_line_clean: "newline \<notin> set c \<Longrightarrow> skip_line (c @ newline # s) 0 = length c"
proof (induction c)
  case (Cons x c)
  then show ?case
    using line.shift [of "[x]" "c @ newline # s" 0]
    by (auto simp: skip_line.simps [of "x # c @ newline # s" 0])
qed (simp add: skip_line.simps)

lemma scan_comment_line:
  assumes "newline \<notin> set c"
  shows "keyword_scan (CHR '';'' # c @ newline # s) kw = keyword_scan s kw"
proof -
  have "skip_line (CHR '';'' # c @ newline # s) 0 = length (CHR '';'' # c)"
    using skip_line_clean [of "CHR '';'' # c" s] assms by simp
  then have "keyword_scan (CHR '';'' # c @ newline # s) kw
      = keyword_scan_loop (CHR '';'' # c @ newline # s) kw (length (CHR '';'' # c)) [] True"
    by (simp add: keyword_scan_def keyword_scan_loop.simps [of "CHR '';'' # c @ newline # s" kw 0])
  also have "\<dots> = keyword_scan (newline # s) kw"
    using keyword_scan_loop_shift [of "CHR '';'' # c" "newline # s" kw 0] by (simp add: keyword_scan_def)
  also have "\<dots> = keyword_scan s kw" by (rule scan_skip_char) simp_all
  finally show ?thesis .
qed

text \<open>The text of a string literal: quotation marks and backslashes carry a backslash.\<close>

fun escape_name :: "string \<Rightarrow> string" where
  "escape_name [] = []"
| "escape_name (c # cs) =
     (if c = quote_ch \<or> c = backslash then backslash # c # escape_name cs else c # escape_name cs)"

lemma skip_escaped: "skip_string_loop (escape_name n @ quote_ch # s) 0 = Suc (length (escape_name n))"
proof (induction n)
  case (Cons c n)
  let ?r = "escape_name n @ quote_ch # s"
  show ?case
  proof (cases "c = quote_ch \<or> c = backslash")
    case True
    then show ?thesis
      using Cons.IH str.shift [of "[backslash, c]" ?r 0]
      by (auto simp: skip_string_loop.simps [of "backslash # c # escape_name n @ quote_ch # s" 0]
          numeral_2_eq_2)
  next
    case False
    then show ?thesis
      using Cons.IH str.shift [of "[c]" ?r 0]
      by (auto simp: skip_string_loop.simps [of "c # escape_name n @ quote_ch # s" 0])
  qed
qed (simp add: skip_string_loop.simps)

lemma read_escaped: "read_name (escape_name n @ quote_ch # s) 0 acc = (acc @ n, Suc (length (escape_name n)))"
proof (induction n arbitrary: acc)
  case (Cons c n)
  let ?r = "escape_name n @ quote_ch # s"
  show ?case
  proof (cases "c = quote_ch \<or> c = backslash")
    case True
    then show ?thesis
      using Cons.IH [of "acc @ [c]"] read_name_shift [of "[backslash, c]" ?r 0 "acc @ [c]"]
      by (auto simp: read_name.simps [of "backslash # c # escape_name n @ quote_ch # s" 0]
          numeral_2_eq_2)
  next
    case False
    then show ?thesis
      using Cons.IH [of "acc @ [c]"] read_name_shift [of "[c]" ?r 0 "acc @ [c]"]
      by (auto simp: read_name.simps [of "c # escape_name n @ quote_ch # s" 0])
  qed
qed (simp add: read_name.simps)

lemma scan_string_literal:
  "keyword_scan (quote_ch # escape_name n @ quote_ch # s) kw = keyword_scan s kw"
proof -
  let ?p = "quote_ch # escape_name n @ [quote_ch]"
  have "skip_string (quote_ch # escape_name n @ quote_ch # s) 0 = length ?p"
    using str.shift [of "[quote_ch]" "escape_name n @ quote_ch # s" 0] skip_escaped [of n s]
    by (simp add: skip_string_def)
  moreover have "keyword_scan (quote_ch # escape_name n @ quote_ch # s) kw
      = keyword_scan_loop (?p @ s) kw (skip_string (quote_ch # escape_name n @ quote_ch # s) 0) [] True"
    by (simp add: keyword_scan_def
        keyword_scan_loop.simps [of "quote_ch # escape_name n @ quote_ch # s" kw 0])
  ultimately show ?thesis
    using keyword_scan_loop_shift [of ?p s kw 0 "[]" True] by (simp add: keyword_scan_def)
qed

definition import_form :: "string \<Rightarrow> string" where
  "import_form n = ''(import '' @ quote_ch # escape_name n @ quote_ch # '')''"

lemma skip_ws_stop: "\<not> is_ws x \<Longrightarrow> skip_ws (p @ x # s) (length p) = length p"
  using ws.at_append [of p "x # s"] by (simp add: skip_ws.simps [of "x # s" 0])

lemma not_ws_simps [simp]:
  "\<not> is_ws quote_ch" "\<not> is_ws (CHR '')'')" "\<not> is_ws (CHR ''i'')" "is_ws (CHR '' '')"
  by (simp_all add: is_ws_def)

lemma match_import_form:
  assumes "n \<noteq> []" "valid_utf8 n"
  shows "try_match_form (import_form n @ s) 0 ''import'' = Some (Literal n (length (import_form n)))"
proof -
  let ?b = "import_form n @ s"
  let ?body = "escape_name n @ quote_ch # '')'' @ s"
  have b: "?b = ''(import '' @ quote_ch # ?body" by (simp add: import_form_def)
  have w1: "skip_ws ?b (Suc 0) = 1"
    using skip_ws_stop [of "CHR ''i''" "''(''" "''mport '' @ quote_ch # ?body"] by (simp add: b)
  have l8: "length ''(import '' = 8" by simp
  have "skip_ws (''(import '' @ quote_ch # ?body) (length ''(import '') = length ''(import ''"
    by (rule skip_ws_stop) simp
  then have "skip_ws ?b 8 = 8" unfolding b l8 .
  then have w2: "skip_ws ?b 7 = 8"
    by (subst skip_ws.simps) (simp add: b)
  have rd: "read_name ?b 9 [] = (n, 10 + length (escape_name n))"
    using read_name_shift [of "''(import '' @ [quote_ch]" ?body 0 "[]"] read_escaped [of n "'')'' @ s" "[]"]
    by (simp add: b eval_nat_numeral)
  have w3: "skip_ws ?b (10 + length (escape_name n)) = 10 + length (escape_name n)"
    using skip_ws_stop [of "CHR '')''" "''(import '' @ quote_ch # escape_name n @ [quote_ch]" s]
    by (simp add: b eval_nat_numeral)
  have last: "?b ! (10 + length (escape_name n)) = CHR '')''"
    using nth_append_shift [of "''(import '' @ quote_ch # escape_name n @ [quote_ch]" "'')'' @ s" 0]
    by (simp add: b eval_nat_numeral)
  have len: "length (import_form n) = 11 + length (escape_name n)"
    by (simp add: import_form_def)
  have l6: "length ''import'' = 6" by simp
  define B where "B = ?b"
  have B: "length B = 11 + length (escape_name n) + length s" "take 6 (drop (Suc 0) B) = ''import''"
    "B ! 7 = CHR '' ''" "B ! 8 = quote_ch"
    by (simp_all add: B_def b)
  note facts = w1 w2 w3 rd last
  note facts = facts [folded B_def] B
  have "try_match_keyword_form B 0 ''import'' = Some (n, length (import_form n))"
    unfolding try_match_keyword_form_def l6 using assms by (simp add: Let_def from_utf8_def facts len)
  then have "try_match_form B 0 ''import'' = Some (Literal n (length (import_form n)))"
    unfolding try_match_form_def l6 by (simp add: Let_def facts)
  then show ?thesis by (simp add: B_def)
qed

lemma scan_import_form:
  assumes "n \<noteq> []" "valid_utf8 n"
  shows "set (refs (import_scan (import_form n @ s))) = insert n (set (refs (import_scan s)))"
    and "scan_complete (import_scan (import_form n @ s)) = scan_complete (import_scan s)"
proof -
  have hd: "(import_form n @ s) ! 0 = CHR ''(''" "0 < length (import_form n @ s)"
    by (simp_all add: import_form_def)
  have "import_scan (import_form n @ s) =
      keyword_scan_loop (import_form n @ s) ''import'' (length (import_form n)) (set_insert n []) True"
    unfolding import_scan_def keyword_scan_def
    by (subst keyword_scan_loop.simps) (use hd match_import_form [OF assms] in simp)
  also have "\<dots> = keyword_scan_loop s ''import'' 0 (set_insert n []) True"
    using keyword_scan_loop_shift [of "import_form n" s "''import''" 0] by simp
  finally have eq: "import_scan (import_form n @ s) = keyword_scan_loop s ''import'' 0 (set_insert n []) True" .
  from keyword_scan_loop_acc [of s "''import''" 0 "set_insert n []" True]
  show "set (refs (import_scan (import_form n @ s))) = insert n (set (refs (import_scan s)))"
    and "scan_complete (import_scan (import_form n @ s)) = scan_complete (import_scan s)"
    unfolding eq by (simp_all add: import_scan_def keyword_scan_def)
qed

lemma import_scan_btree: "btree_set (refs (import_scan s))"
  by (simp add: import_scan_def keyword_scan_def keyword_scan_loop_btree)

lemma import_scan_Nil [simp]: "import_scan [] = \<lparr>refs = [], scan_complete = True\<rparr>"
  by (simp add: import_scan_def keyword_scan_def keyword_scan_loop.simps)

lemma scan_import_forms:
  "list_all (\<lambda>n. n \<noteq> [] \<and> valid_utf8 n) ns \<Longrightarrow>
     set (refs (import_scan (concat (map import_form ns)))) = set ns \<and>
     scan_complete (import_scan (concat (map import_form ns)))"
  by (induction ns) (simp_all add: scan_import_form)

lemma match_nonliteral:
  assumes "\<not> is_ws x" "x \<noteq> quote_ch"
  shows "\<exists>nx. try_match_form (''(import '' @ x # s) 0 ''import'' = Some (NonLiteral nx)"
proof -
  define B where "B = ''(import '' @ x # s"
  have l8: "length ''(import '' = 8" and l6: "length ''import'' = 6" by simp_all
  have "skip_ws (''(import '' @ x # s) (length ''(import '') = length ''(import ''"
    using assms(1) by (rule skip_ws_stop)
  then have w8: "skip_ws B 8 = 8" unfolding B_def l8 .
  have "skip_ws (''('' @ CHR ''i'' # ''mport '' @ x # s) (length ''('') = length ''(''"
    by (rule skip_ws_stop) simp
  then have w1: "skip_ws B (Suc 0) = Suc 0" by (simp add: B_def)
  have B: "length B = 9 + length s" "take 6 (drop (Suc 0) B) = ''import''" "B ! 7 = CHR '' ''" "B ! 8 = x"
    by (simp_all add: B_def)
  have w7: "skip_ws B 7 = 8"
    by (subst skip_ws.simps) (simp add: B w8)
  show ?thesis
    unfolding try_match_form_def l6 B_def [symmetric] using assms by (simp add: Let_def B w1 w7)
qed

section \<open>Properties\<close>

text \<open>C23: Printing import forms and scanning them gives the names back: the scan of a
  sequence of \<open>(import "NAME")\<close> forms, with quotation marks and backslashes of the names
  escaped, returns exactly the names, once each and in ascending order, and reports the
  scan complete.\<close>

theorem import_scan_roundtrip:
  assumes "list_all (\<lambda>n. n \<noteq> [] \<and> valid_utf8 n) ns"
  shows "import_scan (concat (map import_form ns)) =
    \<lparr>refs = sorted_list_of_set (set ns), scan_complete = True\<rparr>"
proof -
  let ?r = "import_scan (concat (map import_form ns))"
  have "set (refs ?r) = set ns" and c: "scan_complete ?r"
    using scan_import_forms [OF assms] by simp_all
  then have "refs ?r = sorted_list_of_set (set ns)"
    by (intro btree_set_eq import_scan_btree) (simp_all add: btree_set_def)
  with c show ?thesis by (cases ?r) simp
qed

theorem import_scan_roundtrip_witness:
  "import_scan (concat (map import_form [''system.sb'', [CHR ''a'', CHR 0x22], ''bsd.sb'', ''system.sb''])) =
    \<lparr>refs = sorted_list_of_set (set [''system.sb'', [CHR ''a'', CHR 0x22], ''bsd.sb'', ''system.sb'']),
     scan_complete = True\<rparr>"
  by (rule import_scan_roundtrip) code_simp

text \<open>Comments and string literals are inert: an import form spelled inside a line
  comment or inside a string literal contributes nothing, whatever follows.\<close>

theorem import_scan_inert_text:
  assumes "newline \<notin> set c"
  shows "import_scan (CHR '';'' # c @ newline # quote_ch # escape_name n @ quote_ch # s) = import_scan s"
  using assms by (simp add: import_scan_def scan_comment_line scan_string_literal)

theorem import_scan_inert_text_witness:
  "import_scan (CHR '';'' # ''(import x)'' @ newline # quote_ch # escape_name (import_form ''y'') @ quote_ch
     # import_form ''z'') = import_scan (import_form ''z'')"
  by (rule import_scan_inert_text) simp

text \<open>A computed import argument is never silently ignored: a form \<open>(import X...\<close>
  whose argument does not start a string literal makes the scan incomplete, whatever
  follows in the source.\<close>

theorem import_scan_nonliteral_incomplete:
  assumes "\<not> is_ws x" and "x \<noteq> quote_ch"
  shows "\<not> scan_complete (import_scan (''(import '' @ x # s))"
proof -
  obtain nx where m: "try_match_form (''(import '' @ x # s) 0 ''import'' = Some (NonLiteral nx)"
    using match_nonliteral [OF assms] by blast
  have "import_scan (''(import '' @ x # s) = keyword_scan_loop (''(import '' @ x # s) ''import'' nx [] False"
    unfolding import_scan_def keyword_scan_def
    by (subst keyword_scan_loop.simps) (use m in simp)
  then show ?thesis
    using keyword_scan_loop_acc [of "''(import '' @ x # s" "''import''" nx "[]" False] by simp
qed

theorem import_scan_nonliteral_incomplete_witness:
  "\<not> scan_complete (import_scan (''(import '' @ CHR ''p'' # ''rofile) (allow default)''))"
  by (rule import_scan_nonliteral_incomplete) (simp_all add: is_ws_def)

end
