(* ===== verification/Sbpl_Imports.thy ===== *)
theory Sbpl_Imports
  imports Sbpl_Lex Paths "HOL-Library.Multiset"
begin

text \<open>
  The import inventory (controller/src/sbpl_imports.rs): the bounded depth-first walk of
  the literal \<open>(import "NAME")\<close> closure of an SBPL source, with its duplicate and cycle
  detection, and the closure hash. The file system and the SHA-256 function are
  parameters. A diagnostic of the source is a value of \<open>import_error\<close> or
  \<open>import_failure\<close> whose arguments are the values the message interpolates.
\<close>

section \<open>The file system the walk reads\<close>

record file_metadata =
  meta_is_file :: bool
  meta_len :: nat
  meta_modified :: "int option" \<comment> \<open>nanoseconds since the Unix epoch, when the platform has it\<close>

record os_file =
  file_stat :: "string + file_metadata"
  file_bytes :: "string + string"

record import_fs =
  path_exists :: "path \<Rightarrow> bool"
  canonicalize :: "path \<Rightarrow> path option"
  fs_open :: "path \<Rightarrow> string + os_file"

section \<open>Records and state\<close>

datatype import_error =
    ReadFailed string
  | FstatFailed string
  | NotRegularFile
  | DepthLimitExceeded
  | NotValidUtf8
  | NotFoundInSearchPath

datatype import_failure =
    LimitExceeded string
  | ImportCycle "string list"
  | ImportFailure string import_error
  | NonliteralImport string
  | NonliteralSource

record import_record =
  rec_name :: string
  resolved_path :: "path option"
  rec_sha256 :: "string option"
  size_bytes :: "nat option"
  mtime_unix :: "int option"
  rec_error :: "import_error option"

record resolved_imports =
  ri_records :: "import_record list"
  ri_truncated :: bool
  ri_exceeded :: "string option"
  ri_nonliteral :: bool
  ri_cycle :: "string list option"
  ri_failure :: "import_failure option"

record resolver_state =
  records :: "import_record list"
  visited :: "path list"
  in_progress :: "path list"
  in_progress_names :: "string list"
  truncated :: bool
  exceeded :: "string option"
  nonliteral_imports :: bool
  cycle :: "string list option"
  failure :: "import_failure option"
  unresolved_seen :: "string list"

definition IMPORT_SEARCH_PATHS :: "path list" where
  "IMPORT_SEARCH_PATHS = [''/System/Library/Sandbox/Profiles'', ''/usr/share/sandbox'']"

definition IMPORT_MAX_DEPTH :: nat where "IMPORT_MAX_DEPTH = 8"
definition IMPORT_MAX_COUNT :: nat where "IMPORT_MAX_COUNT = 64"
definition MAX_SBPL_SOURCE_BYTES :: nat where "MAX_SBPL_SOURCE_BYTES = 4 * 1024 * 1024"
definition CLOSURE_HASH_SEPARATOR :: char where "CLOSURE_HASH_SEPARATOR = CHR 0x1F"

section \<open>Operations\<close>

definition resolve_import_path :: "import_fs \<Rightarrow> string \<Rightarrow> path option" where
  "resolve_import_path fs name =
     (if starts_with name ''/'' then (if path_exists fs name then Some name else None)
      else find (path_exists fs) (map (\<lambda>base. path_join base name) IMPORT_SEARCH_PATHS))"

definition read_regular_file :: "import_fs \<Rightarrow> path \<Rightarrow> import_error + string \<times> file_metadata" where
  "read_regular_file fs p =
     (case fs_open fs p of Inl e \<Rightarrow> Inl (ReadFailed e)
      | Inr f \<Rightarrow>
         (case file_stat f of Inl e \<Rightarrow> Inl (FstatFailed e)
          | Inr metadata \<Rightarrow>
             if \<not> meta_is_file metadata then Inl NotRegularFile
             else (case file_bytes f of Inl e \<Rightarrow> Inl (ReadFailed e)
                   | Inr bytes \<Rightarrow> Inr (bytes, metadata))))"

definition mtime_of :: "file_metadata \<Rightarrow> int option" where
  "mtime_of metadata =
     (case meta_modified metadata of None \<Rightarrow> None
      | Some ns \<Rightarrow> if ns < 0 then None else Some (ns div 1000000000))"

definition build_import_record ::
    "import_fs \<Rightarrow> (string \<Rightarrow> string) \<Rightarrow> string \<Rightarrow> path \<Rightarrow> import_record \<times> string option" where
  "build_import_record fs sha256_hex name resolved =
     (case read_regular_file fs resolved of
        Inl err \<Rightarrow>
          (\<lparr>rec_name = name, resolved_path = Some resolved, rec_sha256 = None, size_bytes = None,
            mtime_unix = None, rec_error = Some err\<rparr>, None)
      | Inr (bytes, metadata) \<Rightarrow>
          (\<lparr>rec_name = name, resolved_path = Some resolved, rec_sha256 = Some (sha256_hex bytes),
            size_bytes = Some (meta_len metadata), mtime_unix = mtime_of metadata, rec_error = None\<rparr>,
           Some bytes))"

definition note_failure :: "import_failure \<Rightarrow> resolver_state \<Rightarrow> resolver_state" where
  "note_failure f st = st\<lparr>failure := option_or (failure st) (Some f)\<rparr>"

definition push_record :: "import_record \<Rightarrow> resolver_state \<Rightarrow> resolver_state" where
  "push_record r st = st\<lparr>records := records st @ [r]\<rparr>"

definition exceed :: "string \<Rightarrow> resolver_state \<Rightarrow> resolver_state" where
  "exceed bound st =
     note_failure (LimitExceeded bound)
       (st\<lparr>truncated := True, exceeded := option_or (exceeded st) (Some bound)\<rparr>)"

definition record_cycle :: "string \<Rightarrow> resolver_state \<Rightarrow> resolver_state" where
  "record_cycle name st =
     (if cycle st = None then
        let chain = in_progress_names st @ [name] in
        (note_failure (ImportCycle chain) st)\<lparr>cycle := Some chain\<rparr>
      else st)"

definition set_last_error :: "import_error \<Rightarrow> resolver_state \<Rightarrow> resolver_state" where
  "set_last_error e st =
     (if records st = [] then st
      else st\<lparr>records := butlast (records st) @ [(last (records st))\<lparr>rec_error := Some e\<rparr>]\<rparr>)"

text \<open>The branch of a name no search path resolves.\<close>

definition visit_unresolved :: "string \<Rightarrow> resolver_state \<Rightarrow> resolver_state" where
  "visit_unresolved name st =
     (if name \<in> set (unresolved_seen st) then st
      else
        let st = st\<lparr>unresolved_seen := set_insert name (unresolved_seen st)\<rparr> in
        if length (records st) \<ge> IMPORT_MAX_COUNT then exceed ''count'' st
        else push_record
          \<lparr>rec_name = name, resolved_path = None, rec_sha256 = None, size_bytes = None,
           mtime_unix = None, rec_error = Some NotFoundInSearchPath\<rparr>
          (note_failure (ImportFailure name NotFoundInSearchPath) st))"

text \<open>
  Reading one resolved file: its record is pushed, and its text is returned when it can
  be scanned.
\<close>

definition read_import ::
    "import_fs \<Rightarrow> (string \<Rightarrow> string) \<Rightarrow> string \<Rightarrow> path \<Rightarrow> resolver_state \<Rightarrow> resolver_state \<times> string option" where
  "read_import fs sha256_hex name canonical st =
     (let (record, bytes) = build_import_record fs sha256_hex name canonical;
          st = (case rec_error record of None \<Rightarrow> st
                | Some error \<Rightarrow> note_failure (ImportFailure name error) st);
          st = push_record record st in
      case bytes of None \<Rightarrow> (st, None)
      | Some b \<Rightarrow>
         (case from_utf8 b of
            None \<Rightarrow> (set_last_error NotValidUtf8 (note_failure (ImportFailure name NotValidUtf8) st), None)
          | Some text \<Rightarrow> (st, Some text)))"

definition enter_import :: "string \<Rightarrow> path \<Rightarrow> bool \<Rightarrow> resolver_state \<Rightarrow> resolver_state" where
  "enter_import name canonical complete st =
     (let st = st\<lparr>in_progress := in_progress st @ [canonical],
                  in_progress_names := in_progress_names st @ [name]\<rparr> in
      if complete then st else note_failure (NonliteralImport name) (st\<lparr>nonliteral_imports := True\<rparr>))"

definition leave_import :: "resolver_state \<Rightarrow> resolver_state" where
  "leave_import st =
     st\<lparr>in_progress := butlast (in_progress st), in_progress_names := butlast (in_progress_names st)\<rparr>"

definition depth_limit_record :: "string \<Rightarrow> path \<Rightarrow> import_record" where
  "depth_limit_record name canonical =
     \<lparr>rec_name = name, resolved_path = Some canonical, rec_sha256 = None, size_bytes = None,
      mtime_unix = None, rec_error = Some DepthLimitExceeded\<rparr>"

text \<open>
  The depth-first visit. It recurses only below \<open>IMPORT_MAX_DEPTH\<close>, which is its
  termination measure; the loop over the children is a fold over the scanned names in
  their ascending order.
\<close>

function dfs_visit_import ::
    "import_fs \<Rightarrow> (string \<Rightarrow> string) \<Rightarrow> nat \<Rightarrow> string \<Rightarrow> resolver_state \<Rightarrow> resolver_state" where
  "dfs_visit_import fs sha256_hex depth name st =
     (case resolve_import_path fs name of
        None \<Rightarrow> visit_unresolved name st
      | Some p \<Rightarrow>
          (let canonical = unwrap_or (canonicalize fs p) p in
           if list_ex (path_eq canonical) (in_progress st) then record_cycle name st
           else if list_ex (path_eq canonical) (visited st) then st
           else if length (records st) \<ge> IMPORT_MAX_COUNT then exceed ''count'' st
           else
             let st = st\<lparr>visited := canonical # visited st\<rparr> in
             if depth \<ge> IMPORT_MAX_DEPTH
             then push_record (depth_limit_record name canonical) (exceed ''depth'' st)
             else
               (case read_import fs sha256_hex name canonical st of
                  (st, None) \<Rightarrow> st
                | (st, Some text) \<Rightarrow>
                    let scan = import_scan text;
                        st = enter_import name canonical (scan_complete scan) st in
                    leave_import (fold (dfs_visit_import fs sha256_hex (depth + 1)) (refs scan) st))))"
  by pat_completeness auto
termination
  by (relation "measure (\<lambda>(fs, sha, depth, name, st). IMPORT_MAX_DEPTH - depth)") auto

declare dfs_visit_import.simps [simp del]

definition initial_resolver :: resolver_state where
  "initial_resolver =
     \<lparr>records = [], visited = [], in_progress = [], in_progress_names = [], truncated = False,
      exceeded = None, nonliteral_imports = False, cycle = None, failure = None, unresolved_seen = []\<rparr>"

definition start_resolver :: "bool \<Rightarrow> resolver_state" where
  "start_resolver complete =
     initial_resolver\<lparr>nonliteral_imports := \<not> complete,
       failure := (if complete then None else Some NonliteralSource)\<rparr>"

text \<open>The stable sort by resolved path (absent as empty), then name.\<close>

definition record_key :: "import_record \<Rightarrow> string \<times> string" where
  "record_key r = (unwrap_or (resolved_path r) [], rec_name r)"

definition resolve_imports :: "import_fs \<Rightarrow> (string \<Rightarrow> string) \<Rightarrow> string \<Rightarrow> resolved_imports" where
  "resolve_imports fs sha256_hex source =
     (let scan = import_scan source;
          st = fold (dfs_visit_import fs sha256_hex 0) (refs scan) (start_resolver (scan_complete scan)) in
      \<lparr>ri_records = sort_key record_key (records st), ri_truncated = truncated st,
       ri_exceeded = exceeded st, ri_nonliteral = nonliteral_imports st, ri_cycle = cycle st,
       ri_failure = failure st\<rparr>)"

fun join_with :: "string \<Rightarrow> string list \<Rightarrow> string" where
  "join_with sep [] = []"
| "join_with sep [x] = x"
| "join_with sep (x # y # ys) = x @ sep @ join_with sep (y # ys)"

definition closure_line :: "import_record \<Rightarrow> string option" where
  "closure_line r =
     (case (resolved_path r, rec_sha256 r) of
        (Some p, Some sha) \<Rightarrow> Some (p @ '' '' @ sha) | _ \<Rightarrow> None)"

definition closure_payload :: "string \<Rightarrow> import_record list \<Rightarrow> string" where
  "closure_payload source imports =
     source @ [CLOSURE_HASH_SEPARATOR] @ join_with [newline] (sort (filter_map closure_line imports))"

definition compute_closure_hash :: "(string \<Rightarrow> string) \<Rightarrow> string \<Rightarrow> import_record list \<Rightarrow> string" where
  "compute_closure_hash sha256_hex source imports = sha256_hex (closure_payload source imports)"

section \<open>Interface: what one visit may do to the state\<close>

text \<open>
  The walk changes its state through a handful of updates. A property each of them
  keeps is kept by a whole visit and by the walk; the laws are discharged for a property
  once, and the walk's facts follow.
\<close>

definition fresh_path :: "path \<Rightarrow> resolver_state \<Rightarrow> bool" where
  "fresh_path c st = (\<not> list_ex (path_eq c) (visited st) \<and> length (records st) < IMPORT_MAX_COUNT)"

definition mark_visited :: "path \<Rightarrow> resolver_state \<Rightarrow> resolver_state" where
  "mark_visited c st = st\<lparr>visited := c # visited st\<rparr>"

locale walk_property =
  fixes fs :: import_fs and sha256_hex :: "string \<Rightarrow> string"
    and P :: "resolver_state \<Rightarrow> bool"
  assumes P_cycle: "P st \<Longrightarrow> P (record_cycle n st)"
    and P_count: "P st \<Longrightarrow> P (exceed ''count'' st)"
    and P_unresolved: "P st \<Longrightarrow> P (visit_unresolved n st)"
    and P_depth: "P st \<Longrightarrow> fresh_path c st \<Longrightarrow>
      P (push_record (depth_limit_record n c) (exceed ''depth'' (mark_visited c st)))"
    and P_read: "P st \<Longrightarrow> fresh_path c st \<Longrightarrow> P (fst (read_import fs sha256_hex n c (mark_visited c st)))"
    and P_enter: "P st \<Longrightarrow> P (enter_import n c b st)"
    and P_leave: "P st \<Longrightarrow> P (leave_import st)"
begin

lemma visit: "P st \<Longrightarrow> P (dfs_visit_import fs sha256_hex depth n st)"
proof (induction "IMPORT_MAX_DEPTH - depth" arbitrary: depth n st rule: less_induct)
  case less
  show ?case
  proof (cases "resolve_import_path fs n")
    case None
    with less.prems show ?thesis by (simp add: dfs_visit_import.simps P_unresolved)
  next
    case (Some p)
    define c where "c = unwrap_or (canonicalize fs p) p"
    let ?st = "mark_visited c st"
    consider (cyc) "list_ex (path_eq c) (in_progress st)"
      | (dia) "\<not> list_ex (path_eq c) (in_progress st)" "list_ex (path_eq c) (visited st)"
      | (cnt) "\<not> list_ex (path_eq c) (in_progress st)" "\<not> list_ex (path_eq c) (visited st)"
          "length (records st) \<ge> IMPORT_MAX_COUNT"
      | (dep) "\<not> list_ex (path_eq c) (in_progress st)" "fresh_path c st" "depth \<ge> IMPORT_MAX_DEPTH"
      | (rd) "\<not> list_ex (path_eq c) (in_progress st)" "fresh_path c st" "depth < IMPORT_MAX_DEPTH"
      unfolding fresh_path_def by linarith
    then show ?thesis
    proof cases
      case rd
      obtain st' r where r: "read_import fs sha256_hex n c ?st = (st', r)" by fastforce
      have P': "P st'" using P_read [OF less.prems rd(2), of n] r by simp
      have eq: "dfs_visit_import fs sha256_hex depth n st =
          (case r of None \<Rightarrow> st' | Some text \<Rightarrow>
             leave_import (fold (dfs_visit_import fs sha256_hex (depth + 1)) (refs (import_scan text))
               (enter_import n c (scan_complete (import_scan text)) st')))"
        using rd r Some
        by (simp add: dfs_visit_import.simps [of fs sha256_hex depth] c_def [symmetric] Let_def
            fresh_path_def mark_visited_def split: option.splits)
      have "P (dfs_visit_import fs sha256_hex (depth + 1) m s)" if "P s" for m s
        by (rule less.hyps) (use rd that in auto)
      then have fold: "P (fold (dfs_visit_import fs sha256_hex (depth + 1)) ms s)" if "P s" for ms s
        using that by (induction ms arbitrary: s) simp_all
      show ?thesis
        unfolding eq using P' by (cases r) (simp_all add: fold [simplified] P_enter P_leave)
    qed (use less.prems Some in \<open>simp_all add: dfs_visit_import.simps [of fs sha256_hex depth]
      c_def [symmetric] Let_def P_cycle P_count P_depth [unfolded mark_visited_def] fresh_path_def\<close>)
  qed
qed

lemma walk: "P st \<Longrightarrow> P (fold (dfs_visit_import fs sha256_hex depth) ns st)"
  by (induction ns arbitrary: st) (simp_all add: visit)

end

named_theorems walk_defs \<open>the updates of the walk's state\<close>

lemmas walk_updates [walk_defs] =
  record_cycle_def exceed_def visit_unresolved_def push_record_def note_failure_def mark_visited_def
  enter_import_def leave_import_def depth_limit_record_def Let_def

lemma read_import_cases:
  obtains (fail) e where "read_import fs sha n c st =
      (push_record \<lparr>rec_name = n, resolved_path = Some c, rec_sha256 = None, size_bytes = None,
        mtime_unix = None, rec_error = Some e\<rparr> (note_failure (ImportFailure n e) st), None)"
  | (utf8) r where "read_import fs sha n c st =
      (push_record (r\<lparr>rec_error := Some NotValidUtf8\<rparr>) (note_failure (ImportFailure n NotValidUtf8) st), None)"
      "resolved_path r = Some c"
  | (scan) r t where "read_import fs sha n c st = (push_record r st, Some t)"
      "resolved_path r = Some c" "rec_error r = None"
proof (cases "read_regular_file fs c")
  case (Inl e)
  then show ?thesis using fail by (simp add: read_import_def build_import_record_def)
next
  case (Inr bm)
  then obtain b m where bm: "read_regular_file fs c = Inr (b, m)" by (cases bm) auto
  define r where "r = \<lparr>rec_name = n, resolved_path = Some c, rec_sha256 = Some (sha b),
    size_bytes = Some (meta_len m), mtime_unix = mtime_of m, rec_error = None\<rparr>"
  show ?thesis
  proof (cases "from_utf8 b")
    case None
    with bm show ?thesis
      by (intro utf8 [of r]) (simp_all add: read_import_def build_import_record_def r_def set_last_error_def
          push_record_def note_failure_def)
  next
    case (Some t)
    with bm show ?thesis
      by (intro scan [of r t]) (simp_all add: read_import_def build_import_record_def r_def)
  qed
qed

section \<open>The invariants\<close>

definition within_count :: "resolver_state \<Rightarrow> bool" where
  "within_count st = (length (records st) \<le> IMPORT_MAX_COUNT)"

definition clean :: "resolver_state \<Rightarrow> bool" where
  "clean st = (exceeded st = None \<and> cycle st = None \<and> \<not> nonliteral_imports st \<and>
     (\<forall>r \<in> set (records st). rec_error r = None))"

definition accounted :: "resolver_state \<Rightarrow> bool" where
  "accounted st = ((failure st = None \<longleftrightarrow> clean st) \<and> (truncated st \<longleftrightarrow> exceeded st \<noteq> None))"

definition resolved_files :: "import_record list \<Rightarrow> path_component list list" where
  "resolved_files rs = filter_map (\<lambda>r. map_option path_components (resolved_path r)) rs"

definition unresolved_names :: "import_record list \<Rightarrow> string list" where
  "unresolved_names rs = filter_map (\<lambda>r. if resolved_path r = None then Some (rec_name r) else None) rs"

definition once_each :: "resolver_state \<Rightarrow> bool" where
  "once_each st = (distinct (resolved_files (records st)) \<and>
     set (resolved_files (records st)) \<subseteq> path_components ` set (visited st) \<and>
     distinct (unresolved_names (records st)) \<and>
     set (unresolved_names (records st)) \<subseteq> set (unresolved_seen st))"

lemma filter_map_append: "filter_map f (xs @ ys) = filter_map f xs @ filter_map f ys"
  by (induction xs) (auto split: option.splits)

lemma files_names_append [simp]:
  "resolved_files (rs @ [r]) = resolved_files rs @ (case resolved_path r of None \<Rightarrow> [] | Some p \<Rightarrow> [path_components p])"
  "unresolved_names (rs @ [r]) = unresolved_names rs @ (if resolved_path r = None then [rec_name r] else [])"
  "resolved_files [] = []" "unresolved_names [] = []"
  by (auto simp: resolved_files_def unresolved_names_def filter_map_append split: option.splits)

interpretation count_bound: walk_property fs sha within_count for fs sha
proof (unfold_locales, goal_cases)
  case (5 st c n)
  then show ?case
    by (cases rule: read_import_cases [of fs sha n c "mark_visited c st"])
      (auto simp: within_count_def fresh_path_def walk_defs)
qed (auto simp: within_count_def fresh_path_def walk_defs)

interpretation accounting: walk_property fs sha accounted for fs sha
proof (unfold_locales, goal_cases)
  case (5 st c n)
  then show ?case
    by (cases rule: read_import_cases [of fs sha n c "mark_visited c st"])
      (auto simp: accounted_def clean_def walk_defs)
qed (auto simp: accounted_def clean_def walk_defs)

lemma fresh_path_components: "fresh_path c st \<Longrightarrow> path_components c \<notin> path_components ` set (visited st)"
  by (auto simp: fresh_path_def list_ex_iff path_eq_def)

interpretation uniqueness: walk_property fs sha once_each for fs sha
proof (unfold_locales, goal_cases)
  case (4 st c n)
  then show ?case
    using fresh_path_components [OF 4(2)] by (auto simp: once_each_def walk_defs)
next
  case (5 st c n)
  then show ?case
    using fresh_path_components [OF 5(2)]
    by (cases rule: read_import_cases [of fs sha n c "mark_visited c st"])
      (auto simp: once_each_def walk_defs)
qed (auto simp: once_each_def walk_defs)

text \<open>The stacks of open imports are as before when a visit returns.\<close>

lemma read_import_stacks:
  "in_progress (fst (read_import fs sha n c st)) = in_progress st"
  "in_progress_names (fst (read_import fs sha n c st)) = in_progress_names st"
  by (cases rule: read_import_cases [of fs sha n c st]; simp add: walk_defs)+

lemma dfs_visit_stacks:
  "in_progress (dfs_visit_import fs sha depth n st) = in_progress st \<and>
   in_progress_names (dfs_visit_import fs sha depth n st) = in_progress_names st"
proof (induction "IMPORT_MAX_DEPTH - depth" arbitrary: depth n st rule: less_induct)
  case less
  have fold: "in_progress (fold (dfs_visit_import fs sha (Suc depth)) ns s) = in_progress s \<and>
      in_progress_names (fold (dfs_visit_import fs sha (Suc depth)) ns s) = in_progress_names s"
    if "depth < IMPORT_MAX_DEPTH" for ns s
    using that less [of "Suc depth"] by (induction ns arbitrary: s) auto
  show ?case
  proof (cases "resolve_import_path fs n")
    case None
    then show ?thesis by (simp add: dfs_visit_import.simps [of fs sha depth] walk_defs)
  next
    case (Some p)
    define c where "c = unwrap_or (canonicalize fs p) p"
    obtain st' r where r: "read_import fs sha n c (mark_visited c st) = (st', r)" by fastforce
    with read_import_stacks [of fs sha n c "mark_visited c st"]
    have st': "in_progress st' = in_progress st" "in_progress_names st' = in_progress_names st"
      by (simp_all add: mark_visited_def)
    show ?thesis
      using Some r st' fold
      by (cases r) (simp_all add: dfs_visit_import.simps [of fs sha depth] c_def [symmetric]
          walk_defs not_le)
  qed
qed

section \<open>The inventory\<close>

lemma start_resolver_inv:
  "within_count (start_resolver b)" "accounted (start_resolver b)" "once_each (start_resolver b)"
  by (simp_all add: start_resolver_def initial_resolver_def within_count_def accounted_def clean_def
      once_each_def)

lemma resolve_imports_state:
  obtains st where "within_count st" "accounted st" "once_each st"
    "resolve_imports fs sha src =
      \<lparr>ri_records = sort_key record_key (records st), ri_truncated = truncated st,
       ri_exceeded = exceeded st, ri_nonliteral = nonliteral_imports st, ri_cycle = cycle st,
       ri_failure = failure st\<rparr>"
  using start_resolver_inv [of "scan_complete (import_scan src)"]
  by (intro that [of "fold (dfs_visit_import fs sha 0) (refs (import_scan src))
      (start_resolver (scan_complete (import_scan src)))"])
    (simp_all add: count_bound.walk accounting.walk uniqueness.walk resolve_imports_def Let_def)

lemma mset_filter_map: "mset xs = mset ys \<Longrightarrow> mset (filter_map f xs) = mset (filter_map f ys)"
proof -
  assume "mset xs = mset ys"
  then have "image_mset the (filter_mset (\<lambda>x. x \<noteq> None) (image_mset f (mset xs))) =
    image_mset the (filter_mset (\<lambda>x. x \<noteq> None) (image_mset f (mset ys)))" by simp
  moreover have "image_mset the (filter_mset (\<lambda>x. x \<noteq> None) (image_mset f (mset zs))) = mset (filter_map f zs)" for zs
    by (induction zs) (auto split: option.splits)
  ultimately show ?thesis by simp
qed

lemma distinct_filter_map_sort:
  "distinct (filter_map f (sort_key k rs)) = distinct (filter_map f rs)"
proof -
  have "mset (filter_map f (sort_key k rs)) = mset (filter_map f rs)"
    by (rule mset_filter_map) simp
  then show ?thesis by (rule mset_eq_imp_distinct_iff)
qed

section \<open>Properties\<close>

text \<open>C20: The inventory is bounded and lists nothing twice: whatever the file system
  holds, the walk yields at most \<open>IMPORT_MAX_COUNT\<close> records in ascending order of resolved
  path and name, each resolved file (by path components) at most once, and each
  unresolved name at most once.\<close>

theorem resolve_imports_bounded_unique:
  "length (ri_records (resolve_imports fs sha src)) \<le> IMPORT_MAX_COUNT \<and>
   sorted (map record_key (ri_records (resolve_imports fs sha src))) \<and>
   distinct (resolved_files (ri_records (resolve_imports fs sha src))) \<and>
   distinct (unresolved_names (ri_records (resolve_imports fs sha src)))"
  by (rule resolve_imports_state [of fs sha src])
    (simp add: within_count_def once_each_def resolved_files_def unresolved_names_def
      distinct_filter_map_sort)

text \<open>C21: The inventory accounts for every problem: it reports a failure exactly when a
  bound stopped the walk, an import cycle was seen, a computed import form could not be
  followed or some record carries an error; and it reports truncation exactly when it
  names the bound that was hit.\<close>

theorem resolve_imports_accounts:
  "(ri_failure (resolve_imports fs sha src) = None \<longleftrightarrow>
     ri_exceeded (resolve_imports fs sha src) = None \<and> ri_cycle (resolve_imports fs sha src) = None \<and>
     \<not> ri_nonliteral (resolve_imports fs sha src) \<and>
     list_all (\<lambda>r. rec_error r = None) (ri_records (resolve_imports fs sha src))) \<and>
   (ri_truncated (resolve_imports fs sha src) \<longleftrightarrow> ri_exceeded (resolve_imports fs sha src) \<noteq> None)"
  by (rule resolve_imports_state [of fs sha src])
    (simp add: accounted_def clean_def list_all_iff)

text \<open>
  What a closure hash is meant to identify, next to the source: the multiset of resolved files with
  their content hashes. Its records are plain when no path holds a newline or the separator byte and
  every hash is hexadecimal.
\<close>

definition resolved_content :: "import_record list \<Rightarrow> (path \<times> string) multiset" where
  "resolved_content rs = mset (concat (map (\<lambda>r. case (resolved_path r, rec_sha256 r) of
     (Some p, Some h) \<Rightarrow> [(p, h)] | _ \<Rightarrow> []) rs))"

definition plain_content :: "path \<times> string \<Rightarrow> bool" where
  "plain_content = (\<lambda>(p, h). newline \<notin> set p \<and> CLOSURE_HASH_SEPARATOR \<notin> set p \<and> set h \<subseteq> set ''0123456789abcdef'')"

definition plain_records :: "import_record list \<Rightarrow> bool" where
  "plain_records rs = (\<forall>c \<in># resolved_content rs. plain_content c)"

definition content_line :: "path \<times> string \<Rightarrow> string" where
  "content_line = (\<lambda>(p, h). p @ '' '' @ h)"

text \<open>A line is read back at its last space.\<close>

definition line_content :: "string \<Rightarrow> path \<times> string" where
  "line_content l = (rev (tl (dropWhile (\<lambda>c. c \<noteq> CHR '' '') (rev l))), rev (takeWhile (\<lambda>c. c \<noteq> CHR '' '') (rev l)))"

lemma plain_hash: "plain_content (p, h) \<Longrightarrow> c \<in> set h \<Longrightarrow> c \<notin> {CHR '' '', newline, CLOSURE_HASH_SEPARATOR}"
  by (auto simp: plain_content_def CLOSURE_HASH_SEPARATOR_def)

lemma line_content_line: "plain_content c \<Longrightarrow> line_content (content_line c) = c"
proof -
  assume a: "plain_content c"
  obtain p h where c: "c = (p, h)" by fastforce
  have "\<forall>x \<in> set (rev h). x \<noteq> CHR '' ''" using plain_hash [OF a [unfolded c]] by auto
  then have "takeWhile (\<lambda>c. c \<noteq> CHR '' '') (rev h @ CHR '' '' # rev p) = rev h"
    "dropWhile (\<lambda>c. c \<noteq> CHR '' '') (rev h @ CHR '' '' # rev p) = CHR '' '' # rev p"
    by (induction "rev h") (auto simp: takeWhile_append dropWhile_append)
  then show ?thesis
    by (simp add: c content_line_def line_content_def)
qed

lemma content_line_chars:
  assumes "plain_content c"
  shows "content_line c \<noteq> []" "newline \<notin> set (content_line c)" "CLOSURE_HASH_SEPARATOR \<notin> set (content_line c)"
  using assms plain_hash [of "fst c" "snd c"]
  by (auto simp: content_line_def plain_content_def CLOSURE_HASH_SEPARATOR_def split: prod.splits)

lemma closure_lines: "mset (filter_map closure_line rs) = image_mset content_line (resolved_content rs)"
  by (induction rs) (auto simp: resolved_content_def closure_line_def content_line_def split: option.splits)

lemma split_last_separator:
  assumes "x @ c # u = y @ c # v" and "c \<notin> set u" and "c \<notin> set v"
  shows "x = y \<and> u = v"
  using assms
proof (induction x arbitrary: y)
  case Nil
  then show ?case by (cases y) auto
next
  case (Cons a x)
  then show ?case by (cases y) auto
qed

lemma split_first_separator:
  assumes "u @ c # x = v @ c # y" and "c \<notin> set u" and "c \<notin> set v"
  shows "u = v \<and> x = y"
  using assms
proof (induction u arbitrary: v)
  case Nil
  then show ?case by (cases v) auto
next
  case (Cons a u)
  then show ?case by (cases v) auto
qed

lemma set_join_with: "set (join_with sep xs) \<subseteq> set sep \<union> (\<Union>x \<in> set xs. set x)"
  by (induction sep xs rule: join_with.induct) auto

lemma join_with_inject:
  assumes "\<forall>x \<in> set xs \<union> set ys. x \<noteq> [] \<and> c \<notin> set x"
  shows "join_with [c] xs = join_with [c] ys \<longleftrightarrow> xs = ys"
proof
  show "join_with [c] xs = join_with [c] ys \<Longrightarrow> xs = ys"
    using assms
  proof (induction "[c]" xs arbitrary: ys rule: join_with.induct)
    case 1
    then show ?case by (cases "([c], ys)" rule: join_with.cases) auto
  next
    case (2 x)
    then show ?case by (cases "([c], ys)" rule: join_with.cases) auto
  next
    case (3 x y zs)
    show ?case
    proof (cases "([c], ys)" rule: join_with.cases)
      case (3 sep x' y' zs')
      with "3.prems" have eq: "x @ c # join_with [c] (y # zs) = x' @ c # join_with [c] (y' # zs')" by simp
      have "x = x' \<and> join_with [c] (y # zs) = join_with [c] (y' # zs')"
        using "3.prems"(2) 3 by (intro split_first_separator [OF eq]) auto
      with "3.hyps" [of "y' # zs'"] "3.prems"(2) 3 show ?thesis by auto
    qed (use "3.prems" in auto)
  qed
qed simp

lemma closure_payload_inject:
  assumes "plain_records rs" and "plain_records rs'"
  shows "closure_payload src rs = closure_payload src' rs' \<longleftrightarrow> src = src' \<and> resolved_content rs = resolved_content rs'"
proof -
  let ?ls = "\<lambda>rs. sort (filter_map closure_line rs)"
  have set_ls: "set (?ls rs) = content_line ` set_mset (resolved_content rs)" for rs
    using arg_cong [OF closure_lines [of rs], of set_mset] by simp
  have read_lines: "image_mset line_content (mset (?ls rs)) = resolved_content rs" if "plain_records rs" for rs
  proof -
    have "image_mset line_content (mset (?ls rs)) = image_mset (\<lambda>c. line_content (content_line c)) (resolved_content rs)"
      by (simp add: closure_lines multiset.map_comp comp_def)
    also have "\<dots> = image_mset (\<lambda>c. c) (resolved_content rs)"
      using that by (intro image_mset_cong) (simp add: plain_records_def line_content_line)
    finally show ?thesis by simp
  qed
  have free: "CLOSURE_HASH_SEPARATOR \<notin> set (join_with [newline] (?ls rs))" if "plain_records rs" for rs
    using that set_join_with [of "[newline]" "?ls rs"] content_line_chars(3) set_ls [of rs]
    by (auto simp: plain_records_def CLOSURE_HASH_SEPARATOR_def)
  have lines: "\<forall>x \<in> set (?ls rs) \<union> set (?ls rs'). x \<noteq> [] \<and> newline \<notin> set x"
    using assms content_line_chars unfolding set_ls by (auto simp: plain_records_def)
  show ?thesis
  proof
    assume "closure_payload src rs = closure_payload src' rs'"
    then have "src @ CLOSURE_HASH_SEPARATOR # join_with [newline] (?ls rs) =
      src' @ CLOSURE_HASH_SEPARATOR # join_with [newline] (?ls rs')" by (simp add: closure_payload_def)
    from split_last_separator [OF this free [OF assms(1)] free [OF assms(2)]]
    have "src = src'" "?ls rs = ?ls rs'" using join_with_inject [OF lines] by simp_all
    with read_lines [OF assms(1)] read_lines [OF assms(2)] show "src = src' \<and> resolved_content rs = resolved_content rs'" by simp
  next
    assume eq: "src = src' \<and> resolved_content rs = resolved_content rs'"
    then have "mset (filter_map closure_line rs) = mset (filter_map closure_line rs')" by (simp add: closure_lines)
    then have "?ls rs = ?ls rs'" by (intro properties_for_sort) simp_all
    with eq show "closure_payload src rs = closure_payload src' rs'" by (simp add: closure_payload_def)
  qed
qed


definition sample_record :: "string \<Rightarrow> string \<Rightarrow> import_record" where
  "sample_record p h = \<lparr>rec_name = p, resolved_path = Some p, rec_sha256 = Some h, size_bytes = None,
     mtime_unix = None, rec_error = None\<rparr>"


end
