(* ===== verification/Requests.thy ===== *)
theory Requests
  imports Json Runner_Registry
begin

text \<open>
  Reading the request (controller/src/request_patch.rs), the runner selector it carries
  (the first half of controller/src/runner_select.rs) and the edits \<open>run\<close> makes to it
  (\<open>inject_runner_mode\<close> and \<open>parse_arguments\<close> of controller/src/run_flow.rs). The JSON text parser
  is a parameter. Diagnostics keep the interpolated values as parts: \<open>MDebug s\<close> is the \<open>{s:?}\<close> of the
  source.
\<close>

section \<open>Request errors\<close>

definition REQUEST_SCHEMA_VERSION :: nat where "REQUEST_SCHEMA_VERSION = 6"

datatype msg_part = MText string | MDebug string | MNumber number

type_synonym message = "msg_part list"

record request_failure =
  code :: string
  fpath :: "string list option"
  expected_schema :: "nat option"

record request_error =
  failure :: request_failure
  emessage :: message

definition request_error_new :: "string \<Rightarrow> string list \<Rightarrow> message \<Rightarrow> request_error" where
  "request_error_new c p m =
     \<lparr>failure = \<lparr>code = c,
        fpath = (if length p \<le> 8 \<and> list_all (\<lambda>part. length part \<le> 63) p then Some p else None),
        expected_schema = (if p = [''schema_version''] then Some REQUEST_SCHEMA_VERSION else None)\<rparr>,
      emessage = m\<rparr>"

definition parse_request :: "(string \<Rightarrow> string + json) \<Rightarrow> string \<Rightarrow> request_error + json" where
  "parse_request from_str body =
     (case from_str body of
        Inl e \<Rightarrow> Inl (request_error_new ''invalid_json'' [] [MText (''failed to parse request.json: '' @ e)])
      | Inr v \<Rightarrow>
          if \<not> is_object v then
            Inl (request_error_new (if is_null v then ''missing_value'' else ''type_mismatch'') []
              [MText ''request.json must be a JSON object''])
          else Inr v)"

text \<open>\<open>fract() == 0.0\<close>: the number is an integer.\<close>

definition fract_zero :: "number \<Rightarrow> bool" where
  "fract_zero n = (of_int \<lfloor>number_as_f64 n\<rfloor> = number_as_f64 n)"

definition validate_request_version :: "json \<Rightarrow> request_error + unit" where
  "validate_request_version value =
     (let mismatch = (\<lambda>c. Inl (request_error_new c [''schema_version'']
            [MText ''schema_version must be an integer (expected '', MText (nat_digits REQUEST_SCHEMA_VERSION), MText '')''])) in
      case jget value ''schema_version'' of
        None \<Rightarrow> mismatch ''missing_field''
      | Some JNull \<Rightarrow> mismatch ''missing_value''
      | Some (JNum n) \<Rightarrow>
          if fract_zero n then
            if number_as_f64 n = of_nat REQUEST_SCHEMA_VERSION then Inr ()
            else Inl (request_error_new ''unsupported_schema'' [''schema_version'']
              [MText ''unsupported request schema '', MNumber n,
               MText '' (expected '', MText (nat_digits REQUEST_SCHEMA_VERSION), MText '')''])
          else mismatch ''type_mismatch''
      | Some _ \<Rightarrow> mismatch ''type_mismatch'')"

section \<open>The runner selector\<close>

record runner_selector =
  sel_id :: "string option"
  sel_service :: "string option"
  required_entitlements :: "string list"
  sel_mode :: "runner_kind option"

definition SELECTOR_FIELDS :: "string list" where
  "SELECTOR_FIELDS = [''runner'', ''runner_id'', ''runner_service'', ''required_entitlements'', ''runner_mode'']"

definition selector_error :: "string \<Rightarrow> string \<Rightarrow> string list \<Rightarrow> message \<Rightarrow> request_error" where
  "selector_error c prefix suffix m =
     request_error_new c ((if prefix = [] then [] else [''runner'']) @ suffix) m"

definition selector_string :: "json_map \<Rightarrow> string \<Rightarrow> string \<Rightarrow> request_error + string option" where
  "selector_string object key p =
     (case obj_get object key of
        None \<Rightarrow> Inr None
      | Some JNull \<Rightarrow> Inr None
      | Some (JStr s) \<Rightarrow> Inr (Some s)
      | Some _ \<Rightarrow> Inl (selector_error ''type_mismatch'' p [key] [MText (p @ key @ '' must be a string or null'')]))"

definition selector_entitlements :: "json_map \<Rightarrow> string \<Rightarrow> request_error + string list option" where
  "selector_entitlements object p =
     (case obj_get object ''required_entitlements'' of
        None \<Rightarrow> Inr None
      | Some JNull \<Rightarrow> Inr None
      | Some (JArr items) \<Rightarrow>
          res_bind (try_map (\<lambda>i item. ok_or (as_str item)
              (selector_error ''type_mismatch'' p [''required_entitlements'', nat_digits i]
                [MText (p @ ''required_entitlements['' @ nat_digits i @ ''] must be a string'')])) items)
            (\<lambda>xs. Inr (Some xs))
      | Some _ \<Rightarrow> Inl (selector_error ''type_mismatch'' p [''required_entitlements'']
            [MText (p @ ''required_entitlements must be an array of strings or null'')]))"

definition parse_runner_mode :: "string \<Rightarrow> string \<Rightarrow> message + runner_kind" where
  "parse_runner_mode value field =
     (if value = ''machme'' then
        Inl [MText (field @ ''=''), MDebug ''machme'', MText '' is not supported; use '', MDebug ''byoxpc'']
      else ok_or (kind_parse value)
        [MText (''invalid '' @ field @ '' value: ''),
         if length value \<le> 63 then MDebug value else MText ''<unreported_value>''])"

definition selector_mode :: "json_map \<Rightarrow> string \<Rightarrow> string \<Rightarrow> string \<Rightarrow> string list \<Rightarrow> request_error + runner_kind option" where
  "selector_mode object key p field epath =
     res_bind (selector_string object key p) (\<lambda>m.
       case m of None \<Rightarrow> Inr None
       | Some v \<Rightarrow> res_bind (map_err (request_error_new ''invalid_value'' epath) (parse_runner_mode v field))
           (\<lambda>k. Inr (Some k)))"

definition selector_problem :: "runner_selector \<Rightarrow> string option" where
  "selector_problem sel =
     (let external = is_some (sel_id sel) \<or> is_some (sel_service sel) in
      if sel_mode sel = Some Standard \<and> external then
        Some ''runner.mode=standard cannot be combined with an external runner selection''
      else if sel_mode sel = Some Byoxpc \<and> \<not> external then
        Some ''runner.mode requires runner.id or runner.service for external runners''
      else None)"

definition checked_selector :: "runner_selector \<Rightarrow> request_error + runner_selector" where
  "checked_selector sel =
     (case selector_problem sel of
        Some problem \<Rightarrow> Inl (request_error_new ''conflicting_selector'' [] [MText problem])
      | None \<Rightarrow> Inr sel)"

definition RUNNER_KEYS :: "string list" where
  "RUNNER_KEYS = [''id'', ''service'', ''required_entitlements'', ''mode'']"

text \<open>The \<open>for key in runner.keys()\<close> loop: the first unknown key is refused.\<close>

fun check_runner_keys :: "string list \<Rightarrow> request_error + unit" where
  "check_runner_keys [] = Inr ()"
| "check_runner_keys (k # ks) =
     (if k \<notin> set RUNNER_KEYS then
        Inl (request_error_new ''unknown_field'' [''runner'', k]
          [MText ''unknown field in runner: '', if length k \<le> 63 then MDebug k else MText ''<unreported_key>''])
      else check_runner_keys ks)"

definition parse_nested :: "json_map \<Rightarrow> runner_selector \<Rightarrow> request_error + runner_selector" where
  "parse_nested runner sel0 =
     res_bind (check_runner_keys (obj_keys runner)) (\<lambda>_.
     res_bind (selector_string runner ''id'' ''runner.'') (\<lambda>i.
     let sel1 = (case i of Some x \<Rightarrow> sel0\<lparr>sel_id := Some x\<rparr> | None \<Rightarrow> sel0) in
     res_bind (selector_string runner ''service'' ''runner.'') (\<lambda>s.
     let sel2 = (case s of Some x \<Rightarrow> sel1\<lparr>sel_service := Some x\<rparr> | None \<Rightarrow> sel1) in
     res_bind (selector_entitlements runner ''runner.'') (\<lambda>e.
     let sel3 = (case e of Some x \<Rightarrow> sel2\<lparr>required_entitlements := x\<rparr> | None \<Rightarrow> sel2) in
     res_bind (selector_mode runner ''mode'' ''runner.'' ''runner.mode'' [''runner'', ''mode'']) (\<lambda>m.
     let sel4 = (case m of Some x \<Rightarrow> sel3\<lparr>sel_mode := Some x\<rparr> | None \<Rightarrow> sel3) in
     checked_selector sel4)))))"

definition parse_runner_selector_value :: "json \<Rightarrow> request_error + runner_selector" where
  "parse_runner_selector_value value =
     res_bind (ok_or (as_object value)
       (request_error_new ''type_mismatch'' [] [MText ''request.json must be a JSON object''])) (\<lambda>doc.
     res_bind (selector_string doc ''runner_id'' []) (\<lambda>i.
     res_bind (selector_string doc ''runner_service'' []) (\<lambda>s.
     res_bind (selector_entitlements doc []) (\<lambda>e.
     res_bind (selector_mode doc ''runner_mode'' [] ''runner_mode'' [''runner_mode'']) (\<lambda>m.
     let sel = \<lparr>sel_id = i, sel_service = s, required_entitlements = unwrap_or e [], sel_mode = m\<rparr> in
     case obj_get doc ''runner'' of
       None \<Rightarrow> checked_selector sel
     | Some JNull \<Rightarrow> checked_selector sel
     | Some (JObj runner) \<Rightarrow> parse_nested runner sel
     | Some _ \<Rightarrow> Inl (request_error_new ''type_mismatch'' [''runner''] [MText ''runner must be a JSON object or null'']))))))"

definition strip_runner_selector :: "json \<Rightarrow> json" where
  "strip_runner_selector value =
     (case value of JObj m \<Rightarrow> JObj (fold obj_remove SELECTOR_FIELDS m) | _ \<Rightarrow> value)"

section \<open>Command-line edits\<close>

definition inject_runner_mode :: "json \<Rightarrow> string \<Rightarrow> request_error + json" where
  "inject_runner_mode value mode =
     res_bind (parse_runner_selector_value value) (\<lambda>_.
     if mode = ''machme'' then
       Inl (request_error_new ''invalid_value'' [''runner'', ''mode'']
         [MText ''--runner-mode machme is not supported; use --runner-mode byoxpc''])
     else
     res_bind (ok_or (kind_parse mode) (request_error_new ''invalid_value'' [''runner'', ''mode'']
         [MText (''invalid value for --runner-mode: '' @ mode)])) (\<lambda>kind.
     res_bind (ok_or (as_object value)
       (request_error_new ''type_mismatch'' [] [MText ''request.json must be a JSON object''])) (\<lambda>obj.
     let entry = unwrap_or (obj_get obj ''runner'') (JObj []);
         entry' = (if is_null entry then JObj [] else entry) in
     res_bind (ok_or (as_object entry')
       (request_error_new ''type_mismatch'' [''runner''] [MText ''runner must be a JSON object''])) (\<lambda>runner.
     case Option.bind (obj_get runner ''mode'') as_str of
       Some existing \<Rightarrow>
         if existing \<noteq> kind_as_str kind then
           Inl (request_error_new ''conflicting_selector'' [''runner'', ''mode'']
             [MText ''request.json already includes runner.mode; remove it or omit --runner-mode''])
         else Inr (JObj (obj_insert ''runner'' (JObj runner) obj))
     | None \<Rightarrow>
         Inr (JObj (obj_insert ''runner'' (JObj (obj_insert ''mode'' (JStr (kind_as_str kind)) runner)) obj))))))"

definition DEFAULT_TIMEOUT_MS :: nat where "DEFAULT_TIMEOUT_MS = 240000"

record parsed_args =
  request_path :: "path option"
  timeout_ms :: nat
  runner_mode_arg :: "string option"

datatype arguments = Run parsed_args | Help | ArgError "path option" string

text \<open>\<open>str::parse::<u64>()\<close>: an optional plus sign, decimal digits, no overflow.\<close>

fun digits_value :: "nat \<Rightarrow> string \<Rightarrow> nat option" where
  "digits_value acc [] = Some acc"
| "digits_value acc (c # cs) =
     (if is_ascii_digit c then
        let acc' = 10 * acc + (of_char c - 48) in
        if acc' \<le> u64_max then digits_value acc' cs else None
      else None)"

definition parse_u64 :: "string \<Rightarrow> nat option" where
  "parse_u64 s =
     (let ds = (if starts_with s ''+'' then tl s else s) in
      if ds = [] then None else digits_value 0 ds)"

text \<open>Arguments are valid UTF-8 here; the loop drops what it has read.\<close>

fun parse_arguments_loop :: "parsed_args \<Rightarrow> string list \<Rightarrow> arguments" where
  "parse_arguments_loop p [] = Run p"
| "parse_arguments_loop p (arg # rest) =
     (if arg = ''--'' then Run p
      else if \<not> starts_with arg ''-'' then parse_arguments_loop (p\<lparr>request_path := Some arg\<rparr>) rest
      else if arg = ''-h'' \<or> arg = ''--help'' then Help
      else if arg = ''--timeout-ms'' then
        (case rest of
           [] \<Rightarrow> ArgError None ''invalid value for --timeout-ms''
         | v # rest' \<Rightarrow> (case parse_u64 v of
              None \<Rightarrow> ArgError None ''invalid value for --timeout-ms''
            | Some n \<Rightarrow> parse_arguments_loop (p\<lparr>timeout_ms := max n 1\<rparr>) rest'))
      else if arg = ''--runner-mode'' then
        (case rest of
           [] \<Rightarrow> ArgError (request_path p) ''missing value for --runner-mode''
         | v # rest' \<Rightarrow>
             if v = ''machme'' then
               ArgError None ''--runner-mode machme is not supported; use --runner-mode byoxpc''
             else if kind_parse v = None then ArgError None (''invalid value for --runner-mode: '' @ v)
             else parse_arguments_loop (p\<lparr>runner_mode_arg := Some v\<rparr>) rest')
      else ArgError (request_path p) (''unknown argument: '' @ arg))"

definition parse_arguments :: "string list \<Rightarrow> arguments" where
  "parse_arguments args = parse_arguments_loop
     \<lparr>request_path = None, timeout_ms = DEFAULT_TIMEOUT_MS, runner_mode_arg = None\<rparr> args"

section \<open>Properties\<close>

lemma selector_string_Inr:
  "selector_string m k p = Inr x \<longleftrightarrow>
     (case obj_get m k of None \<Rightarrow> x = None | Some JNull \<Rightarrow> x = None | Some (JStr s) \<Rightarrow> x = Some s | _ \<Rightarrow> False)"
  by (auto simp: selector_string_def split: option.splits json.splits)

text \<open>The value a selector field has: a string, or nothing when it is absent or null.\<close>

definition field_string :: "json_map \<Rightarrow> string \<Rightarrow> string option" where
  "field_string m k = Option.bind (obj_get m k) as_str"

definition field_strings :: "json_map \<Rightarrow> string list option" where
  "field_strings m = Option.bind (Option.bind (obj_get m ''required_entitlements'') as_array) (\<lambda>xs. those (map as_str xs))"

lemma selector_string_field: "selector_string m k p = Inr x \<Longrightarrow> x = field_string m k"
  by (auto simp: selector_string_Inr field_string_def split: option.splits json.splits)

lemma try_map_as_str:
  "try_map_from n (\<lambda>i item. ok_or (as_str item) (e i)) items = Inr ys \<Longrightarrow>
     items = map JStr ys \<and> filter_map as_str items = ys"
proof (induction items arbitrary: n ys)
  case (Cons a items)
  then obtain z zs where "a = JStr z" "try_map_from (Suc n) (\<lambda>i item. ok_or (as_str item) (e i)) items = Inr zs"
    "ys = z # zs" by auto
  with Cons.IH show ?case by auto
qed simp

lemma those_as_str [simp]: "those (map (as_str \<circ> JStr) ys) = Some ys"
  by (induction ys) simp_all

lemma selector_entitlements_field: "selector_entitlements m p = Inr x \<Longrightarrow> x = field_strings m"
  by (auto simp: selector_entitlements_def field_strings_def dest!: try_map_as_str split: option.splits json.splits)

lemma selector_mode_field:
  "selector_mode m k p f ep = Inr x \<Longrightarrow> x = Option.bind (field_string m k) kind_parse \<and>
     (field_string m k \<noteq> None \<longrightarrow> x \<noteq> None)"
proof -
  assume a: "selector_mode m k p f ep = Inr x"
  then obtain y where y: "selector_string m k p = Inr y" by (auto simp: selector_mode_def)
  have f: "field_string m k = y" using selector_string_field [OF y] by simp
  show ?thesis
  proof (cases y)
    case (Some v)
    with a y obtain kind where "parse_runner_mode v f = Inr kind" "x = Some kind"
      by (auto simp: selector_mode_def simp del: kind_parse.simps)
    then have "kind_parse v = x" by (simp add: parse_runner_mode_def del: kind_parse.simps split: if_splits)
    with Some f \<open>x = Some kind\<close> show ?thesis by (simp del: kind_parse.simps)
  qed (use a y f in \<open>simp add: selector_mode_def\<close>)
qed

lemma checked_selector_Inr: "checked_selector sel = Inr sel' \<longleftrightarrow> sel' = sel \<and> selector_problem sel = None"
  by (auto simp: checked_selector_def split: option.splits)

text \<open>The nested object wins over the alias, field by field; the aliases are read from the root.\<close>

definition selector_of :: "json_map \<Rightarrow> json_map \<Rightarrow> runner_selector" where
  "selector_of doc runner =
     \<lparr>sel_id = option_or (field_string runner ''id'') (field_string doc ''runner_id''),
      sel_service = option_or (field_string runner ''service'') (field_string doc ''runner_service''),
      required_entitlements = unwrap_or (option_or (field_strings runner) (field_strings doc)) [],
      sel_mode = Option.bind (option_or (field_string runner ''mode'') (field_string doc ''runner_mode'')) kind_parse\<rparr>"

definition nested_runner :: "json_map \<Rightarrow> json_map" where
  "nested_runner doc = unwrap_or (Option.bind (obj_get doc ''runner'') as_object) []"

lemma field_string_Nil [simp]: "field_string [] k = None" "field_strings [] = None"
  by (simp_all add: field_string_def field_strings_def)

lemma override_field:
  "(case i of Some x \<Rightarrow> sel\<lparr>sel_id := Some x\<rparr> | None \<Rightarrow> sel) = sel\<lparr>sel_id := option_or i (sel_id sel)\<rparr>"
  "(case i of Some x \<Rightarrow> sel\<lparr>sel_service := Some x\<rparr> | None \<Rightarrow> sel) = sel\<lparr>sel_service := option_or i (sel_service sel)\<rparr>"
  "(case e of Some xs \<Rightarrow> sel\<lparr>required_entitlements := xs\<rparr> | None \<Rightarrow> sel) =
     sel\<lparr>required_entitlements := unwrap_or e (required_entitlements sel)\<rparr>"
  "(case m of Some k \<Rightarrow> sel\<lparr>sel_mode := Some k\<rparr> | None \<Rightarrow> sel) = sel\<lparr>sel_mode := option_or m (sel_mode sel)\<rparr>"
  by (cases i, simp_all) (cases i, simp_all, cases e, simp_all, cases m, simp_all)

lemma unwrap_or_or: "unwrap_or e (unwrap_or e' d) = unwrap_or (option_or e e') d"
  by (cases e) simp_all

lemma parse_nested_Inr:
  assumes "parse_nested runner
      \<lparr>sel_id = field_string doc ''runner_id'', sel_service = field_string doc ''runner_service'',
       required_entitlements = unwrap_or (field_strings doc) [],
       sel_mode = Option.bind (field_string doc ''runner_mode'') kind_parse\<rparr> = Inr sel"
  shows "sel = selector_of doc runner \<and> selector_problem sel = None"
proof -
  from assms obtain i s e m where
    "selector_string runner ''id'' ''runner.'' = Inr i"
    "selector_string runner ''service'' ''runner.'' = Inr s"
    "selector_entitlements runner ''runner.'' = Inr e"
    "selector_mode runner ''mode'' ''runner.'' ''runner.mode'' [''runner'', ''mode''] = Inr m"
    and ok: "selector_problem sel = None"
    and sel: "sel = \<lparr>sel_id = option_or i (field_string doc ''runner_id''),
       sel_service = option_or s (field_string doc ''runner_service''),
       required_entitlements = unwrap_or (option_or e (field_strings doc)) [],
       sel_mode = option_or m (Option.bind (field_string doc ''runner_mode'') kind_parse)\<rparr>"
    unfolding parse_nested_def Let_def override_field
    by (auto simp: checked_selector_Inr unwrap_or_or simp del: kind_parse.simps)
  then have "i = field_string runner ''id''" "s = field_string runner ''service''"
    "e = field_strings runner"
    "m = Option.bind (field_string runner ''mode'') kind_parse \<and> (field_string runner ''mode'' \<noteq> None \<longrightarrow> m \<noteq> None)"
    by (auto dest: selector_string_field selector_entitlements_field selector_mode_field)
  with sel ok show ?thesis
    by (cases "field_string runner ''mode''") (auto simp: selector_of_def simp del: kind_parse.simps)
qed

lemma parse_runner_selector_sound:
  assumes "parse_runner_selector_value (JObj doc) = Inr sel"
  shows "sel = selector_of doc (nested_runner doc) \<and> selector_problem sel = None"
proof -
  from assms obtain i s e m where fields:
    "selector_string doc ''runner_id'' [] = Inr i"
    "selector_string doc ''runner_service'' [] = Inr s"
    "selector_entitlements doc [] = Inr e"
    "selector_mode doc ''runner_mode'' [] ''runner_mode'' [''runner_mode''] = Inr m"
    by (auto simp: parse_runner_selector_value_def)
  then have f: "i = field_string doc ''runner_id''" "s = field_string doc ''runner_service''"
    "e = field_strings doc" "m = Option.bind (field_string doc ''runner_mode'') kind_parse"
    by (auto dest: selector_string_field selector_entitlements_field selector_mode_field)
  show ?thesis
  proof (cases "\<exists>runner. obj_get doc ''runner'' = Some (JObj runner)")
    case True
    then obtain runner where r: "obj_get doc ''runner'' = Some (JObj runner)" by blast
    with assms fields f have "parse_nested runner
      \<lparr>sel_id = field_string doc ''runner_id'', sel_service = field_string doc ''runner_service'',
       required_entitlements = unwrap_or (field_strings doc) [],
       sel_mode = Option.bind (field_string doc ''runner_mode'') kind_parse\<rparr> = Inr sel"
      by (simp add: parse_runner_selector_value_def)
    from parse_nested_Inr [OF this] r show ?thesis by (auto simp: nested_runner_def)
  next
    case False
    with assms fields have "checked_selector
        \<lparr>sel_id = i, sel_service = s, required_entitlements = unwrap_or e [], sel_mode = m\<rparr> = Inr sel"
      and "nested_runner doc = []"
      by (auto simp: parse_runner_selector_value_def nested_runner_def Let_def split: option.splits json.splits)
    with f show ?thesis by (simp add: checked_selector_Inr selector_of_def option_or_def)
  qed
qed

text \<open>
  What a field of the selector may say: nothing (absent or null), a string, an array of strings and
  nothing else, a mode. A field that says something else has no reading at all.
\<close>

definition reads_string :: "json_map \<Rightarrow> string \<Rightarrow> string option \<Rightarrow> bool" where
  "reads_string m k v = (v = None \<and> obj_get m k \<in> {None, Some JNull} \<or> (\<exists>s. v = Some s \<and> obj_get m k = Some (JStr s)))"

definition reads_strings :: "json_map \<Rightarrow> string list option \<Rightarrow> bool" where
  "reads_strings m v = (v = None \<and> obj_get m ''required_entitlements'' \<in> {None, Some JNull} \<or>
     (\<exists>ss. v = Some ss \<and> obj_get m ''required_entitlements'' = Some (JArr (map JStr ss))))"

definition reads_mode :: "json_map \<Rightarrow> string \<Rightarrow> runner_kind option \<Rightarrow> bool" where
  "reads_mode m k v = (v = None \<and> obj_get m k \<in> {None, Some JNull} \<or>
     (\<exists>kind. v = Some kind \<and> obj_get m k = Some (JStr (kind_as_str kind))))"

lemma selector_string_reads: "selector_string m k p = Inr v \<longleftrightarrow> reads_string m k v"
  by (auto simp: selector_string_Inr reads_string_def split: option.splits json.splits)

lemma try_map_strings:
  "try_map_from n (\<lambda>i item. ok_or (as_str item) (e i)) items = Inr ss \<longleftrightarrow> items = map JStr ss"
  by (auto dest: try_map_as_str) (simp add: try_map_from_Inr)

lemma selector_entitlements_reads: "selector_entitlements m p = Inr v \<longleftrightarrow> reads_strings m v"
  by (auto simp: selector_entitlements_def reads_strings_def try_map_strings split: option.splits json.splits)

lemma selector_mode_reads: "selector_mode m k p f ep = Inr v \<longleftrightarrow> reads_mode m k v"
proof -
  have "parse_runner_mode s f = Inr kind \<longleftrightarrow> s = kind_as_str kind" for s kind
    by (cases kind) (auto simp: parse_runner_mode_def)
  then show ?thesis
    by (auto simp: selector_mode_def selector_string_reads reads_string_def reads_mode_def simp del: kind_parse.simps
        split: option.splits)
qed

lemma check_runner_keys_known: "check_runner_keys ks = Inr () \<longleftrightarrow> set ks \<subseteq> set RUNNER_KEYS"
  by (induction ks) auto

lemma selector_problem_None:
  "selector_problem sel = None \<longleftrightarrow>
     sel_mode sel \<noteq> (if sel_id sel = None \<and> sel_service sel = None then Some Byoxpc else Some Standard)"
  by (cases "sel_mode sel"; cases "the (sel_mode sel)") (auto simp: selector_problem_def Let_def)

lemma runner_case_Inr:
  "(case r of None \<Rightarrow> a | Some JNull \<Rightarrow> a | Some (JObj m) \<Rightarrow> f m | Some _ \<Rightarrow> Inl e) = Inr sel \<longleftrightarrow>
   (case r of None \<Rightarrow> a = Inr sel | Some JNull \<Rightarrow> a = Inr sel | Some (JObj m) \<Rightarrow> f m = Inr sel | _ \<Rightarrow> False)"
  by (auto split: option.splits json.splits)

lemma selector_value_reads:
  "parse_runner_selector_value (JObj doc) = Inr sel \<longleftrightarrow>
     (\<exists>i s e m. reads_string doc ''runner_id'' i \<and> reads_string doc ''runner_service'' s \<and> reads_strings doc e \<and>
        reads_mode doc ''runner_mode'' m \<and>
        (let sel0 = \<lparr>sel_id = i, sel_service = s, required_entitlements = unwrap_or e [], sel_mode = m\<rparr> in
         case obj_get doc ''runner'' of
           None \<Rightarrow> checked_selector sel0 = Inr sel
         | Some JNull \<Rightarrow> checked_selector sel0 = Inr sel
         | Some (JObj runner) \<Rightarrow> parse_nested runner sel0 = Inr sel
         | _ \<Rightarrow> False))"
  unfolding parse_runner_selector_value_def as_object.simps ok_or_simps res_bind_simps res_bind_Inr_iff
    selector_string_reads selector_entitlements_reads selector_mode_reads Let_def runner_case_Inr
  by (simp only: ex_simps conj_assoc)

lemma parse_nested_reads:
  "parse_nested runner sel0 = Inr sel \<longleftrightarrow>
     (\<exists>i s e m. set (obj_keys runner) \<subseteq> set RUNNER_KEYS \<and>
        reads_string runner ''id'' i \<and> reads_string runner ''service'' s \<and> reads_strings runner e \<and>
        reads_mode runner ''mode'' m \<and>
        sel = \<lparr>sel_id = option_or i (sel_id sel0), sel_service = option_or s (sel_service sel0),
               required_entitlements = unwrap_or e (required_entitlements sel0), sel_mode = option_or m (sel_mode sel0)\<rparr> \<and>
        selector_problem sel = None)"
  unfolding parse_nested_def Let_def override_field
  by (cases sel0) (auto simp: selector_string_reads selector_entitlements_reads selector_mode_reads check_runner_keys_known
      checked_selector_Inr)

text \<open>
  C24: a selector is accepted exactly when every spelling of every field can be read, and then it is what
  the request says. The root aliases and the fields of the nested \<open>runner\<close> object (absent, null, or an
  object without other keys) must each be absent, null or of their type, also when another spelling
  shadows them; an entitlement list with anything but strings in it is refused, never shortened. Each
  field of the selector is the nested one when it says something, else the alias, and the mode does not
  contradict the presence of an external selection.
\<close>

theorem parse_runner_selector_exact:
  "parse_runner_selector_value (JObj doc) = Inr sel \<longleftrightarrow>
     (\<exists>runner i i' s s' e e' m m'.
        (obj_get doc ''runner'' \<in> {None, Some JNull} \<and> runner = [] \<or> obj_get doc ''runner'' = Some (JObj runner)) \<and>
        set (obj_keys runner) \<subseteq> {''id'', ''service'', ''required_entitlements'', ''mode''} \<and>
        reads_string doc ''runner_id'' i \<and> reads_string runner ''id'' i' \<and>
        reads_string doc ''runner_service'' s \<and> reads_string runner ''service'' s' \<and>
        reads_strings doc e \<and> reads_strings runner e' \<and>
        reads_mode doc ''runner_mode'' m \<and> reads_mode runner ''mode'' m' \<and>
        sel = \<lparr>sel_id = option_or i' i, sel_service = option_or s' s,
               required_entitlements = unwrap_or (option_or e' e) [], sel_mode = option_or m' m\<rparr> \<and>
        sel_mode sel \<noteq> (if sel_id sel = None \<and> sel_service sel = None then Some Byoxpc else Some Standard))"
    (is "?parsed \<longleftrightarrow> ?said")
proof -
  have none [simp]: "reads_string [] k v \<longleftrightarrow> v = None" "reads_strings [] w \<longleftrightarrow> w = None" "reads_mode [] k u \<longleftrightarrow> u = None" for k v w u
    by (auto simp: reads_string_def reads_strings_def reads_mode_def)
  consider (flat) "obj_get doc ''runner'' \<in> {None, Some JNull}" | (nested) runner where "obj_get doc ''runner'' = Some (JObj runner)"
    | (bad) "obj_get doc ''runner'' \<notin> {None, Some JNull}" "\<nexists>runner. obj_get doc ''runner'' = Some (JObj runner)" by blast
  then show ?thesis
  proof cases
    case flat
    then have runner: "obj_get doc ''runner'' \<in> {None, Some JNull} \<and> x = [] \<or> obj_get doc ''runner'' = Some (JObj x) \<longleftrightarrow> x = []" for x
      by auto
    from flat have parsed: "?parsed \<longleftrightarrow> (\<exists>i s e m. reads_string doc ''runner_id'' i \<and> reads_string doc ''runner_service'' s \<and>
        reads_strings doc e \<and> reads_mode doc ''runner_mode'' m \<and>
        checked_selector \<lparr>sel_id = i, sel_service = s, required_entitlements = unwrap_or e [], sel_mode = m\<rparr> = Inr sel)"
      unfolding selector_value_reads by (cases "obj_get doc ''runner''") auto
    show ?thesis
      unfolding parsed runner checked_selector_Inr selector_problem_None none obj_keys_def
      by (simp split del: if_split cong: conj_cong)
  next
    case (nested runner)
    show ?thesis
      unfolding selector_value_reads nested option.case json.case parse_nested_reads Let_def selector_problem_None
        RUNNER_KEYS_def list.set runner_selector.simps unwrap_or_or option.inject json.inject
      by (rule iffI; elim exE conjE; (elim disjE)?; (simp; fail)?; intro exI conjI; (rule disjI2)?; (assumption | rule refl)?) simp_all
  next
    case bad
    then have "\<not> ?parsed"
      unfolding selector_value_reads
      by (cases "obj_get doc ''runner''"; cases "the (obj_get doc ''runner'')") simp_all
    with bad show ?thesis by blast
  qed
qed

definition sample_request :: json_map where
  "sample_request = [(''runner'', JObj [(''id'', JStr ''nested''), (''mode'', JStr ''byoxpc'')]),
     (''runner_id'', JStr ''alias''), (''runner_service'', JStr ''svc'')]"

definition sample_selector :: runner_selector where
  "sample_selector = \<lparr>sel_id = Some ''nested'', sel_service = Some ''svc'', required_entitlements = [],
     sel_mode = Some Byoxpc\<rparr>"

text \<open>The nested object wins field by field, and a list with a number in it is refused.\<close>

lemma sample_request_read:
  "parse_runner_selector_value (JObj sample_request) = Inr sample_selector"
  "\<nexists>sel. parse_runner_selector_value (JObj [(''required_entitlements'', JArr [JStr ''a'', JNum (PosInt 1)])]) = Inr sel"
  by code_simp (auto simp: parse_runner_selector_value_def selector_string_def selector_entitlements_def)

text \<open>
  the version gate admits exactly the requests whose \<open>schema_version\<close> is a number equal to 6,
  in either spelling (6 or 6.0). Every refusal names the field and carries the expected schema.
\<close>

theorem validate_request_version_exact:
  "(validate_request_version v = Inr () \<longleftrightarrow>
      (\<exists>n. jget v ''schema_version'' = Some (JNum n) \<and> number_as_f64 n = 6)) \<and>
   (case validate_request_version v of
      Inr _ \<Rightarrow> True
    | Inl e \<Rightarrow> fpath (failure e) = Some [''schema_version''] \<and> expected_schema (failure e) = Some 6 \<and>
        code (failure e) \<in> {''missing_field'', ''missing_value'', ''type_mismatch'', ''unsupported_schema''})"
proof -
  have "fract_zero n" if "number_as_f64 n = 6" for n
    using that by (simp add: fract_zero_def)
  then show ?thesis
    by (auto simp: validate_request_version_def Let_def request_error_new_def REQUEST_SCHEMA_VERSION_def
        split: option.splits json.splits if_splits)
qed

text \<open>
  stripping removes exactly the controller's own selector fields: each of them reads absent
  afterwards, every other field of the request is unchanged, the result is well-formed, and
  stripping again changes nothing.
\<close>

theorem strip_runner_selector_exact:
  assumes "wf_json v"
  shows "jget (strip_runner_selector v) k = (if k \<in> set SELECTOR_FIELDS then None else jget v k) \<and>
    wf_json (strip_runner_selector v) \<and>
    strip_runner_selector (strip_runner_selector v) = strip_runner_selector v"
proof (cases v)
  case (JObj m)
  with assms have m: "strict_keys m" by simp
  have "wf_json (JObj (fold obj_remove ks m'))" if "wf_json (JObj m')" for ks m'
    using that by (induction ks arbitrary: m') (simp_all add: wf_json_remove del: wf_json.simps)
  moreover have "fold obj_remove ks m' = filter (\<lambda>p. fst p \<notin> set ks) m'" for ks m'
    by (induction ks arbitrary: m') (auto simp: obj_remove_def intro!: filter_cong)
  ultimately show ?thesis
    using assms JObj obj.lookup_remove_all [OF m, of SELECTOR_FIELDS k]
    by (simp add: strip_runner_selector_def del: wf_json.simps)
qed (use assms in \<open>simp_all add: strip_runner_selector_def\<close>)

definition sample_selected :: json where
  "sample_selected = JObj [(''probe_plan'', JArr []), (''runner'', JObj [(''id'', JStr ''a'')]), (''runner_mode'', JNull)]"

theorem strip_runner_selector_exact_witness:
  "wf_json sample_selected \<and> jget (strip_runner_selector sample_selected) ''runner'' = None \<and>
   jget (strip_runner_selector sample_selected) ''probe_plan'' = Some (JArr [])"
proof -
  have wf: "wf_json sample_selected" by code_simp
  have f: "''runner'' \<in> set SELECTOR_FIELDS" "''probe_plan'' \<notin> set SELECTOR_FIELDS" by (simp_all add: SELECTOR_FIELDS_def)
  show ?thesis
    using wf f strip_runner_selector_exact [OF wf, of "''runner''"] strip_runner_selector_exact [OF wf, of "''probe_plan''"]
    by (simp add: sample_selected_def)
qed

text \<open>
  \<open>--runner-mode\<close> sets the mode and nothing else. When it is accepted, the request's own selector was
  valid, \<open>runner.mode\<close> reads the given mode, every other field of \<open>runner\<close> and every other field of
  the request is as before, the request stays well-formed, and the selector read from the edited
  request, when it is accepted, has that mode.
\<close>

theorem inject_runner_mode_exact:
  assumes "wf_json v" and "inject_runner_mode v mode = Inr v'"
  shows "(\<exists>sel. parse_runner_selector_value v = Inr sel) \<and>
    jget (jix v' ''runner'') k = (if k = ''mode'' then Some (JStr mode) else jget (jix v ''runner'') k) \<and>
    jget v' k' = (if k' = ''runner'' then Some (jix v' ''runner'') else jget v k') \<and>
    wf_json v' \<and>
    map_option sel_mode (res_ok (parse_runner_selector_value v')) \<in> {None, Some (kind_parse mode)}"
proof -
  from assms(2) obtain sel kind obj runner where sel: "parse_runner_selector_value v = Inr sel"
    and kind: "kind_parse mode = Some kind" and v: "v = JObj obj"
    and runner: "(if is_null (unwrap_or (obj_get obj ''runner'') (JObj [])) then JObj []
        else unwrap_or (obj_get obj ''runner'') (JObj [])) = JObj runner"
    by (auto simp: inject_runner_mode_def Let_def simp del: kind_parse.simps split: if_splits)
  have mode: "kind_as_str kind = mode" using kind by (simp add: kind_parse_Some del: kind_parse.simps)
  define runner' where "runner' = obj_insert ''mode'' (JStr mode) runner"
  have obj: "strict_keys obj" "list_all (\<lambda>p. wf_json (snd p)) obj" using assms(1) v by simp_all
  have wf_runner: "wf_json (JObj runner)"
    using runner obj by (auto simp: unwrap_or_def split: option.splits if_splits dest: map_of_SomeD_wf)
  have old: "jget (jix v ''runner'') x = obj_get runner x" for x
    using runner v by (auto simp: jix_def unwrap_or_def is_null_def split: option.splits if_splits)
  have "\<exists>r. v' = JObj (obj_insert ''runner'' (JObj r) obj) \<and> wf_json (JObj r) \<and>
      (\<forall>x. obj_get r x = (if x = ''mode'' then Some (JStr mode) else obj_get runner x))"
  proof (cases "Option.bind (obj_get runner ''mode'') as_str")
    case None
    with assms(2) sel kind v runner mode have "v' = JObj (obj_insert ''runner'' (JObj runner') obj)"
      by (auto simp: inject_runner_mode_def Let_def runner'_def simp del: kind_parse.simps split: if_splits)
    moreover have "wf_json (JObj runner')"
      unfolding runner'_def using wf_runner by (intro wf_json_insert) simp_all
    ultimately show ?thesis
      using wf_runner by (intro exI [of _ runner']) (simp add: runner'_def obj.lookup_insert)
  next
    case (Some existing)
    with assms(2) sel kind v runner mode have "existing = mode" "v' = JObj (obj_insert ''runner'' (JObj runner) obj)"
      by (auto simp: inject_runner_mode_def Let_def simp del: kind_parse.simps split: if_splits)
    moreover from this Some have "obj_get runner ''mode'' = Some (JStr mode)"
      by (auto simp: bind_eq_Some_conv)
    ultimately show ?thesis using wf_runner by (intro exI [of _ runner]) auto
  qed
  then obtain r where r: "v' = JObj (obj_insert ''runner'' (JObj r) obj)" "wf_json (JObj r)"
    "\<And>x. obj_get r x = (if x = ''mode'' then Some (JStr mode) else obj_get runner x)" by blast
  have "wf_json v'" using r(1, 2) assms(1) v wf_json_insert by blast
  moreover have "sel_mode sel' = kind_parse mode" if "parse_runner_selector_value v' = Inr sel'" for sel'
  proof -
    have "sel' = selector_of (obj_insert ''runner'' (JObj r) obj) (nested_runner (obj_insert ''runner'' (JObj r) obj))"
      using parse_runner_selector_sound that r(1) by blast
    then show ?thesis
      using obj r(3) by (simp add: selector_of_def nested_runner_def obj.lookup_insert field_string_def del: kind_parse.simps)
  qed
  ultimately show ?thesis
    using sel old r v obj
    by (cases "parse_runner_selector_value v'") (auto simp: jix_def obj.lookup_insert simp del: kind_parse.simps)
qed

theorem inject_runner_mode_exact_witness:
  "inject_runner_mode (JObj [(''runner_id'', JStr ''a'')]) ''byoxpc'' =
     Inr (JObj [(''runner'', JObj [(''mode'', JStr ''byoxpc'')]), (''runner_id'', JStr ''a'')]) \<and>
   jget (jix (JObj [(''runner'', JObj [(''mode'', JStr ''byoxpc'')]), (''runner_id'', JStr ''a'')]) ''runner'') ''mode''
     = Some (JStr ''byoxpc'')"
proof -
  have i: "inject_runner_mode (JObj [(''runner_id'', JStr ''a'')]) ''byoxpc'' =
     Inr (JObj [(''runner'', JObj [(''mode'', JStr ''byoxpc'')]), (''runner_id'', JStr ''a'')])" by code_simp
  have "wf_json (JObj [(''runner_id'', JStr ''a'')])" by simp
  from inject_runner_mode_exact [OF this i, of "''mode''" "''runner''"] i show ?thesis by simp
qed

end
