(* ===== verification/Augments.thy ===== *)
theory Augments
  imports Requests
begin

text \<open>
  Policy augments (controller/src/augments.rs): named SBPL fragments of the app bundle
  spliced into a policy's source. Reading a file and SHA-256 are parameters. A function
  that mutates a policy object in place returns the object beside its result.
\<close>

section \<open>Resolution\<close>

record policy_augmentation =
  applied :: "string list"
  original_sha256 :: string
  applied_sha256 :: string

datatype augment_resolution =
    NotPresent
  | StrippedNoOp
  | Applied policy_augmentation
  | BadRequest request_error

definition MAX_REPORTED_AUGMENT_NAME_BYTES :: nat where "MAX_REPORTED_AUGMENT_NAME_BYTES = 127"

definition reportable_name :: "string \<Rightarrow> msg_part" where
  "reportable_name name =
     (if length name \<le> MAX_REPORTED_AUGMENT_NAME_BYTES then MDebug name
      else MText (''<unreported: '' @ nat_digits (length name) @ '' bytes>''))"

definition is_valid_augment_name :: "string \<Rightarrow> bool" where
  "is_valid_augment_name name =
     (name \<noteq> [] \<and> list_all (\<lambda>c. is_ascii_alphanumeric c \<or> c = CHR ''_'') name)"

definition augments_dir :: "path \<Rightarrow> path" where
  "augments_dir app_root = path_join (path_join (path_join app_root ''Contents'') ''Resources'') ''Augments''"

definition augment_path :: "path \<Rightarrow> string \<Rightarrow> path" where
  "augment_path app_root name = path_join (augments_dir app_root) (name @ ''.sb'')"

definition refuse :: "string list \<Rightarrow> string \<Rightarrow> string list \<Rightarrow> message \<Rightarrow> request_error" where
  "refuse p c suffix m = request_error_new c (p @ suffix) m"

fun join_dots :: "string list \<Rightarrow> string" where
  "join_dots [] = []"
| "join_dots [x] = x"
| "join_dots (x # y # xs) = x @ ''.'' @ join_dots (y # xs)"

text \<open>The names of the \<open>augments\<close> field; null and the empty array both ask for nothing.\<close>

definition augment_names :: "string list \<Rightarrow> json \<Rightarrow> request_error + string list" where
  "augment_names p field =
     (case field of
        JNull \<Rightarrow> Inr []
      | JArr items \<Rightarrow> try_map (\<lambda>i item. ok_or (as_str item)
            (refuse p ''type_mismatch'' [''augments'', nat_digits i]
              [MText (join_dots p @ ''.augments['' @ nat_digits i @ ''] must be a string'')])) items
      | _ \<Rightarrow> Inl (refuse p ''type_mismatch'' [''augments'']
            [MText (join_dots p @ ''.augments must be an array of strings'')]))"

definition check_augment_names :: "string list \<Rightarrow> string list \<Rightarrow> request_error + unit list" where
  "check_augment_names p names =
     try_map (\<lambda>i name. require (is_valid_augment_name name)
       (refuse p ''invalid_value'' [''augments'', nat_digits i]
         [MText ''invalid augment name '', reportable_name name,
          MText '' (must be ASCII alphanumeric or underscore)''])) names"

definition read_augments ::
    "(path \<Rightarrow> string option) \<Rightarrow> path \<Rightarrow> string list \<Rightarrow> string list \<Rightarrow> request_error + string list" where
  "read_augments read_file app_root p names =
     try_map (\<lambda>i name. ok_or (read_file (augment_path app_root name))
       (refuse p ''augment_unavailable'' [''augments'', nat_digits i]
         [MText ''unknown augment '', reportable_name name])) names"

text \<open>Each fragment is spliced after a newline.\<close>

definition spliced :: "string \<Rightarrow> string list \<Rightarrow> string" where
  "spliced source contents = source @ concat (map (\<lambda>c. CHR 0x0A # c) contents)"

definition resolve_policy_augments ::
    "(path \<Rightarrow> string option) \<Rightarrow> (string \<Rightarrow> string) \<Rightarrow> path \<Rightarrow> string list \<Rightarrow> json_map
      \<Rightarrow> augment_resolution \<times> json_map" where
  "resolve_policy_augments read_file sha app_root p policy =
     (case obj_get policy ''augments'' of
        None \<Rightarrow> (NotPresent, policy)
      | Some field \<Rightarrow>
          (let policy1 = obj_remove ''augments'' policy in
           case augment_names p field of
             Inl e \<Rightarrow> (BadRequest e, policy1)
           | Inr names \<Rightarrow>
               if names = [] then (StrippedNoOp, policy1)
               else
                 (case Option.bind (obj_get policy1 ''sbpl_source'') as_str of
                    None \<Rightarrow>
                      (BadRequest (refuse p
                         (if is_none_or (obj_get policy1 ''sbpl_source'') is_null
                          then ''missing_policy_source'' else ''type_mismatch'')
                         [''sbpl_source'']
                         [MText (join_dots p @ ''.sbpl_source must be a string when '' @ join_dots p
                            @ ''.augments is nonempty'')]), policy1)
                  | Some original \<Rightarrow>
                      (case res_bind (check_augment_names p names) (\<lambda>_. read_augments read_file app_root p names) of
                         Inl e \<Rightarrow> (BadRequest e, policy1)
                       | Inr contents \<Rightarrow>
                           (let applied_source = spliced original contents in
                            (Applied \<lparr>applied = names, original_sha256 = sha original,
                               applied_sha256 = sha applied_source\<rparr>,
                             obj_insert ''sbpl_source'' (JStr applied_source) policy1))))))"

definition resolve_augments ::
    "(path \<Rightarrow> string option) \<Rightarrow> (string \<Rightarrow> string) \<Rightarrow> path \<Rightarrow> json \<Rightarrow> augment_resolution \<times> json" where
  "resolve_augments read_file sha app_root request =
     (case request of
        JObj m \<Rightarrow> (case obj_get m ''policy'' of
           Some (JObj policy) \<Rightarrow>
             (case resolve_policy_augments read_file sha app_root [''policy''] policy of
                (res, policy') \<Rightarrow> (res, JObj (obj_insert ''policy'' (JObj policy') m)))
         | _ \<Rightarrow> (NotPresent, request))
      | _ \<Rightarrow> (NotPresent, request))"

section \<open>The actor form\<close>

record actor_augment_resolution =
  ar_index :: nat
  ar_actor_id :: "string option"
  ar_mode :: "string option"
  original_source :: "string option"
  selected_source :: "string option"
  ar_resolution :: augment_resolution

definition source_of :: "json_map \<Rightarrow> string option" where
  "source_of policy = Option.bind (obj_get policy ''sbpl_source'') as_str"

definition actor_policy :: "json \<Rightarrow> json_map option" where
  "actor_policy actor = Option.bind (Option.bind (jget actor ''sandbox'') (\<lambda>s. jget s ''policy'')) as_object"

text \<open>The in-place update of \<open>actor.sandbox.policy\<close>.\<close>

definition jset :: "json \<Rightarrow> string \<Rightarrow> json \<Rightarrow> json" where
  "jset v k w = (case v of JObj m \<Rightarrow> JObj (obj_insert k w m) | _ \<Rightarrow> v)"

definition set_actor_policy :: "json \<Rightarrow> json_map \<Rightarrow> json" where
  "set_actor_policy actor policy =
     (case jget actor ''sandbox'' of
        Some sandbox \<Rightarrow> jset actor ''sandbox'' (jset sandbox ''policy'' (JObj policy))
      | None \<Rightarrow> actor)"

definition resolve_actor ::
    "(path \<Rightarrow> string option) \<Rightarrow> (string \<Rightarrow> string) \<Rightarrow> path \<Rightarrow> nat \<Rightarrow> json \<Rightarrow> actor_augment_resolution \<times> json" where
  "resolve_actor read_file sha app_root i actor =
     (let actor_id = Option.bind (jget actor ''actor_id'') as_str;
          mode = Option.bind (Option.bind (jget actor ''sandbox'') (\<lambda>s. jget s ''mode'')) as_str in
      case actor_policy actor of
        None \<Rightarrow> (\<lparr>ar_index = i, ar_actor_id = actor_id, ar_mode = mode, original_source = None,
                  selected_source = None, ar_resolution = NotPresent\<rparr>, actor)
      | Some policy \<Rightarrow>
          (case resolve_policy_augments read_file sha app_root
                  [''actors'', nat_digits i, ''sandbox'', ''policy''] policy of
             (res, policy') \<Rightarrow>
               (\<lparr>ar_index = i, ar_actor_id = actor_id, ar_mode = mode, original_source = source_of policy,
                 selected_source = source_of policy', ar_resolution = res\<rparr>,
                set_actor_policy actor policy')))"

fun is_refusal :: "augment_resolution \<Rightarrow> bool" where
  "is_refusal (BadRequest e) = True"
| "is_refusal _ = False"

fun resolve_actors_from ::
    "(path \<Rightarrow> string option) \<Rightarrow> (string \<Rightarrow> string) \<Rightarrow> path \<Rightarrow> nat \<Rightarrow> json list
      \<Rightarrow> actor_augment_resolution list \<times> json list" where
  "resolve_actors_from read_file sha app_root i [] = ([], [])"
| "resolve_actors_from read_file sha app_root i (actor # rest) =
     (case resolve_actor read_file sha app_root i actor of
        (r, actor') \<Rightarrow>
          if is_refusal (ar_resolution r) then ([r], actor' # rest)
          else (case resolve_actors_from read_file sha app_root (Suc i) rest of
             (rs, rest') \<Rightarrow> (r # rs, actor' # rest')))"

definition resolve_actor_augments ::
    "(path \<Rightarrow> string option) \<Rightarrow> (string \<Rightarrow> string) \<Rightarrow> path \<Rightarrow> json \<Rightarrow> actor_augment_resolution list \<times> json" where
  "resolve_actor_augments read_file sha app_root request =
     (case request of
        JObj m \<Rightarrow> (case obj_get m ''actors'' of
           Some (JArr actors) \<Rightarrow>
             (case resolve_actors_from read_file sha app_root 0 actors of
                (rs, actors') \<Rightarrow> (rs, JObj (obj_insert ''actors'' (JArr actors') m)))
         | _ \<Rightarrow> ([], request))
      | _ \<Rightarrow> ([], request))"

section \<open>Properties\<close>

lemma split_slash_append: "split_slash acc (xs @ slash # ys) = split_slash acc xs @ split_slash [] ys"
  by (induction xs arbitrary: acc) auto

lemma split_slash_plain: "slash \<notin> set xs \<Longrightarrow> split_slash acc xs = [acc @ xs]"
  by (induction xs arbitrary: acc) auto

lemma split_slash_not_Nil [simp]: "split_slash acc xs \<noteq> []"
  by (induction xs arbitrary: acc) auto

lemma path_components_child:
  assumes "base \<noteq> []" and "\<not> ends_with base [slash]" and "slash \<notin> set n" and "n \<notin> {[], ''.'', ''..''}"
  shows "path_components (path_join base n) = path_components base @ [Normal n]"
proof -
  have "\<not> is_absolute n" using assms(3, 4) by (cases n) (auto simp: is_absolute_def)
  then have join: "path_join base n = base @ slash # n" using assms(1, 2) by (simp add: path_join_def)
  obtain f r where b: "split_slash [] base = f # r" by (cases "split_slash [] base") auto
  have s: "split_slash [] (base @ slash # n) = f # r @ [n]"
    using assms(3) b by (simp add: split_slash_append split_slash_plain)
  have "starts_with (base @ slash # n) [slash] = starts_with base [slash]"
    using assms(1) by (cases base) auto
  then show ?thesis
    using assms(4) join b s by (auto simp: path_components_def inner_segments_def segment_def)
qed

lemma augments_dir_end: "augments_dir r \<noteq> [] \<and> \<not> ends_with (augments_dir r) [slash]"
  by (simp add: augments_dir_def path_join_def is_absolute_def ends_with_def)

lemma valid_augment_chars: "is_valid_augment_name n \<Longrightarrow> c \<in> set n \<Longrightarrow> c \<notin> {slash, CHR ''.''}"
  by (auto simp: is_valid_augment_name_def list_all_iff is_ascii_alphanumeric_def is_ascii_digit_def
      is_ascii_alphabetic_def)

text \<open>
  an augment name cannot leave the augments directory. The file read for a valid name is
  \<open>name.sb\<close> directly inside \<open>Contents/Resources/Augments\<close>, so no name reaches another directory.
\<close>

theorem augment_path_confined:
  assumes "is_valid_augment_name name"
  shows "path_components (augment_path app_root name) =
    path_components (augments_dir app_root) @ [Normal (name @ ''.sb'')]"
proof -
  have "slash \<notin> set (name @ ''.sb'')"
    using valid_augment_chars [OF assms] by auto
  moreover have "name @ ''.sb'' \<notin> {[], ''.'', ''..''}" by (cases name) auto
  ultimately show ?thesis
    unfolding augment_path_def using augments_dir_end by (intro path_components_child) auto
qed

theorem augment_path_confined_witness:
  "is_valid_augment_name ''net_out'' \<and>
   path_components (augment_path ''/Applications/P.app'' ''net_out'') =
     path_components (augments_dir ''/Applications/P.app'') @ [Normal ''net_out.sb'']"
proof -
  have "is_valid_augment_name ''net_out''" by code_simp
  from augment_path_confined [OF this] this show ?thesis by simp
qed

lemma check_augment_names_Inr: "check_augment_names p names = Inr us \<Longrightarrow> list_all is_valid_augment_name names"
  by (auto simp: check_augment_names_def try_map_from_Inr list_all_length)

lemma read_augments_Inr:
  "read_augments rd r p names = Inr cs \<Longrightarrow> map (\<lambda>n. rd (augment_path r n)) names = map Some cs"
  by (auto simp: read_augments_def try_map_from_Inr intro!: nth_equalityI)

lemma augment_names_Inr:
  "augment_names p field = Inr names \<Longrightarrow> names \<noteq> [] \<Longrightarrow> field = JArr (map JStr names)"
  by (auto simp: augment_names_def dest: try_map_as_str split: json.splits)

lemma augment_names_empty: "augment_names p field = Inr [] \<Longrightarrow> field = JNull \<or> field = JArr []"
  by (auto simp: augment_names_def try_map_from_Inr split: json.splits)

lemma check_augment_names_valid: "list_all is_valid_augment_name names \<Longrightarrow> \<exists>us. check_augment_names p names = Inr us"
  by (auto simp: check_augment_names_def try_map_from_Inr list_all_length
      intro!: exI [of _ "replicate (length names) ()"])

lemma read_augments_available:
  "map (\<lambda>n. rd (augment_path r n)) names = map Some cs \<Longrightarrow> read_augments rd r p names = Inr cs"
  by (auto simp: read_augments_def try_map_from_Inr dest: map_eq_imp_length_eq)
    (metis length_map nth_map)

lemma augment_names_strings: "augment_names p (JArr (map JStr names)) = Inr names"
  by (simp add: augment_names_def try_map_from_Inr)

lemma resolve_policy_augments_cases:
  "case resolve_policy_augments rd sha r p policy of (res, policy') \<Rightarrow>
    (case res of
       NotPresent \<Rightarrow> policy' = policy \<and> obj_get policy ''augments'' = None
     | StrippedNoOp \<Rightarrow> policy' = obj_remove ''augments'' policy \<and>
         obj_get policy ''augments'' \<in> {Some JNull, Some (JArr [])}
     | BadRequest e \<Rightarrow> policy' = obj_remove ''augments'' policy
     | Applied a \<Rightarrow> (\<exists>source contents.
         obj_get policy ''augments'' = Some (JArr (map JStr (applied a))) \<and>
         list_all is_valid_augment_name (applied a) \<and>
         map (\<lambda>n. rd (augment_path r n)) (applied a) = map Some contents \<and>
         obj_get policy ''sbpl_source'' = Some (JStr source) \<and>
         policy' = obj_insert ''sbpl_source'' (JStr (spliced source contents)) (obj_remove ''augments'' policy) \<and>
         original_sha256 a = sha source \<and> applied_sha256 a = sha (spliced source contents)))"
proof (cases "obj_get policy ''augments''")
  case None
  then show ?thesis by (simp add: resolve_policy_augments_def)
next
  case field: (Some field)
  show ?thesis
  proof (cases "augment_names p field")
    case (Inl e)
    with field show ?thesis by (simp add: resolve_policy_augments_def Let_def)
  next
    case names: (Inr names)
    show ?thesis
    proof (cases "names = []")
      case True
      with names field augment_names_empty show ?thesis
        by (auto simp: resolve_policy_augments_def Let_def)
    next
      case nonempty: False
      have src: "obj_get (obj_remove ''augments'' policy) ''sbpl_source'' = obj_get policy ''sbpl_source''"
        by (simp add: map_of_obj_remove)
      show ?thesis
      proof (cases "Option.bind (obj_get policy ''sbpl_source'') as_str")
        case None
        with field names nonempty src show ?thesis by (simp add: resolve_policy_augments_def Let_def)
      next
        case (Some source)
        then have so: "obj_get policy ''sbpl_source'' = Some (JStr source)" by (auto simp: bind_eq_Some_conv)
        show ?thesis
        proof (cases "res_bind (check_augment_names p names) (\<lambda>_. read_augments rd r p names)")
          case (Inl e)
          with field names nonempty src so show ?thesis by (simp add: resolve_policy_augments_def Let_def)
        next
          case (Inr contents)
          then have "list_all is_valid_augment_name names"
            "map (\<lambda>n. rd (augment_path r n)) names = map Some contents"
            by (auto dest: check_augment_names_Inr read_augments_Inr)
          with Inr field names nonempty src so augment_names_Inr [OF names nonempty] show ?thesis
            by (simp add: resolve_policy_augments_def Let_def del: res_bind_Inr_iff)
        qed
      qed
    qed
  qed
qed

lemma resolve_policy_augments_applicable:
  assumes "obj_get policy ''augments'' = Some (JArr (map JStr names))" and "names \<noteq> []"
    and "list_all is_valid_augment_name names" and "map (\<lambda>n. rd (augment_path r n)) names = map Some contents"
    and "obj_get policy ''sbpl_source'' = Some (JStr source)"
  shows "\<exists>a. fst (resolve_policy_augments rd sha r p policy) = Applied a"
proof -
  obtain us where "check_augment_names p names = Inr us" using check_augment_names_valid [OF assms(3)] by blast
  then show ?thesis
    using assms read_augments_available [OF assms(4)]
    by (simp add: resolve_policy_augments_def Let_def augment_names_strings map_of_obj_remove)
qed

lemma resolve_policy_augments_no_op:
  "obj_get policy ''augments'' = Some JNull \<or> obj_get policy ''augments'' = Some (JArr []) \<Longrightarrow>
     fst (resolve_policy_augments rd sha r p policy) = StrippedNoOp"
  by (auto simp: resolve_policy_augments_def Let_def augment_names_def)

text \<open>The text an application must give: each fragment appended on a new line, one after the other.\<close>

lemma spliced_appends: "spliced source contents = foldl (\<lambda>text c. text @ [CHR 0x0A] @ c) source contents"
  by (induction contents rule: rev_induct) (simp_all add: spliced_def)

text \<open>
  C25: resolving a policy's augments is all or nothing. When they are applied, every name was a
  string with a valid form and its fragment was read, and the policy changes exactly in that
  \<open>augments\<close> is gone and \<open>sbpl_source\<close> is the original source with each fragment appended on a new
  line, in the order asked for; the reported hashes are those of both texts. A refusal happens only when
  something was asked for that cannot be applied (a name that is not a string or not valid, a fragment
  that cannot be read, a source that is not a string); then, and when nothing was asked for, the source
  is untouched and \<open>augments\<close> is gone. Without the field nothing changes.
\<close>

theorem resolve_policy_augments_exact:
  "case resolve_policy_augments rd sha r p policy of (res, policy') \<Rightarrow>
    (case res of
       NotPresent \<Rightarrow> policy' = policy \<and> obj_get policy ''augments'' = None
     | StrippedNoOp \<Rightarrow> policy' = obj_remove ''augments'' policy \<and>
         obj_get policy ''augments'' \<in> {Some JNull, Some (JArr [])}
     | BadRequest e \<Rightarrow> policy' = obj_remove ''augments'' policy \<and>
         obj_get policy ''augments'' \<notin> {None, Some JNull, Some (JArr [])} \<and>
         (\<nexists>names source contents. obj_get policy ''augments'' = Some (JArr (map JStr names)) \<and>
            list_all is_valid_augment_name names \<and> map (\<lambda>n. rd (augment_path r n)) names = map Some contents \<and>
            obj_get policy ''sbpl_source'' = Some (JStr source))
     | Applied a \<Rightarrow> (\<exists>source contents text.
         obj_get policy ''augments'' = Some (JArr (map JStr (applied a))) \<and>
         list_all is_valid_augment_name (applied a) \<and>
         map (\<lambda>n. rd (augment_path r n)) (applied a) = map Some contents \<and>
         obj_get policy ''sbpl_source'' = Some (JStr source) \<and>
         text = foldl (\<lambda>text c. text @ [CHR 0x0A] @ c) source contents \<and>
         policy' = obj_insert ''sbpl_source'' (JStr text) (obj_remove ''augments'' policy) \<and>
         original_sha256 a = sha source \<and> applied_sha256 a = sha text))"
proof -
  obtain res policy' where r: "resolve_policy_augments rd sha r p policy = (res, policy')" by fastforce
  note cases = resolve_policy_augments_cases [where rd = rd and sha = sha and r = r and p = p and policy = policy, unfolded r prod.case]
  show ?thesis
  proof (cases res)
    case (BadRequest e)
    have none: "obj_get policy ''augments'' \<noteq> None"
      using r BadRequest by (cases "obj_get policy ''augments''") (simp_all add: resolve_policy_augments_def)
    have "obj_get policy ''augments'' \<notin> {Some JNull, Some (JArr [])}"
      using resolve_policy_augments_no_op [where rd = rd and sha = sha and r = r and p = p and policy = policy] r BadRequest by auto
    moreover from this have "\<nexists>names source contents. obj_get policy ''augments'' = Some (JArr (map JStr names)) \<and>
        list_all is_valid_augment_name names \<and> map (\<lambda>n. rd (augment_path r n)) names = map Some contents \<and>
        obj_get policy ''sbpl_source'' = Some (JStr source)"
      using resolve_policy_augments_applicable [where rd = rd and sha = sha and r = r and p = p and policy = policy] r BadRequest by fastforce
    ultimately show ?thesis using r cases BadRequest none by simp
  qed (use r cases spliced_appends in auto)
qed

lemma resolve_actors_from_exact:
  "case resolve_actors_from rd sha r k actors of (rs, actors') \<Rightarrow>
     length actors' = length actors \<and> length rs \<le> length actors \<and>
     drop (length rs) actors' = drop (length rs) actors \<and>
     zip rs (take (length rs) actors') = map (\<lambda>i. resolve_actor rd sha r (k + i) (actors ! i)) [0..<length rs] \<and>
     list_all (\<lambda>x. \<not> is_refusal (ar_resolution x)) (butlast rs) \<and>
     (length rs = length actors \<or> rs \<noteq> [] \<and> is_refusal (ar_resolution (last rs)))"
proof (induction actors arbitrary: k)
  case (Cons a actors)
  obtain x a' where x: "resolve_actor rd sha r k a = (x, a')" by fastforce
  obtain rs as' where rs: "resolve_actors_from rd sha r (Suc k) actors = (rs, as')" by fastforce
  have upt: "map (\<lambda>i. resolve_actor rd sha r (k + i) ((a # actors) ! i)) [0..<Suc n] =
      resolve_actor rd sha r k a # map (\<lambda>i. resolve_actor rd sha r (Suc k + i) (actors ! i)) [0..<n]" for n
    by (simp add: upt_rec [of 0] map_Suc_upt [symmetric] comp_def del: upt_Suc)
  show ?case
  proof (cases "is_refusal (ar_resolution x)")
    case True
    with x show ?thesis by simp
  next
    case False
    with Cons [of "Suc k"] x rs upt [of "length rs"] show ?thesis by (auto simp del: upt_Suc)
  qed
qed simp

text \<open>
  the actor form resolves the actors in order and stops at the first refusal. Every actor up to
  there is resolved on its own, as if it were alone, only the last of them can be a refusal, and
  every actor after it is left exactly as it was submitted.
\<close>

theorem resolve_actors_in_order:
  "case resolve_actors_from rd sha app_root 0 actors of (rs, actors') \<Rightarrow>
     length actors' = length actors \<and> length rs \<le> length actors \<and>
     drop (length rs) actors' = drop (length rs) actors \<and>
     zip rs (take (length rs) actors') = map (\<lambda>i. resolve_actor rd sha app_root i (actors ! i)) [0..<length rs] \<and>
     list_all (\<lambda>x. \<not> is_refusal (ar_resolution x)) (butlast rs) \<and>
     (length rs = length actors \<or> is_refusal (ar_resolution (last rs)))"
  using resolve_actors_from_exact [where k = 0 and rd = rd and sha = sha and r = app_root and actors = actors] by (auto split: prod.splits)

end
