(* ===== verification/Base64.thy ===== *)
theory Base64
  imports Prelude "HOL-Library.Word"
begin

unbundle bit_operations_syntax

text \<open>
  The strict base64 decoder of the reply capture (\<open>decode_base64\<close> of
  controller/src/runner_client.rs) on 8-bit words, with the shifts and masks of the source, and the
  standard encoding as its specification: the decoder accepts exactly the encodings.
\<close>

section \<open>The decoder\<close>

type_synonym byte = "8 word"

definition REPLY_CAPTURE_BYTES :: nat where "REPLY_CAPTURE_BYTES = 92 * 1024 * 1024"

text \<open>The inner function \<open>digit\<close>: \<open>byte - b'A'\<close> and so on.\<close>

definition digit :: "char \<Rightarrow> byte option" where
  "digit c =
     (let n = of_char c :: nat in
      if 65 \<le> n \<and> n \<le> 90 then Some (word_of_nat (n - 65))
      else if 97 \<le> n \<and> n \<le> 122 then Some (word_of_nat (n - 97 + 26))
      else if 48 \<le> n \<and> n \<le> 57 then Some (word_of_nat (n - 48 + 52))
      else if n = 43 then Some 62
      else if n = 47 then Some 63
      else None)"

abbreviation pad :: char where "pad \<equiv> CHR ''=''"

text \<open>The three output bytes of a chunk: \<open>a << 2 | b >> 4\<close>, \<open>b << 4 | c >> 2\<close>, \<open>c << 6 | d\<close>.\<close>

definition pack0 :: "byte \<Rightarrow> byte \<Rightarrow> byte" where "pack0 a b = push_bit 2 a OR drop_bit 4 b"
definition pack1 :: "byte \<Rightarrow> byte \<Rightarrow> byte" where "pack1 b c = push_bit 4 b OR drop_bit 2 c"
definition pack2 :: "byte \<Rightarrow> byte \<Rightarrow> byte" where "pack2 c d = push_bit 6 c OR d"

text \<open>One chunk of four bytes; \<open>fin\<close> is \<open>index + 1 == count\<close>.\<close>

definition decode_chunk :: "bool \<Rightarrow> char \<Rightarrow> char \<Rightarrow> char \<Rightarrow> char \<Rightarrow> string + byte list" where
  "decode_chunk fin c0 c1 c2 c3 =
     res_bind (ok_or (digit c0) ''invalid reply base64 alphabet'') (\<lambda>a.
     res_bind (ok_or (digit c1) ''invalid reply base64 alphabet'') (\<lambda>b.
     let x = pack0 a b in
     if c2 = pad then
       res_bind (require (fin \<and> c3 = pad \<and> b AND 15 = 0) ''invalid reply base64 padding'') (\<lambda>_. Inr [x])
     else
       res_bind (ok_or (digit c2) ''invalid reply base64 alphabet'') (\<lambda>c.
       let y = pack1 b c in
       if c3 = pad then
         res_bind (require (fin \<and> c AND 3 = 0) ''invalid reply base64 padding'') (\<lambda>_. Inr [x, y])
       else
         res_bind (ok_or (digit c3) ''invalid reply base64 alphabet'') (\<lambda>d.
         Inr [x, y, pack2 c d]))))"

fun decode_chunks :: "string \<Rightarrow> string + byte list" where
  "decode_chunks (c0 # c1 # c2 # c3 # rest) =
     res_bind (decode_chunk (rest = []) c0 c1 c2 c3) (\<lambda>xs.
     res_bind (decode_chunks rest) (\<lambda>ys. Inr (xs @ ys)))"
| "decode_chunks _ = Inr []"

definition div_ceil :: "nat \<Rightarrow> nat \<Rightarrow> nat" where
  "div_ceil a b = (a + b - 1) div b"

definition decode_base64 :: "string \<Rightarrow> string + byte list" where
  "decode_base64 t =
     res_bind (require (length t mod 4 = 0 \<and> length t \<le> div_ceil REPLY_CAPTURE_BYTES 3 * 4)
       ''invalid or oversized reply base64'') (\<lambda>_.
     res_bind (decode_chunks t) (\<lambda>output.
     res_bind (require (length output \<le> REPLY_CAPTURE_BYTES) ''decoded reply exceeds retention limit'') (\<lambda>_.
     Inr output)))"

section \<open>The standard encoding\<close>

definition digit_char :: "byte \<Rightarrow> char" where
  "digit_char w =
     (let n = unat w in
      char_of (if n < 26 then n + 65 else if n < 52 then n - 26 + 97 else if n < 62 then n - 52 + 48
        else if n = 62 then 43 else 47 :: nat))"

text \<open>The four six-bit groups of three bytes; a missing byte counts as zero.\<close>

definition group0 :: "byte \<Rightarrow> byte" where "group0 x = drop_bit 2 x"
definition group1 :: "byte \<Rightarrow> byte \<Rightarrow> byte" where "group1 x y = push_bit 4 (take_bit 2 x) OR drop_bit 4 y"
definition group2 :: "byte \<Rightarrow> byte \<Rightarrow> byte" where "group2 y z = push_bit 2 (take_bit 4 y) OR drop_bit 6 z"
definition group3 :: "byte \<Rightarrow> byte" where "group3 z = take_bit 6 z"

fun encode_base64 :: "byte list \<Rightarrow> string" where
  "encode_base64 [] = []"
| "encode_base64 [x] = [digit_char (group0 x), digit_char (group1 x 0), pad, pad]"
| "encode_base64 [x, y] = [digit_char (group0 x), digit_char (group1 x y), digit_char (group2 y 0), pad]"
| "encode_base64 (x # y # z # rest) =
     digit_char (group0 x) # digit_char (group1 x y) # digit_char (group2 y z) # digit_char (group3 z)
       # encode_base64 rest"

section \<open>Six-bit digits\<close>

definition six :: "byte \<Rightarrow> bool" where "six a = (take_bit 6 a = a)"

lemma six_bits: "six a \<Longrightarrow> 6 \<le> n \<Longrightarrow> \<not> bit a n"
  by (metis six_def bit_take_bit_iff not_le)

lemma six_unat: "six a \<longleftrightarrow> unat a < 64"
proof -
  have "six a \<longleftrightarrow> unat (take_bit 6 a) = unat a" by (simp add: six_def word_unat_eq_iff)
  also have "\<dots> \<longleftrightarrow> take_bit 6 (unat a) = unat a" by (simp add: unsigned_take_bit_eq)
  also have "\<dots> \<longleftrightarrow> unat a < 2 ^ 6" by (rule take_bit_nat_eq_self_iff)
  finally show ?thesis by simp
qed

lemma unat_small: "n < 64 \<Longrightarrow> unat (word_of_nat n :: byte) = n"
  by (simp add: unat_of_nat)

lemma digit_digit_char: "six w \<Longrightarrow> digit (digit_char w) = Some w"
proof -
  assume "six w"
  then have w: "unat w < 64" by (simp add: six_unat)
  have [simp]: "word_of_nat (unat w) = w" by simp
  consider "unat w < 26" | "26 \<le> unat w" "unat w < 52" | "52 \<le> unat w" "unat w < 62" | "unat w = 62" | "unat w = 63"
    using w by linarith
  then show ?thesis
  proof cases
    case 4
    then have "w = 62" by (simp add: word_unat_eq_iff)
    then show ?thesis by (simp add: digit_def digit_char_def)
  next
    case 5
    then have "w = 63" by (simp add: word_unat_eq_iff)
    then show ?thesis by (simp add: digit_def digit_char_def)
  qed (auto simp: digit_def digit_char_def Let_def)
qed

lemma digit_Some: "digit c = Some w \<Longrightarrow> six w \<and> digit_char w = c"
proof -
  assume d: "digit c = Some w"
  define n where "n = (of_char c :: nat)"
  have c: "c = char_of n" by (simp add: n_def)
  from d consider "65 \<le> n" "n \<le> 90" "w = word_of_nat (n - 65)"
    | "97 \<le> n" "n \<le> 122" "w = word_of_nat (n - 97 + 26)"
    | "48 \<le> n" "n \<le> 57" "w = word_of_nat (n - 48 + 52)" | "n = 43" "w = 62" | "n = 47" "w = 63"
    by (auto simp: digit_def n_def [symmetric] Let_def split: if_splits)
  then show ?thesis
    by cases (auto simp: six_unat digit_char_def c unat_small Let_def simp del: of_nat_add of_nat_diff)
qed

lemma digit_char_not_pad: "six w \<Longrightarrow> digit_char w \<noteq> pad"
proof
  assume "six w" "digit_char w = pad"
  with digit_digit_char have "digit pad = Some w" by metis
  then show False by (simp add: digit_def)
qed

section \<open>Shifts and masks\<close>

lemma byte_eqI:
  fixes a b :: byte
  assumes "bit a 0 = bit b 0" "bit a 1 = bit b 1" "bit a 2 = bit b 2" "bit a 3 = bit b 3"
    "bit a 4 = bit b 4" "bit a 5 = bit b 5" "bit a 6 = bit b 6" "bit a 7 = bit b 7"
  shows "a = b"
proof (rule bit_word_eqI)
  fix n assume "n < LENGTH(8)"
  then consider "n = 0" | "n = 1" | "n = 2" | "n = 3" | "n = 4" | "n = 5" | "n = 6" | "n = 7"
    by fastforce
  then show "bit a n = bit b n" by cases (use assms in auto)
qed

lemma low_mask: "(a :: byte) AND 15 = take_bit 4 a" "(a :: byte) AND 3 = take_bit 2 a"
  by (simp_all add: take_bit_eq_mask mask_eq_exp_minus_1)

lemma low_bits: "take_bit k (a :: byte) = 0 \<Longrightarrow> n < k \<Longrightarrow> \<not> bit a n"
  by (metis bit_0_eq bit_take_bit_iff bot_apply bot_bool_def)

lemma high_bits: "8 \<le> n \<Longrightarrow> \<not> bit (a :: byte) n"
  by (auto dest: bit_imp_le_length)

lemma six_group0: "six (group0 x)"
  unfolding six_def group0_def by (rule byte_eqI) (simp_all add: bit_simps high_bits)

lemma six_group1: "six (group1 x y)"
  unfolding six_def group1_def by (rule byte_eqI) (simp_all add: bit_simps high_bits)

lemma six_group2: "six (group2 y z)"
  unfolding six_def group2_def by (rule byte_eqI) (simp_all add: bit_simps high_bits)

lemma six_group3: "six (group3 z)"
  unfolding six_def group3_def by (rule byte_eqI) (simp_all add: bit_simps high_bits)

lemma pack_group0: "pack0 (group0 x) (group1 x y) = x"
  unfolding pack0_def group0_def group1_def by (rule byte_eqI) (simp_all add: bit_simps high_bits)

lemma pack_group1: "pack1 (group1 x y) (group2 y z) = y"
  unfolding pack1_def group1_def group2_def by (rule byte_eqI) (simp_all add: bit_simps high_bits)

lemma pack_group2: "pack2 (group2 y z) (group3 z) = z"
  unfolding pack2_def group2_def group3_def by (rule byte_eqI) (simp_all add: bit_simps high_bits)

lemma group1_low: "group1 x 0 AND 15 = 0"
  unfolding low_mask group1_def by (rule byte_eqI) (simp_all add: bit_simps)

lemma group2_low: "group2 y 0 AND 3 = 0"
  unfolding low_mask group2_def by (rule byte_eqI) (simp_all add: bit_simps)

lemma group_pack0: "six a \<Longrightarrow> six b \<Longrightarrow> group0 (pack0 a b) = a"
  unfolding pack0_def group0_def by (rule byte_eqI) (simp_all add: bit_simps six_bits)

lemma group_pack1: "six b \<Longrightarrow> six c \<Longrightarrow> group1 (pack0 a b) (pack1 b c) = b"
  unfolding pack0_def pack1_def group1_def by (rule byte_eqI) (simp_all add: bit_simps six_bits)

lemma group_pack2: "six c \<Longrightarrow> six d \<Longrightarrow> group2 (pack1 b c) (pack2 c d) = c"
  unfolding pack1_def pack2_def group2_def by (rule byte_eqI) (simp_all add: bit_simps six_bits)

lemma group_pack3: "six d \<Longrightarrow> group3 (pack2 c d) = d"
  unfolding pack2_def group3_def by (rule byte_eqI) (simp_all add: bit_simps six_bits)

lemma group_pad1: "six b \<Longrightarrow> b AND 15 = 0 \<Longrightarrow> group1 (pack0 a b) 0 = b"
  unfolding pack0_def group1_def low_mask
  by (rule byte_eqI) (simp_all add: bit_simps six_bits low_bits [of 4])

lemma group_pad2: "six c \<Longrightarrow> c AND 3 = 0 \<Longrightarrow> group2 (pack1 b c) 0 = c"
  unfolding pack1_def group2_def low_mask
  by (rule byte_eqI) (simp_all add: bit_simps six_bits low_bits [of 2])

lemmas six_groups = six_group0 six_group1 six_group2 six_group3
lemmas pack_groups = pack_group0 pack_group1 pack_group2 group1_low group2_low
lemmas group_packs = group_pack0 group_pack1 group_pack2 group_pack3 group_pad1 group_pad2

section \<open>Exactness\<close>

lemma decode_chunk_encode:
  "decode_chunk True (digit_char (group0 x)) (digit_char (group1 x 0)) pad pad = Inr [x]"
  "decode_chunk True (digit_char (group0 x)) (digit_char (group1 x y)) (digit_char (group2 y 0)) pad = Inr [x, y]"
  "decode_chunk fin (digit_char (group0 x)) (digit_char (group1 x y)) (digit_char (group2 y z)) (digit_char (group3 z))
     = Inr [x, y, z]"
  by (simp_all add: decode_chunk_def digit_digit_char digit_char_not_pad six_groups pack_groups Let_def)

lemma decode_chunks_encode: "decode_chunks (encode_base64 bs) = Inr bs"
  by (induction bs rule: encode_base64.induct) (simp_all add: decode_chunk_encode)

lemma decode_chunk_Inr:
  assumes "decode_chunk fin c0 c1 c2 c3 = Inr xs"
  obtains x where "xs = [x]" "fin" "[c0, c1, c2, c3] = encode_base64 [x]"
  | x y where "xs = [x, y]" "fin" "[c0, c1, c2, c3] = encode_base64 [x, y]"
  | x y z where "xs = [x, y, z]" "[c0, c1, c2, c3] = encode_base64 [x, y, z]"
proof -
  from assms obtain a b where a: "digit c0 = Some a" and b: "digit c1 = Some b"
    by (auto simp: decode_chunk_def)
  note A = digit_Some [OF a] and B = digit_Some [OF b]
  show thesis
  proof (cases "c2 = pad")
    case True
    with assms a b have "c3 = pad" "fin" "b AND 15 = 0" "xs = [pack0 a b]"
      by (auto simp: decode_chunk_def Let_def)
    with True A B that(1) [of "pack0 a b"] show ?thesis by (simp add: group_packs)
  next
    case c2: False
    with assms a b obtain c where c: "digit c2 = Some c" by (auto simp: decode_chunk_def Let_def)
    note C = digit_Some [OF c]
    show ?thesis
    proof (cases "c3 = pad")
      case True
      with assms a b c c2 have "fin" "c AND 3 = 0"
          "xs = [pack0 a b, pack1 b c]"
        by (auto simp: decode_chunk_def Let_def)
      with True A B C that(2) [of "pack0 a b" "pack1 b c"] show ?thesis
        by (simp add: group_packs)
    next
      case False
      with assms a b c c2 obtain d where d: "digit c3 = Some d"
        and xs: "xs = [pack0 a b, pack1 b c, pack2 c d]"
        by (auto simp: decode_chunk_def Let_def)
      note D = digit_Some [OF d]
      show ?thesis
        using xs A B C D that(3) [of "pack0 a b" "pack1 b c" "pack2 c d"]
        by (simp add: group_packs)
    qed
  qed
qed

lemma decode_chunks_Inr:
  "length t mod 4 = 0 \<Longrightarrow> decode_chunks t = Inr bs \<Longrightarrow> t = encode_base64 bs"
proof (induction t arbitrary: bs rule: decode_chunks.induct)
  case (1 c0 c1 c2 c3 rest)
  then obtain xs ys where xs: "decode_chunk (rest = []) c0 c1 c2 c3 = Inr xs"
    and ys: "decode_chunks rest = Inr ys" and bs: "bs = xs @ ys" by auto
  from "1.prems"(1) have "length rest mod 4 = 0" by simp
  then have rest: "rest = encode_base64 ys" by (rule "1.IH" [OF xs _ ys])
  have nil: "ys = []" if "rest = []" using ys that by simp
  from xs show ?case
    by (cases rule: decode_chunk_Inr) (use rest bs nil in auto)
qed simp_all

lemma length_encode: "length (encode_base64 bs) = 4 * div_ceil (length bs) 3"
proof (induction bs rule: encode_base64.induct)
  case (4 x y z rest)
  have "(5 + length rest) div 3 = Suc (Suc (Suc (length rest)) div 3)" by presburger
  with 4 show ?case by (simp add: div_ceil_def)
qed (simp_all add: div_ceil_def)

lemma decode_base64_exact_lib:
  "decode_base64 t = Inr bs \<longleftrightarrow> t = encode_base64 bs \<and> length bs \<le> REPLY_CAPTURE_BYTES"
proof
  assume "decode_base64 t = Inr bs"
  then have "length t mod 4 = 0" "decode_chunks t = Inr bs" "length bs \<le> REPLY_CAPTURE_BYTES"
    by (auto simp: decode_base64_def)
  then show "t = encode_base64 bs \<and> length bs \<le> REPLY_CAPTURE_BYTES" by (simp add: decode_chunks_Inr)
next
  assume bs: "t = encode_base64 bs \<and> length bs \<le> REPLY_CAPTURE_BYTES"
  then have "div_ceil (length bs) 3 \<le> div_ceil REPLY_CAPTURE_BYTES 3"
    unfolding div_ceil_def by (intro div_le_mono) simp
  with bs show "decode_base64 t = Inr bs"
    by (simp add: decode_base64_def length_encode decode_chunks_encode)
qed

text \<open>
  C29: the base64 decoder is strict and exact. A text decodes to bytes exactly when it is the standard
  encoding of those bytes and they fit the retention limit: every encoding is read back, and no
  second text (other alphabet, stray or missing padding, nonzero padding bits) is accepted for them.
\<close>

theorem decode_base64_exact:
  "decode_base64 t = Inr bs \<longleftrightarrow> t = encode_base64 bs \<and> length bs \<le> REPLY_CAPTURE_BYTES"
  by (rule decode_base64_exact_lib)

end
