(* ===== verification/Runner_Select.thy ===== *)
theory Runner_Select
  imports Requests
begin

text \<open>
  The evidence manifest of the shipped binaries (controller/src/evidence.rs) and the resolution of a
  selector into a runner target (the second half of controller/src/runner_select.rs): the built-in
  runner from the manifest, an external one from the registry, and the entitlement gate both pass.
  Files, the JSON printer and the registry parser are parameters.
\<close>

section \<open>The evidence manifest\<close>

definition EVIDENCE_SCHEMA_VERSION :: nat where "EVIDENCE_SCHEMA_VERSION = 1"

record evidence_entry =
  ev_id :: string
  ev_kind :: string
  ev_bundle_id :: "string option"
  rel_path :: path
  ev_sha256 :: "string option"
  lc_uuid :: "string option"
  ev_entitlements :: "json option"
  entitlements_error :: "string option"

record evidence_manifest =
  em_schema_version :: nat
  entries :: "evidence_entry list"
  em_notes :: "string list option"

record verify_mismatch =
  vm_id :: string
  vm_rel_path :: path
  expected_sha256 :: "string option"
  actual_sha256 :: "string option"
  vm_error :: "string option"

record verify_report =
  vr_ok :: bool
  vr_checked :: nat
  mismatches :: "verify_mismatch list"
  manifest_path :: path
  vr_schema_version :: nat
  vr_notes :: "string list option"

definition load_manifest ::
    "(path \<Rightarrow> string + string) \<Rightarrow> (string \<Rightarrow> string + evidence_manifest) \<Rightarrow> path \<Rightarrow> string + evidence_manifest" where
  "load_manifest read_file from_str p =
     (case read_file p of
        Inl e \<Rightarrow> Inl (''failed to read manifest '' @ p @ '': '' @ e)
      | Inr data \<Rightarrow>
          (case from_str data of
             Inl e \<Rightarrow> Inl (''failed to parse manifest '' @ p @ '': '' @ e)
           | Inr m \<Rightarrow>
               if em_schema_version m \<noteq> EVIDENCE_SCHEMA_VERSION then
                 Inl (''unsupported evidence manifest schema_version '' @ nat_digits (em_schema_version m)
                   @ '' (expected '' @ nat_digits EVIDENCE_SCHEMA_VERSION @ '') in '' @ p)
               else Inr m))"

text \<open>The file system of the verification: existence and the streamed hash of a file.\<close>

record verify_fs =
  vf_exists :: "path \<Rightarrow> bool"
  vf_sha256 :: "path \<Rightarrow> string + string"

definition verify_entry :: "verify_fs \<Rightarrow> path \<Rightarrow> evidence_entry \<Rightarrow> verify_mismatch option" where
  "verify_entry fs app_root entry =
     (let abs = path_join app_root (rel_path entry);
          mismatch = (\<lambda>actual err. Some \<lparr>vm_id = ev_id entry, vm_rel_path = rel_path entry,
            expected_sha256 = ev_sha256 entry, actual_sha256 = actual, vm_error = err\<rparr>) in
      if ev_sha256 entry = None then None
      else if \<not> vf_exists fs abs then mismatch None (Some ''missing file'')
      else case vf_sha256 fs abs of
        Inl e \<Rightarrow> mismatch None (Some e)
      | Inr actual \<Rightarrow> if ev_sha256 entry \<noteq> Some actual then mismatch (Some actual) None else None)"

definition verify_manifest :: "verify_fs \<Rightarrow> evidence_manifest \<Rightarrow> path \<Rightarrow> path \<Rightarrow> verify_report" where
  "verify_manifest fs m app_root mpath =
     (let ms = filter_map (verify_entry fs app_root) (entries m) in
      \<lparr>vr_ok = (ms = []), vr_checked = length (filter (\<lambda>e. ev_sha256 e \<noteq> None) (entries m)),
       mismatches = ms, manifest_path = mpath, vr_schema_version = em_schema_version m, vr_notes = em_notes m\<rparr>)"

definition unique_typed_entry :: "evidence_manifest \<Rightarrow> path \<Rightarrow> string \<Rightarrow> message + evidence_entry" where
  "unique_typed_entry m p k =
     (case filter (\<lambda>e. rel_path e = p) (entries m) of
        [] \<Rightarrow> Inl [MText (''evidence manifest has no entry at '' @ p)]
      | [e] \<Rightarrow>
          if ev_kind e \<noteq> k then
            Inl [MText (''evidence manifest entry at '' @ p @ '' has kind ''), MDebug (ev_kind e),
                 MText '' (expected '', MDebug k, MText '')'']
          else Inr e
      | _ \<Rightarrow> Inl [MText (''evidence manifest has more than one entry at '' @ p)])"

definition manifest_path_from_app_root :: "path \<Rightarrow> path" where
  "manifest_path_from_app_root app_root =
     path_join (path_join (path_join (path_join app_root ''Contents'') ''Resources'') ''Evidence'') ''manifest.json''"

section \<open>Targets\<close>

datatype connection_kind = XpcService | MachService bool

record runner_target =
  t_kind :: runner_kind
  connection :: connection_kind
  t_service_name :: string
  t_bundle_id :: "string option"
  t_bundle_path :: "path option"
  t_executable_path :: "path option"
  registry_id :: "string option"
  t_signature :: "runner_signature option"
  t_entitlements :: "runner_entitlements option"
  t_worker_signature :: "runner_signature option"
  t_worker_entitlements :: "runner_entitlements option"
  t_validator_signature :: "runner_signature option"
  t_validator_entitlements :: "runner_entitlements option"
  t_unentitled_worker_signature :: "runner_signature option"
  t_unentitled_worker_entitlements :: "runner_entitlements option"

record shipped_binary =
  sb_rel_path :: path
  sb_kind :: string

definition SHIPPED_SERVICE :: shipped_binary where
  "SHIPPED_SERVICE = \<lparr>sb_rel_path = ''Contents/XPCServices/PWRunner.xpc/Contents/MacOS/PWRunner'', sb_kind = ''xpc-service''\<rparr>"
definition SHIPPED_WORKER :: shipped_binary where
  "SHIPPED_WORKER = \<lparr>sb_rel_path = ''Contents/XPCServices/PWRunner.xpc/Contents/MacOS/pw-probe-runner'',
     sb_kind = ''xpc-embedded-helper''\<rparr>"
definition SHIPPED_VALIDATOR :: shipped_binary where
  "SHIPPED_VALIDATOR = \<lparr>sb_rel_path = ''Contents/XPCServices/PWRunner.xpc/Contents/MacOS/sb_api_validator'',
     sb_kind = ''xpc-embedded-helper''\<rparr>"
definition SHIPPED_UNENTITLED_WORKER :: shipped_binary where
  "SHIPPED_UNENTITLED_WORKER =
     \<lparr>sb_rel_path = ''Contents/XPCServices/PWRunner.xpc/Contents/MacOS/pw-probe-runner-unentitled'',
      sb_kind = ''xpc-embedded-helper''\<rparr>"

definition no_entitlements :: "string option \<Rightarrow> runner_entitlements" where
  "no_entitlements e = \<lparr>raw_plist = None, ent_keys = [], granted = [], ent_error = e\<rparr>"

text \<open>\<open>pretty\<close> is the JSON printer; \<open>raw_plist\<close> of the manifest value is its text.\<close>

definition entitlements_from_manifest_value ::
    "(json \<Rightarrow> string option) \<Rightarrow> json option \<Rightarrow> string option \<Rightarrow> runner_entitlements" where
  "entitlements_from_manifest_value pretty value err =
     (let e0 = (case value of Some v \<Rightarrow> entitlements_from_json v | None \<Rightarrow> no_entitlements None);
          e1 = (if raw_plist e0 = None then e0\<lparr>raw_plist := Option.bind value pretty\<rparr> else e0) in
      case err of Some x \<Rightarrow> e1\<lparr>ent_error := Some x\<rparr> | None \<Rightarrow> e1)"

definition message_text :: "(msg_part \<Rightarrow> string) \<Rightarrow> message \<Rightarrow> string" where
  "message_text show_part m = concat (map show_part m)"

definition unavailable :: "path \<Rightarrow> message \<Rightarrow> message" where
  "unavailable app_root m =
     MText (''built-in runner unavailable: '' @ manifest_path_from_app_root app_root @ '': '') # m"

text \<open>\<open>show_part\<close> renders one part of a diagnostic where the source stores it as text.\<close>

definition helper_entitlements ::
    "(msg_part \<Rightarrow> string) \<Rightarrow> (json \<Rightarrow> string option) \<Rightarrow> path \<Rightarrow> evidence_manifest \<Rightarrow> shipped_binary \<Rightarrow> runner_entitlements" where
  "helper_entitlements show_part pretty app_root m role =
     (case unique_typed_entry m (sb_rel_path role) (sb_kind role) of
        Inr e \<Rightarrow> entitlements_from_manifest_value pretty (ev_entitlements e) (entitlements_error e)
      | Inl err \<Rightarrow> no_entitlements (Some (message_text show_part (unavailable app_root err))))"

definition builtin_runner_target ::
    "(msg_part \<Rightarrow> string) \<Rightarrow> (json \<Rightarrow> string option) \<Rightarrow> path \<Rightarrow> string + evidence_manifest \<Rightarrow> runner_kind
      \<Rightarrow> message + runner_target" where
  "builtin_runner_target show_part pretty app_root manifest knd =
     (if knd = Byoxpc then Inl [MText ''builtin runner target requires a built-in kind'']
      else case manifest of
        Inl e \<Rightarrow> Inl [MText (''built-in runner unavailable: '' @ e)]
      | Inr m \<Rightarrow>
          res_bind (map_err (unavailable app_root)
              (unique_typed_entry m (sb_rel_path SHIPPED_SERVICE) (sb_kind SHIPPED_SERVICE))) (\<lambda>entry.
          res_bind (case ev_bundle_id entry of
              Some i \<Rightarrow> if i \<noteq> [] \<and> nul \<notin> set i then Inr i
                 else Inl (unavailable app_root [MText (''evidence manifest entry at '' @ sb_rel_path SHIPPED_SERVICE
                        @ '' has an empty or NUL-containing bundle_id'')])
            | None \<Rightarrow> Inl (unavailable app_root [MText (''evidence manifest entry at '' @ sb_rel_path SHIPPED_SERVICE
                        @ '' has no bundle_id'')])) (\<lambda>bid.
          let exe = path_join app_root (sb_rel_path SHIPPED_SERVICE) in
          Inr \<lparr>t_kind = knd, connection = XpcService, t_service_name = bid, t_bundle_id = Some bid,
            t_bundle_path = Option.bind (Option.bind (path_parent exe) path_parent) path_parent,
            t_executable_path = Some exe, registry_id = None, t_signature = None,
            t_entitlements = Some (entitlements_from_manifest_value pretty (ev_entitlements entry) (entitlements_error entry)),
            t_worker_signature = None,
            t_worker_entitlements = Some (helper_entitlements show_part pretty app_root m SHIPPED_WORKER),
            t_validator_signature = None,
            t_validator_entitlements = Some (helper_entitlements show_part pretty app_root m SHIPPED_VALIDATOR),
            t_unentitled_worker_signature = None,
            t_unentitled_worker_entitlements =
              Some (helper_entitlements show_part pretty app_root m SHIPPED_UNENTITLED_WORKER)\<rparr>)))"

definition infer_record_kind :: "runner_record \<Rightarrow> runner_kind" where
  "infer_record_kind record = unwrap_or (kind record) Byoxpc"

text \<open>The entitlement gate: the first required key that is not granted is refused.\<close>

fun first_missing :: "runner_entitlements \<Rightarrow> string \<Rightarrow> string list \<Rightarrow> message + unit" where
  "first_missing w subject [] = Inr ()"
| "first_missing w subject (k # ks) =
     (if k \<in> set (granted w) then first_missing w subject ks
      else Inl [MText (subject @ '' worker does not hold required entitlement ''), MDebug k,
        MText ('': '' @ (if k \<in> set (ent_keys w) then ''present with a value other than true'' else ''absent''))])"

definition enforce_required_entitlements ::
    "string list \<Rightarrow> runner_entitlements option \<Rightarrow> string \<Rightarrow> message + unit" where
  "enforce_required_entitlements required worker subject =
     (if required = [] then Inr ()
      else case worker of
        None \<Rightarrow> Inl [MText (subject @ '' has no worker entitlement read-back; reinstall it with this policy-witness so selection can check the worker'')]
      | Some w \<Rightarrow>
          (case ent_error w of
             Some e \<Rightarrow> Inl [MText (subject @ '' worker entitlements unavailable: '' @ e)]
           | None \<Rightarrow> first_missing w subject required))"

definition find_external_record :: "runner_registry \<Rightarrow> runner_selector \<Rightarrow> message + runner_record" where
  "find_external_record reg sel =
     res_bind (ok_or (registry_find reg (sel_id sel) (sel_service sel))
       [MText ''external runner not found in registry'']) (\<lambda>record.
     if state record = Pending then Inl [MText ''external runner is pending installation''] else Inr record)"

definition protocol_message :: "nat \<Rightarrow> message" where
  "protocol_message version =
     [MText (''runner advertises protocol '' @ nat_digits version @ ''; this client requires protocol ''
        @ nat_digits RUNNER_PROTOCOL_VERSION @ ''; upgrade and reinstall the runner'')]"

definition resolve_external_target :: "runner_record \<Rightarrow> runner_selector \<Rightarrow> message + runner_target" where
  "resolve_external_target record sel =
     res_bind (map_err (\<lambda>_. protocol_message (protocol_version record))
         (require_current_protocol (protocol_version record))) (\<lambda>_.
     let record_kind = infer_record_kind record in
     res_bind (case sel_mode sel of
         None \<Rightarrow> Inr ()
       | Some mode \<Rightarrow> require (mode = record_kind)
           [MText (''runner.mode mismatch (requested '' @ kind_as_str mode @ '', registry has '' @ kind_as_str record_kind @ '')'')]) (\<lambda>_.
     res_bind (enforce_required_entitlements (required_entitlements sel) (worker_entitlements record)
         ''external runner'') (\<lambda>_.
     case record_kind of
       Standard \<Rightarrow> Inl [MText ''external runners cannot be built-in kinds'']
     | Byoxpc \<Rightarrow>
         Inr \<lparr>t_kind = record_kind, connection = MachService (scope record = System),
           t_service_name = service_name record, t_bundle_id = bundle_id record,
           t_bundle_path = Some (bundle_path record), t_executable_path = Some (executable_path record),
           registry_id = Some (runner_id record), t_signature = Some (signature record),
           t_entitlements = Some (entitlements record),
           t_worker_signature = worker_signature record, t_worker_entitlements = worker_entitlements record,
           t_validator_signature = validator_signature record, t_validator_entitlements = validator_entitlements record,
           t_unentitled_worker_signature = unentitled_worker_signature record,
           t_unentitled_worker_entitlements = unentitled_worker_entitlements record\<rparr>)))"

text \<open>Loading the registry: no file is the empty registry; another schema version is refused.\<close>

definition load_registry ::
    "(path \<Rightarrow> bool) \<Rightarrow> (path \<Rightarrow> string + string) \<Rightarrow> (string \<Rightarrow> string + runner_registry) \<Rightarrow> path \<Rightarrow> string + runner_registry" where
  "load_registry exists_file read_file from_str p =
     (if \<not> exists_file p then
        Inr \<lparr>schema_version = RUNNER_REGISTRY_SCHEMA_VERSION, runners = [], pending = []\<rparr>
      else case read_file p of
        Inl e \<Rightarrow> Inl (''failed to read '' @ p @ '': '' @ e)
      | Inr body \<Rightarrow>
          (case from_str body of
             Inl e \<Rightarrow> Inl (''failed to parse '' @ p @ '': '' @ e)
           | Inr reg \<Rightarrow>
               if schema_version reg \<noteq> RUNNER_REGISTRY_SCHEMA_VERSION then
                 Inl (''unsupported runner registry schema_version '' @ nat_digits (schema_version reg)
                   @ '' (expected '' @ nat_digits RUNNER_REGISTRY_SCHEMA_VERSION @ '')'')
               else Inr reg))"

text \<open>\<open>registry\<close> is the load of the registry path, consulted only for an external selection.\<close>

definition resolve_runner_target_with_registry ::
    "(msg_part \<Rightarrow> string) \<Rightarrow> (json \<Rightarrow> string option) \<Rightarrow> path \<Rightarrow> string + evidence_manifest \<Rightarrow> runner_selector
      \<Rightarrow> string + runner_registry \<Rightarrow> message + runner_target" where
  "resolve_runner_target_with_registry show_part pretty app_root manifest sel registry =
     (case selector_problem sel of
        Some problem \<Rightarrow> Inl [MText problem]
      | None \<Rightarrow>
          if sel_id sel = None \<and> sel_service sel = None then
            res_bind (builtin_runner_target show_part pretty app_root manifest (unwrap_or (sel_mode sel) Standard)) (\<lambda>target.
            res_bind (enforce_required_entitlements (required_entitlements sel) (t_worker_entitlements target)
                ''built-in runner'') (\<lambda>_. Inr target))
          else
            res_bind (map_err (\<lambda>e. [MText e]) registry) (\<lambda>reg.
            res_bind (find_external_record reg sel) (\<lambda>record. resolve_external_target record sel)))"

record runner_provenance =
  p_runner_kind :: string
  p_registry_id :: "string option"
  p_service_name :: string
  p_bundle_id :: "string option"
  p_bundle_path :: "string option"
  p_executable_path :: "string option"
  p_signature :: "runner_signature option"
  p_entitlements :: "runner_entitlements option"
  p_worker_signature :: "runner_signature option"
  p_worker_entitlements :: "runner_entitlements option"
  p_validator_signature :: "runner_signature option"
  p_validator_entitlements :: "runner_entitlements option"
  p_unentitled_worker_signature :: "runner_signature option"
  p_unentitled_worker_entitlements :: "runner_entitlements option"

definition runner_provenance_from_target :: "runner_target \<Rightarrow> runner_provenance" where
  "runner_provenance_from_target t =
     \<lparr>p_runner_kind = kind_as_str (t_kind t), p_registry_id = registry_id t, p_service_name = t_service_name t,
      p_bundle_id = t_bundle_id t, p_bundle_path = t_bundle_path t, p_executable_path = t_executable_path t,
      p_signature = t_signature t, p_entitlements = t_entitlements t,
      p_worker_signature = t_worker_signature t, p_worker_entitlements = t_worker_entitlements t,
      p_validator_signature = t_validator_signature t, p_validator_entitlements = t_validator_entitlements t,
      p_unentitled_worker_signature = t_unentitled_worker_signature t,
      p_unentitled_worker_entitlements = t_unentitled_worker_entitlements t\<rparr>"

section \<open>Properties\<close>

lemma first_missing_Inr: "first_missing w s ks = Inr () \<longleftrightarrow> set ks \<subseteq> set (granted w)"
  by (induction ks) auto

lemma enforce_Inr:
  "enforce_required_entitlements required worker s = Inr () \<longleftrightarrow>
     required = [] \<or> (\<exists>w. worker = Some w \<and> ent_error w = None \<and> set required \<subseteq> set (granted w))"
  by (auto simp: enforce_required_entitlements_def first_missing_Inr split: option.splits)

lemma granted_from_json:
  "k \<in> set (granted (entitlements_from_json (JObj m))) \<longleftrightarrow> (k, JBool True) \<in> set m"
  by (auto simp: entitlements_from_json_def image_iff)

text \<open>
  the entitlement gate is exact. Selection passes it exactly when nothing is required, or when the
  worker's read-back exists, has no error and grants every required key; and a key read from an
  entitlement dictionary is granted exactly when its value there is the boolean \<open>true\<close>.
\<close>

theorem enforce_required_entitlements_exact:
  "(enforce_required_entitlements required worker subject = Inr () \<longleftrightarrow>
      required = [] \<or> (\<exists>w. worker = Some w \<and> ent_error w = None \<and> set required \<subseteq> set (granted w))) \<and>
   (k \<in> set (granted (entitlements_from_json v)) \<longleftrightarrow> (\<exists>m. v = JObj m \<and> (k, JBool True) \<in> set m))"
proof -
  have "granted (entitlements_from_json v) = []" if "\<nexists>m. v = JObj m"
    using that by (cases v) (auto simp: entitlements_from_json_def)
  then show ?thesis
    by (cases "\<exists>m. v = JObj m") (auto simp: enforce_Inr granted_from_json)
qed

lemma unique_typed_entry_Inr:
  "unique_typed_entry m p k = Inr e \<longleftrightarrow> filter (\<lambda>e. rel_path e = p) (entries m) = [e] \<and> ev_kind e = k"
  by (auto simp: unique_typed_entry_def split: list.splits)

lemma find_external_record_Inr:
  "find_external_record reg sel = Inr r \<longleftrightarrow>
     registry_find reg (sel_id sel) (sel_service sel) = Some r \<and> state r = Installed"
proof -
  have "s \<noteq> Pending \<longleftrightarrow> s = Installed" for s by (cases s) simp_all
  then show ?thesis
    by (cases "registry_find reg (sel_id sel) (sel_service sel)") (auto simp: find_external_record_def)
qed

lemma registry_find_Some:
  "registry_find reg i s = Some r \<Longrightarrow> r \<in> set (runners reg) \<and>
     (case i of Some x \<Rightarrow> runner_id r = x | None \<Rightarrow> s = Some (service_name r))"
  by (auto simp: registry_find_def find_Some_iff split: option.splits)

lemma resolve_external_target_Inr:
  assumes "resolve_external_target record sel = Inr t"
  shows "protocol_version record = RUNNER_PROTOCOL_VERSION \<and> infer_record_kind record = Byoxpc \<and>
    sel_mode sel \<in> {None, Some Byoxpc} \<and>
    enforce_required_entitlements (required_entitlements sel) (worker_entitlements record) ''external runner'' = Inr () \<and>
    t_kind t = Byoxpc \<and> connection t = MachService (scope record = System) \<and>
    t_service_name t = service_name record \<and> registry_id t = Some (runner_id record) \<and>
    t_worker_entitlements t = worker_entitlements record"
proof -
  from assms have p: "require_current_protocol (protocol_version record) = Inr ()"
    and e: "enforce_required_entitlements (required_entitlements sel) (worker_entitlements record) ''external runner'' = Inr ()"
    by (auto simp: resolve_external_target_def Let_def)
  from assms have k: "infer_record_kind record = Byoxpc"
    by (auto simp: resolve_external_target_def Let_def split: runner_kind.splits)
  from assms k have "sel_mode sel \<in> {None, Some Byoxpc}"
    by (auto simp: resolve_external_target_def Let_def split: option.splits)
  moreover from p have "protocol_version record = RUNNER_PROTOCOL_VERSION"
    by (simp add: require_current_protocol_def split: if_splits)
  ultimately show ?thesis using assms k e by (auto simp: resolve_external_target_def Let_def)
qed

text \<open>The record an accepted external selection stands for.\<close>

definition serves_external :: "runner_registry \<Rightarrow> runner_selector \<Rightarrow> runner_target \<Rightarrow> bool" where
  "serves_external reg sel t =
     list_ex (\<lambda>r. state r = Installed \<and> protocol_version r = RUNNER_PROTOCOL_VERSION \<and>
       infer_record_kind r = Byoxpc \<and>
       (case sel_id sel of Some i \<Rightarrow> runner_id r = i | None \<Rightarrow> sel_service sel = Some (service_name r)) \<and>
       t_service_name t = service_name r \<and> registry_id t = Some (runner_id r) \<and>
       connection t = MachService (scope r = System) \<and> t_worker_entitlements t = worker_entitlements r) (runners reg)"

definition serves_builtin :: "evidence_manifest \<Rightarrow> runner_target \<Rightarrow> bool" where
  "serves_builtin m t =
     (connection t = XpcService \<and> registry_id t = None \<and>
      (case filter (\<lambda>e. rel_path e = sb_rel_path SHIPPED_SERVICE) (entries m) of
         [e] \<Rightarrow> ev_kind e = sb_kind SHIPPED_SERVICE \<and> ev_bundle_id e = Some (t_service_name t)
       | _ \<Rightarrow> False))"

lemma builtin_runner_target_Inr:
  assumes "builtin_runner_target sp pretty r man k = Inr t"
  shows "\<exists>m. man = Inr m \<and> serves_builtin m t"
proof -
  from assms obtain m e where m: "man = Inr m"
    and e: "unique_typed_entry m (sb_rel_path SHIPPED_SERVICE) (sb_kind SHIPPED_SERVICE) = Inr e"
    by (auto simp: builtin_runner_target_def split: if_splits sum.splits)
  from assms m e obtain i where "ev_bundle_id e = Some i"
      "t_service_name t = i" "connection t = XpcService" "registry_id t = None"
    by (auto simp: builtin_runner_target_def Let_def split: if_splits option.splits)
  with m e show ?thesis by (simp add: serves_builtin_def unique_typed_entry_Inr)
qed

text \<open>
  C26: a resolved target is one the selector is allowed to reach. An external target is an installed
  record of the registry with the current protocol, found by the id when one is given and otherwise
  by the service name, reached over its own Mach service; a built-in one is the single manifest
  entry at the shipped path, reached as an XPC service under its bundle id. In both cases every
  required entitlement is granted in the worker's read-back.
\<close>

theorem resolve_runner_target_sound:
  assumes "resolve_runner_target_with_registry sp pretty app_root manifest sel registry = Inr t"
  shows "(if sel_id sel = None \<and> sel_service sel = None
      then (\<exists>m. manifest = Inr m \<and> serves_builtin m t)
      else (\<exists>reg. registry = Inr reg \<and> serves_external reg sel t)) \<and>
    (required_entitlements sel = [] \<or>
      (\<exists>w. t_worker_entitlements t = Some w \<and> ent_error w = None \<and>
        set (required_entitlements sel) \<subseteq> set (granted w)))"
proof (cases "sel_id sel = None \<and> sel_service sel = None")
  case True
  with assms have "builtin_runner_target sp pretty app_root manifest (unwrap_or (sel_mode sel) Standard) = Inr t"
    and "enforce_required_entitlements (required_entitlements sel) (t_worker_entitlements t) ''built-in runner'' = Inr ()"
    by (auto simp: resolve_runner_target_with_registry_def split: option.splits)
  with True show ?thesis by (auto simp: enforce_Inr dest: builtin_runner_target_Inr)
next
  case False
  with assms obtain reg rec where reg: "registry = Inr reg" and r: "find_external_record reg sel = Inr rec"
    and t: "resolve_external_target rec sel = Inr t"
    by (auto simp: resolve_runner_target_with_registry_def split: option.splits if_splits)
  from r have "registry_find reg (sel_id sel) (sel_service sel) = Some rec" "state rec = Installed"
    by (simp_all add: find_external_record_Inr)
  with registry_find_Some [OF this(1)] resolve_external_target_Inr [OF t]
  have "serves_external reg sel t"
    unfolding serves_external_def list_ex_iff by (intro bexI [of _ rec]) auto
  with False reg resolve_external_target_Inr [OF t] show ?thesis by (auto simp: enforce_Inr)
qed

definition sample_runner :: runner_record where
  "sample_runner = \<lparr>state = Installed, ownership = None, runner_id = ''runner-1'', service_name = ''com.x.r'',
     bundle_path = ''/r.xpc'', executable_path = ''/r.xpc/Contents/MacOS/R'', bundle_id = Some ''com.x.r'',
     scope = User, protocol_version = 3, signature = \<lparr>team_id = None, identity = None, cdhash = None, sig_valid = True, adhoc = True\<rparr>,
     entitlements = no_entitlements None, installed_at_unix_ms = 0, kind = None,
     worker_signature = None,
     worker_entitlements = Some \<lparr>raw_plist = None, ent_keys = [''a'', ''b''], granted = [''a''], ent_error = None\<rparr>,
     unentitled_worker_signature = None, unentitled_worker_entitlements = None, unentitled_worker_sha256 = None,
     worker_equipment_inventory = None, source_worker_equipment_inventory = None,
     validator_signature = None, validator_entitlements = None, issuer_signature = None, issuer_entitlements = None\<rparr>"

definition sample_external :: "message + runner_target" where
  "sample_external = resolve_runner_target_with_registry (\<lambda>_. []) (\<lambda>_. None) ''/P.app'' (Inl ''none'')
     \<lparr>sel_id = Some ''runner-1'', sel_service = None, required_entitlements = [''a''], sel_mode = Some Byoxpc\<rparr>
     (Inr \<lparr>schema_version = 1, runners = [sample_runner], pending = []\<rparr>)"

theorem resolve_runner_target_sound_witness:
  "serves_external \<lparr>schema_version = 1, runners = [sample_runner], pending = []\<rparr>
     \<lparr>sel_id = Some ''runner-1'', sel_service = None, required_entitlements = [''a''], sel_mode = Some Byoxpc\<rparr>
     (the (res_ok sample_external))"
proof -
  have "res_ok sample_external \<noteq> None" by code_simp
  from res_ok_the [OF this] show ?thesis
    using resolve_runner_target_sound [of "\<lambda>_. []" "\<lambda>_. None" "''/P.app''" "Inl ''none''"
      "\<lparr>sel_id = Some ''runner-1'', sel_service = None, required_entitlements = [''a''], sel_mode = Some Byoxpc\<rparr>"
      "Inr \<lparr>schema_version = 1, runners = [sample_runner], pending = []\<rparr>" "the (res_ok sample_external)"]
    by (simp add: sample_external_def)
qed

lemma verify_entry_None:
  "verify_entry fs r e = None \<longleftrightarrow> ev_sha256 e = None \<or>
     vf_exists fs (path_join r (rel_path e)) \<and> vf_sha256 fs (path_join r (rel_path e)) = Inr (the (ev_sha256 e))"
  by (auto simp: verify_entry_def Let_def split: sum.splits)

lemma filter_map_Nil_iff: "filter_map f xs = [] \<longleftrightarrow> (\<forall>x \<in> set xs. f x = None)"
  by (induction xs) (auto split: option.splits)

text \<open>
  the evidence report is exact. It is \<open>ok\<close> exactly when every manifest entry that declares a hash
  has a file on disk with that hash; it lists one mismatch per entry that fails, in manifest order,
  carrying the declared hash, and counts every entry that declares one.
\<close>

theorem verify_manifest_exact:
  "(vr_ok (verify_manifest fs m app_root p) \<longleftrightarrow>
      list_all (\<lambda>e. case ev_sha256 e of None \<Rightarrow> True
        | Some h \<Rightarrow> vf_exists fs (path_join app_root (rel_path e)) \<and> vf_sha256 fs (path_join app_root (rel_path e)) = Inr h)
        (entries m)) \<and>
   map vm_rel_path (mismatches (verify_manifest fs m app_root p)) =
     map rel_path (filter (\<lambda>e. verify_entry fs app_root e \<noteq> None) (entries m)) \<and>
   list_all (\<lambda>x. expected_sha256 x \<noteq> None \<and> actual_sha256 x \<noteq> expected_sha256 x)
     (mismatches (verify_manifest fs m app_root p)) \<and>
   vr_checked (verify_manifest fs m app_root p) = length (filter (\<lambda>e. ev_sha256 e \<noteq> None) (entries m))"
proof -
  have "vm_rel_path x = rel_path e \<and> expected_sha256 x \<noteq> None \<and> actual_sha256 x \<noteq> expected_sha256 x"
    if "verify_entry fs app_root e = Some x" for e x
    using that by (auto simp: verify_entry_def Let_def split: sum.splits if_splits)
  then have "map vm_rel_path (filter_map (verify_entry fs app_root) es) =
       map rel_path (filter (\<lambda>e. verify_entry fs app_root e \<noteq> None) es) \<and>
     list_all (\<lambda>x. expected_sha256 x \<noteq> None \<and> actual_sha256 x \<noteq> expected_sha256 x)
       (filter_map (verify_entry fs app_root) es)" for es
    by (induction es) (auto split: option.splits)
  then show ?thesis
    by (auto simp: verify_manifest_def Let_def filter_map_Nil_iff verify_entry_None list_all_iff split: option.splits)
qed

end
