(* ===== verification/Runner_Client.thy ===== *)
theory Runner_Client
  imports Delivery Base64 Runner_Select
begin

text \<open>
  The runner client (controller/src/runner_client.rs): the validation of the helper's versioned capture,
  its admission, the failure it stands for, and the deadline handed to the helper. Deserialisation of
  the capture, the lossy text conversion and the JSON parser are parameters.
\<close>

section \<open>The capture\<close>

definition CONTROL_BYTES :: nat where "CONTROL_BYTES = 64 * 1024"
definition ATTEMPT_LIMIT :: nat where "ATTEMPT_LIMIT = 256"

record transport_error =
  stage :: string
  te_reason :: string
  te_domain :: "string option"
  te_code :: "int option"
  te_message :: string
  domain_truncated :: bool
  message_truncated :: bool

record control =
  ct_bytes_received :: nat
  ct_sha256 :: string
  ct_status :: "string option"
  host_pid :: "int option"
  host_instance :: "string option"
  lease_ms :: "nat option"
  ct_reason :: "string option"

record attempt =
  ordinal :: nat
  attempt_id :: string
  started_elapsed_ms :: "nat option"
  ended_elapsed_ms :: "nat option"
  at_outcome :: string
  at_control :: "control option"
  at_error :: "transport_error option"

record submission =
  sub_state :: string
  invoked_elapsed_ms :: "nat option"

record reply_capture =
  rc_bytes_received :: nat
  bytes_retained :: nat
  rc_truncated :: bool
  data_base64 :: string

record capture =
  cap_kind :: string
  cap_protocol_version :: nat
  client_pid :: int
  clock :: string
  clock_available :: bool
  started_continuous_ns :: "nat option"
  deadline_continuous_ns :: "nat option"
  ended_continuous_ns :: "nat option"
  cap_timeout_ms :: nat
  attempts :: "attempt list"
  acquisition_stop :: string
  cap_submission :: submission
  terminal :: string
  cap_error :: "transport_error option"
  runner_reply :: "reply_capture option"
  submission_refusal :: "control option"

definition uuid :: "string \<Rightarrow> bool" where
  "uuid s = (length s = 36 \<and>
     list_all (\<lambda>(i, c). if i \<in> {8, 13, 18, 23} then c = CHR ''-'' else is_ascii_hexdigit c) (enumerate 0 s))"

definition validate_error :: "transport_error \<Rightarrow> string + unit" where
  "validate_error e =
     res_bind (require (stage e \<in> {''acquisition'', ''submission'', ''local''}) ''unknown transport error stage'') (\<lambda>_.
     res_bind (require (te_reason e \<in> {''xpc_error'', ''interrupted'', ''invalidated'', ''rpc_timeout'', ''overall_deadline'',
         ''attempt_limit'', ''invalid_control'', ''unsupported_protocol'', ''control_too_large'', ''proxy_type_mismatch'',
         ''clock_error'', ''encoding_failed'', ''input_read_failed''}) ''unknown transport error reason'') (\<lambda>_.
     res_bind (require (length (te_message e) \<le> 1024 \<and> is_none_or (te_domain e) (\<lambda>s. length s \<le> 128))
         ''transport error exceeds retained string limit'') (\<lambda>_.
     res_bind (require (is_some (te_domain e) = is_some (te_code e)) ''native domain/code must be observed together'') (\<lambda>_.
     res_bind (require (\<not> domain_truncated e \<or> is_some (te_domain e)) ''domain truncation without a domain'') (\<lambda>_.
     res_bind (require (\<not> message_truncated e \<or> 1021 \<le> length (te_message e)) ''impossible message truncation'') (\<lambda>_.
     require (\<not> domain_truncated e \<or> is_some_and (te_domain e) (\<lambda>s. 125 \<le> length s)) ''impossible domain truncation''))))))"

definition validate_control :: "control \<Rightarrow> string + unit" where
  "validate_control c =
     res_bind (require (ct_bytes_received c \<le> i64_max) ''invalid control byte count'') (\<lambda>_.
     res_bind (require (length (ct_sha256 c) = 64 \<and> list_all is_lower_hexdigit (ct_sha256 c)) ''invalid control byte hash'') (\<lambda>_.
     case ct_status c of
       None \<Rightarrow> require (is_none (host_pid c) \<and> is_none (host_instance c) \<and> is_none (lease_ms c) \<and> is_none (ct_reason c))
         ''unadmitted control contains recovered claims''
     | Some status \<Rightarrow>
         res_bind (require (0 < ct_bytes_received c \<and> ct_bytes_received c \<le> CONTROL_BYTES)
           ''admitted control exceeds its byte boundary'') (\<lambda>_.
         res_bind (require (is_some_and (host_pid c) (\<lambda>p. 0 < p) \<and> is_some_and (host_instance c) uuid)
           ''admitted control lacks host-reported identity'') (\<lambda>_.
         if status = ''granted'' then
           require (is_some_and (lease_ms c) (\<lambda>n. 1 \<le> n \<and> n \<le> 5000) \<and> is_none (ct_reason c)) ''invalid granted lease''
         else if status = ''occupied'' then
           require (is_none (lease_ms c) \<and> is_none (ct_reason c)) ''occupied control carries a grant or reason''
         else if status = ''reservation_refused'' then
           require (is_none (lease_ms c) \<and> is_some_and (ct_reason c)
               (\<lambda>s. s \<in> {''wrong'', ''expired'', ''absent'', ''consumed'', ''clock_error''})) ''invalid submission refusal''
         else Inl ''unknown admitted control status''))))"

definition validate_clock :: "capture \<Rightarrow> string + unit" where
  "validate_clock v =
     (if clock_available v then
        require (is_some (started_continuous_ns v) \<and> is_some (deadline_continuous_ns v) \<and> is_some (ended_continuous_ns v))
          ''available clock lacks readings''
      else
        res_bind (require (terminal v = ''local_error'' \<and> is_some_and (cap_error v) (\<lambda>e. te_reason e = ''clock_error''))
          ''unavailable clock lacks its terminal failure'') (\<lambda>_.
        res_bind (require (is_none (ended_continuous_ns v)) ''failed clock invents a terminal reading'') (\<lambda>_.
        if is_none (started_continuous_ns v) \<or> is_none (deadline_continuous_ns v) then
          require (attempts v = [] \<and> sub_state (cap_submission v) = ''not_invoked'')
            ''initial clock failure invents acquisition or execution''
        else Inr ())))"

definition capture_elapsed :: "capture \<Rightarrow> string + nat option" where
  "capture_elapsed v =
     (case (started_continuous_ns v, ended_continuous_ns v) of
        (Some s, Some e) \<Rightarrow>
          res_bind (require (s \<le> e) ''backwards continuous clock'') (\<lambda>_. Inr (Some ((e - s) div 1000000)))
      | _ \<Rightarrow> Inr None)"

definition deadline_elapsed :: "capture \<Rightarrow> bool" where
  "deadline_elapsed v =
     (case (ended_continuous_ns v, deadline_continuous_ns v) of (Some e, Some d) \<Rightarrow> d \<le> e | _ \<Rightarrow> False)"

definition to_ascii_lowercase :: "string \<Rightarrow> string" where
  "to_ascii_lowercase s = map (\<lambda>c. let n = of_char c :: nat in if 65 \<le> n \<and> n \<le> 90 then char_of (n + 32) else c) s"

definition reason_matches :: "string \<Rightarrow> string \<Rightarrow> bool" where
  "reason_matches outcome reason =
     (if outcome = ''transport_error'' then reason \<in> {''xpc_error'', ''interrupted'', ''invalidated''}
      else if outcome = ''timeout'' then reason \<in> {''rpc_timeout'', ''overall_deadline''}
      else if outcome = ''protocol_error'' then reason \<in> {''invalid_control'', ''unsupported_protocol'', ''control_too_large''}
      else if outcome = ''local_error'' then reason \<in> {''proxy_type_mismatch'', ''clock_error'', ''encoding_failed''}
      else False)"

definition validate_attempt_error :: "attempt \<Rightarrow> string + unit" where
  "validate_attempt_error a =
     (case at_error a of
        None \<Rightarrow> Inr ()
      | Some e \<Rightarrow>
          res_bind (validate_error e) (\<lambda>_.
          res_bind (require (stage e = ''acquisition'' \<or> stage e = ''local'' \<and> te_reason e \<in> {''clock_error'', ''encoding_failed''})
            ''attempt carries an unrelated error stage'') (\<lambda>_.
          require (reason_matches (at_outcome a) (te_reason e)) ''attempt outcome disagrees with its error reason'')))"

definition validate_attempt_outcome :: "bool \<Rightarrow> attempt \<Rightarrow> string + unit" where
  "validate_attempt_outcome is_last a =
     (let status = Option.bind (at_control a) ct_status; outcome = at_outcome a in
      res_bind
        (if outcome = ''granted'' then
           require (status = Some ''granted'' \<and> is_none (at_error a) \<and> is_last) ''invalid granted attempt''
         else if outcome = ''occupied'' then
           require (status = Some ''occupied'' \<and> is_none (at_error a)) ''invalid occupied attempt''
         else if outcome \<in> {''transport_error'', ''timeout'', ''local_error''} then
           require (is_none (at_control a) \<and> is_some (at_error a)) ''failed attempt lacks its error or invents control''
         else if outcome = ''protocol_error'' then
           require (is_some (at_error a) \<and> is_none status) ''invalid protocol-error attempt''
         else Inl ''unknown acquisition attempt outcome'') (\<lambda>_.
      if outcome \<in> {''protocol_error'', ''local_error''} then
        require is_last ''acquisition continued after terminal attempt failure''
      else Inr ()))"

text \<open>One iteration of the attempts loop: the end of the previous attempt and the ids seen so far.\<close>

definition validate_attempt ::
    "capture \<Rightarrow> nat option \<Rightarrow> nat \<Rightarrow> attempt \<Rightarrow> nat \<times> string set \<Rightarrow> string + nat \<times> string set" where
  "validate_attempt v elapsed index a s =
     (case s of (previous_end, ids) \<Rightarrow>
      res_bind (require (ordinal a = index + 1 \<and> uuid (attempt_id a) \<and> to_ascii_lowercase (attempt_id a) \<notin> ids)
        ''invalid acquisition attempt identity'') (\<lambda>_.
      res_bind (if clock_available v then
          require (is_some (started_elapsed_ms a) \<and> is_some (ended_elapsed_ms a)) ''available attempt clock lacks readings''
        else Inr ()) (\<lambda>_.
      res_bind (case started_elapsed_ms a of
          Some t \<Rightarrow> require (previous_end \<le> t) ''backwards acquisition chronology'' | None \<Rightarrow> Inr ()) (\<lambda>_.
      res_bind (case ended_elapsed_ms a of
          Some t \<Rightarrow> res_bind (require (is_none_or (started_elapsed_ms a) (\<lambda>x. x \<le> t) \<and> is_none_or elapsed (\<lambda>x. t \<le> x))
              ''invalid acquisition attempt end'') (\<lambda>_. Inr t)
        | None \<Rightarrow> Inr previous_end) (\<lambda>previous_end'.
      res_bind (case at_control a of Some c \<Rightarrow> validate_control c | None \<Rightarrow> Inr ()) (\<lambda>_.
      res_bind (validate_attempt_error a) (\<lambda>_.
      res_bind (validate_attempt_outcome (index + 1 = length (attempts v)) a) (\<lambda>_.
      Inr (previous_end', insert (to_ascii_lowercase (attempt_id a)) ids)))))))))"

fun validate_attempts ::
    "capture \<Rightarrow> nat option \<Rightarrow> nat \<Rightarrow> attempt list \<Rightarrow> nat \<times> string set \<Rightarrow> string + nat \<times> string set" where
  "validate_attempts v elapsed i [] s = Inr s"
| "validate_attempts v elapsed i (a # as) s =
     res_bind (validate_attempt v elapsed i a s) (validate_attempts v elapsed (Suc i) as)"

definition last_attempt :: "capture \<Rightarrow> attempt option" where
  "last_attempt v = (if attempts v = [] then None else Some (last (attempts v)))"

definition granted_attempt :: "capture \<Rightarrow> bool" where
  "granted_attempt v = is_some_and (last_attempt v) (\<lambda>a. at_outcome a = ''granted'')"

definition validate_stop :: "capture \<Rightarrow> string + unit" where
  "validate_stop v =
     (let g = granted_attempt v; stop = acquisition_stop v in
      if stop = ''granted'' then require g ''acquisition grant has no admitted granting attempt''
      else if stop = ''overall_deadline'' then
        require (\<not> g \<and> terminal v = ''xpc_timeout'' \<and> deadline_elapsed v) ''invalid acquisition deadline''
      else if stop = ''attempt_limit'' then
        require (\<not> g \<and> length (attempts v) = ATTEMPT_LIMIT \<and> terminal v = ''acquisition_failed'') ''invalid acquisition attempt limit''
      else if stop = ''protocol_error'' then
        require (\<not> g \<and> terminal v = ''protocol_error'' \<and> is_some_and (last_attempt v) (\<lambda>a. at_outcome a = ''protocol_error''))
          ''invalid acquisition protocol failure''
      else if stop = ''local_error'' then
        require (\<not> g \<and> terminal v = ''local_error'' \<and>
            (\<not> clock_available v \<or> is_none_or (last_attempt v) (\<lambda>a. at_outcome a = ''local_error'')))
          ''invalid local acquisition failure''
      else Inl ''unknown acquisition stop reason'')"

text \<open>The submission state: whether the execution was invoked.\<close>

definition validate_submission :: "capture \<Rightarrow> nat option \<Rightarrow> nat \<Rightarrow> string + bool" where
  "validate_submission v elapsed previous_end =
     (let sub = cap_submission v in
      if sub_state sub = ''not_invoked'' then
        res_bind (require (is_none (invoked_elapsed_ms sub)) ''uninvoked submission carries invocation time'') (\<lambda>_. Inr False)
      else if sub_state sub = ''invoked'' then
        res_bind (require (granted_attempt v \<and> acquisition_stop v = ''granted'') ''submission lacks its reservation grant'') (\<lambda>_.
        res_bind (require (\<not> clock_available v \<or> is_some (invoked_elapsed_ms sub)) ''available invocation clock lacks its reading'') (\<lambda>_.
        res_bind (require (is_none_or (invoked_elapsed_ms sub) (\<lambda>n. previous_end \<le> n \<and> is_none_or elapsed (\<lambda>total. n \<le> total)))
          ''invalid execution invocation time'') (\<lambda>_. Inr True)))
      else Inl ''unknown client submission state'')"

definition validate_refusal :: "capture \<Rightarrow> bool \<Rightarrow> string + unit" where
  "validate_refusal v invoked =
     res_bind (require (invoked \<or> is_none (runner_reply v) \<and> is_none (submission_refusal v))
       ''uninvoked execution carries a host reply'') (\<lambda>_.
     res_bind (require (is_some (runner_reply v) = (terminal v = ''runner_reply''))
       ''terminal disagrees with host reply capture'') (\<lambda>_.
     res_bind (require (terminal v \<noteq> ''submission_refused'' \<or> is_some (submission_refusal v))
       ''terminal lacks its control refusal'') (\<lambda>_.
     case submission_refusal v of
       None \<Rightarrow> Inr ()
     | Some c \<Rightarrow>
         res_bind (require (invoked \<and> terminal v \<in> {''submission_refused'', ''protocol_error''})
           ''terminal disagrees with submission control'') (\<lambda>_.
         res_bind (validate_control c) (\<lambda>_.
         if terminal v = ''protocol_error'' then
           require (is_none (ct_status c)) ''invalid submission control recovers claims''
         else Inr ())))))"

text \<open>
  The \<open>unwrap\<close> of the refusal is never reached without one: \<open>validate_refusal\<close> runs before and demands it for
  this terminal event. Its branch is an error text here.
\<close>

definition validate_terminal :: "capture \<Rightarrow> bool \<Rightarrow> string + unit" where
  "validate_terminal v invoked =
     (let t = terminal v; err = cap_error v in
      if t = ''runner_reply'' then require (invoked \<and> is_none err) ''invalid received runner reply''
      else if t = ''submission_refused'' then
        res_bind (require (invoked \<and> is_none err) ''invalid refused execution'') (\<lambda>_.
        case submission_refusal v of
          None \<Rightarrow> Inl ''panic: unwrap on None''
        | Some c \<Rightarrow> res_bind (validate_control c) (\<lambda>_.
            require (ct_status c = Some ''reservation_refused'') ''wrong submission control status''))
      else if t = ''xpc_error'' then
        require (invoked \<and> is_some_and err (\<lambda>e. stage e = ''submission'' \<and>
            te_reason e \<in> {''xpc_error'', ''interrupted'', ''invalidated'', ''proxy_type_mismatch''}))
          ''invalid post-submission XPC error''
      else if t = ''xpc_timeout'' then
        require (is_some_and err (\<lambda>e. te_reason e = ''overall_deadline'' \<and>
            stage e = (if invoked then ''submission'' else ''acquisition'')) \<and> deadline_elapsed v)
          ''timeout lacks elapsed overall deadline''
      else if t = ''acquisition_failed'' then
        require (\<not> invoked \<and> acquisition_stop v = ''attempt_limit'' \<and>
            is_some_and err (\<lambda>e. stage e = ''acquisition'' \<and> te_reason e = ''attempt_limit'')) ''invalid acquisition failure''
      else if t = ''protocol_error'' then
        require (is_some_and err (\<lambda>e. stage e = (if invoked then ''submission'' else ''acquisition'') \<and>
            te_reason e \<in> {''invalid_control'', ''unsupported_protocol'', ''control_too_large''})) ''invalid terminal protocol error''
      else if t = ''local_error'' then
        require (is_some_and err (\<lambda>e. (stage e = ''local'' \<and> te_reason e \<in> {''clock_error'', ''encoding_failed'', ''input_read_failed''}) \<or>
            (stage e = ''acquisition'' \<and> te_reason e = ''proxy_type_mismatch'')) \<and> (\<not> invoked \<or> \<not> clock_available v))
          ''invalid terminal local error''
      else Inl ''unknown client terminal event'')"

definition validate_reply :: "capture \<Rightarrow> string + byte list option" where
  "validate_reply v =
     (case runner_reply v of
        None \<Rightarrow> Inr None
      | Some r \<Rightarrow>
          res_bind (require (rc_bytes_received r \<le> i64_max \<and> bytes_retained r = min (rc_bytes_received r) REPLY_CAPTURE_BYTES \<and>
              rc_truncated r = (bytes_retained r < rc_bytes_received r)) ''inconsistent reply byte retention'') (\<lambda>_.
          res_bind (decode_base64 (data_base64 r)) (\<lambda>decoded.
          res_bind (require (length decoded = bytes_retained r) ''reply base64 length disagrees with retained count'') (\<lambda>_.
          Inr (Some decoded)))))"

definition validate_capture :: "capture \<Rightarrow> string + byte list option" where
  "validate_capture v =
     res_bind (require (cap_kind v = ''runner_client_capture'' \<and> cap_protocol_version v = RUNNER_PROTOCOL_VERSION)
       ''invalid client capture identity'') (\<lambda>_.
     res_bind (require (0 < client_pid v \<and> clock v = ''mach_continuous_time_ns'' \<and> 0 < cap_timeout_ms v)
       ''invalid client clock or identity'') (\<lambda>_.
     res_bind (validate_clock v) (\<lambda>_.
     res_bind (capture_elapsed v) (\<lambda>elapsed.
     res_bind (require (length (attempts v) \<le> ATTEMPT_LIMIT) ''too many acquisition attempts'') (\<lambda>_.
     res_bind (validate_attempts v elapsed 0 (attempts v) (0, {})) (\<lambda>s.
     res_bind (case cap_error v of Some e \<Rightarrow> validate_error e | None \<Rightarrow> Inr ()) (\<lambda>_.
     res_bind (validate_stop v) (\<lambda>_.
     res_bind (validate_submission v elapsed (fst s)) (\<lambda>invoked.
     res_bind (validate_refusal v invoked) (\<lambda>_.
     res_bind (validate_terminal v invoked) (\<lambda>_.
     res_bind (if granted_attempt v \<and> \<not> invoked then
         require (terminal v = ''xpc_timeout'' \<or> terminal v = ''local_error'')
           ''grant lost without an explicit pre-invocation stop''
       else Inr ()) (\<lambda>_.
     validate_reply v))))))))))))"

section \<open>The client run\<close>

record runner_client_run =
  argv :: "string list"
  started_at_unix_ms :: nat
  ended_at_unix_ms :: nat
  exit_code :: int
  run_delivery :: "request_delivery option"
  run_output :: json_output_capture
  transport :: "json option"
  transport_admission :: string
  transport_error_text :: "string option"
  run_submission :: string
  runner_reply_error :: "string option"

definition delivery_error :: "runner_client_run \<Rightarrow> string option" where
  "delivery_error run = Option.bind (run_delivery run) d_error"

definition failure_outcome :: "string \<Rightarrow> string" where
  "failure_outcome t =
     (if t = ''xpc_error'' then ''xpc_error'' else if t = ''xpc_timeout'' then ''xpc_timeout''
      else if t = ''acquisition_failed'' then ''xpc_acquisition_failed''
      else if t = ''submission_refused'' then ''xpc_submission_refused''
      else if t = ''protocol_error'' then ''xpc_protocol_error'' else ''runner_client_error'')"

definition client_failure :: "runner_client_run \<Rightarrow> (string \<times> string) option call" where
  "client_failure run =
     (case delivery_error run of
        Some e \<Rightarrow> Returned (Some (''tool_error'', e))
      | None \<Rightarrow>
          if transport_admission run \<noteq> ''accepted'' then
            Returned (Some
              (if transport_admission run = ''missing'' then ''missing_runner_client''
               else if transport_admission run = ''unsupported'' then ''unsupported_runner_client''
               else ''malformed_runner_client'',
               unwrap_or (transport_error_text run) ''client capture unavailable''))
          else
            (case runner_reply_error run of
               Some e \<Rightarrow>
                 Returned (Some
                   (if is_some_and (transport run) (\<lambda>v. jix (jix v ''runner_reply'') ''truncated'' = JBool True)
                    then ''runner_reply_truncated'' else ''malformed_runner_response'', e))
             | None \<Rightarrow>
                 (case transport run of
                    None \<Rightarrow> Panicked
                  | Some value \<Rightarrow>
                      (case as_str (jix value ''terminal'') of
                         None \<Rightarrow> Panicked
                       | Some t \<Rightarrow>
                           if t = ''runner_reply'' then Returned None
                           else Returned (Some (failure_outcome t,
                             unwrap_or (option_or (as_str (jix (jix value ''error'') ''message''))
                               (as_str (jix (jix value ''submission_refusal'') ''reason''))) t))))))"

definition fallback_eligible :: "runner_client_run \<Rightarrow> bool" where
  "fallback_eligible run =
     (transport_admission run = ''accepted'' \<and> is_none_or (run_delivery run) (\<lambda>d. d_error d = None) \<and>
      is_some_and (transport run) (\<lambda>v. jix v ''terminal'' = JStr ''xpc_error''))"

text \<open>
  The decoders are parameters: \<open>from_value\<close> reads a capture from a JSON value, \<open>from_slice\<close> parses
  JSON bytes, \<open>show_number\<close> prints a number. The admission closure gives the submission state, the
  reply error and the reply, or the refusal's status and text.
\<close>

record client_decoders =
  lossy :: "string \<Rightarrow> string"
  from_slice :: "string \<Rightarrow> string + json"
  from_value :: "json \<Rightarrow> string + capture"
  show_number :: "number \<Rightarrow> string"

definition byte_string :: "byte list \<Rightarrow> string" where
  "byte_string bs = map (\<lambda>b. char_of (unat b)) bs"

text \<open>What the retained bytes of an admitted capture give: the state, the reply error, the reply.\<close>

definition read_reply :: "client_decoders \<Rightarrow> capture \<Rightarrow> byte list option \<Rightarrow> string \<times> string option \<times> json option" where
  "read_reply dec cap bytes =
     (case bytes of
        None \<Rightarrow> (sub_state (cap_submission cap), None, None)
      | Some bs \<Rightarrow>
          if is_some_and (runner_reply cap) rc_truncated then
            (sub_state (cap_submission cap),
              Some ''runner reply retention was truncated; no complete host reply is available'', None)
          else
            (case from_slice dec (byte_string bs) of
               Inr reply \<Rightarrow> (sub_state (cap_submission cap), None, Some reply)
             | Inl e \<Rightarrow> (sub_state (cap_submission cap), Some (''runner reply is not complete JSON: '' @ e), None)))"

definition admit_capture ::
    "client_decoders \<Rightarrow> request_delivery option \<Rightarrow> json_output_capture \<Rightarrow> json option
      \<Rightarrow> (string \<times> string) + (string \<times> string option \<times> json option)" where
  "admit_capture dec delivery out value_opt =
     (case Option.bind delivery d_error of
        Some e \<Rightarrow> Inl (''delivery_failed'', e)
      | None \<Rightarrow>
     case option_or (stdout_capture_error out) (stdout_parse_error out) of
        Some e \<Rightarrow> Inl (''malformed'', e)
      | None \<Rightarrow>
     case value_opt of
        None \<Rightarrow> Inl (''missing'', ''runner client produced no capture'')
      | Some value \<Rightarrow>
     case jget value ''protocol_version'' of
        Some (JNum n) \<Rightarrow>
          if \<not> (number_is_u64 n \<or> number_is_i64 n) then
            Inl (''malformed'', ''client capture lacks an integer protocol_version'')
          else if number_as_u64 n \<noteq> Some RUNNER_PROTOCOL_VERSION then
            Inl (''unsupported'', ''client capture protocol '' @ show_number dec n @ '' is unsupported'')
          else
            res_bind (map_err (\<lambda>e. (''malformed'', ''malformed client capture: '' @ e)) (from_value dec value)) (\<lambda>cap.
            res_bind (map_err (\<lambda>e. (''malformed'', e)) (validate_capture cap)) (\<lambda>bytes.
            Inr (read_reply dec cap bytes)))
      | _ \<Rightarrow> Inl (''malformed'', ''client capture lacks an integer protocol_version''))"

definition parse_runner_client_output ::
    "client_decoders \<Rightarrow> string list \<Rightarrow> nat \<Rightarrow> nat \<Rightarrow> process_output \<Rightarrow> request_delivery option
      \<Rightarrow> runner_client_run \<times> json option" where
  "parse_runner_client_output dec args started ended out delivery =
     (let (captured, value) = capture_json_output (lossy dec) (from_slice dec) out ''runner client'' RUNNER_CAPTURE_BYTES;
          run = \<lparr>argv = args, started_at_unix_ms = started, ended_at_unix_ms = ended,
            exit_code = unwrap_or (out_code out) 1, run_delivery = delivery, run_output = captured, transport = value,
            transport_admission = ''missing'', transport_error_text = None, run_submission = ''unknown'',
            runner_reply_error = None\<rparr> in
      case admit_capture dec delivery captured value of
        Inl (status, e) \<Rightarrow> (run\<lparr>transport_admission := status, transport_error_text := Some e\<rparr>, None)
      | Inr (sub, reply_error, reply) \<Rightarrow>
          (run\<lparr>transport_admission := ''accepted'', run_submission := sub, runner_reply_error := reply_error\<rparr>, reply))"

section \<open>The helper's deadline and arguments\<close>

text \<open>128-bit arithmetic; \<open>u128_max\<close> bounds it.\<close>

definition u128_max :: nat where "u128_max = 2 ^ 128 - 1"

definition deadline_ticks :: "nat \<Rightarrow> nat \<Rightarrow> nat \<Rightarrow> nat \<Rightarrow> string + nat" where
  "deadline_ticks now milliseconds numerator denominator =
     res_bind (require (numerator \<noteq> 0 \<and> denominator \<noteq> 0) ''invalid continuous-clock timebase'') (\<lambda>_.
     let nanoseconds = milliseconds * 1000000;
         ticks = div_ceil (nanoseconds * denominator) numerator in
     Inr (min (now + min ticks u64_max) u64_max))"

definition client_argv :: "path \<Rightarrow> nat \<Rightarrow> nat \<Rightarrow> connection_kind \<Rightarrow> string list" where
  "client_argv tool timeout deadline conn =
     [tool, ''run'', ''--timeout-ms'', nat_digits timeout, ''--deadline-ticks'', nat_digits deadline] @
     (case conn of
        XpcService \<Rightarrow> []
      | MachService privileged \<Rightarrow> ''--mach-service'' # (if privileged then [''--privileged''] else []))"

text \<open>
  \<open>run_pw_runner_client\<close>: the deadline is read before anything else; there is one invocation.
  \<open>spawn\<close> runs the helper with the request on its stdin.
\<close>

definition run_pw_runner_client ::
    "client_decoders \<Rightarrow> (nat \<Rightarrow> string + nat) \<Rightarrow> (string \<Rightarrow> string + path) \<Rightarrow>
     (string list \<Rightarrow> string \<Rightarrow> string + (nat \<times> process_output \<times> request_delivery \<times> nat)) \<Rightarrow>
     string \<Rightarrow> string \<Rightarrow> nat \<Rightarrow> connection_kind \<Rightarrow> string + runner_client_run \<times> json option" where
  "run_pw_runner_client dec continuous_deadline resolve_tool spawn service request timeout conn =
     (let t = max timeout 1 in
      res_bind (continuous_deadline t) (\<lambda>deadline.
      res_bind (resolve_tool ''pw-runner-client'') (\<lambda>tool.
      let args = client_argv tool t deadline conn @ [''--request'', ''-'', service] in
      res_bind (map_err (\<lambda>e. ''failed to run pw-runner-client: '' @ e) (spawn args request)) (\<lambda>r.
      case r of (started, out, delivery, ended) \<Rightarrow>
        Inr (parse_runner_client_output dec args started ended out (Some delivery))))))"

section \<open>Properties\<close>

lemma validate_attempt_Inr:
  "validate_attempt v elapsed i a (pe, ids) = Inr (pe', ids') \<Longrightarrow>
     ordinal a = i + 1 \<and> to_ascii_lowercase (attempt_id a) \<notin> ids \<and>
     ids' = insert (to_ascii_lowercase (attempt_id a)) ids \<and>
     (at_outcome a = ''granted'' \<longrightarrow> i + 1 = length (attempts v))"
  by (auto simp: validate_attempt_def validate_attempt_outcome_def Let_def)

lemma validate_attempts_Inr:
  "validate_attempts v elapsed i as (pe, ids) = Inr s \<Longrightarrow>
     map ordinal as = [i + 1..<i + 1 + length as] \<and>
     distinct (map (\<lambda>a. to_ascii_lowercase (attempt_id a)) as) \<and>
     (\<forall>a \<in> set as. to_ascii_lowercase (attempt_id a) \<notin> ids)"
proof (induction as arbitrary: i pe ids)
  case (Cons a as)
  then obtain pe' ids' where a: "validate_attempt v elapsed i a (pe, ids) = Inr (pe', ids')"
    and rest: "validate_attempts v elapsed (Suc i) as (pe', ids') = Inr s"
    by fastforce
  from validate_attempt_Inr [OF a] have "ordinal a = i + 1" "to_ascii_lowercase (attempt_id a) \<notin> ids"
    and ids': "ids' = insert (to_ascii_lowercase (attempt_id a)) ids" by simp_all
  with Cons.IH [OF rest] show ?case by (auto simp: upt_conv_Cons)
qed simp

lemma validate_terminal_known:
  "validate_terminal v invoked = Inr () \<Longrightarrow>
     terminal v \<in> {''runner_reply'', ''submission_refused'', ''xpc_error'', ''xpc_timeout'', ''acquisition_failed'',
       ''protocol_error'', ''local_error''}"
  by (auto simp: validate_terminal_def Let_def split: if_splits)

lemma validate_submission_Inr:
  "validate_submission v elapsed pe = Inr b \<Longrightarrow>
     sub_state (cap_submission v) = (if b then ''invoked'' else ''not_invoked'') \<and>
     (b \<longrightarrow> granted_attempt v \<and> acquisition_stop v = ''granted'')"
  by (auto simp: validate_submission_def Let_def split: if_splits)

lemma validate_capture_parts:
  assumes "validate_capture v = Inr r"
  obtains elapsed pe ids b where
    "validate_attempts v elapsed 0 (attempts v) (0, {}) = Inr (pe, ids)"
    "validate_submission v elapsed pe = Inr b" "validate_refusal v b = Inr ()" "validate_terminal v b = Inr ()"
    "validate_reply v = Inr r" "length (attempts v) \<le> ATTEMPT_LIMIT"
proof -
  from assms obtain elapsed s b where "validate_attempts v elapsed 0 (attempts v) (0, {}) = Inr s"
    "validate_submission v elapsed (fst s) = Inr b" "validate_refusal v b = Inr ()" "validate_terminal v b = Inr ()"
    "validate_reply v = Inr r" "length (attempts v) \<le> ATTEMPT_LIMIT"
    by (auto simp: validate_capture_def)
  then show ?thesis using that by (cases s) auto
qed

lemma validate_reply_Inr:
  "validate_reply v = Inr r \<Longrightarrow>
     (case r of None \<Rightarrow> runner_reply v = None
      | Some bs \<Rightarrow> \<exists>c. runner_reply v = Some c \<and> data_base64 c = encode_base64 bs \<and> length bs = bytes_retained c \<and>
          bytes_retained c = min (rc_bytes_received c) REPLY_CAPTURE_BYTES \<and>
          rc_truncated c = (bytes_retained c < rc_bytes_received c))"
proof (cases "runner_reply v")
  case (Some c)
  assume "validate_reply v = Inr r"
  with Some obtain bs where "decode_base64 (data_base64 c) = Inr bs" "r = Some bs" "length bs = bytes_retained c"
    "bytes_retained c = min (rc_bytes_received c) REPLY_CAPTURE_BYTES"
    "rc_truncated c = (bytes_retained c < rc_bytes_received c)"
    by (auto simp: validate_reply_def)
  with Some show ?thesis by (simp add: decode_base64_exact_lib)
qed (simp add: validate_reply_def)

lemma validate_capture_reply:
  assumes "validate_capture v = Inr r"
  shows "(r \<noteq> None \<longleftrightarrow> terminal v = ''runner_reply'') \<and>
    (terminal v \<in> {''runner_reply'', ''xpc_error'', ''submission_refused''} \<longrightarrow>
       sub_state (cap_submission v) = ''invoked'' \<and> granted_attempt v \<and> acquisition_stop v = ''granted'')"
  using assms
proof (cases rule: validate_capture_parts)
  case (1 elapsed pe ids b)
  have "is_some (runner_reply v) = (terminal v = ''runner_reply'')"
    using 1(3) by (auto simp: validate_refusal_def)
  moreover have "r \<noteq> None \<longleftrightarrow> is_some (runner_reply v)"
    using validate_reply_Inr [OF 1(5)] by (cases r) auto
  moreover have b if "terminal v \<in> {''runner_reply'', ''xpc_error'', ''submission_refused''}"
    using 1(4) that by (auto simp: validate_terminal_def Let_def)
  ultimately show ?thesis using validate_submission_Inr [OF 1(2)] by auto
qed

text \<open>
  C30: an admitted capture is consistent. It carries host bytes exactly when its terminal event is the
  host's reply, and then the execution was invoked under a reservation granted by the last attempt; the
  bytes are the strict decoding of the retained text and as many as were received, up to the limit,
  with the truncation flag telling which; and the acquisition attempts are at most 256, numbered from
  one and pairwise distinct up to case.
\<close>

theorem validate_capture_consistent:
  assumes "validate_capture v = Inr r"
  shows "(case r of None \<Rightarrow> terminal v \<noteq> ''runner_reply'' \<and> runner_reply v = None
     | Some bs \<Rightarrow> terminal v = ''runner_reply'' \<and> sub_state (cap_submission v) = ''invoked'' \<and>
         granted_attempt v \<and> acquisition_stop v = ''granted'' \<and>
         (\<exists>c. runner_reply v = Some c \<and> data_base64 c = encode_base64 bs \<and>
            length bs = min (rc_bytes_received c) REPLY_CAPTURE_BYTES \<and>
            rc_truncated c = (length bs < rc_bytes_received c))) \<and>
    length (attempts v) \<le> ATTEMPT_LIMIT \<and> map ordinal (attempts v) = [1..<1 + length (attempts v)] \<and>
    distinct (map (\<lambda>a. to_ascii_lowercase (attempt_id a)) (attempts v))"
  using assms
proof (cases rule: validate_capture_parts)
  case (1 elapsed pe ids b)
  have "map ordinal (attempts v) = [1..<1 + length (attempts v)]"
    "distinct (map (\<lambda>a. to_ascii_lowercase (attempt_id a)) (attempts v))"
    using validate_attempts_Inr [OF 1(1)] by simp_all
  with validate_capture_reply [OF assms] validate_reply_Inr [OF 1(5)] 1(6) show ?thesis
    by (cases r) auto
qed

definition sample_control :: control where
  "sample_control = \<lparr>ct_bytes_received = 10, ct_sha256 = replicate 64 (CHR ''a''), ct_status = Some ''granted'',
     host_pid = Some 7, host_instance = Some ''01234567-89ab-cdef-0123-456789abcdef'', lease_ms = Some 5000, ct_reason = None\<rparr>"

definition sample_capture :: capture where
  "sample_capture = \<lparr>cap_kind = ''runner_client_capture'', cap_protocol_version = 3, client_pid = 9,
     clock = ''mach_continuous_time_ns'', clock_available = True, started_continuous_ns = Some 0,
     deadline_continuous_ns = Some 9000000, ended_continuous_ns = Some 5000000, cap_timeout_ms = 9,
     attempts = [\<lparr>ordinal = 1, attempt_id = ''01234567-89ab-cdef-0123-456789abcdef'', started_elapsed_ms = Some 0,
       ended_elapsed_ms = Some 1, at_outcome = ''granted'', at_control = Some sample_control, at_error = None\<rparr>],
     acquisition_stop = ''granted'', cap_submission = \<lparr>sub_state = ''invoked'', invoked_elapsed_ms = Some 2\<rparr>,
     terminal = ''runner_reply'', cap_error = None,
     runner_reply = Some \<lparr>rc_bytes_received = 2, bytes_retained = 2, rc_truncated = False, data_base64 = ''e30=''\<rparr>,
     submission_refusal = None\<rparr>"

lemma sample_capture_valid: "validate_capture sample_capture = Inr (Some [0x7B, 0x7D])"
proof -
  have u: "uuid ''01234567-89ab-cdef-0123-456789abcdef''" by code_simp
  have d: "decode_base64 ''e30='' = Inr [0x7B, 0x7D]"
    by (simp add: decode_base64_exact_lib REPLY_CAPTURE_BYTES_def) code_simp
  have c: "validate_control sample_control = Inr ()"
    by (simp add: validate_control_def sample_control_def u i64_max_def CONTROL_BYTES_def list_all_iff
        is_lower_hexdigit_def is_ascii_digit_def)
  have a: "validate_attempts sample_capture (Some 5) 0 (attempts sample_capture) (0, {}) =
      Inr (1, {to_ascii_lowercase ''01234567-89ab-cdef-0123-456789abcdef''})"
    by (simp add: sample_capture_def validate_attempt_def validate_attempt_error_def validate_attempt_outcome_def u c)
      (simp add: sample_control_def)
  note defs = sample_capture_def granted_attempt_def last_attempt_def
  have "validate_clock sample_capture = Inr ()" by (simp add: validate_clock_def defs)
  moreover have "capture_elapsed sample_capture = Inr (Some 5)" by (simp add: capture_elapsed_def defs)
  moreover have "validate_stop sample_capture = Inr ()" by (simp add: validate_stop_def defs)
  moreover have "validate_submission sample_capture (Some 5) 1 = Inr True" by (simp add: validate_submission_def defs)
  moreover have "validate_refusal sample_capture True = Inr ()" by (simp add: validate_refusal_def defs)
  moreover have "validate_terminal sample_capture True = Inr ()" by (simp add: validate_terminal_def defs)
  moreover have "validate_reply sample_capture = Inr (Some [0x7B, 0x7D])"
    by (simp add: validate_reply_def sample_capture_def d i64_max_def REPLY_CAPTURE_BYTES_def)
  moreover have "cap_kind sample_capture = ''runner_client_capture''" "cap_protocol_version sample_capture = RUNNER_PROTOCOL_VERSION"
    "0 < client_pid sample_capture" "clock sample_capture = ''mach_continuous_time_ns''" "0 < cap_timeout_ms sample_capture"
    "length (attempts sample_capture) \<le> ATTEMPT_LIMIT" "cap_error sample_capture = None"
    by (simp_all add: sample_capture_def RUNNER_PROTOCOL_VERSION_def ATTEMPT_LIMIT_def)
  ultimately show ?thesis
    unfolding validate_capture_def using a by simp
qed

theorem validate_capture_consistent_witness:
  "validate_capture sample_capture = Inr (Some [0x7B, 0x7D]) \<and> ''e30='' = encode_base64 [0x7B, 0x7D] \<and>
   granted_attempt sample_capture"
proof -
  from validate_capture_consistent [OF sample_capture_valid]
  have "granted_attempt sample_capture" "\<exists>c. runner_reply sample_capture = Some c \<and> data_base64 c = encode_base64 [0x7B, 0x7D]"
    by auto
  moreover have "data_base64 (the (runner_reply sample_capture)) = ''e30=''" by (simp add: sample_capture_def)
  ultimately show ?thesis using sample_capture_valid by (metis option.sel)
qed

text \<open>
  What the derived deserialiser documents: a capture read from an object has the object's terminal
  string.
\<close>

definition faithful_decoder :: "(json \<Rightarrow> string + capture) \<Rightarrow> bool" where
  "faithful_decoder f = (\<forall>v c. f v = Inr c \<longrightarrow> is_object v \<longrightarrow> jget v ''terminal'' = Some (JStr (terminal c)))"

lemma admit_capture_Inr:
  assumes "admit_capture dec delivery out value = Inr (sub, err, reply)"
  obtains v cap r where "value = Some v" "Option.bind delivery d_error = None" "is_object v"
    "from_value dec v = Inr cap" "validate_capture cap = Inr r" "sub = sub_state (cap_submission cap)"
    "r = None \<Longrightarrow> err = None \<and> reply = None" "r \<noteq> None \<Longrightarrow> (err = None) = (reply \<noteq> None)"
proof -
  from assms obtain v n where v: "value = Some v" and d: "Option.bind delivery d_error = None"
    and n: "jget v ''protocol_version'' = Some (JNum n)"
    by (auto simp: admit_capture_def split: option.splits json.splits)
  then have ob: "is_object v" by (cases v) auto
  from assms v n obtain cap r where cap: "from_value dec v = Inr cap" "validate_capture cap = Inr r"
    by (auto simp: admit_capture_def split: option.splits if_splits)
  have "sub = sub_state (cap_submission cap) \<and> (r = None \<longrightarrow> err = None \<and> reply = None) \<and>
      (r \<noteq> None \<longrightarrow> (err = None) = (reply \<noteq> None))"
    using assms v n cap by (auto simp: admit_capture_def read_reply_def split: option.splits if_splits sum.splits)
  with v d ob cap that show ?thesis by blast
qed

lemma parse_output_cases:
  assumes "parse_runner_client_output dec args started ended out delivery = (run, reply)"
  obtains (refused) status e where "transport_admission run = status" "transport_error_text run = Some e" "reply = None"
      "run_delivery run = delivery" "admit_capture dec delivery (run_output run) (transport run) = Inl (status, e)"
      "run_submission run = ''unknown''" "runner_reply_error run = None"
  | (accepted) "transport_admission run = ''accepted''" "run_delivery run = delivery"
      "admit_capture dec delivery (run_output run) (transport run) = Inr (run_submission run, runner_reply_error run, reply)"
  using assms
  by (cases "admit_capture dec delivery
      (fst (capture_json_output (lossy dec) (from_slice dec) out ''runner client'' RUNNER_CAPTURE_BYTES))
      (snd (capture_json_output (lossy dec) (from_slice dec) out ''runner client'' RUNNER_CAPTURE_BYTES))")
    (auto simp: parse_runner_client_output_def Let_def split: prod.splits)

lemma admit_capture_status:
  "admit_capture dec delivery out value = Inl (status, e) \<Longrightarrow> status \<in> {''delivery_failed'', ''malformed'', ''missing'', ''unsupported''}"
  by (auto simp: admit_capture_def res_bind_Inl_iff map_err_def split: option.splits json.splits if_splits sum.splits)

text \<open>
  When a capture is admitted: the delivery had no error, the helper's output is nonempty, was kept whole
  and is the JSON of a capture of this protocol version, and the capture is valid; \<open>bytes\<close> are the host
  bytes it retained.
\<close>

definition admitted :: "client_decoders \<Rightarrow> request_delivery option \<Rightarrow> process_output \<Rightarrow> capture \<Rightarrow> byte list option \<Rightarrow> bool" where
  "admitted dec delivery out cap bytes =
     (Option.bind delivery d_error = None \<and> out_stdout out \<noteq> [] \<and> length (out_stdout out) \<le> 272 * 1024 * 1024 \<and>
      (\<exists>doc n. from_slice dec (out_stdout out) = Inr doc \<and> jget doc ''protocol_version'' = Some (JNum n) \<and>
         number_as_u64 n = Some RUNNER_PROTOCOL_VERSION \<and> from_value dec doc = Inr cap) \<and>
      validate_capture cap = Inr bytes)"

lemma admit_capture_output:
  assumes "capture_json_output (lossy dec) (from_slice dec) out ''runner client'' RUNNER_CAPTURE_BYTES = (captured, val)"
  shows "admit_capture dec delivery captured val = Inr y \<longleftrightarrow>
    (\<exists>cap bytes. admitted dec delivery out cap bytes \<and> y = read_reply dec cap bytes)"
proof -
  note parts = capture_json_output_parts [OF assms]
  consider (bad) "Option.bind delivery d_error \<noteq> None \<or> out_stdout out = [] \<or> RUNNER_CAPTURE_BYTES < length (out_stdout out)"
    | (unread) e where "from_slice dec (out_stdout out) = Inl e" "out_stdout out \<noteq> []" "length (out_stdout out) \<le> RUNNER_CAPTURE_BYTES"
    | (read) doc where "Option.bind delivery d_error = None" "from_slice dec (out_stdout out) = Inr doc" "out_stdout out \<noteq> []"
        "length (out_stdout out) \<le> RUNNER_CAPTURE_BYTES"
    by (cases "from_slice dec (out_stdout out)") force+
  then show ?thesis
  proof cases
    case bad
    then have "\<exists>e. admit_capture dec delivery captured val = Inl e"
      using parts(1, 2) by (auto simp: admit_capture_def split: option.splits)
    with bad show ?thesis by (auto simp: admitted_def RUNNER_CAPTURE_BYTES_def)
  next
    case unread
    with parts(3) show ?thesis by (auto simp: admit_capture_def admitted_def split: option.splits)
  next
    case read
    have u64: "number_is_u64 n" if "number_as_u64 n = Some k" for n k
      using that by (cases n) simp_all
    from read parts(3) show ?thesis
      by (auto simp: admit_capture_def admitted_def RUNNER_CAPTURE_BYTES_def dest: u64 split: option.splits json.splits)
  qed
qed

lemma admitted_unique: "admitted dec delivery out cap bytes \<Longrightarrow> admitted dec delivery out cap' bytes' \<Longrightarrow> cap' = cap \<and> bytes' = bytes"
  by (auto simp: admitted_def)

lemma read_reply_Some:
  assumes "validate_capture cap = Inr bytes"
  shows "snd (snd (read_reply dec cap bytes)) = Some v \<longleftrightarrow>
    (\<exists>c bs. bytes = Some bs \<and> runner_reply cap = Some c \<and> length bs = rc_bytes_received c \<and> from_slice dec (byte_string bs) = Inr v)"
proof (cases bytes)
  case (Some bs)
  from assms have "validate_reply cap = Inr bytes" by (cases rule: validate_capture_parts) simp_all
  with Some validate_reply_Inr obtain c where "runner_reply cap = Some c" "rc_truncated c = (length bs < rc_bytes_received c)"
    "length bs \<le> rc_bytes_received c" by fastforce
  with Some show ?thesis by (auto simp: read_reply_def split: sum.splits)
qed (simp add: read_reply_def)

text \<open>
  C31: a client run is read one way only. Interpreting the run of any helper output never panics. It
  yields a host reply exactly when an admitted capture carries all the bytes the host sent, none cut
  off, and they are that JSON; and exactly then it reports no failure. It may fall back to an
  independent policy check exactly when an admitted capture ended in an XPC error; then there is no
  reply, the execution was invoked and the delivery had no error.
\<close>

theorem client_run_interpretation:
  assumes "faithful_decoder (from_value dec)"
  shows "case parse_runner_client_output dec args started ended out delivery of (run, reply) \<Rightarrow>
    client_failure run \<noteq> Panicked \<and>
    (reply = Some v \<longleftrightarrow> (\<exists>cap c bytes. admitted dec delivery out cap (Some bytes) \<and> runner_reply cap = Some c \<and>
       length bytes = rc_bytes_received c \<and> from_slice dec (byte_string bytes) = Inr v)) \<and>
    (client_failure run = Returned None \<longleftrightarrow> reply \<noteq> None) \<and>
    (fallback_eligible run \<longleftrightarrow> (\<exists>cap bytes. admitted dec delivery out cap bytes \<and> terminal cap = ''xpc_error'')) \<and>
    (fallback_eligible run \<longrightarrow> reply = None \<and> run_submission run = ''invoked'' \<and> delivery_error run = None)"
proof -
  obtain run reply where p: "parse_runner_client_output dec args started ended out delivery = (run, reply)"
    by fastforce
  obtain captured doc0 where c: "capture_json_output (lossy dec) (from_slice dec) out ''runner client'' RUNNER_CAPTURE_BYTES = (captured, doc0)"
    by fastforce
  with p have run: "run_output run = captured" "transport run = doc0"
    by (auto simp: parse_runner_client_output_def Let_def split: sum.splits prod.splits)
  note adm = admit_capture_output [OF c]
  from p show ?thesis
  proof (cases rule: parse_output_cases)
    case (refused status e)
    then have "\<not> admitted dec delivery out cap bytes" for cap bytes using adm run by (metis Inl_Inr_False)
    with refused admit_capture_status [OF refused(5)] p show ?thesis
      by (auto simp: client_failure_def fallback_eligible_def split: option.splits)
  next
    case accepted
    with adm run obtain cap bytes where cap: "admitted dec delivery out cap bytes"
      and y: "(run_submission run, runner_reply_error run, reply) = read_reply dec cap bytes" by metis
    from cap have valid: "validate_capture cap = Inr bytes" by (simp add: admitted_def)
    from cap y valid have reply_iff: "reply = Some v \<longleftrightarrow> (\<exists>cap c bytes. admitted dec delivery out cap (Some bytes) \<and>
       runner_reply cap = Some c \<and> length bytes = rc_bytes_received c \<and> from_slice dec (byte_string bytes) = Inr v)"
      using read_reply_Some [OF valid, of dec v] admitted_unique [OF cap] by (metis snd_conv)
    from accepted(3) show ?thesis
    proof (cases rule: admit_capture_Inr)
      case (1 doc cap' r)
      then have doc: "cap' = cap" "r = bytes" using cap c run by (auto simp: admitted_def dest!: capture_parsed)
      have t: "jget doc ''terminal'' = Some (JStr (terminal cap))"
        using assms 1(3, 4) doc by (auto simp: faithful_decoder_def)
      note reply = validate_capture_reply [OF valid]
      have nd: "delivery_error run = None" using 1(2) accepted(2) by (simp add: delivery_error_def)
      have f: "client_failure run \<noteq> Panicked"
        using accepted 1(1) t nd by (auto simp: client_failure_def jix_def split: option.splits)
      have "client_failure run = Returned None \<longleftrightarrow> runner_reply_error run = None \<and> terminal cap = ''runner_reply''"
        using accepted(1) 1(1) t nd by (auto simp: client_failure_def jix_def split: option.splits)
      also have "\<dots> \<longleftrightarrow> reply \<noteq> None" using reply 1(7, 8) doc by (cases bytes) auto
      finally have ok: "client_failure run = Returned None \<longleftrightarrow> reply \<noteq> None" .
      have xpc: "fallback_eligible run \<longleftrightarrow> terminal cap = ''xpc_error''"
        using accepted(1, 2) 1(1, 2) t by (cases delivery) (auto simp: fallback_eligible_def jix_def)
      also have "\<dots> \<longleftrightarrow> (\<exists>cap bytes. admitted dec delivery out cap bytes \<and> terminal cap = ''xpc_error'')"
        using cap admitted_unique [OF cap] by blast
      finally have eligible: "fallback_eligible run \<longleftrightarrow> (\<exists>cap bytes. admitted dec delivery out cap bytes \<and> terminal cap = ''xpc_error'')" .
      have "reply = None \<and> run_submission run = ''invoked''" if "terminal cap = ''xpc_error''"
        using that reply 1(6, 7) doc by auto
      then have "fallback_eligible run \<longrightarrow> reply = None \<and> run_submission run = ''invoked'' \<and> delivery_error run = None"
        using xpc nd by blast
      with p f ok reply_iff eligible show ?thesis by simp
    qed
  qed
qed

text \<open>A helper whose capture holds the two bytes of an empty JSON object.\<close>

definition sample_transport :: json where
  "sample_transport = JObj [(''protocol_version'', JNum (PosInt 3)), (''terminal'', JStr ''runner_reply'')]"

definition sample_decoders :: client_decoders where
  "sample_decoders = \<lparr>lossy = (\<lambda>s. s), from_slice = (\<lambda>s. if s = ''capture'' then Inr sample_transport else if s = ''{}'' then Inr (JObj []) else Inl ''eof''),
     from_value = (\<lambda>v. if v = sample_transport then Inr sample_capture else Inl ''missing field''), show_number = (\<lambda>n. [])\<rparr>"

theorem client_run_interpretation_witness:
  "\<exists>run. parse_runner_client_output sample_decoders [''pw-runner-client''] 0 1
      \<lparr>out_stdout = ''capture'', out_stderr = [], out_code = Some 0\<rparr> None = (run, Some (JObj [])) \<and>
     client_failure run = Returned None \<and> \<not> fallback_eligible run"
proof -
  let ?out = "\<lparr>out_stdout = ''capture'', out_stderr = [], out_code = Some 0\<rparr>"
  have d: "faithful_decoder (from_value sample_decoders)"
    by (auto simp: faithful_decoder_def sample_decoders_def sample_transport_def sample_capture_def split: if_splits)
  have a: "admitted sample_decoders None ?out sample_capture (Some [0x7B, 0x7D])"
    using sample_capture_valid by (simp add: admitted_def sample_decoders_def sample_transport_def RUNNER_PROTOCOL_VERSION_def u64_max_def)
  have "byte_string [0x7B, 0x7D] = ''{}''" by code_simp
  then have r: "runner_reply sample_capture = Some \<lparr>rc_bytes_received = 2, bytes_retained = 2, rc_truncated = False, data_base64 = ''e30=''\<rparr>"
    "from_slice sample_decoders (byte_string [0x7B, 0x7D]) = Inr (JObj [])"
    by (simp_all add: sample_capture_def sample_decoders_def)
  have ex: "\<exists>cap c bytes. admitted sample_decoders None ?out cap (Some bytes) \<and> runner_reply cap = Some c \<and>
      length bytes = rc_bytes_received c \<and> from_slice sample_decoders (byte_string bytes) = Inr (JObj [])"
    by (intro exI conjI, rule a, rule r(1), simp, rule r(2))
  obtain run reply where p: "parse_runner_client_output sample_decoders [''pw-runner-client''] 0 1 ?out None = (run, reply)"
    by fastforce
  note i = client_run_interpretation [OF d, where args = "[''pw-runner-client'']" and started = 0 and ended = 1 and
      out = ?out and delivery = None and v = "JObj []", unfolded p prod.case]
  from i ex have "reply = Some (JObj [])" by blast
  with i p show ?thesis by auto
qed

lemma div_ceil_mult: "0 < b \<Longrightarrow> a \<le> div_ceil a b * b"
proof -
  assume "0 < b"
  then have "a + b - 1 < (div_ceil a b + 1) * b"
    unfolding div_ceil_def using dividend_less_times_div [of b "a + b - 1"] by (simp add: algebra_simps)
  with \<open>0 < b\<close> show ?thesis by (simp add: algebra_simps)
qed

lemma div_ceil_le_self: "0 < b \<Longrightarrow> div_ceil a b \<le> a"
proof (cases "a = 0")
  case False
  assume "0 < b"
  then have "a + b - 1 \<le> a * b"
    using False by (cases a; cases b) auto
  then have "(a + b - 1) div b \<le> a * b div b" by (rule div_le_mono)
  with \<open>0 < b\<close> show ?thesis by (simp add: div_ceil_def)
qed (simp add: div_ceil_def)

text \<open>
  the deadline given to the helper is never early and never wraps. For 64-bit inputs and a 32-bit
  time base the 128-bit product does not overflow; the deadline is a 64-bit tick count not before
  now, and the ticks after now cover the whole timeout unless the clock's range ends first.
\<close>

theorem deadline_ticks_covers:
  assumes "now \<le> u64_max" and "ms \<le> u64_max" and "0 < num" and "num \<le> u32_max" and "0 < den" and "den \<le> u32_max"
  shows "\<exists>d. deadline_ticks now ms num den = Inr d \<and> now \<le> d \<and> d \<le> u64_max \<and>
    (d = u64_max \<or> ms * 1000000 * den \<le> (d - now) * num) \<and> ms * 1000000 * den \<le> u128_max"
proof -
  let ?t = "div_ceil (ms * 1000000 * den) num"
  have bound: "ms * 1000000 * den \<le> u64_max * 1000000 * u32_max"
    using assms by (intro mult_mono) simp_all
  then have "ms * 1000000 * den \<le> u128_max"
    by (rule order_trans) (simp add: u64_max_def u32_max_def u128_max_def)
  moreover have "deadline_ticks now ms num den = Inr (min (now + min ?t u64_max) u64_max)"
    using assms by (simp add: deadline_ticks_def)
  moreover have "ms * 1000000 * den \<le> ?t * num" using assms(3) by (rule div_ceil_mult)
  ultimately show ?thesis using assms(1)
    by (cases "now + ?t \<le> u64_max") auto
qed

theorem deadline_ticks_covers_witness:
  "\<exists>d. deadline_ticks 1000 240000 125 3 = Inr d \<and> 1000 \<le> d \<and>
     (d = u64_max \<or> 240000 * 1000000 * 3 \<le> (d - 1000) * 125)"
  using deadline_ticks_covers [of 1000 240000 125 3] by (auto simp: u64_max_def u32_max_def)

end
