(* ===== verification/Dossier.thy ===== *)
theory Dossier
  imports Sbpl_Imports Augments Runner_Client
begin

text \<open>
  The specimen dossier (controller/src/dossier.rs): the augmentation record, the import inventory of
  the selected source and the comparison of the selected binaries with the app's evidence manifest.
  File metadata, file hashing, the import file system, SHA-256 and \<open>sysctl\<close> are parameters.
\<close>

section \<open>The policy records\<close>

record augmentation =
  au_status :: string
  au_applied :: "string list"
  au_original_sha256 :: "string option"
  au_applied_sha256 :: "string option"
  au_error :: "message option"

definition augmentation_not_requested :: "(string \<Rightarrow> string) \<Rightarrow> string option \<Rightarrow> augmentation" where
  "augmentation_not_requested sha source =
     (let h = map_option sha source in
      \<lparr>au_status = ''not_requested'', au_applied = [], au_original_sha256 = h, au_applied_sha256 = h, au_error = None\<rparr>)"

definition augmentation_applied :: "policy_augmentation \<Rightarrow> bool \<Rightarrow> augmentation" where
  "augmentation_applied r original_existed =
     \<lparr>au_status = ''applied'', au_applied = applied r,
      au_original_sha256 = (if original_existed then Some (original_sha256 r) else None),
      au_applied_sha256 = Some (applied_sha256 r), au_error = None\<rparr>"

definition augmentation_failed :: "(string \<Rightarrow> string) \<Rightarrow> string option \<Rightarrow> message \<Rightarrow> augmentation" where
  "augmentation_failed sha original e =
     \<lparr>au_status = ''failed'', au_applied = [], au_original_sha256 = map_option sha original,
      au_applied_sha256 = None, au_error = Some e\<rparr>"

definition augmentation_not_applicable :: augmentation where
  "augmentation_not_applicable =
     \<lparr>au_status = ''not_applicable'', au_applied = [], au_original_sha256 = None, au_applied_sha256 = None, au_error = None\<rparr>"

text \<open>The source keeps \<open>failure\<close> as text: here the resolver's own failure or the text.\<close>

datatype scan_failure = FailureText string | FailureResolve import_failure

record imports_record =
  im_status :: string
  closure_sha256 :: "string option"
  im_records :: "import_record list"
  im_cycle :: "string list option"
  im_exceeded :: "string option"
  im_failure :: "scan_failure option"

definition imports_not_applicable :: "string option \<Rightarrow> imports_record" where
  "imports_not_applicable failure_text =
     \<lparr>im_status = ''not_applicable'', closure_sha256 = None, im_records = [], im_cycle = None, im_exceeded = None,
      im_failure = map_option FailureText failure_text\<rparr>"

definition imports_failed :: "string \<Rightarrow> imports_record" where
  "imports_failed failure_text =
     \<lparr>im_status = ''failed'', closure_sha256 = None, im_records = [], im_cycle = None, im_exceeded = None,
      im_failure = Some (FailureText failure_text)\<rparr>"

definition imports_scan :: "import_fs \<Rightarrow> (string \<Rightarrow> string) \<Rightarrow> string \<Rightarrow> imports_record" where
  "imports_scan fs sha source =
     (if length source > MAX_SBPL_SOURCE_BYTES then
        imports_failed (''source is '' @ nat_digits (length source) @ '' bytes; the import scan reads at most ''
          @ nat_digits MAX_SBPL_SOURCE_BYTES @ '' bytes'')
      else
        let resolved = resolve_imports fs sha source;
            incomplete = (is_some (ri_exceeded resolved) \<or> is_some (ri_cycle resolved) \<or> ri_nonliteral resolved \<or>
              list_ex (\<lambda>r. is_some (rec_error r)) (ri_records resolved)) in
        \<lparr>im_status = (if incomplete then ''incomplete'' else ''complete''),
         closure_sha256 = Some (compute_closure_hash sha source (ri_records resolved)),
         im_records = ri_records resolved, im_cycle = ri_cycle resolved, im_exceeded = ri_exceeded resolved,
         im_failure = map_option FailureResolve (ri_failure resolved)\<rparr>)"

record policy_dossier_record =
  pd_augmentation :: augmentation
  pd_imports :: imports_record

record actor_dossier =
  ado_actor_id :: "string option"
  ado_mode :: "string option"
  ado_policy :: policy_dossier_record

record app_provenance =
  evidence_manifest_path :: path
  evidence_verify :: "verify_report option"

record host_facts =
  macos_version :: "string option"
  macos_build :: "string option"
  kernel_release :: "string option"
  arch :: "string option"

definition host_facts_collect :: "(string \<Rightarrow> string option) \<Rightarrow> host_facts" where
  "host_facts_collect sysctl_string =
     \<lparr>macos_version = sysctl_string ''kern.osproductversion'', macos_build = sysctl_string ''kern.osversion'',
      kernel_release = sysctl_string ''kern.osrelease'', arch = sysctl_string ''hw.machine''\<rparr>"

section \<open>Binaries\<close>

definition BUNDLE_WORKER_REL :: path where "BUNDLE_WORKER_REL = ''Contents/MacOS/pw-probe-runner''"
definition BUNDLE_VALIDATOR_REL :: path where "BUNDLE_VALIDATOR_REL = ''Contents/MacOS/sb_api_validator''"
definition BUNDLE_UNENTITLED_WORKER_REL :: path where
  "BUNDLE_UNENTITLED_WORKER_REL = ''Contents/MacOS/pw-probe-runner-unentitled''"

record binary_record =
  br_path :: "path option"
  br_actual_sha256 :: "string option"
  br_baseline_sha256 :: "string option"
  verification :: string
  br_reason :: "message option"

record binaries =
  b_service :: "binary_record option"
  b_worker :: "binary_record option"
  b_validator :: "binary_record option"
  b_unentitled_worker :: "binary_record option"

definition OVERRIDE_PATH_ECHO_BYTES :: nat where "OVERRIDE_PATH_ECHO_BYTES = 1023"

text \<open>The files the comparison reads: whether a path is a regular file, and the streamed hash.\<close>

record binary_fs =
  is_regular :: "path \<Rightarrow> string + bool"
  file_sha256 :: "path \<Rightarrow> string + string"

definition baseline :: "string + evidence_manifest \<Rightarrow> shipped_binary \<Rightarrow> message + string option" where
  "baseline manifest role =
     res_bind (map_err (\<lambda>e. [MText (''app evidence manifest unavailable: '' @ e)]) manifest) (\<lambda>m.
     res_bind (unique_typed_entry m (sb_rel_path role) (sb_kind role)) (\<lambda>entry.
     case ev_sha256 entry of
       Some h \<Rightarrow>
         if length h = 64 \<and> list_all is_ascii_hexdigit h then Inr (Some (to_ascii_lowercase h))
         else Inl [MText (''manifest entry '' @ sb_rel_path role @ '' carries a malformed sha256'')]
     | None \<Rightarrow> Inl [MText (''manifest entry '' @ sb_rel_path role @ '' carries no sha256'')]))"

text \<open>\<open>baseline(..).ok().flatten()\<close>.\<close>

definition baseline_known :: "string + evidence_manifest \<Rightarrow> shipped_binary \<Rightarrow> string option" where
  "baseline_known manifest role = Option.bind (res_ok (baseline manifest role)) (\<lambda>h. h)"

definition binary_unavailable ::
    "path option \<Rightarrow> string option \<Rightarrow> string option \<Rightarrow> message \<Rightarrow> binary_record" where
  "binary_unavailable p actual base reason =
     \<lparr>br_path = p, br_actual_sha256 = actual, br_baseline_sha256 = base, verification = ''unavailable'',
      br_reason = Some reason\<rparr>"

definition hash_regular_file :: "binary_fs \<Rightarrow> path \<Rightarrow> message + string" where
  "hash_regular_file fs p =
     res_bind (map_err (\<lambda>e. [MText (''cannot stat '' @ p @ '': '' @ e)]) (is_regular fs p)) (\<lambda>file.
     res_bind (require file [MText (p @ '' is not a regular file'')]) (\<lambda>_.
     map_err (\<lambda>e. [MText e]) (file_sha256 fs p)))"

definition compare_binary ::
    "binary_fs \<Rightarrow> path \<Rightarrow> string + evidence_manifest \<Rightarrow> shipped_binary \<Rightarrow> binary_record" where
  "compare_binary fs p manifest role =
     (let (baseline_hash, baseline_reason) =
            (case baseline manifest role of Inr h \<Rightarrow> (h, None) | Inl reason \<Rightarrow> (None, Some reason)) in
      case hash_regular_file fs p of
        Inl reason \<Rightarrow> binary_unavailable (Some p) None baseline_hash reason
      | Inr actual \<Rightarrow>
          (case baseline_hash of
             Some expected \<Rightarrow>
               if expected = actual then
                 \<lparr>br_path = Some p, br_actual_sha256 = Some actual, br_baseline_sha256 = Some expected,
                  verification = ''match'', br_reason = None\<rparr>
               else
                 \<lparr>br_path = Some p, br_actual_sha256 = Some actual, br_baseline_sha256 = Some expected,
                  verification = ''mismatch'',
                  br_reason = Some [MText (''selected bytes differ from the manifest baseline for '' @ sb_rel_path role)]\<rparr>
           | None \<Rightarrow>
               binary_unavailable (Some p) (Some actual) None
                 (unwrap_or baseline_reason [MText ''baseline unavailable''])))"

datatype override = OverrideAbsent | OverrideMalformed message | OverridePath path

fun json_type :: "json \<Rightarrow> string" where
  "json_type JNull = ''null''"
| "json_type (JBool b) = ''a boolean''"
| "json_type (JNum n) = ''a number''"
| "json_type (JStr s) = ''a string''"
| "json_type (JArr a) = ''an array''"
| "json_type (JObj m) = ''an object''"

definition override_for :: "json \<Rightarrow> string \<Rightarrow> override" where
  "override_for request key =
     (case jget request ''_test_overrides'' of
        None \<Rightarrow> OverrideAbsent
      | Some JNull \<Rightarrow> OverrideAbsent
      | Some (JObj m) \<Rightarrow>
          (case obj_get m key of
             None \<Rightarrow> OverrideAbsent
           | Some JNull \<Rightarrow> OverrideAbsent
           | Some (JStr s) \<Rightarrow> OverridePath s
           | Some other \<Rightarrow>
               OverrideMalformed [MText (''_test_overrides.'' @ key @ '' is '' @ json_type other @ '', not a string'')])
      | Some other \<Rightarrow> OverrideMalformed [MText (''_test_overrides is '' @ json_type other @ '', not an object'')])"

text \<open>\<open>Some(path) == selected\<close>: paths compare by component.\<close>

definition is_selected :: "path \<Rightarrow> path option \<Rightarrow> bool" where
  "is_selected p selected = is_some_and selected (path_eq p)"

text \<open>The role without an override: the bundle's helper.\<close>

definition bundle_record ::
    "binary_fs \<Rightarrow> path option \<Rightarrow> path option \<Rightarrow> string + evidence_manifest \<Rightarrow> shipped_binary \<Rightarrow> binary_record option" where
  "bundle_record fs bundle_helper selected manifest role =
     (case bundle_helper of
        Some p \<Rightarrow> if is_selected p selected then None else Some (compare_binary fs p manifest role)
      | None \<Rightarrow> Some (binary_unavailable None None (baseline_known manifest role)
          [MText ''no runner bundle was selected'']))"

text \<open>Why an override path is not read; \<open>echoed\<close> tells whether the record repeats it.\<close>

definition override_problem :: "string \<Rightarrow> path \<Rightarrow> (bool \<times> message) option" where
  "override_problem key p =
     (if nul \<in> set p then Some (False, [MText (''_test_overrides.'' @ key @ '' contains a NUL byte'')])
      else if length p > OVERRIDE_PATH_ECHO_BYTES then
        Some (False, [MText (''_test_overrides.'' @ key @ '' is '' @ nat_digits (length p) @ '' bytes, beyond the ''
          @ nat_digits OVERRIDE_PATH_ECHO_BYTES @ ''-byte echo bound'')])
      else if p = [] then Some (True, [MText (''_test_overrides.'' @ key @ '' is empty'')])
      else if \<not> starts_with p [slash] then
        Some (True, [MText (''_test_overrides.'' @ key
          @ '' is relative; the runner's working directory is unknown to the controller'')])
      else None)"

definition helper_record ::
    "binary_fs \<Rightarrow> json \<Rightarrow> string option \<Rightarrow> path option \<Rightarrow> path option \<Rightarrow> string + evidence_manifest \<Rightarrow> shipped_binary
      \<Rightarrow> binary_record option" where
  "helper_record fs request key_opt bundle_helper selected manifest role =
     (case key_opt of
        None \<Rightarrow> bundle_record fs bundle_helper selected manifest role
      | Some key \<Rightarrow>
          (case override_for request key of
             OverrideMalformed reason \<Rightarrow>
               Some (binary_unavailable None None (baseline_known manifest role) reason)
           | OverrideAbsent \<Rightarrow> bundle_record fs bundle_helper selected manifest role
           | OverridePath p \<Rightarrow>
               (case override_problem key p of
                  Some (echoed, reason) \<Rightarrow>
                    Some (binary_unavailable (if echoed then Some p else None) None (baseline_known manifest role) reason)
                | None \<Rightarrow>
                    if is_selected p selected then None else Some (compare_binary fs p manifest role))))"

definition binaries_unselected :: "message \<Rightarrow> binaries" where
  "binaries_unselected reason =
     (let r = Some (binary_unavailable None None None reason) in
      \<lparr>b_service = r, b_worker = r, b_validator = r, b_unentitled_worker = r\<rparr>)"

text \<open>The path of a role whose manifest entry is unique and of the right kind.\<close>

definition manifest_entry :: "path \<Rightarrow> string + evidence_manifest \<Rightarrow> shipped_binary \<Rightarrow> path option" where
  "manifest_entry app_root manifest role =
     Option.bind (res_ok manifest) (\<lambda>m.
     Option.bind (res_ok (unique_typed_entry m (sb_rel_path role) (sb_kind role))) (\<lambda>_.
     Some (path_join app_root (sb_rel_path role))))"

definition service_record ::
    "binary_fs \<Rightarrow> path \<Rightarrow> path option \<Rightarrow> string + evidence_manifest \<Rightarrow> binary_record option" where
  "service_record fs app_root service_selected manifest =
     (case service_selected of
        None \<Rightarrow> Some (binary_unavailable None None (baseline_known manifest SHIPPED_SERVICE)
          [MText ''no service executable was selected''])
      | Some p \<Rightarrow>
          if is_selected p (manifest_entry app_root manifest SHIPPED_SERVICE) then None
          else Some (compare_binary fs p manifest SHIPPED_SERVICE))"

definition binaries_observe ::
    "binary_fs \<Rightarrow> path \<Rightarrow> runner_target \<Rightarrow> json \<Rightarrow> string + evidence_manifest \<Rightarrow> binaries" where
  "binaries_observe fs app_root target request manifest =
     (let helper = (\<lambda>key rel role. helper_record fs request key (map_option (\<lambda>b. path_join b rel) (t_bundle_path target))
             (manifest_entry app_root manifest role) manifest role) in
      \<lparr>b_service = service_record fs app_root (t_executable_path target) manifest,
       b_worker = helper (Some ''worker_executable_path'') BUNDLE_WORKER_REL SHIPPED_WORKER,
       b_validator = helper (Some ''validator_executable_path'') BUNDLE_VALIDATOR_REL SHIPPED_VALIDATOR,
       b_unentitled_worker = helper None BUNDLE_UNENTITLED_WORKER_REL SHIPPED_UNENTITLED_WORKER\<rparr>)"

section \<open>The specimen\<close>

record specimen =
  sp_request_path :: "path option"
  sp_policy :: policy_dossier_record
  sp_host :: host_facts
  sp_runner_provenance :: "runner_provenance option"
  sp_app_provenance :: "app_provenance option"
  sp_binaries :: binaries
  sp_actors :: "actor_dossier list option"

definition specimen_unavailable :: "path option \<Rightarrow> host_facts \<Rightarrow> message \<Rightarrow> specimen" where
  "specimen_unavailable p host reason =
     \<lparr>sp_request_path = p,
      sp_policy = \<lparr>pd_augmentation = augmentation_not_applicable, pd_imports = imports_not_applicable None\<rparr>,
      sp_host = host, sp_runner_provenance = None, sp_app_provenance = None,
      sp_binaries = binaries_unselected reason, sp_actors = None\<rparr>"

section \<open>Properties\<close>

text \<open>The inventory is complete exactly when it explains nothing: the resolver's own accounting.\<close>

lemma imports_scan_complete:
  "im_status (imports_scan fs sha src) = ''complete'' \<longleftrightarrow> im_failure (imports_scan fs sha src) = None"
  by (rule resolve_imports_state [of fs sha src])
    (auto simp: imports_scan_def imports_failed_def Let_def accounted_def clean_def list_ex_iff)

lemma imports_scan_status:
  "im_status (imports_scan fs sha src) \<in> {''complete'', ''incomplete'', ''failed''} \<and>
   (im_status (imports_scan fs sha src) = ''failed'' \<longleftrightarrow> length src > MAX_SBPL_SOURCE_BYTES) \<and>
   (closure_sha256 (imports_scan fs sha src) \<noteq> None \<longleftrightarrow> length src \<le> MAX_SBPL_SOURCE_BYTES)"
  by (simp add: imports_scan_def imports_failed_def Let_def)

lemma baseline_known_Some:
  "baseline_known manifest role = Some b \<longleftrightarrow>
     (\<exists>m entry h. manifest = Inr m \<and> unique_typed_entry m (sb_rel_path role) (sb_kind role) = Inr entry \<and>
        ev_sha256 entry = Some h \<and> length h = 64 \<and> list_all is_ascii_hexdigit h \<and> b = to_ascii_lowercase h)"
proof (cases manifest)
  case (Inr m)
  then show ?thesis
    by (cases "unique_typed_entry m (sb_rel_path role) (sb_kind role)")
      (auto simp: baseline_known_def baseline_def res_ok_def bind_eq_Some_conv split: option.splits if_splits)
qed (simp add: baseline_known_def baseline_def res_ok_def)

text \<open>
  The file the runner uses for a helper role, as far as the request and the target tell: an override the
  runner echoes and resolves, otherwise the helper of the selected bundle.
\<close>

definition helper_choice :: "json \<Rightarrow> string option \<Rightarrow> path option \<Rightarrow> path option" where
  "helper_choice request key_opt bundle_helper =
     (case key_opt of
        None \<Rightarrow> bundle_helper
      | Some key \<Rightarrow>
          (case override_for request key of
             OverrideAbsent \<Rightarrow> bundle_helper
           | OverrideMalformed _ \<Rightarrow> None
           | OverridePath p \<Rightarrow>
               if nul \<notin> set p \<and> length p \<le> 1023 \<and> is_absolute p then Some p else None))"

text \<open>
  What a role's record must say of the chosen file. No record is kept only for the path the manifest
  itself lists; a record's verdict is the comparison of the file's hash with the baseline.
\<close>

definition judged ::
    "binary_fs \<Rightarrow> string + evidence_manifest \<Rightarrow> shipped_binary \<Rightarrow> path option \<Rightarrow> path option \<Rightarrow> binary_record option \<Rightarrow> bool" where
  "judged fs manifest role selected choice r =
     (case choice of
        None \<Rightarrow> \<exists>x. r = Some x \<and> verification x = ''unavailable'' \<and> br_actual_sha256 x = None \<and> br_reason x \<noteq> None
      | Some p \<Rightarrow>
          (if is_selected p selected then r = None
           else \<exists>x. r = Some x \<and> br_path x = Some p \<and>
             br_actual_sha256 x = res_ok (hash_regular_file fs p) \<and>
             br_baseline_sha256 x = baseline_known manifest role \<and>
             verification x =
               (case (br_actual_sha256 x, br_baseline_sha256 x) of
                  (Some a, Some b) \<Rightarrow> if a = b then ''match'' else ''mismatch''
                | _ \<Rightarrow> ''unavailable'') \<and>
             (br_reason x = None \<longleftrightarrow> verification x = ''match'')))"

lemma compare_binary_judged:
  "\<not> is_selected p selected \<Longrightarrow> judged fs manifest role selected (Some p) (Some (compare_binary fs p manifest role))"
  by (cases "baseline manifest role"; cases "hash_regular_file fs p")
    (auto simp: judged_def compare_binary_def binary_unavailable_def baseline_known_def res_ok_def Let_def
      split: option.splits)

lemma unavailable_judged:
  "judged fs manifest role selected None (Some (binary_unavailable p None b reason))"
  by (simp add: judged_def binary_unavailable_def)

lemma selected_judged: "is_selected p selected \<Longrightarrow> judged fs manifest role selected (Some p) None"
  by (simp add: judged_def)

lemmas judged_intros = compare_binary_judged unavailable_judged selected_judged

lemma bundle_record_judged:
  "judged fs manifest role selected b (bundle_record fs b selected manifest role)"
  by (cases b) (auto simp: bundle_record_def intro: judged_intros)

lemma override_problem_None:
  "override_problem key p = None \<longleftrightarrow> nul \<notin> set p \<and> length p \<le> 1023 \<and> is_absolute p"
  by (auto simp: override_problem_def OVERRIDE_PATH_ECHO_BYTES_def is_absolute_def)

lemma helper_record_judged:
  "judged fs manifest role selected (helper_choice request key b)
     (helper_record fs request key b selected manifest role)"
proof (cases key)
  case (Some k)
  show ?thesis
  proof (cases "override_for request k")
    case (OverridePath p)
    then show ?thesis
      using Some override_problem_None [of k p]
      by (cases "override_problem k p") (auto simp: helper_record_def helper_choice_def intro: judged_intros)
  qed (auto simp: Some helper_record_def helper_choice_def bundle_record_judged unavailable_judged)
qed (simp add: helper_record_def helper_choice_def bundle_record_judged)

text \<open>
  C27: the dossier's binary records are exact. For the service and each helper role, the file judged is
  the one the target and the request's overrides select (an override counts only when it is an absolute
  path of at most 1023 bytes without NUL); the role is left without a record exactly when that file is
  the manifest's own unique, correctly typed entry; otherwise the record holds the file's hash and the
  manifest baseline, says \<open>match\<close> exactly when both exist and agree, \<open>mismatch\<close> exactly when they
  differ, and gives a reason exactly when it does not match. A role without a usable file is
  \<open>unavailable\<close> and nothing is hashed for it.
\<close>

theorem binaries_observe_exact:
  "judged fs manifest SHIPPED_SERVICE (manifest_entry app_root manifest SHIPPED_SERVICE) (t_executable_path target)
     (b_service (binaries_observe fs app_root target request manifest)) \<and>
   judged fs manifest SHIPPED_WORKER (manifest_entry app_root manifest SHIPPED_WORKER)
     (helper_choice request (Some ''worker_executable_path'')
        (map_option (\<lambda>b. path_join b ''Contents/MacOS/pw-probe-runner'') (t_bundle_path target)))
     (b_worker (binaries_observe fs app_root target request manifest)) \<and>
   judged fs manifest SHIPPED_VALIDATOR (manifest_entry app_root manifest SHIPPED_VALIDATOR)
     (helper_choice request (Some ''validator_executable_path'')
        (map_option (\<lambda>b. path_join b ''Contents/MacOS/sb_api_validator'') (t_bundle_path target)))
     (b_validator (binaries_observe fs app_root target request manifest)) \<and>
   judged fs manifest SHIPPED_UNENTITLED_WORKER (manifest_entry app_root manifest SHIPPED_UNENTITLED_WORKER)
     (map_option (\<lambda>b. path_join b ''Contents/MacOS/pw-probe-runner-unentitled'') (t_bundle_path target))
     (b_unentitled_worker (binaries_observe fs app_root target request manifest))"
proof -
  have "helper_choice request None b = b" for b by (simp add: helper_choice_def)
  moreover have "judged fs manifest SHIPPED_SERVICE sel p
      (case p of None \<Rightarrow> Some (binary_unavailable None None base reason)
       | Some q \<Rightarrow> if is_selected q sel then None else Some (compare_binary fs q manifest SHIPPED_SERVICE))"
    for p sel base reason
    by (cases p) (auto intro: judged_intros)
  ultimately show ?thesis
    using helper_record_judged [of fs manifest SHIPPED_UNENTITLED_WORKER _ request None]
    by (simp add: binaries_observe_def service_record_def helper_record_judged BUNDLE_WORKER_REL_def
        BUNDLE_VALIDATOR_REL_def BUNDLE_UNENTITLED_WORKER_REL_def)
qed

end
