(* ===== verification/Equipment.thy ===== *)
theory Equipment
  imports Runner_Host Dossier "HOL-Library.Sublist"
begin

text \<open>
  The sealed inventory of a runner bundle's workers, the signing of a bundle for installation and
  the re-validation of a registry record (controller/src/runner_manager.rs). What the tools report
  is read through the host; the JSON text of an inventory is serde_json's.
\<close>

section \<open>The inventory\<close>

definition EQUIPMENT_INVENTORY_BYTES :: nat where "EQUIPMENT_INVENTORY_BYTES = 1048576"
definition BUNDLE_EQUIPMENT_REL :: path where "BUNDLE_EQUIPMENT_REL = ''Contents/Resources/worker-equipment.json''"
definition BUNDLE_ISSUER_REL :: path where "BUNDLE_ISSUER_REL = ''Contents/MacOS/pw-extension-issuer''"

definition EMPTY_ENTITLEMENTS_XML :: string where
  "EMPTY_ENTITLEMENTS_XML =
     ''<?xml version='' @ [dq] @ ''1.0'' @ [dq] @ '' encoding='' @ [dq] @ ''UTF-8'' @ [dq] @ ''?><!DOCTYPE plist PUBLIC ''
     @ [dq] @ ''-//Apple//DTD PLIST 1.0//EN'' @ [dq] @ '' '' @ [dq] @ ''http://www.apple.com/DTDs/PropertyList-1.0.dtd''
     @ [dq] @ ''><plist version='' @ [dq] @ ''1.0'' @ [dq] @ ''><dict/></plist>''"

record worker_entry =
  we_role :: string
  relative_path :: path
  we_sha256 :: string
  we_cdhash :: string
  we_identifier :: string
  we_team_id :: "string option"
  entitlements_xml :: string

record worker_inventory =
  wi_schema_version :: nat
  wi_runner_protocol :: nat
  worker_identity :: string
  unsigned_worker_sha256 :: string
  workers :: "worker_entry list"

definition equipment_hex :: "string \<Rightarrow> nat \<Rightarrow> bool" where
  "equipment_hex s n = (length s = n \<and> list_all is_lower_hexdigit s)"

definition nul_free_name :: "string \<Rightarrow> bool" where
  "nul_free_name s = (s \<noteq> [] \<and> length s \<le> 255 \<and> CHR 0x00 \<notin> set s)"

definition EQUIPMENT_ROLES :: "(string \<times> path) list" where
  "EQUIPMENT_ROLES = [(''selected'', BUNDLE_WORKER_REL), (''unentitled'', BUNDLE_UNENTITLED_WORKER_REL)]"

definition row_valid :: "path \<Rightarrow> worker_entry \<Rightarrow> bool" where
  "row_valid p row =
     (relative_path row = p \<and> equipment_hex (we_sha256 row) 64 \<and> equipment_hex (we_cdhash row) 40 \<and>
      nul_free_name (we_identifier row) \<and> is_none_or (we_team_id row) nul_free_name \<and>
      length (entitlements_xml row) \<le> EQUIPMENT_ENTITLEMENT_BYTES)"

fun validate_roles :: "worker_entry list \<Rightarrow> (string \<times> path) list \<Rightarrow> string + unit" where
  "validate_roles ws [] = Inr ()"
| "validate_roles ws ((role, p) # rs) =
     (case filter (\<lambda>row. we_role row = role) ws of
        [row] \<Rightarrow> if row_valid p row then validate_roles ws rs
                 else Inl (''invalid '' @ role @ '' equipment inventory row'')
      | _ \<Rightarrow> Inl (''equipment inventory must contain exactly one '' @ role))"

definition inventory_validate :: "worker_inventory \<Rightarrow> string + unit" where
  "inventory_validate v =
     (if wi_schema_version v \<noteq> 1 \<or> wi_runner_protocol v \<noteq> RUNNER_PROTOCOL_VERSION
         \<or> \<not> equipment_hex (worker_identity v) 64 \<or> \<not> equipment_hex (unsigned_worker_sha256 v) 64
         \<or> length (workers v) \<noteq> 2
      then Inl ''unsupported or malformed worker equipment inventory; upgrade and reinstall''
      else validate_roles (workers v) EQUIPMENT_ROLES)"

text \<open>Deserialisation under \<open>deny_unknown_fields\<close>, from an object.\<close>

definition str_field :: "json_map \<Rightarrow> string \<Rightarrow> string option" where
  "str_field m k = Option.bind (obj_get m k) as_str"

definition u32_field :: "json_map \<Rightarrow> string \<Rightarrow> nat option" where
  "u32_field m k = option_filter (\<lambda>n. n < 2 ^ 32) (Option.bind (obj_get m k) as_u64)"

definition opt_str_field :: "json_map \<Rightarrow> string \<Rightarrow> string option option" where
  "opt_str_field m k =
     (case obj_get m k of
        None \<Rightarrow> Some None
      | Some JNull \<Rightarrow> Some None
      | Some (JStr s) \<Rightarrow> Some (Some s)
      | _ \<Rightarrow> None)"

definition known_keys :: "string list \<Rightarrow> json_map \<Rightarrow> bool" where
  "known_keys ks m = list_all (\<lambda>k. k \<in> set ks) (obj_keys m)"

definition decode_entry :: "json \<Rightarrow> worker_entry option" where
  "decode_entry j =
     (case j of
        JObj m \<Rightarrow>
          if \<not> known_keys [''role'', ''relative_path'', ''sha256'', ''cdhash'', ''identifier'', ''team_id'', ''entitlements_xml''] m
          then None
          else
            Option.bind (str_field m ''role'') (\<lambda>role.
            Option.bind (str_field m ''relative_path'') (\<lambda>rel.
            Option.bind (str_field m ''sha256'') (\<lambda>sha.
            Option.bind (str_field m ''cdhash'') (\<lambda>cd.
            Option.bind (str_field m ''identifier'') (\<lambda>ident.
            Option.bind (opt_str_field m ''team_id'') (\<lambda>team.
            Option.bind (str_field m ''entitlements_xml'') (\<lambda>xml.
            Some \<lparr>we_role = role, relative_path = rel, we_sha256 = sha, we_cdhash = cd, we_identifier = ident,
              we_team_id = team, entitlements_xml = xml\<rparr>)))))))
      | _ \<Rightarrow> None)"

fun option_list :: "'a option list \<Rightarrow> 'a list option" where
  "option_list [] = Some []"
| "option_list (x # xs) = Option.bind x (\<lambda>a. map_option (Cons a) (option_list xs))"

definition decode_inventory :: "json \<Rightarrow> worker_inventory option" where
  "decode_inventory j =
     (case j of
        JObj m \<Rightarrow>
          if \<not> known_keys [''schema_version'', ''runner_protocol'', ''worker_identity'', ''unsigned_worker_sha256'', ''workers''] m
          then None
          else
            Option.bind (u32_field m ''schema_version'') (\<lambda>sv.
            Option.bind (u32_field m ''runner_protocol'') (\<lambda>rp.
            Option.bind (str_field m ''worker_identity'') (\<lambda>wid.
            Option.bind (str_field m ''unsigned_worker_sha256'') (\<lambda>uw.
            Option.bind (Option.bind (obj_get m ''workers'') as_array) (\<lambda>rows.
            Option.bind (option_list (map decode_entry rows)) (\<lambda>ws.
            Some \<lparr>wi_schema_version = sv, wi_runner_protocol = rp, worker_identity = wid,
              unsigned_worker_sha256 = uw, workers = ws\<rparr>))))))
      | _ \<Rightarrow> None)"

text \<open>Serialisation (\<open>to_value\<close>).\<close>

definition entry_value :: "worker_entry \<Rightarrow> json" where
  "entry_value e = JObj [(''cdhash'', JStr (we_cdhash e)), (''entitlements_xml'', JStr (entitlements_xml e)),
     (''identifier'', JStr (we_identifier e)), (''relative_path'', JStr (relative_path e)), (''role'', JStr (we_role e)),
     (''sha256'', JStr (we_sha256 e)),
     (''team_id'', case we_team_id e of None \<Rightarrow> JNull | Some t \<Rightarrow> JStr t)]"

definition inventory_value :: "worker_inventory \<Rightarrow> json" where
  "inventory_value v = JObj [(''runner_protocol'', JNum (PosInt (wi_runner_protocol v))),
     (''schema_version'', JNum (PosInt (wi_schema_version v))),
     (''unsigned_worker_sha256'', JStr (unsigned_worker_sha256 v)), (''worker_identity'', JStr (worker_identity v)),
     (''workers'', JArr (map entry_value (workers v)))]"

lemma option_list_map_Some: "(\<And>x. x \<in> set xs \<Longrightarrow> f x = Some (g x)) \<Longrightarrow> option_list (map f xs) = Some (map g xs)"
  by (induction xs) auto

lemma decode_entry_value [simp]: "decode_entry (entry_value e) = Some e"
  by (simp add: decode_entry_def entry_value_def known_keys_def obj_keys_def str_field_def opt_str_field_def split: option.splits)

lemma decode_inventory_value:
  "wi_schema_version v < 2 ^ 32 \<Longrightarrow> wi_runner_protocol v < 2 ^ 32 \<Longrightarrow> decode_inventory (inventory_value v) = Some v"
  by (simp add: decode_inventory_def inventory_value_def known_keys_def obj_keys_def str_field_def u32_field_def
      option_list_map_Some [where g = "\<lambda>e. e"] comp_def)

section \<open>Reading and checking it\<close>

text \<open>\<open>serde_error\<close> is the text of serde's refusal of a value.\<close>

definition inside :: "'w host \<Rightarrow> 'w \<Rightarrow> path \<Rightarrow> path \<Rightarrow> string + bool" where
  "inside h w p bundle =
     res_bind (h_canonical h w p) (\<lambda>file. res_bind (h_canonical h w bundle) (\<lambda>rt. Inr (path_starts_with file rt)))"

definition load_equipment_inventory :: "(json \<Rightarrow> string) \<Rightarrow> 'w host \<Rightarrow> 'w \<Rightarrow> path \<Rightarrow> string + worker_inventory" where
  "load_equipment_inventory serde_error h w bundle =
     (let p = path_join bundle BUNDLE_EQUIPMENT_REL in
      res_bind (map_err (\<lambda>e. ''equipment inventory '' @ p @ '': '' @ io_text e @ ''; upgrade and reinstall'')
        (h_metadata h w (path_components p))) (\<lambda>m.
      res_bind (require (mt_regular m \<and> mt_len m \<le> EQUIPMENT_INVENTORY_BYTES)
        ''equipment inventory is not a bounded regular file'') (\<lambda>_.
      res_bind (h_canonical h w bundle) (\<lambda>rt.
      res_bind (h_canonical h w p) (\<lambda>file.
      res_bind (require (path_starts_with file rt) ''equipment inventory escapes its service bundle'') (\<lambda>_.
      res_bind (map_err io_text (h_read h w p)) (\<lambda>contents.
      let bytes = take (Suc EQUIPMENT_INVENTORY_BYTES) contents in
      res_bind (require (length bytes \<le> EQUIPMENT_INVENTORY_BYTES) ''equipment inventory exceeds limit'') (\<lambda>_.
      res_bind (map_err (\<lambda>e. ''equipment inventory: '' @ e) (h_from_slice h bytes)) (\<lambda>raw.
      res_bind (require (is_some_and (Option.bind (jget raw ''workers'') as_array)
          (list_all (\<lambda>row. jget row ''team_id'' \<noteq> None)))
        ''equipment inventory has missing team_id observations'') (\<lambda>_.
      res_bind (ok_or (decode_inventory raw) (''equipment inventory: '' @ serde_error raw)) (\<lambda>v.
      res_bind (inventory_validate v) (\<lambda>_. Inr v))))))))))))"

text \<open>Some execute bit (\<open>mode & 0o111\<close>).\<close>

definition executable_mode :: "nat \<Rightarrow> bool" where
  "executable_mode m = (odd m \<or> odd (m div 8) \<or> odd (m div 64))"

definition equipment_worker_path :: "'w host \<Rightarrow> 'w \<Rightarrow> path \<Rightarrow> path \<Rightarrow> string + path" where
  "equipment_worker_path h w bundle rel =
     (let p = path_join bundle rel in
      res_bind (map_err (\<lambda>e. p @ '': '' @ io_text e) (h_metadata h w (path_components p))) (\<lambda>m.
      res_bind (require (mt_regular m \<and> executable_mode (mt_mode m)) (p @ '' is not a regular executable'')) (\<lambda>_.
      res_bind (inside h w p bundle) (\<lambda>i.
      res_bind (require i (p @ '' escapes its service bundle'')) (\<lambda>_. Inr p)))))"

definition team_of :: "runner_signature \<Rightarrow> string option" where
  "team_of s = option_filter (\<lambda>t. t \<noteq> ''not set'') (team_id s)"

definition signature_identifier :: "'w host \<Rightarrow> 'w \<Rightarrow> path \<Rightarrow> string + string" where
  "signature_identifier h w p =
     res_bind (map_err (\<lambda>e. ''signature identifier read-back: '' @ e)
       (h_query h w ''/usr/bin/codesign'' [''-d'', ''--verbose=2'', p])) (\<lambda>out.
     if \<not> success out then Inl ''signature identifier read-back failed''
     else
       (case filter_map (strip_prefix ''Identifier='') (str_lines (h_lossy h (out_stderr out))) of
          [] \<Rightarrow> Inl ''signature identifier absent''
        | i # _ \<Rightarrow> Inr i))"

definition dictionary_valid :: "string \<Rightarrow> json \<Rightarrow> bool" where
  "dictionary_valid role d = (\<exists>m. d = JObj m \<and> (role = ''unentitled'' \<longrightarrow> m = []))"

lemma dictionary_valid_code [code, simp]:
  "dictionary_valid role (JObj m) = (role = ''unentitled'' \<longrightarrow> m = [])"
  "dictionary_valid role JNull = False" "dictionary_valid role (JBool b) = False"
  "dictionary_valid role (JNum n) = False" "dictionary_valid role (JStr s) = False"
  "dictionary_valid role (JArr xs) = False"
  by (simp_all add: dictionary_valid_def)

definition equipment_entry :: "'w host \<Rightarrow> 'w \<Rightarrow> path \<Rightarrow> string \<Rightarrow> path \<Rightarrow> string + worker_entry" where
  "equipment_entry h w bundle role rel =
     res_bind (equipment_worker_path h w bundle rel) (\<lambda>p.
     res_bind (codesign_verify_binary h w p) (\<lambda>_.
     res_bind (read_back h w p) (\<lambda>(sig, ents).
     res_bind (case ent_error ents of Some e \<Rightarrow> Inl e | None \<Rightarrow> Inr ()) (\<lambda>_.
     let xml = unwrap_or (raw_plist ents) EMPTY_ENTITLEMENTS_XML in
     res_bind (require (length xml \<le> EQUIPMENT_ENTITLEMENT_BYTES) ''entitlement read-back exceeds equipment limit'') (\<lambda>_.
     res_bind (plutil_json_from_bytes h w xml) (\<lambda>dictionary.
     res_bind (require (dictionary_valid role dictionary) (role @ '' equipment entitlement dictionary is invalid'')) (\<lambda>_.
     res_bind (signature_identifier h w p) (\<lambda>ident.
     res_bind (map_err io_text (h_read h w p)) (\<lambda>bytes.
     res_bind (ok_or (cdhash sig) ''signature CDHash absent'') (\<lambda>cd.
     Inr \<lparr>we_role = role, relative_path = rel, we_sha256 = h_sha256_hex h bytes, we_cdhash = cd, we_identifier = ident,
       we_team_id = team_of sig, entitlements_xml = xml\<rparr>))))))))))"

definition entry_agrees :: "'w host \<Rightarrow> 'w \<Rightarrow> string option \<Rightarrow> worker_entry \<Rightarrow> worker_entry \<Rightarrow> string + bool" where
  "entry_agrees h w host_team expected actual =
     (if we_sha256 actual \<noteq> we_sha256 expected \<or> we_cdhash actual \<noteq> we_cdhash expected
         \<or> we_identifier actual \<noteq> we_identifier expected \<or> we_team_id actual \<noteq> we_team_id expected
         \<or> we_team_id actual \<noteq> host_team
      then Inr False
      else
        res_bind (plutil_json_from_bytes h w (entitlements_xml actual)) (\<lambda>a.
        res_bind (plutil_json_from_bytes h w (entitlements_xml expected)) (\<lambda>b. Inr (a = b))))"

fun check_workers :: "'w host \<Rightarrow> 'w \<Rightarrow> path \<Rightarrow> string option \<Rightarrow> worker_entry list \<Rightarrow> string + unit" where
  "check_workers h w bundle host_team [] = Inr ()"
| "check_workers h w bundle host_team (expected # rest) =
     res_bind (equipment_entry h w bundle (we_role expected) (relative_path expected)) (\<lambda>actual.
     res_bind (entry_agrees h w host_team expected actual) (\<lambda>agrees.
     if agrees then check_workers h w bundle host_team rest
     else Inl (we_role expected @ '' equipment differs from its sealed inventory'')))"

definition verify_equipment_inventory :: "(json \<Rightarrow> string) \<Rightarrow> 'w host \<Rightarrow> 'w \<Rightarrow> path \<Rightarrow> string + worker_inventory" where
  "verify_equipment_inventory serde_error h w bundle =
     res_bind (codesign_verify h w bundle) (\<lambda>_.
     res_bind (load_equipment_inventory serde_error h w bundle) (\<lambda>v.
     res_bind (codesign_metadata h w bundle) (\<lambda>s.
     res_bind (check_workers h w bundle (team_of s) (workers v)) (\<lambda>_. Inr v))))"

section \<open>Signing a bundle\<close>

definition host_publish :: "'w host \<Rightarrow> path \<Rightarrow> path \<Rightarrow> string \<Rightarrow> 'w \<Rightarrow> (string + unit) \<times> 'w" where
  "host_publish h temporary target bytes w0 =
     w_bind (h_create_new h temporary w0) (\<lambda>_ w1.
     w_bind (h_write_all h temporary bytes w1) (\<lambda>_ w2.
     w_bind (h_sync_all h temporary w2) (\<lambda>_ w3.
     h_rename h temporary target w3)))"

fun collect_entries :: "(worker_entry \<Rightarrow> string + worker_entry) \<Rightarrow> worker_entry list \<Rightarrow> string + worker_entry list" where
  "collect_entries f [] = Inr []"
| "collect_entries f (row # rows) = res_bind (f row) (\<lambda>e. res_bind (collect_entries f rows) (\<lambda>es. Inr (e # es)))"

text \<open>
  \<open>render\<close> is \<open>to_vec_pretty\<close> on an inventory. The temporary name is the inventory's with the identifier
  appended to its extension \<open>json\<close>.
\<close>

definition refresh_equipment_inventory ::
    "(worker_inventory \<Rightarrow> string + string) \<Rightarrow> 'w host \<Rightarrow> path \<Rightarrow> worker_inventory \<Rightarrow> 'w \<Rightarrow> (string + worker_inventory) \<times> 'w" where
  "refresh_equipment_inventory render h bundle original w0 =
     w_bind (collect_entries (\<lambda>row. equipment_entry h w0 bundle (we_role row) (relative_path row)) (workers original), w0) (\<lambda>rows w1.
     let v = original\<lparr>workers := rows\<rparr> in
     w_bind (inventory_validate v, w1) (\<lambda>_ w2.
     w_bind (render v, w2) (\<lambda>bytes w3.
     if length bytes > EQUIPMENT_INVENTORY_BYTES then (Inl ''equipment inventory exceeds limit'', w3)
     else
       let p = path_join bundle BUNDLE_EQUIPMENT_REL; (drawn, w4) = h_urandom h w3 in
       w_bind (random_id drawn, w4) (\<lambda>rid w5.
       let temporary = p @ ''.'' @ rid;
           (result, w6) = host_publish h temporary p bytes w5;
           w7 = (case result of Inr _ \<Rightarrow> w6 | Inl _ \<Rightarrow> snd (h_unlink h temporary w6)) in
       case result of
         Inl e \<Rightarrow> (Inl (''equipment inventory publication failed: '' @ e), w7)
       | Inr _ \<Rightarrow> (Inr v, w7)))))"

type_synonym 'w signer = "path \<Rightarrow> string \<Rightarrow> path option \<Rightarrow> 'w \<Rightarrow> (string + unit) \<times> 'w"

definition missing_helper :: "(path \<Rightarrow> bool) \<Rightarrow> path \<Rightarrow> (string \<times> path) option" where
  "missing_helper is_file bundle =
     find (\<lambda>(role, p). \<not> is_file p)
       [(''worker'', path_join bundle BUNDLE_WORKER_REL), (''validator'', path_join bundle BUNDLE_VALIDATOR_REL),
        (''unentitled worker'', path_join bundle BUNDLE_UNENTITLED_WORKER_REL)]"

definition sign_install_tree_with_inventory ::
    "(path \<Rightarrow> bool) \<Rightarrow> path \<Rightarrow> string \<Rightarrow> path option \<Rightarrow> 'w signer \<Rightarrow> (path \<Rightarrow> 'w \<Rightarrow> (string + unit) \<times> 'w) \<Rightarrow> 'w
      \<Rightarrow> (string + unit) \<times> 'w" where
  "sign_install_tree_with_inventory is_file bundle ident ents sign inventory w0 =
     (case missing_helper is_file bundle of
        Some (role, p) \<Rightarrow>
          (Inl (''bundle has no embedded '' @ role @ '' at '' @ p @ ''; external runners must carry the complete copy''), w0)
      | None \<Rightarrow>
          w_bind (sign (path_join bundle BUNDLE_WORKER_REL) ident ents w0) (\<lambda>_ w1.
          w_bind (sign (path_join bundle BUNDLE_VALIDATOR_REL) ident None w1) (\<lambda>_ w2.
          w_bind (sign (path_join bundle BUNDLE_UNENTITLED_WORKER_REL) ident None w2) (\<lambda>_ w3.
          w_bind (inventory bundle w3) (\<lambda>_ w4.
          sign bundle ident ents w4)))))"

definition sign_install_tree ::
    "(json \<Rightarrow> string) \<Rightarrow> (worker_inventory \<Rightarrow> string + string) \<Rightarrow> 'w host \<Rightarrow> path \<Rightarrow> string \<Rightarrow> path option \<Rightarrow> 'w signer
      \<Rightarrow> 'w \<Rightarrow> (string + unit) \<times> 'w" where
  "sign_install_tree serde_error render h bundle ident ents sign w0 =
     w_bind (verify_equipment_inventory serde_error h w0 bundle, w0) (\<lambda>original w1.
     sign_install_tree_with_inventory (h_is_file h w1) bundle ident ents sign
       (\<lambda>b w. case refresh_equipment_inventory render h b original w of
          (Inl e, w') \<Rightarrow> (Inl e, w') | (Inr _, w') \<Rightarrow> (Inr (), w')) w1)"

section \<open>Re-validating a record\<close>

record validate_failure =
  vf_runner_id :: string
  vf_service_name :: string
  vf_binary :: string
  vf_error :: string

definition failed_binary :: "runner_record \<Rightarrow> string \<Rightarrow> string \<Rightarrow> validate_failure" where
  "failed_binary r binary e =
     \<lparr>vf_runner_id = runner_id r, vf_service_name = service_name r, vf_binary = binary, vf_error = e\<rparr>"

text \<open>The closure \<open>observe\<close>: a binary's own verification and its read-back.\<close>

definition observe_binary ::
    "(path \<Rightarrow> string + unit) \<Rightarrow> (path \<Rightarrow> string + runner_signature \<times> runner_entitlements) \<Rightarrow> runner_record \<Rightarrow> string \<Rightarrow> path
      \<Rightarrow> (runner_signature \<times> runner_entitlements) \<times> validate_failure list" where
  "observe_binary verify_binary rd r role p =
     (case rd p of
        Inl e \<Rightarrow> ((blank_signature False, failed_entitlements None (Some (role @ '' read-back failed''))), [failed_binary r role e])
      | Inr (sig, ents) \<Rightarrow>
         (case verify_binary p of
            Inl e \<Rightarrow> ((sig\<lparr>sig_valid := False\<rparr>, ents), [failed_binary r role e])
          | Inr _ \<Rightarrow> ((sig, ents), [])))"

definition check_unentitled :: "(path \<Rightarrow> bool) \<Rightarrow> runner_record \<Rightarrow> path \<Rightarrow> bool" where
  "check_unentitled exists_at r p =
     (exists_at p \<or> unentitled_worker_signature r \<noteq> None \<or> worker_equipment_inventory r \<noteq> None)"

definition check_issuer :: "(path \<Rightarrow> bool) \<Rightarrow> runner_record \<Rightarrow> path \<Rightarrow> bool" where
  "check_issuer exists_at r p = (exists_at p \<or> issuer_signature r \<noteq> None \<or> issuer_entitlements r \<noteq> None)"

text \<open>\<open>exists_at\<close> and \<open>read_sha\<close> (the digest of a readable file) are the file system.\<close>

definition validate_record ::
    "(path \<Rightarrow> bool) \<Rightarrow> (path \<Rightarrow> string option) \<Rightarrow> (path \<Rightarrow> string + unit) \<Rightarrow> (path \<Rightarrow> string + unit) \<Rightarrow>
     (path \<Rightarrow> string + runner_signature \<times> runner_entitlements) \<Rightarrow> runner_record \<Rightarrow> runner_record \<times> validate_failure list" where
  "validate_record exists_at read_sha verify_bundle verify_binary rd r =
     (let bundle = bundle_path r;
          observe = observe_binary verify_binary rd r;
          bundle_failures = (case verify_bundle bundle of Inr _ \<Rightarrow> [] | Inl e \<Rightarrow> [failed_binary r ''bundle'' e]);
          ((hs, he), hf) = observe ''host'' (executable_path r);
          hs = hs\<lparr>sig_valid := sig_valid hs \<and> bundle_failures = []\<rparr>;
          ((ws, we), wf) = observe ''worker'' (path_join bundle BUNDLE_WORKER_REL);
          ((vs, ve), vf) = observe ''validator'' (path_join bundle BUNDLE_VALIDATOR_REL);
          up = path_join bundle BUNDLE_UNENTITLED_WORKER_REL;
          (r1, uf) = (if check_unentitled exists_at r up then
              (case observe ''unentitled_worker'' up of ((us, ue), uf) \<Rightarrow>
                 (r\<lparr>unentitled_worker_signature := Some us, unentitled_worker_entitlements := Some ue,
                    unentitled_worker_sha256 := read_sha up\<rparr>, uf))
            else (r, []));
          ip = path_join bundle BUNDLE_ISSUER_REL;
          (r2, isf) = (if check_issuer exists_at r ip then
              (case observe ''issuer'' ip of ((is, ie), isf) \<Rightarrow>
                 (r1\<lparr>issuer_signature := Some is, issuer_entitlements := Some ie\<rparr>, isf))
            else (r1, [])) in
      (r2\<lparr>signature := hs, entitlements := he, worker_signature := Some ws, worker_entitlements := Some we,
          validator_signature := Some vs, validator_entitlements := Some ve\<rparr>,
       bundle_failures @ hf @ wf @ vf @ uf @ isf))"

section \<open>Properties\<close>

text \<open>What the check establishes of one worker: the file on disk is the sealed one.\<close>

definition sealed_worker :: "'w host \<Rightarrow> 'w \<Rightarrow> path \<Rightarrow> string option \<Rightarrow> worker_entry \<Rightarrow> bool" where
  "sealed_worker h w bundle team row =
     (let p = path_join bundle (relative_path row) in
      (\<exists>m. h_metadata h w (path_components p) = Inr m \<and> mt_regular m \<and> executable_mode (mt_mode m)) \<and>
      inside h w p bundle = Inr True \<and>
      codesign_verify_binary h w p = Inr () \<and>
      (\<exists>bytes. h_read h w p = Inr bytes \<and> h_sha256_hex h bytes = we_sha256 row) \<and>
      (\<exists>sig. codesign_metadata h w p = Inr sig \<and> cdhash sig = Some (we_cdhash row) \<and> team_of sig = we_team_id row) \<and>
      we_team_id row = team \<and> signature_identifier h w p = Inr (we_identifier row) \<and>
      (let ents = entitlements_from_codesign h w p; xml = unwrap_or (raw_plist ents) EMPTY_ENTITLEMENTS_XML in
       ent_error ents = None \<and> length xml \<le> EQUIPMENT_ENTITLEMENT_BYTES \<and>
       (\<exists>d. plutil_json_from_bytes h w xml = Inr d \<and> plutil_json_from_bytes h w (entitlements_xml row) = Inr d \<and>
         dictionary_valid (we_role row) d)))"

lemma equipment_worker_path_Inr:
  "equipment_worker_path h w bundle rel = Inr q \<longleftrightarrow> q = path_join bundle rel \<and>
     (\<exists>m. h_metadata h w (path_components q) = Inr m \<and> mt_regular m \<and> executable_mode (mt_mode m)) \<and>
     inside h w q bundle = Inr True"
  by (auto simp: equipment_worker_path_def Let_def)

lemma case_ent_error: "(case x of Some e \<Rightarrow> Inl e | None \<Rightarrow> Inr ()) = Inr u \<longleftrightarrow> x = None"
  by (cases x) auto

lemma checked_worker:
  "(\<exists>actual. equipment_entry h w bundle (we_role row) (relative_path row) = Inr actual \<and>
     entry_agrees h w team row actual = Inr True) \<longleftrightarrow> sealed_worker h w bundle team row" (is "?A \<longleftrightarrow> ?B")
proof
  assume ?A
  then show ?B
    by (auto simp: equipment_entry_def entry_agrees_def sealed_worker_def equipment_worker_path_Inr read_back_def
        Let_def case_ent_error split: if_splits)
next
  assume ?B
  let ?xml = "unwrap_or (raw_plist (entitlements_from_codesign h w (path_join bundle (relative_path row)))) EMPTY_ENTITLEMENTS_XML"
  from \<open>?B\<close> have "equipment_entry h w bundle (we_role row) (relative_path row) = Inr (row\<lparr>entitlements_xml := ?xml\<rparr>)"
    "entry_agrees h w team row (row\<lparr>entitlements_xml := ?xml\<rparr>) = Inr True"
    by (auto simp: equipment_entry_def entry_agrees_def sealed_worker_def equipment_worker_path_Inr read_back_def
        Let_def case_ent_error)
  then show ?A by blast
qed

lemma check_workers_Inr: "check_workers h w bundle team rows = Inr u \<longleftrightarrow> list_all (sealed_worker h w bundle team) rows"
proof (induction rows)
  case (Cons row rows)
  have "check_workers h w bundle team (row # rows) = Inr u \<longleftrightarrow>
      (\<exists>actual. equipment_entry h w bundle (we_role row) (relative_path row) = Inr actual \<and>
        entry_agrees h w team row actual = Inr True) \<and> check_workers h w bundle team rows = Inr u"
    by (auto split: if_splits)
  then show ?case using Cons.IH by (simp add: checked_worker)
qed simp

lemma filter_singleton_pair:
  assumes "length ws = 2" "filter P ws = [a]" "filter Q ws = [b]" "\<And>x. P x \<Longrightarrow> \<not> Q x"
  shows "ws = [a, b] \<or> ws = [b, a]"
proof -
  from assms(1) obtain x y where "ws = [x, y]" by (auto simp: length_Suc_conv numeral_2_eq_2)
  with assms show ?thesis by (auto split: if_splits)
qed

lemma inventory_validate_roles:
  assumes "inventory_validate v = Inr ()"
  shows "\<exists>sel une. (workers v = [sel, une] \<or> workers v = [une, sel]) \<and>
    we_role sel = ''selected'' \<and> row_valid BUNDLE_WORKER_REL sel \<and>
    we_role une = ''unentitled'' \<and> row_valid BUNDLE_UNENTITLED_WORKER_REL une"
proof -
  from assms have two: "length (workers v) = 2" and vr: "validate_roles (workers v) EQUIPMENT_ROLES = Inr ()"
    by (auto simp: inventory_validate_def split: if_splits)
  from vr obtain sel une where s: "filter (\<lambda>row. we_role row = ''selected'') (workers v) = [sel]" "row_valid BUNDLE_WORKER_REL sel"
    and u: "filter (\<lambda>row. we_role row = ''unentitled'') (workers v) = [une]" "row_valid BUNDLE_UNENTITLED_WORKER_REL une"
    by (auto simp: EQUIPMENT_ROLES_def split: list.splits if_splits)
  have "sel \<in> set (filter (\<lambda>row. we_role row = ''selected'') (workers v))"
    "une \<in> set (filter (\<lambda>row. we_role row = ''unentitled'') (workers v))" using s u by simp_all
  then have "we_role sel = ''selected''" "we_role une = ''unentitled''" by auto
  moreover have "workers v = [sel, une] \<or> workers v = [une, sel]"
    by (rule filter_singleton_pair [OF two s(1) u(1)]) simp
  ultimately show ?thesis using s u by blast
qed

lemma load_equipment_valid: "load_equipment_inventory serde_error h w bundle = Inr v \<Longrightarrow> inventory_validate v = Inr ()"
  by (auto simp: load_equipment_inventory_def Let_def)

text \<open>
  C14: an inventory is verified exactly when the bundle's deep signature holds, the inventory loads,
  and each of its workers is on disk as sealed. It then has one \<open>selected\<close> and one \<open>unentitled\<close> worker
  at their fixed places in the bundle; each is a regular executable inside the bundle whose own
  signature verifies, with the sealed digest, code hash, identifier and the bundle's team, and
  entitlements equal to the sealed ones; the unentitled worker holds none.
\<close>

theorem verify_equipment_exact:
  "verify_equipment_inventory serde_error h w bundle = Inr v \<longleftrightarrow>
     codesign_verify h w bundle = Inr () \<and> load_equipment_inventory serde_error h w bundle = Inr v \<and>
     (\<exists>s sel une. codesign_metadata h w bundle = Inr s \<and> (workers v = [sel, une] \<or> workers v = [une, sel]) \<and>
       we_role sel = ''selected'' \<and> relative_path sel = BUNDLE_WORKER_REL \<and> sealed_worker h w bundle (team_of s) sel \<and>
       we_role une = ''unentitled'' \<and> relative_path une = BUNDLE_UNENTITLED_WORKER_REL \<and>
       sealed_worker h w bundle (team_of s) une \<and>
       plutil_json_from_bytes h w (entitlements_xml une) = Inr (JObj []))" (is "?V \<longleftrightarrow> ?C \<and> ?L \<and> ?S")
proof
  assume ?V
  then obtain s where v: ?C ?L and m: "codesign_metadata h w bundle = Inr s"
    and rows: "list_all (sealed_worker h w bundle (team_of s)) (workers v)"
    by (auto simp: verify_equipment_inventory_def check_workers_Inr)
  from inventory_validate_roles [OF load_equipment_valid [OF v(2)]] obtain sel une where
    r: "workers v = [sel, une] \<or> workers v = [une, sel]" "we_role sel = ''selected''" "row_valid BUNDLE_WORKER_REL sel"
      "we_role une = ''unentitled''" "row_valid BUNDLE_UNENTITLED_WORKER_REL une" by blast
  with rows have s: "sealed_worker h w bundle (team_of s) sel" "sealed_worker h w bundle (team_of s) une" by auto
  from s(2) r(4) have "plutil_json_from_bytes h w (entitlements_xml une) = Inr (JObj [])"
    by (auto simp: sealed_worker_def Let_def dictionary_valid_def)
  with m r s v show "?C \<and> ?L \<and> ?S" by (auto simp: row_valid_def)
next
  assume "?C \<and> ?L \<and> ?S"
  then show ?V by (auto simp: verify_equipment_inventory_def check_workers_Inr)
qed

text \<open>The log of a signing: every call of the two injected operations, in order.\<close>

datatype sign_event = Signed path string "path option" | Published path

definition logged_sign :: "'w signer \<Rightarrow> ('w \<times> sign_event list) signer" where
  "logged_sign sign p ident ents wl = (case sign p ident ents (fst wl) of (r, w') \<Rightarrow> (r, w', snd wl @ [Signed p ident ents]))"

definition logged_publish :: "(path \<Rightarrow> 'w \<Rightarrow> (string + unit) \<times> 'w) \<Rightarrow> path \<Rightarrow> 'w \<times> sign_event list \<Rightarrow> (string + unit) \<times> 'w \<times> sign_event list" where
  "logged_publish inventory p wl = (case inventory p (fst wl) of (r, w') \<Rightarrow> (r, w', snd wl @ [Published p]))"

definition sign_plan :: "path \<Rightarrow> string \<Rightarrow> path option \<Rightarrow> sign_event list" where
  "sign_plan bundle ident ents =
     [Signed (path_join bundle BUNDLE_WORKER_REL) ident ents, Signed (path_join bundle BUNDLE_VALIDATOR_REL) ident None,
      Signed (path_join bundle BUNDLE_UNENTITLED_WORKER_REL) ident None, Published bundle, Signed bundle ident ents]"

text \<open>
  C15: a bundle is signed inside out. Whatever the signing tool answers, the calls made are an initial
  part of the plan: the worker with the supplied entitlements, the validator and the unentitled
  worker without any, the inventory that records their new signatures, and the enclosing bundle
  last; a success has made all of them, and a bundle that lacks a helper is not touched at all.
\<close>

theorem sign_install_tree_ordered:
  "case sign_install_tree_with_inventory is_file bundle ident ents (logged_sign sign) (logged_publish inventory) (w, []) of
     (r, w', l) \<Rightarrow>
       prefix l (sign_plan bundle ident ents) \<and>
       (if missing_helper is_file bundle = None then (if succeeded r then l = sign_plan bundle ident ents else l \<noteq> [])
        else \<not> succeeded r \<and> l = [] \<and> w' = w)"
  by (cases "missing_helper is_file bundle")
    (auto simp: sign_install_tree_with_inventory_def sign_plan_def logged_sign_def logged_publish_def w_bind_def
      split: prod.splits sum.splits)

text \<open>The binaries a validation looks at, and what it reports of each.\<close>

definition checked_binaries :: "(path \<Rightarrow> bool) \<Rightarrow> runner_record \<Rightarrow> (string \<times> path) list" where
  "checked_binaries exists_at r =
     [(''host'', executable_path r), (''worker'', path_join (bundle_path r) BUNDLE_WORKER_REL),
      (''validator'', path_join (bundle_path r) BUNDLE_VALIDATOR_REL)] @
     (let p = path_join (bundle_path r) BUNDLE_UNENTITLED_WORKER_REL in
      if exists_at p \<or> unentitled_worker_signature r \<noteq> None \<or> worker_equipment_inventory r \<noteq> None
      then [(''unentitled_worker'', p)] else []) @
     (let p = path_join (bundle_path r) BUNDLE_ISSUER_REL in
      if exists_at p \<or> issuer_signature r \<noteq> None \<or> issuer_entitlements r \<noteq> None
      then [(''issuer'', p)] else [])"

definition binary_error :: "(path \<Rightarrow> string + unit) \<Rightarrow> (path \<Rightarrow> string + runner_signature \<times> runner_entitlements) \<Rightarrow> path \<Rightarrow> string option" where
  "binary_error verify_binary rd p =
     (case rd p of Inl e \<Rightarrow> Some e | Inr _ \<Rightarrow> (case verify_binary p of Inl e \<Rightarrow> Some e | Inr _ \<Rightarrow> None))"

lemma observe_binary_failures:
  "snd (observe_binary verify_binary rd r role p) = map (failed_binary r role) (case binary_error verify_binary rd p of None \<Rightarrow> [] | Some e \<Rightarrow> [e])"
  by (auto simp: observe_binary_def binary_error_def split: sum.splits prod.splits)

lemma observe_binary_valid:
  "sig_valid (fst (fst (observe_binary verify_binary rd r role p))) \<longleftrightarrow>
     binary_error verify_binary rd p = None \<and> (\<exists>s e. rd p = Inr (s, e) \<and> sig_valid s)"
  by (auto simp: observe_binary_def binary_error_def blank_signature_def split: sum.splits prod.splits)

definition recorded_identity :: "runner_record \<Rightarrow> runner_record" where
  "recorded_identity r = r\<lparr>signature := blank_signature False, entitlements := failed_entitlements None None,
     worker_signature := None, worker_entitlements := None, unentitled_worker_signature := None,
     unentitled_worker_entitlements := None, unentitled_worker_sha256 := None, validator_signature := None,
     validator_entitlements := None, issuer_signature := None, issuer_entitlements := None\<rparr>"

lemma validate_record_reports:
  "case validate_record exists_at read_sha verify_bundle verify_binary rd r of (r', fs) \<Rightarrow>
     fs = (case verify_bundle (bundle_path r) of Inr _ \<Rightarrow> [] | Inl e \<Rightarrow> [failed_binary r ''bundle'' e]) @
       concat (map (\<lambda>(role, p). case binary_error verify_binary rd p of None \<Rightarrow> [] | Some e \<Rightarrow> [failed_binary r role e])
         (checked_binaries exists_at r)) \<and>
     (sig_valid (signature r') \<longleftrightarrow> verify_bundle (bundle_path r) = Inr () \<and>
        binary_error verify_binary rd (executable_path r) = None \<and> (\<exists>s e. rd (executable_path r) = Inr (s, e) \<and> sig_valid s)) \<and>
     (\<exists>s. worker_signature r' = Some s \<and> (sig_valid s \<longleftrightarrow>
        binary_error verify_binary rd (path_join (bundle_path r) BUNDLE_WORKER_REL) = None \<and>
        (\<exists>s e. rd (path_join (bundle_path r) BUNDLE_WORKER_REL) = Inr (s, e) \<and> sig_valid s))) \<and>
     (\<exists>s. validator_signature r' = Some s \<and> (sig_valid s \<longleftrightarrow>
        binary_error verify_binary rd (path_join (bundle_path r) BUNDLE_VALIDATOR_REL) = None \<and>
        (\<exists>s e. rd (path_join (bundle_path r) BUNDLE_VALIDATOR_REL) = Inr (s, e) \<and> sig_valid s))) \<and>
     recorded_identity r' = recorded_identity r"
proof -
  let ?o = "observe_binary verify_binary rd r"
  let ?U = "path_join (bundle_path r) BUNDLE_UNENTITLED_WORKER_REL" and ?I = "path_join (bundle_path r) BUNDLE_ISSUER_REL"
  note obs = observe_binary_failures [of verify_binary rd r] observe_binary_valid [of verify_binary rd r]
  obtain hs he hf where h: "?o ''host'' (executable_path r) = ((hs, he), hf)" by (metis prod.collapse)
  obtain ws we wf where w: "?o ''worker'' (path_join (bundle_path r) BUNDLE_WORKER_REL) = ((ws, we), wf)" by (metis prod.collapse)
  obtain vs ve vf where v: "?o ''validator'' (path_join (bundle_path r) BUNDLE_VALIDATOR_REL) = ((vs, ve), vf)" by (metis prod.collapse)
  obtain us ue uf where u: "?o ''unentitled_worker'' ?U = ((us, ue), uf)" by (metis prod.collapse)
  obtain ks ie kf where i: "?o ''issuer'' ?I = ((ks, ie), kf)" by (metis prod.collapse)
  show ?thesis
    using obs(1) [of "''host''" "executable_path r"] obs(2) [of "''host''" "executable_path r"]
      obs(1) [of "''worker''" "path_join (bundle_path r) BUNDLE_WORKER_REL"]
      obs(2) [of "''worker''" "path_join (bundle_path r) BUNDLE_WORKER_REL"]
      obs(1) [of "''validator''" "path_join (bundle_path r) BUNDLE_VALIDATOR_REL"]
      obs(2) [of "''validator''" "path_join (bundle_path r) BUNDLE_VALIDATOR_REL"]
      obs(1) [of "''unentitled_worker''" ?U] obs(1) [of "''issuer''" ?I]
    by (simp add: validate_record_def Let_def h w v u i checked_binaries_def recorded_identity_def map_option_case
        check_unentitled_def check_issuer_def split: option.splits sum.splits if_splits)
qed

text \<open>
  C16: a validation reports exactly what is wrong. Its failures are the bundle's, if the deep check
  fails, then for each binary the record has, in order, the read-back or verification error; the
  binaries include the optional helpers as soon as they exist or were recorded, so a helper that
  disappeared is reported. The host's signature is left valid only under the bundle's seal and its
  own, the worker's and the validator's under their own, and nothing but this evidence is changed.
\<close>

theorem validate_record_exact:
  "case validate_record exists_at read_sha verify_bundle verify_binary rd r of (r', fs) \<Rightarrow>
     fs = (case verify_bundle (bundle_path r) of Inr _ \<Rightarrow> [] | Inl e \<Rightarrow> [failed_binary r ''bundle'' e]) @
       concat (map (\<lambda>(role, p). case binary_error verify_binary rd p of None \<Rightarrow> [] | Some e \<Rightarrow> [failed_binary r role e])
         (checked_binaries exists_at r)) \<and>
     (sig_valid (signature r') \<longleftrightarrow> verify_bundle (bundle_path r) = Inr () \<and>
        binary_error verify_binary rd (executable_path r) = None \<and> (\<exists>s e. rd (executable_path r) = Inr (s, e) \<and> sig_valid s)) \<and>
     (\<exists>s. worker_signature r' = Some s \<and> (sig_valid s \<longleftrightarrow>
        binary_error verify_binary rd (path_join (bundle_path r) BUNDLE_WORKER_REL) = None \<and>
        (\<exists>s e. rd (path_join (bundle_path r) BUNDLE_WORKER_REL) = Inr (s, e) \<and> sig_valid s))) \<and>
     (\<exists>s. validator_signature r' = Some s \<and> (sig_valid s \<longleftrightarrow>
        binary_error verify_binary rd (path_join (bundle_path r) BUNDLE_VALIDATOR_REL) = None \<and>
        (\<exists>s e. rd (path_join (bundle_path r) BUNDLE_VALIDATOR_REL) = Inr (s, e) \<and> sig_valid s))) \<and>
     recorded_identity r' = recorded_identity r"
  by (rule validate_record_reports)

end
