(* ===== verification/Envelope.thy ===== *)
theory Envelope
  imports Requests "HOL-Library.Multiset"
begin

text \<open>
  The envelope frame (controller/src/json_contract.rs): the result record and the outer object every
  binary of the controller prints, with its keys sorted at every level. The clock and the build stamp
  are parameters; printing the value as text is the JSON crate's.
\<close>

section \<open>Sorting\<close>

text \<open>
  \<open>sort_value\<close>: the entries of an object are taken out, sorted by key and inserted one by one into a
  new map, each value sorted on the way.
\<close>

fun sort_value :: "json \<Rightarrow> json" where
  "sort_value (JArr items) = JArr (map sort_value items)"
| "sort_value (JObj m) =
     JObj (fold (\<lambda>p acc. obj_insert (fst p) (snd p) acc) (sort_key fst (map (\<lambda>p. (fst p, sort_value (snd p))) m)) [])"
| "sort_value v = v"

section \<open>The result and the frame\<close>

record json_result =
  ok :: bool
  rc :: "int option"
  res_exit_code :: "int option"
  res_normalized_outcome :: "string option"
  errno :: "int option"
  res_error :: "message option"
  res_stderr :: "string option"
  res_stdout :: "string option"

definition json_result_new :: "bool \<Rightarrow> int \<Rightarrow> string option \<Rightarrow> message option \<Rightarrow> json_result" where
  "json_result_new k exit outcome e =
     \<lparr>ok = k, rc = None, res_exit_code = Some exit, res_normalized_outcome = outcome, errno = None, res_error = e,
      res_stderr = None, res_stdout = None\<rparr>"

text \<open>The serialised result; \<open>show_message\<close> renders the error.\<close>

definition opt_json :: "('a \<Rightarrow> json) \<Rightarrow> 'a option \<Rightarrow> json" where
  "opt_json f x = (case x of None \<Rightarrow> JNull | Some a \<Rightarrow> f a)"

definition int_json :: "int \<Rightarrow> json" where
  "int_json i = JNum (if i < 0 then NegInt i else PosInt (nat i))"

definition json_result_value :: "(message \<Rightarrow> string) \<Rightarrow> json_result \<Rightarrow> json" where
  "json_result_value show_message r =
     JObj [(''errno'', opt_json int_json (errno r)), (''error'', opt_json (\<lambda>m. JStr (show_message m)) (res_error r)),
           (''exit_code'', opt_json int_json (res_exit_code r)),
           (''normalized_outcome'', opt_json JStr (res_normalized_outcome r)), (''ok'', JBool (ok r)),
           (''rc'', opt_json int_json (rc r)), (''stderr'', opt_json JStr (res_stderr r)),
           (''stdout'', opt_json JStr (res_stdout r))]"

definition SCHEMA_VERSION :: nat where "SCHEMA_VERSION = 12"

text \<open>\<open>option_env!(..).unwrap_or("unknown")\<close> for each coordinate of the build.\<close>

definition build_stamp_value :: "(string \<Rightarrow> string option) \<Rightarrow> json" where
  "build_stamp_value build_env =
     (let v = (\<lambda>k. JStr (unwrap_or (build_env k) ''unknown'')) in
      JObj [(''commit'', v ''PW_BUILD_COMMIT''), (''describe'', v ''PW_BUILD_DESCRIBE''),
            (''number'', v ''PW_BUILD_NUMBER''), (''version'', v ''PW_BUILD_VERSION'')])"

definition envelope_value :: "(string \<Rightarrow> string option) \<Rightarrow> nat \<Rightarrow> string \<Rightarrow> json \<Rightarrow> json \<Rightarrow> json" where
  "envelope_value build_env now knd result data =
     sort_value (JObj (fold (\<lambda>p acc. obj_insert (fst p) (snd p) acc)
       [(''schema_version'', JNum (PosInt SCHEMA_VERSION)), (''kind'', JStr knd),
        (''generated_at_unix_ms'', JNum (PosInt now)), (''build'', build_stamp_value build_env),
        (''result'', result), (''data'', data)] []))"

text \<open>\<open>to_pretty\<close> is the JSON crate's printer; what is printed ends with a newline.\<close>

definition render_envelope ::
    "(json \<Rightarrow> string + string) \<Rightarrow> (string \<Rightarrow> string option) \<Rightarrow> nat \<Rightarrow> string \<Rightarrow> json \<Rightarrow> json \<Rightarrow> string + string" where
  "render_envelope to_pretty build_env now knd result data =
     map_err (\<lambda>e. ''failed to encode JSON: '' @ e) (to_pretty (envelope_value build_env now knd result data))"

definition print_envelope ::
    "(json \<Rightarrow> string + string) \<Rightarrow> (string \<Rightarrow> string option) \<Rightarrow> nat \<Rightarrow> string \<Rightarrow> json \<Rightarrow> json \<Rightarrow> (string + unit) \<times> string" where
  "print_envelope to_pretty build_env now knd result data =
     (case render_envelope to_pretty build_env now knd result data of
        Inl e \<Rightarrow> (Inl e, [])
      | Inr t \<Rightarrow> (Inr (), t @ [CHR 0x0A]))"

section \<open>Properties\<close>

abbreviation insert_all :: "json_map \<Rightarrow> json_map \<Rightarrow> json_map" where
  "insert_all \<equiv> fold (\<lambda>p acc. obj_insert (fst p) (snd p) acc)"

lemma strict_keys_insert_all: "strict_keys m \<Longrightarrow> strict_keys (insert_all ps m)"
  by (induction ps arbitrary: m) (simp_all add: strict_keys_insert)

lemma set_obj_insert: "set (obj_insert k v m) \<subseteq> insert (k, v) (set m)"
  by (induction m) auto

lemma set_insert_all: "set (insert_all ps m) \<subseteq> set ps \<union> set m"
proof (induction ps arbitrary: m)
  case (Cons p ps)
  have "set (insert_all ps (obj_insert (fst p) (snd p) m)) \<subseteq> set ps \<union> set (obj_insert (fst p) (snd p) m)"
    by (rule Cons)
  also have "\<dots> \<subseteq> set ps \<union> insert p (set m)" using set_obj_insert [of "fst p" "snd p" m] by auto
  finally show ?case by simp
qed simp

text \<open>The last entry of a key wins, as repeated insertion into the map has it.\<close>

lemma obj_get_insert_all: "obj_get (insert_all ps m) = obj_get m ++ obj_get (rev ps)"
proof (induction ps arbitrary: m)
  case (Cons p ps)
  then show ?case by (auto simp: map_of_obj_insert fun_eq_iff map_add_def split: option.splits)
qed simp

lemma map_of_sort_key:
  assumes "distinct (map fst m)"
  shows "obj_get (rev (sort_key fst m)) = obj_get m"
proof -
  have "distinct (map fst (rev (sort_key fst m)))"
    using assms by (metis distinct_rev mset_eq_imp_distinct_iff mset_map mset_rev mset_sort rev_map)
  then show ?thesis using assms by (intro map_of_inject_set [THEN iffD2]) simp_all
qed

lemma obj_get_map_snd: "obj_get (map (\<lambda>p. (fst p, f (snd p))) m) k = map_option f (obj_get m k)"
  by (induction m) auto

text \<open>Reading a key of a sorted object.\<close>

lemma jget_sort_value:
  assumes "strict_keys m"
  shows "jget (sort_value (JObj m)) k = map_option sort_value (obj_get m k)"
proof -
  have "distinct (map fst m)" using assms by (induction m) (auto simp: image_iff)
  then have "distinct (map fst (map (\<lambda>p. (fst p, sort_value (snd p))) m))" by (simp add: comp_def)
  from map_of_sort_key [OF this] show ?thesis by (simp add: obj_get_insert_all obj_get_map_snd)
qed

text \<open>A value whose objects all have their keys in strictly ascending order.\<close>

fun canonical :: "json \<Rightarrow> bool" where
  "canonical (JArr items) = list_all canonical items"
| "canonical (JObj m) = (strict_keys m \<and> list_all (\<lambda>p. canonical (snd p)) m)"
| "canonical v = True"

lemma canonical_sort_value: "canonical (sort_value v)"
  by (induction v rule: sort_value.induct)
    (auto simp: list_all_iff strict_keys_insert_all dest!: subsetD [OF set_insert_all])

lemma insert_all_sorted:
  assumes "strict_keys (m @ ps)"
  shows "insert_all ps m = m @ ps"
  using assms
proof (induction ps arbitrary: m)
  case (Cons p ps)
  have last: "obj_insert (fst p) (snd p) m = m @ [p]" if "\<forall>q \<in> set m. fst q < fst p" for m
    using that by (induction m) auto
  have "\<forall>q \<in> set m. fst q < fst p" using Cons.prems by (induction m) auto
  with Cons.IH [of "m @ [p]"] Cons.prems last show ?case by simp
qed simp

lemma sort_value_canonical: "canonical v \<Longrightarrow> sort_value v = v"
proof (induction v rule: sort_value.induct)
  case (1 items)
  then show ?case by (simp add: list_all_iff map_idI)
next
  case (2 m)
  then have "map (\<lambda>p. (fst p, sort_value (snd p))) m = m" by (intro map_idI) (auto simp: list_all_iff)
  moreover have "sort_key fst m = m"
    using 2 by (intro sort_key_id_if_sorted) (simp add: strict_keys_def strict_sorted_imp_sorted)
  ultimately show ?case using 2 insert_all_sorted [of "[]" m] by simp
qed simp_all

end
