(* ===== verification/Policy_Check.thy ===== *)
theory Policy_Check
  imports Envelope Delivery
begin

text \<open>
  The embedded tools of the app bundle (controller/src/app_layout.rs) and the independent compilation
  by the \<open>sbpl-check\<close> helper (controller/src/policy_check.rs). The location of the executable, file
  existence, the child process and the JSON parser are parameters.
\<close>

section \<open>Embedded tools\<close>

definition validate_tool_name :: "string \<Rightarrow> message + unit" where
  "validate_tool_name name =
     (case path_components name of
        [Normal _] \<Rightarrow> Inr ()
      | _ \<Rightarrow> Inl [MText ''invalid tool name '', MDebug name, MText '' (must be a single path component)''])"

definition unexpected_location :: "path \<Rightarrow> message" where
  "unexpected_location exe = [MText (''unexpected executable location: '' @ exe)]"

definition contents_dir :: "string + path \<Rightarrow> message + path" where
  "contents_dir current_exe =
     res_bind (map_err (\<lambda>e. [MText (''current_exe() failed: '' @ e)]) current_exe) (\<lambda>exe.
     ok_or (Option.bind (path_parent exe) path_parent) (unexpected_location exe))"

definition app_root_from_current_exe :: "string + path \<Rightarrow> message + path" where
  "app_root_from_current_exe current_exe =
     res_bind (contents_dir current_exe) (\<lambda>dir.
     ok_or (path_parent dir) (unexpected_location (unwrap_or (res_ok current_exe) [])))"

definition resolve_contents_macos_tool ::
    "string + path \<Rightarrow> (path \<Rightarrow> bool) \<Rightarrow> string \<Rightarrow> message + path" where
  "resolve_contents_macos_tool current_exe exists_file name =
     res_bind (validate_tool_name name) (\<lambda>_.
     res_bind (contents_dir current_exe) (\<lambda>dir.
     let candidate = path_join (path_join dir ''MacOS'') name in
     if exists_file candidate then Inr candidate
     else Inl [MText ''embedded tool not found in Contents/MacOS: '', MDebug name,
       MText ('' (expected: '' @ candidate @ '')'')]))"

section \<open>The helper's capture\<close>

definition HELPER_KIND :: string where "HELPER_KIND = ''sbpl_check''"

record policy_check_capture =
  pc_status :: string
  tool_exit_code :: int
  pc_output :: json_output_capture
  pc_envelope :: "json option"

definition policy_check_unavailable :: "string \<Rightarrow> policy_check_capture" where
  "policy_check_unavailable e =
     \<lparr>pc_status = ''unavailable'', tool_exit_code = 1, pc_output = capture_unavailable e HELPER_CAPTURE_BYTES,
      pc_envelope = None\<rparr>"

definition supported_outcome :: "json \<Rightarrow> string option" where
  "supported_outcome env =
     (if Option.bind (jget env ''kind'') as_str \<noteq> Some HELPER_KIND then None
      else
        (case jget env ''schema_version'' of
           None \<Rightarrow> None
         | Some version \<Rightarrow>
             if as_u64 version \<noteq> Some SCHEMA_VERSION then None
             else option_filter (\<lambda>outcome. outcome \<noteq> [])
               (Option.bind (Option.bind (jget env ''result'') (\<lambda>v. jget v ''normalized_outcome'')) as_str)))"

definition parse_policy_check_output ::
    "(string \<Rightarrow> string) \<Rightarrow> (string \<Rightarrow> string + json) \<Rightarrow> process_output \<Rightarrow> policy_check_capture" where
  "parse_policy_check_output lossy from_slice out =
     (let (captured, parsed) = capture_json_output lossy from_slice out ''sbpl-check'' HELPER_CAPTURE_BYTES;
          status = (if is_some (stdout_capture_error captured) then ''capture_error''
             else if is_some (stdout_parse_error captured) then ''parse_error''
             else (case parsed of
                None \<Rightarrow> ''tool_error''
              | Some env \<Rightarrow> unwrap_or (supported_outcome env) ''invalid_reply'')) in
      \<lparr>pc_status = status, tool_exit_code = unwrap_or (out_code out) 1, pc_output = captured, pc_envelope = parsed\<rparr>)"

text \<open>\<open>spawn\<close> runs a command with the request on its stdin; \<open>show\<close> renders a diagnostic as text.\<close>

definition run_policy_check ::
    "(string \<Rightarrow> string) \<Rightarrow> (string \<Rightarrow> string + json) \<Rightarrow> (string \<Rightarrow> message + path) \<Rightarrow> (message \<Rightarrow> string) \<Rightarrow>
     (string list \<Rightarrow> string \<Rightarrow> string + process_output \<times> request_delivery) \<Rightarrow> string \<Rightarrow> string + policy_check_capture" where
  "run_policy_check lossy from_slice resolve_tool show_message spawn request =
     res_bind (map_err show_message (resolve_tool ''sbpl-check'')) (\<lambda>tool.
     res_bind (map_err (\<lambda>e. ''failed to run sbpl-check: '' @ e) (spawn [tool, ''--request'', ''-''] request)) (\<lambda>r.
     case r of (out, delivery) \<Rightarrow>
       (case d_error delivery of
          Some e \<Rightarrow> Inl (''sbpl-check request delivery failed: '' @ e)
        | None \<Rightarrow> Inr (parse_policy_check_output lossy from_slice out))))"

section \<open>Properties\<close>

lemma supported_outcome_Some:
  "supported_outcome env = Some s \<longleftrightarrow>
     jget env ''kind'' = Some (JStr ''sbpl_check'') \<and> jget env ''schema_version'' = Some (JNum (PosInt 12)) \<and>
     s \<noteq> [] \<and> (\<exists>r. jget env ''result'' = Some r \<and> jget r ''normalized_outcome'' = Some (JStr s))"
proof -
  have u: "as_u64 v = Some SCHEMA_VERSION \<longleftrightarrow> v = JNum (PosInt 12)" for v
    by (cases v rule: as_u64.cases; auto simp: SCHEMA_VERSION_def elim: number_as_u64.elims)
  show ?thesis
    by (auto simp: supported_outcome_def HELPER_KIND_def u bind_eq_Some_conv option_filter_def
        split: option.splits if_splits)
qed

text \<open>What an envelope of the helper says: its kind, this version, and a nonempty outcome.\<close>

definition helper_says :: "json \<Rightarrow> string \<Rightarrow> bool" where
  "helper_says v s =
     (jget v ''kind'' = Some (JStr ''sbpl_check'') \<and> jget v ''schema_version'' = Some (JNum (PosInt 12)) \<and>
      s \<noteq> [] \<and> (\<exists>r. jget v ''result'' = Some r \<and> jget r ''normalized_outcome'' = Some (JStr s)))"

lemma policy_check_status:
  assumes "parse_policy_check_output lossy from_slice out = c"
  shows "tool_exit_code c = unwrap_or (out_code out) 1 \<and>
    (if 8 * 1024 * 1024 < length (out_stdout out) then pc_status c = ''capture_error'' \<and> pc_envelope c = None
     else if out_stdout out = [] then pc_status c = ''tool_error'' \<and> pc_envelope c = None
     else (case from_slice (out_stdout out) of
         Inl _ \<Rightarrow> pc_status c = ''parse_error'' \<and> pc_envelope c = None
       | Inr v \<Rightarrow> pc_envelope c = Some v \<and>
           (helper_says v (pc_status c) \<or> (\<nexists>s. helper_says v s) \<and> pc_status c = ''invalid_reply'')))"
proof -
  obtain captured parsed where p: "capture_json_output lossy from_slice out ''sbpl-check'' HELPER_CAPTURE_BYTES = (captured, parsed)"
    by fastforce
  have l: "HELPER_CAPTURE_BYTES = 8 * 1024 * 1024" by (simp add: HELPER_CAPTURE_BYTES_def)
  have says: "unwrap_or (supported_outcome v) ''invalid_reply'' = s \<Longrightarrow>
      helper_says v s \<or> (\<nexists>s. helper_says v s) \<and> s = ''invalid_reply''" for v s
    by (cases "supported_outcome v") (auto simp: helper_says_def supported_outcome_Some [symmetric])
  note parts = capture_json_output_parts [OF p, unfolded l]
  have c: "pc_envelope c = parsed" "tool_exit_code c = unwrap_or (out_code out) 1"
    "pc_status c = (if is_some (stdout_capture_error captured) then ''capture_error''
       else if is_some (stdout_parse_error captured) then ''parse_error''
       else (case parsed of None \<Rightarrow> ''tool_error'' | Some env \<Rightarrow> unwrap_or (supported_outcome env) ''invalid_reply''))"
    using assms p by (auto simp: parse_policy_check_output_def Let_def)
  show ?thesis
  proof (cases "8 * 1024 * 1024 < length (out_stdout out) \<or> out_stdout out = []")
    case True
    with c parts(1, 2) show ?thesis by (auto simp: rust_simps split: option.splits)
  next
    case False
    with c parts(3) says show ?thesis by (cases "from_slice (out_stdout out)") (auto simp: rust_simps)
  qed
qed

lemma tool_confined:
  assumes "resolve_contents_macos_tool current_exe exists_file name = Inr p"
  shows "\<exists>exe dir. current_exe = Inr exe \<and> Option.bind (path_parent exe) path_parent = Some dir \<and>
    p = path_join (path_join dir ''MacOS'') name \<and> exists_file p \<and> (\<exists>n. path_components name = [Normal n])"
  using assms
  by (cases current_exe)
    (auto simp: resolve_contents_macos_tool_def contents_dir_def validate_tool_name_def map_err_def ok_or_def Let_def
      split: list.splits path_component.splits if_splits option.splits)

end
