(* ===== verification/Disposition.thy ===== *)
theory Disposition
  imports Json Requests "HOL-Library.Word"
begin

unbundle bit_operations_syntax

text \<open>
  The worker disposition record (controller/src/disposition.rs): its validation against the raw facts it
  cites and its projection. The source pushes issues onto a vector; here each check yields the list of
  its issues and the checks are appended in the source's order. A record is a JSON value; well-formed
  values (ascending keys) make the equality of objects the equality of values.
\<close>

section \<open>Issues and the worker's identity\<close>

definition integrity_issue :: "string \<Rightarrow> string \<Rightarrow> json" where
  "integrity_issue knd detail = JObj [(''detail'', JStr detail), (''kind'', JStr knd)]"

definition worker_pid :: "json option \<Rightarrow> int option" where
  "worker_pid result =
     option_filter (\<lambda>p. 0 < p)
       (Option.bind (Option.bind (Option.bind (Option.bind result (\<lambda>r. jget r ''runner_subprocess''))
          (\<lambda>s. jget s ''pid'')) as_i64) i32_of)"

section \<open>Vocabulary\<close>

definition DISPOSITION_CLAIM_STATES :: "string list" where
  "DISPOSITION_CLAIM_STATES = [''supported'', ''unresolved'', ''conflicting'', ''inapplicable'']"

definition DISPOSITION_RUN_QUESTIONS :: "string list" where
  "DISPOSITION_RUN_QUESTIONS = [''final_status'', ''stop_reason'', ''cleanup_trigger'', ''grace_end'',
     ''kill_request_and_result'', ''collection_basis'', ''progress_association'']"

definition DISPOSITION_STEP_QUESTIONS :: "string list" where
  "DISPOSITION_STEP_QUESTIONS = [''step_boundary_reached'', ''step_result_published'',
     ''step_requested_operation_applicability'']"

definition DISPOSITION_RUN_REFERENCES :: "string list" where
  "DISPOSITION_RUN_REFERENCES = [''reaped'', ''exit_code'', ''term_signal'', ''poll_stop_reason'', ''exit_requested'',
     ''termination_request'', ''wait_errors'', ''cleanup_trigger'', ''grace_end'', ''collection_basis'',
     ''done_observed'', ''progress'', ''worker_failure'', ''plan'']"

definition DISPOSITION_STEP_REFERENCES :: "string list" where
  "DISPOSITION_STEP_REFERENCES = [''slot'', ''attempt_support'']"

definition CAUSE_FOR_TRIGGER :: "(string \<times> string) list" where
  "CAUSE_FOR_TRIGGER = [(''deadline_expiry'', ''host_sentinel_deadline''), (''completion'', ''host_exit_grace_exhausted''),
     (''poll_wait_error'', ''host_cleanup_after_wait_error''),
     (''policy_transfer_error'', ''host_cleanup_after_transfer_error''),
     (''policy_transfer_timeout'', ''host_cleanup_after_transfer_timeout'')]"

definition present :: "json \<Rightarrow> string \<Rightarrow> bool" where
  "present v k = is_some_and (jget v k) (\<lambda>x. \<not> is_null x)"

definition reference_resolves :: "string \<Rightarrow> json \<Rightarrow> json option \<Rightarrow> bool" where
  "reference_resolves token sub step =
     (if token = ''slot'' \<or> token = ''attempt_support'' then is_some_and step (\<lambda>s. present s token)
      else if token = ''plan'' then True
      else if token = ''worker_failure'' then
        is_some_and (Option.bind (jget sub ''worker_evidence'') (\<lambda>e. jget e ''failure'')) is_object
      else if token = ''progress'' then
        is_some_and (Option.bind (jget sub ''worker_evidence'') (\<lambda>e. jget e ''progress'')) (\<lambda>v. \<not> is_null v)
      else if token = ''termination_request'' then present sub ''termination_request'' \<or> present sub ''exit_requested''
      else present sub token)"

definition same_termination_request :: "json \<Rightarrow> json \<Rightarrow> bool" where
  "same_termination_request a b =
     (is_object a \<and> is_object b \<and>
      list_all (\<lambda>k. is_some (as_i64 (jix a k)) \<and> jix a k = jix b k) [''signal'', ''rc''] \<and>
      jix a ''errno'' = jix b ''errno'')"

definition cites :: "json \<Rightarrow> string \<Rightarrow> bool" where
  "cites claim token =
     is_some_and (as_array (jix claim ''basis'')) (list_ex (\<lambda>v. as_str v = Some token))"

definition sufficient_disposition_basis :: "string \<Rightarrow> json \<Rightarrow> bool" where
  "sufficient_disposition_basis name claim =
     (let has = list_all (cites claim); answer = as_str (jix claim ''answer'') in
      if name = ''final_status'' \<and> answer = Some ''signal'' then has [''reaped'', ''term_signal'']
      else if name = ''final_status'' \<and> answer = Some ''exit_code'' then has [''reaped'', ''exit_code'']
      else if name = ''stop_reason'' then has [''poll_stop_reason'']
      else if name = ''cleanup_trigger'' \<or> name = ''grace_end'' then has [name, ''exit_requested'']
      else if name = ''collection_basis'' then has [''collection_basis'']
      else if name = ''kill_request_and_result'' \<and> answer = Some ''requested'' then has [''termination_request'']
      else if name = ''kill_request_and_result'' \<and> answer = Some ''none'' then has [''termination_request'', ''exit_requested'']
      else if name = ''progress_association'' \<and> answer \<in> {Some ''step_index'', Some ''invalid''} then has [''progress'', ''plan'']
      else if name = ''progress_association'' \<and> answer \<in> {Some ''none'', Some ''parameter_index''} then has [''progress'']
      else if name = ''step_requested_operation_applicability'' then has [''attempt_support'']
      else if name = ''step_boundary_reached'' \<and> answer = Some ''reached'' then has [''progress''] \<or> has [''slot'', ''attempt_support'']
      else if name = ''step_boundary_reached'' \<and> answer = Some ''not_reached'' then has [''progress'', ''slot'', ''collection_basis'']
      else if name = ''step_result_published'' \<and> answer = Some ''published'' then has [''slot'', ''attempt_support'']
      else if name = ''step_result_published'' \<and> answer = Some ''unpublished'' then has [''slot'', ''collection_basis'']
      else True)"

section \<open>Worker progress\<close>

definition PROTOCOL_ORDER :: "nat list" where
  "PROTOCOL_ORDER = [1, 12, 2, 3, 4, 5, 6, 7, 8, 13, 11, 9, 10]"

definition attempt_position :: nat where
  "attempt_position = the (position (\<lambda>v. v = 9) PROTOCOL_ORDER)"

type_synonym disposition_position = "nat \<times> nat \<times> nat"

text \<open>The packed progress word: operation, stage and index plus one.\<close>

definition progress_raw :: "nat \<Rightarrow> nat \<Rightarrow> nat option \<Rightarrow> nat" where
  "progress_raw op stage index =
     push_bit 24 op OR push_bit 20 stage OR (case index of None \<Rightarrow> 0 | Some i \<Rightarrow> i + 1)"

definition disposition_progress ::
    "json \<Rightarrow> nat \<Rightarrow> string option \<times> int option \<times> disposition_position option" where
  "disposition_progress sub n_steps =
     (let progress = jix (jix sub ''worker_evidence'') ''progress'';
          op = as_u64 (jix progress ''operation''); stage = as_u64 (jix progress ''stage'') in
      case (op, stage, position (\<lambda>v. Some v = op) PROTOCOL_ORDER) of
        (Some o1, Some s1, Some order) \<Rightarrow>
          if s1 \<noteq> 1 \<and> s1 \<noteq> 2 then (None, None, None)
          else
            let index = as_u64 (jix progress ''index'');
                phase_wait = ((o1 = 11 \<or> o1 = 13) \<and> is_some index);
                indexed = (o1 = 9 \<or> o1 = 4 \<or> phase_wait) in
            if (indexed \<and> is_none index) \<or> (\<not> indexed \<and> \<not> is_null (jix progress ''index'')) \<or>
               is_some_and index (\<lambda>i. 0xfffff \<le> i \<or> (o1 = 9 \<and> n_steps \<le> i) \<or> (phase_wait \<and> n_steps < i)) \<or>
               as_u64 (jix progress ''raw'') \<noteq> Some (progress_raw o1 s1 index)
            then (Some ''invalid'', None, None)
            else if phase_wait then (Some ''none'', None, Some (attempt_position, the index, 0))
            else
              (Some (if o1 = 9 then ''step_index'' else if o1 = 4 then ''parameter_index'' else ''none''),
               map_option int index,
               Some (order, unwrap_or index 0, s1))
      | _ \<Rightarrow> (None, None, None))"

definition disposition_summary :: "json \<Rightarrow> string" where
  "disposition_summary step =
     (let q = jix step ''questions'';
          supported = (\<lambda>name answer. str_eq (jix (jix q name) ''state'') ''supported'' \<and> str_eq (jix (jix q name) ''answer'') answer) in
      if str_eq (jix step ''attempt_support'') ''unsupported'' then ''unsupported''
      else if supported ''step_result_published'' ''published'' then ''completed''
      else if str_eq (jix (jix q ''step_boundary_reached'') ''state'') ''conflicting'' \<or>
              str_eq (jix (jix q ''step_result_published'') ''state'') ''conflicting'' then ''conflicting''
      else if supported ''step_result_published'' ''unpublished'' \<and> supported ''step_boundary_reached'' ''reached''
        then ''started_without_result''
      else if supported ''step_result_published'' ''unpublished'' \<and> supported ''step_boundary_reached'' ''not_reached''
        then ''not_reached''
      else ''unresolved'')"

section \<open>Validation\<close>

text \<open>One claim: \<open>step\<close> is the step's index and value for a step question.\<close>

type_synonym step_ref = "(nat \<times> json) option"

definition claim_where :: "string \<Rightarrow> step_ref \<Rightarrow> string" where
  "claim_where name step =
     (case step of Some (i, _) \<Rightarrow> ''step '' @ nat_digits i @ '' '' @ name | None \<Rightarrow> name)"

definition check_reference :: "string \<Rightarrow> json \<Rightarrow> step_ref \<Rightarrow> json \<Rightarrow> json list" where
  "check_reference at_name sub step value =
     (case as_str value of
        None \<Rightarrow> [integrity_issue ''invalid_claim'' (at_name @ '': reference is not a string'')]
      | Some token \<Rightarrow>
          if \<not> (token \<in> set DISPOSITION_RUN_REFERENCES \<or> is_some step \<and> token \<in> set DISPOSITION_STEP_REFERENCES) then
            [integrity_issue ''unresolved_reference'' (at_name @ '': unknown reference '' @ token)]
          else if \<not> reference_resolves token sub (map_option snd step) then
            [integrity_issue ''unresolved_reference'' (at_name @ '': '' @ token @ '' does not resolve'')]
          else [])"

definition check_supported :: "string \<Rightarrow> json \<Rightarrow> json \<Rightarrow> step_ref \<Rightarrow> json list" where
  "check_supported name claim sub step =
     (let at_name = claim_where name step in
      (if get_str claim ''answer'' = None then
         [integrity_issue ''invalid_claim'' (at_name @ '': supported claim without an answer'')] else []) @
      (case Option.bind (jget claim ''basis'') as_array of
         Some (b # bs) \<Rightarrow> concat (map (check_reference at_name sub step) (b # bs))
       | _ \<Rightarrow> [integrity_issue ''invalid_claim'' (at_name @ '': supported claim without basis'')]) @
      (if \<not> sufficient_disposition_basis name claim then
         [integrity_issue ''invalid_claim'' (at_name @ '': insufficient witness references'')] else []))"

definition conflict_matches :: "string \<Rightarrow> json list \<Rightarrow> json \<Rightarrow> json \<Rightarrow> step_ref \<Rightarrow> bool" where
  "conflict_matches name record_issues claim sub step =
     is_some_and (Option.bind (get_u64 claim ''issue'') (nth_opt record_issues)) (\<lambda>issue.
       get_str issue ''question'' = Some name \<and>
       get_u64 issue ''step_index'' = map_option fst step \<and>
       str_eq (jix issue ''kind'') ''conflict'' \<and>
       str_eq (jix issue ''rule'') (if name = ''final_status'' then ''D1'' else ''D5'') \<and>
       name \<in> {''final_status'', ''step_boundary_reached'', ''step_result_published''} \<and>
       is_some_and (as_array (jix issue ''observations'')) (\<lambda>obs.
         list_all (\<lambda>t. list_ex (\<lambda>v. as_str v = Some t) obs)
           (if name = ''final_status'' then [''exit_code'', ''term_signal''] else [''progress'', ''slot'', ''collection_basis'']) \<and>
         list_all (\<lambda>v. is_some_and (as_str v) (\<lambda>t. reference_resolves t sub (map_option snd step))) obs))"

definition check_claim :: "json list \<Rightarrow> json \<Rightarrow> string \<Rightarrow> json \<Rightarrow> step_ref \<Rightarrow> json list" where
  "check_claim record_issues sub name claim step =
     (let at_name = claim_where name step in
      case get_str claim ''state'' of
        None \<Rightarrow> [integrity_issue ''malformed_record'' (at_name @ '': claim without a state'')]
      | Some st \<Rightarrow>
          if st \<notin> set DISPOSITION_CLAIM_STATES then
            [integrity_issue ''invalid_claim'' (at_name @ '': unknown claim state '' @ st)]
          else if st = ''supported'' then check_supported name claim sub step
          else if st = ''conflicting'' then
            (if \<not> conflict_matches name record_issues claim sub step then
               [integrity_issue ''invalid_claim'' (at_name @ '': conflicting claim without a matching issue'')] else [])
          else if get_str claim ''reason'' = None then
            [integrity_issue ''invalid_claim'' (at_name @ '': '' @ st @ '' claim without a reason'')]
          else [])"

definition run_question_issues :: "json list \<Rightarrow> json \<Rightarrow> json_map \<Rightarrow> json list" where
  "run_question_issues record_issues sub questions =
     concat (map (\<lambda>name. case obj_get questions name of
         Some claim \<Rightarrow> check_claim record_issues sub name claim None
       | None \<Rightarrow> [integrity_issue ''malformed_record'' (''questions lacks '' @ name)]) DISPOSITION_RUN_QUESTIONS)"

definition is_reaped :: "json \<Rightarrow> bool" where
  "is_reaped sub = (Option.bind (jget sub ''reaped'') as_bool = Some True)"

definition cleanup_claim_issues :: "json \<Rightarrow> json_map \<Rightarrow> json list" where
  "cleanup_claim_issues sub questions =
     (if get_str sub ''collection_basis'' = Some ''after_confirmed_reap'' \<and> \<not> is_reaped sub then
        [integrity_issue ''invalid_claim'' ''collection_basis: terminal collection without a confirmed reap''] else []) @
     concat (map (\<lambda>name.
       if is_some_and (obj_get questions name) (\<lambda>q. str_eq (jix q ''state'') ''supported'') \<and> jix sub ''exit_requested'' = JBool False
       then [integrity_issue ''invalid_claim'' (name @ '': cleanup claim when exit was not requested'')] else [])
       [''cleanup_trigger'', ''grace_end'', ''kill_request_and_result''])"

definition final_status_contradiction :: "json \<Rightarrow> json \<Rightarrow> bool" where
  "final_status_contradiction sub claim =
     (let st = get_str claim ''state''; answer = get_str claim ''answer''; value = get_i64 claim ''value'';
          signal = get_i64 sub ''term_signal''; exit = get_i64 sub ''exit_code'' in
      if st = Some ''supported'' \<and> answer = Some ''signal'' then
        \<not> is_reaped sub \<or> signal = None \<or> exit \<noteq> None \<or> value \<noteq> signal
      else if st = Some ''supported'' \<and> answer = Some ''exit_code'' then
        \<not> is_reaped sub \<or> exit = None \<or> signal \<noteq> None \<or> value \<noteq> exit
      else if st = Some ''conflicting'' then \<not> is_reaped sub \<or> exit = None \<or> signal = None
      else False)"

definition final_status_issues :: "json \<Rightarrow> json_map \<Rightarrow> json list" where
  "final_status_issues sub questions =
     (if is_some_and (obj_get questions ''final_status'') (final_status_contradiction sub) then
        [integrity_issue ''invalid_claim'' ''final_status: claim contradicts reaped status''] else [])"

definition HOST_FACTS :: "(string \<times> string) list" where
  "HOST_FACTS = [(''stop_reason'', ''poll_stop_reason''), (''cleanup_trigger'', ''cleanup_trigger''),
     (''grace_end'', ''grace_end''), (''collection_basis'', ''collection_basis'')]"

definition host_fact_issues :: "json \<Rightarrow> json_map \<Rightarrow> json list" where
  "host_fact_issues sub questions =
     concat (map (\<lambda>(name, key).
       if is_some_and (obj_get questions name) (\<lambda>claim.
            get_str claim ''state'' = Some ''supported'' \<and> get_str claim ''answer'' \<noteq> get_str sub key)
       then [integrity_issue ''invalid_claim'' (name @ '': claim contradicts the recorded host fact'')] else []) HOST_FACTS)"

definition kill_issues :: "json \<Rightarrow> json_map \<Rightarrow> json list" where
  "kill_issues sub questions =
     (case obj_get questions ''kill_request_and_result'' of
        None \<Rightarrow> []
      | Some kill \<Rightarrow>
          if get_str kill ''state'' = Some ''supported'' then
            let request = is_some_and (jget sub ''termination_request'') is_object; answer = get_str kill ''answer'' in
            if answer = Some ''requested'' \<and>
               (\<not> request \<or> \<not> same_termination_request (jix kill ''value'') (jix sub ''termination_request'')) then
              [integrity_issue ''invalid_claim'' ''kill_request_and_result: value differs from termination_request'']
            else if answer = Some ''none'' \<and> request then
              [integrity_issue ''invalid_claim'' ''kill_request_and_result: no-request claim beside a termination_request'']
            else []
          else [])"

definition terminal_collection :: "json \<Rightarrow> bool" where
  "terminal_collection sub = (get_str sub ''collection_basis'' = Some ''after_confirmed_reap'' \<and> is_reaped sub)"

definition plan_issues :: "json \<Rightarrow> json_map \<Rightarrow> json list \<Rightarrow> json list \<Rightarrow> json list" where
  "plan_issues sub questions steps reply_steps =
     (if length steps \<noteq> length reply_steps then
        [integrity_issue ''invalid_claim'' (''disposition steps ('' @ nat_digits (length steps)
           @ '') disagree with reply steps ('' @ nat_digits (length reply_steps) @ '')'')] else []) @
     (case disposition_progress sub (length steps) of (association, ix, _) \<Rightarrow>
        if is_some_and (obj_get questions ''progress_association'') (\<lambda>claim.
             str_eq (jix claim ''state'') ''supported'' \<and>
             as_str (jix claim ''answer'') \<in> {Some ''none'', Some ''invalid'', Some ''step_index'', Some ''parameter_index''} \<and>
             (as_str (jix claim ''answer'') \<noteq> association \<or> as_i64 (jix claim ''value'') \<noteq> ix))
        then [integrity_issue ''invalid_claim'' ''progress_association: claim disagrees with progress identity''] else []) @
     (if as_bool (jix sub ''partial_steps'') \<noteq> Some (list_ex (\<lambda>s. \<not> str_eq (jix s ''slot'') ''completed'') steps) then
        [integrity_issue ''invalid_claim'' ''partial_steps disagrees with record slots''] else [])"

subsection \<open>One step\<close>

text \<open>What the loop reads of a step: slot, support, how far the worker got, and the two conflicts.\<close>

record step_facts =
  sf_slot :: "string option"
  sf_supported :: bool
  sf_reached :: bool
  sf_returned :: bool
  sf_position :: "disposition_position option"
  sf_terminal :: bool

definition step_facts_of :: "bool \<Rightarrow> disposition_position option \<Rightarrow> nat \<Rightarrow> json \<Rightarrow> step_facts" where
  "step_facts_of terminal pos i step =
     \<lparr>sf_slot = get_str step ''slot'', sf_supported = str_eq (jix step ''attempt_support'') ''supported'',
      sf_reached = is_some_and pos (\<lambda>p. (attempt_position, i, 1) \<le> p),
      sf_returned = is_some_and pos (\<lambda>p. (attempt_position, i, 2) \<le> p),
      sf_position = pos, sf_terminal = terminal\<rparr>"

definition boundary_conflict :: "step_facts \<Rightarrow> bool" where
  "boundary_conflict f =
     (sf_terminal f \<and> is_some (sf_position f) \<and> \<not> sf_reached f \<and> sf_slot f = Some ''completed'')"

definition result_conflict :: "step_facts \<Rightarrow> bool" where
  "result_conflict f = (sf_terminal f \<and> sf_returned f \<and> sf_slot f = Some ''incomplete'' \<and> sf_supported f)"

definition step_at :: "nat \<Rightarrow> string" where "step_at i = ''step '' @ nat_digits i"

definition step_shape_issues :: "nat \<Rightarrow> json \<Rightarrow> json option \<Rightarrow> json list" where
  "step_shape_issues i step reply =
     (if get_u64 step ''index'' \<noteq> Some i then
        [integrity_issue ''malformed_record'' (step_at i @ '' carries the wrong index'')] else []) @
     (if is_some_and reply (\<lambda>r. jget step ''step_id'' \<noteq> jget r ''step_id'') then
        [integrity_issue ''invalid_claim'' (step_at i @ '': step_id disagrees with the reply'')] else []) @
     (if get_str step ''slot'' \<notin> {Some ''completed'', Some ''incomplete'', Some ''absent''} then
        [integrity_issue ''malformed_record'' (step_at i @ '': unknown slot state'')] else []) @
     (if get_str step ''attempt_support'' \<notin> {Some ''supported'', Some ''unsupported''} then
        [integrity_issue ''malformed_record'' (step_at i @ '': unknown attempt support'')] else [])"

definition step_question_issues :: "json list \<Rightarrow> json \<Rightarrow> nat \<Rightarrow> json \<Rightarrow> json_map \<Rightarrow> json list" where
  "step_question_issues record_issues sub i step claims =
     concat (map (\<lambda>name. case obj_get claims name of
         Some claim \<Rightarrow> check_claim record_issues sub name claim (Some (i, step))
       | None \<Rightarrow> [integrity_issue ''malformed_record'' (step_at i @ '' lacks question '' @ name)])
       DISPOSITION_STEP_QUESTIONS)"

definition applicability_issues :: "nat \<Rightarrow> json \<Rightarrow> json_map \<Rightarrow> json list" where
  "applicability_issues i step claims =
     (if is_some_and (obj_get claims ''step_requested_operation_applicability'') (\<lambda>a.
           str_eq (jix a ''state'') ''supported'' \<and>
           as_str (jix a ''answer'') \<in> {Some ''supported'', Some ''unsupported''} \<and>
           jix a ''answer'' \<noteq> jix step ''attempt_support'')
      then [integrity_issue ''invalid_claim'' (step_at i @ '': applicability disagrees with attempt support'')] else [])"

definition result_claim_issues :: "nat \<Rightarrow> step_facts \<Rightarrow> json_map \<Rightarrow> json list" where
  "result_claim_issues i f claims =
     (case obj_get claims ''step_result_published'' of
        None \<Rightarrow> []
      | Some result \<Rightarrow>
          if get_str result ''state'' = Some ''supported'' then
            if get_str result ''answer'' = Some ''published'' \<and> (sf_slot f \<noteq> Some ''completed'' \<or> \<not> sf_supported f) then
              [integrity_issue ''invalid_claim'' (step_at i @ '': published claim on a slot that is not completed'')]
            else if get_str result ''answer'' = Some ''unpublished'' \<and>
                (sf_slot f \<noteq> Some ''incomplete'' \<or> \<not> sf_terminal f \<or> \<not> sf_supported f \<or> result_conflict f) then
              [integrity_issue ''invalid_claim'' (step_at i @ '': unpublished claim needs an incomplete slot under terminal collection'')]
            else []
          else [])"

definition boundary_claim_issues :: "nat \<Rightarrow> step_facts \<Rightarrow> json_map \<Rightarrow> json list" where
  "boundary_claim_issues i f claims =
     (case obj_get claims ''step_boundary_reached'' of
        None \<Rightarrow> []
      | Some boundary \<Rightarrow>
          let progress_witness = (sf_reached f \<and> cites boundary ''progress'');
              slot_witness = (sf_slot f = Some ''completed'' \<and> sf_supported f \<and> cites boundary ''slot'' \<and> cites boundary ''attempt_support'') in
          (if get_str boundary ''state'' = Some ''supported'' \<and> get_str boundary ''answer'' = Some ''not_reached'' \<and>
              (\<not> sf_terminal f \<or> sf_slot f = Some ''completed'' \<or> is_none (sf_position f) \<or> sf_reached f) then
             [integrity_issue ''invalid_claim'' (step_at i @ '': not_reached claim needs terminal collection and no completed slot'')] else []) @
          (if str_eq (jix boundary ''state'') ''supported'' \<and> str_eq (jix boundary ''answer'') ''reached'' \<and>
              (boundary_conflict f \<or> \<not> (progress_witness \<or> slot_witness)) then
             [integrity_issue ''invalid_claim'' (step_at i @ '': reached claim lacks an unopposed boundary witness'')] else []))"

definition conflict_claim_issues :: "nat \<Rightarrow> step_facts \<Rightarrow> json_map \<Rightarrow> json list" where
  "conflict_claim_issues i f claims =
     concat (map (\<lambda>(name, conflict).
       if is_some_and (obj_get claims name) (\<lambda>q. str_eq (jix q ''state'') ''conflicting'') \<and> \<not> conflict
       then [integrity_issue ''invalid_claim'' (step_at i @ '' '' @ name @ '': conflict without incompatible observations'')] else [])
       [(''step_boundary_reached'', boundary_conflict f), (''step_result_published'', result_conflict f)])"

definition actor_transfer_status :: "string \<Rightarrow> bool" where
  "actor_transfer_status st =
     (st \<in> {''none'', ''delivered'', ''custody_unavailable'', ''recipient_rejected'', ''recipient_timeout'',
        ''recipient_unavailable'', ''request_invalid'', ''host_timeout'', ''clock_fault'', ''copy_mismatch''})"

definition native_publication_valid :: "json \<Rightarrow> bool \<Rightarrow> bool" where
  "native_publication_valid reply completed =
     (let native = get_i64 reply ''native_result'' in
      if str_eq (jix reply ''operation'') ''transfer'' then
        jix reply ''call_boundary_observed'' = JBool False \<and> native = None \<and> is_null (jix reply ''errno'') \<and>
        is_null (jix reply ''unavailable_reason'') \<and>
        (if completed then actor_transfer_status (unwrap_or (as_str (jix reply ''status'')) [])
         else str_eq (jix reply ''status'') ''unresolved'')
      else if as_str (jix reply ''status'') = Some ''returned'' then
        completed \<and> jix reply ''call_boundary_observed'' = JBool True \<and> native \<noteq> None \<and>
        as_i64 (jix reply ''errno'') \<noteq> None \<and> is_null (jix reply ''unavailable_reason'')
      else if as_str (jix reply ''status'') = Some ''unavailable'' then
        completed \<and> jix reply ''call_boundary_observed'' = JBool False \<and> native = None \<and>
        is_null (jix reply ''errno'') \<and> is_string (jix reply ''unavailable_reason'')
      else if as_str (jix reply ''status'') = Some ''unresolved'' then
        \<not> completed \<and> native = None \<and> is_null (jix reply ''errno'') \<and> is_null (jix reply ''unavailable_reason'')
      else False)"

definition LIFECYCLE_LIMITATIONS :: "string list" where
  "LIFECYCLE_LIMITATIONS = [''attempt:lifecycle_unresolved'', ''attempt:lifecycle_conflicting'', ''attempt:unsupported'',
     ''attempt:not_reached'', ''attempt:started_without_result'']"

definition expected_limitation :: "string \<Rightarrow> string option" where
  "expected_limitation summary =
     (if summary = ''completed'' then None
      else if summary = ''unresolved'' then Some ''attempt:lifecycle_unresolved''
      else if summary = ''conflicting'' then Some ''attempt:lifecycle_conflicting''
      else if summary = ''unsupported'' then Some ''attempt:unsupported''
      else if summary = ''not_reached'' then Some ''attempt:not_reached''
      else Some ''attempt:started_without_result'')"

definition reply_step_issues :: "bool \<Rightarrow> nat \<Rightarrow> step_facts \<Rightarrow> json \<Rightarrow> json \<Rightarrow> json list" where
  "reply_step_issues reporting_failed i f step reply =
     (let is_event = is_some (jget reply ''operation'');
          attempt = jix reply ''attempt'';
          completed = (sf_supported f \<and> sf_slot f = Some ''completed'');
          reason = (if completed then None else if \<not> sf_supported f then Some ''attempt_not_supported''
             else if sf_slot f = Some ''absent'' then Some ''slot_absent'' else Some ''slot_incomplete'');
          lifecycle = (if is_event then jix reply ''lifecycle'' else jix attempt ''lifecycle'');
          summary = disposition_summary step;
          limits = filter (\<lambda>l. l \<in> set LIFECYCLE_LIMITATIONS)
             (filter_map as_str (jarray (jix (jix reply ''comparison'') ''limitations''))) in
      (if (is_event \<and> as_bool (jix reply ''result_published'') \<noteq> Some completed) \<or>
          (\<not> is_event \<and> (\<not> str_eq (jix attempt ''result_source'') (if completed then ''worker'' else ''synthetic'') \<or>
             as_str (jix attempt ''missing_reason'') \<noteq> reason)) then
         [integrity_issue ''invalid_claim'' (step_at i @ '': compatibility projections disagree with record'')] else []) @
      (if is_event \<and> \<not> native_publication_valid reply completed then
         [integrity_issue ''invalid_claim'' (step_at i @ '': native lifecycle publication is inconsistent'')] else []) @
      (if jix lifecycle ''boundary'' \<noteq> jix (jix step ''questions'') ''step_boundary_reached'' \<or>
          jix lifecycle ''result'' \<noteq> jix (jix step ''questions'') ''step_result_published'' then
         [integrity_issue ''invalid_claim'' (step_at i @ '': lifecycle copies disagree with record'')] else []) @
      (case as_str (jix lifecycle ''summary'') of
         None \<Rightarrow> [integrity_issue ''invalid_claim'' (step_at i @ '': missing lifecycle summary'')]
       | Some sm \<Rightarrow>
           if sm \<in> {''completed'', ''started_without_result'', ''not_reached'', ''unsupported'', ''unresolved'', ''conflicting''} \<and>
              sm \<noteq> summary then
             [integrity_issue ''invalid_claim'' (step_at i @ '': lifecycle summary disagrees with record'')] else []) @
      (if \<not> is_event \<and> \<not> (reporting_failed \<and> is_null (jix reply ''comparison'')) \<and>
          limits \<noteq> (case expected_limitation summary of None \<Rightarrow> [] | Some l \<Rightarrow> [l]) then
         [integrity_issue ''invalid_claim'' (step_at i @ '': lifecycle limitations disagree with record'')] else []))"

definition step_issues ::
    "json list \<Rightarrow> json \<Rightarrow> bool \<Rightarrow> disposition_position option \<Rightarrow> json list \<Rightarrow> nat \<Rightarrow> json \<Rightarrow> json list" where
  "step_issues record_issues sub reporting_failed pos reply_steps i step =
     (let reply = nth_opt reply_steps i; f = step_facts_of (terminal_collection sub) pos i step in
      step_shape_issues i step reply @
      (case Option.bind (jget step ''questions'') as_object of
         None \<Rightarrow> [integrity_issue ''malformed_record'' (step_at i @ '': questions is not an object'')]
       | Some claims \<Rightarrow>
           step_question_issues record_issues sub i step claims @ applicability_issues i step claims @
           result_claim_issues i f claims @ boundary_claim_issues i f claims @ conflict_claim_issues i f claims @
           (case reply of None \<Rightarrow> [] | Some r \<Rightarrow> reply_step_issues reporting_failed i f step r)))"

definition unreferenced_issues :: "json list \<Rightarrow> json_map \<Rightarrow> json list \<Rightarrow> json list" where
  "unreferenced_issues record_issues questions steps =
     (let claims = map snd questions @
        concat (map (\<lambda>s. case as_object (jix s ''questions'') of Some q \<Rightarrow> map snd q | None \<Rightarrow> []) steps) in
      concat (map (\<lambda>k. if list_ex (\<lambda>c. str_eq (jix c ''state'') ''conflicting'' \<and> as_u64 (jix c ''issue'') = Some k) claims
         then [] else [integrity_issue ''invalid_claim'' (''issue '' @ nat_digits k @ '' is unreferenced'')])
        [0..<length record_issues]))"

text \<open>The whole record, with the two early returns of the source.\<close>

definition validate_disposition :: "json \<Rightarrow> json \<Rightarrow> json list \<Rightarrow> bool \<Rightarrow> json list" where
  "validate_disposition record sub reply_steps reporting_failed =
     (case Option.bind (jget record ''questions'') as_object of
        None \<Rightarrow> [integrity_issue ''malformed_record'' ''questions is not an object'']
      | Some questions \<Rightarrow>
          let record_issues = unwrap_or (Option.bind (jget record ''issues'') as_array) [];
              run_issues =
                (if is_none_or (jget record ''issues'') (\<lambda>v. \<not> is_array v) then
                   [integrity_issue ''malformed_record'' ''issues is not an array''] else []) @
                run_question_issues record_issues sub questions @ cleanup_claim_issues sub questions @
                final_status_issues sub questions @ host_fact_issues sub questions @ kill_issues sub questions in
          case Option.bind (jget record ''steps'') as_array of
            None \<Rightarrow> run_issues @ [integrity_issue ''malformed_record'' ''steps is not an array'']
          | Some steps \<Rightarrow>
              let pos = snd (snd (disposition_progress sub (length steps))) in
              run_issues @ plan_issues sub questions steps reply_steps @
              concat (map (\<lambda>(i, step). step_issues record_issues sub reporting_failed pos reply_steps i step) (enumerate 0 steps)) @
              unreferenced_issues record_issues questions steps)"

section \<open>Projection\<close>

record disposition_projection =
  disposition :: string
  cause :: "string option"
  dp_stop_reason :: "string option"
  integrity :: "string option"
  dp_issues :: "json list"

definition withheld :: "json list \<Rightarrow> disposition_projection" where
  "withheld issues = \<lparr>disposition = ''withheld'', cause = Some ''unknown'', dp_stop_reason = None,
     integrity = Some ''invalid'', dp_issues = issues\<rparr>"

definition STOP_REASONS :: "string list" where
  "STOP_REASONS = [''sentinel_deadline'', ''done'', ''child_reaped'', ''wait_error'', ''policy_write_error'',
     ''policy_transfer_deadline'']"

definition final_disposition :: "json \<Rightarrow> string \<times> json list" where
  "final_disposition claim =
     (let st = get_str claim ''state''; answer = get_str claim ''answer'' in
      if st = Some ''supported'' \<and> answer = Some ''signal'' then (''signaled'', [])
      else if st = Some ''supported'' \<and> answer = Some ''exit_code'' then
        (if get_i64 claim ''value'' = Some 0 then ''clean_exit'' else ''nonzero_exit'', [])
      else if st = Some ''supported'' \<and> is_some answer then
        (''unrecognized'', [integrity_issue ''unrecognized_value'' (''final_status: unrecognized answer '' @ the answer)])
      else if st = Some ''conflicting'' then (''conflicting'', [])
      else if st = Some ''unresolved'' \<or> st = Some ''inapplicable'' then (''unconfirmed'', [])
      else (''unrecognized'', []))"

definition termination_cause :: "json \<Rightarrow> string \<Rightarrow> string option" where
  "termination_cause questions disp =
     (let claim = jix questions; kill = claim ''kill_request_and_result'';
          requested = (\<lambda>k. Option.bind (Option.bind (jget kill ''value'') (\<lambda>v. jget v k)) as_i64) in
      if disp = ''signaled'' \<and>
         get_str (claim ''cleanup_trigger'') ''state'' = Some ''supported'' \<and>
         get_str (claim ''grace_end'') ''state'' = Some ''supported'' \<and>
         get_str (claim ''grace_end'') ''answer'' = Some ''exhausted'' \<and>
         get_str kill ''state'' = Some ''supported'' \<and> get_str kill ''answer'' = Some ''requested'' \<and>
         requested ''rc'' = Some 0 \<and> requested ''signal'' = get_i64 (claim ''final_status'') ''value'' then
        (case get_str (claim ''cleanup_trigger'') ''answer'' of
           None \<Rightarrow> Some ''unknown''
         | Some t \<Rightarrow> Some (unwrap_or (map_of CAUSE_FOR_TRIGGER t) ''unknown''))
      else if disp = ''clean_exit'' then None else Some ''unknown'')"

definition project_disposition :: "json \<Rightarrow> json list \<Rightarrow> bool \<Rightarrow> disposition_projection" where
  "project_disposition sub reply_steps reporting_failed =
     (case option_filter (\<lambda>r. \<not> is_null r) (jget sub ''disposition'') of
        None \<Rightarrow> withheld [integrity_issue ''missing_record'' ''a worker subprocess requires a disposition record'']
      | Some record \<Rightarrow>
          let issues = validate_disposition record sub reply_steps reporting_failed in
          if list_ex (\<lambda>i. get_str i ''kind'' \<noteq> Some ''unrecognized_value'') issues then withheld issues
          else
            let questions = jix record ''questions'';
                (disp, extra) = final_disposition (jix questions ''final_status'');
                stop = jix questions ''stop_reason'' in
            \<lparr>disposition = disp, cause = termination_cause questions disp,
             dp_stop_reason = (if get_str stop ''state'' = Some ''supported''
               then option_filter (\<lambda>s. s \<in> set STOP_REASONS) (get_str stop ''answer'') else None),
             integrity = Some ''valid'',
             dp_issues = issues @ extra @ unwrap_or (Option.bind (jget record ''issues'') as_array) []\<rparr>)"

section \<open>Properties\<close>

subsection \<open>The packed progress word\<close>

lemma progress_raw_fields:
  assumes "op < 16" and "stage < 16" and "is_none_or ix (\<lambda>i. i < 0xfffff)"
  shows "drop_bit 24 (progress_raw op stage ix) = op"
    "take_bit 4 (drop_bit 20 (progress_raw op stage ix)) = stage"
    "take_bit 20 (progress_raw op stage ix) = (case ix of None \<Rightarrow> 0 | Some i \<Rightarrow> i + 1)"
proof -
  define j where "j = (case ix of None \<Rightarrow> 0 | Some i \<Rightarrow> i + 1)"
  have j: "j < 2 ^ 20" using assms(3) by (cases ix) (simp_all add: j_def)
  then have j0: "drop_bit 20 j = 0" "drop_bit 24 j = 0" "take_bit 20 j = j"
    by (simp_all add: drop_bit_eq_div take_bit_eq_mod)
  have s0: "drop_bit 4 stage = 0" "take_bit 4 stage = stage"
    using assms(2) by (simp_all add: drop_bit_eq_div take_bit_eq_mod)
  have sh: "drop_bit 24 (push_bit 20 stage) = drop_bit 4 stage" "drop_bit 20 (push_bit 24 op) = push_bit 4 op"
    "drop_bit 24 (push_bit 24 op) = op" "drop_bit 20 (push_bit 20 stage) = stage"
    by (simp_all add: bit_eq_iff bit_simps)
  show "drop_bit 24 (progress_raw op stage ix) = op"
    by (simp add: progress_raw_def j_def [symmetric] drop_bit_or sh s0 j0)
  show "take_bit 4 (drop_bit 20 (progress_raw op stage ix)) = stage"
    by (simp add: progress_raw_def j_def [symmetric] drop_bit_or take_bit_or sh s0 j0 take_bit_push_bit)
  show "take_bit 20 (progress_raw op stage ix) = (case ix of None \<Rightarrow> 0 | Some i \<Rightarrow> i + 1)"
    by (simp add: progress_raw_def j_def [symmetric] take_bit_or take_bit_push_bit j0)
qed

text \<open>
  the worker's packed progress word has one reading. For the operation numbers and indexes the
  protocol admits, equal words come from equal operation, stage and index, so a record whose decoded
  fields match its raw word names one position of the protocol.
\<close>

theorem progress_raw_unambiguous:
  assumes "op < 16" and "stage < 16" and "is_none_or ix (\<lambda>i. i < 0xfffff)"
    and "op' < 16" and "stage' < 16" and "is_none_or ix' (\<lambda>i. i < 0xfffff)"
    and "progress_raw op stage ix = progress_raw op' stage' ix'"
  shows "op = op' \<and> stage = stage' \<and> ix = ix'"
proof -
  note a = progress_raw_fields [OF assms(1-3)] and b = progress_raw_fields [OF assms(4-6)]
  have "(case ix of None \<Rightarrow> 0 | Some i \<Rightarrow> i + 1) = (case ix' of None \<Rightarrow> 0 | Some i \<Rightarrow> i + 1)"
    using a(3) b(3) assms(7) by simp
  then have "ix = ix'" by (cases ix; cases ix') simp_all
  with a b assms(7) show ?thesis by metis
qed

theorem progress_raw_unambiguous_witness:
  "progress_raw 9 1 (Some 2) = 0x9100003 \<and> progress_raw 9 1 (Some 2) \<noteq> progress_raw 9 2 (Some 1)"
proof
  show "progress_raw 9 1 (Some 2) = 0x9100003" by (simp add: progress_raw_def push_bit_eq_mult)
  show "progress_raw 9 1 (Some 2) \<noteq> progress_raw 9 2 (Some 1)"
    using progress_raw_unambiguous [of 9 1 "Some 2" 9 2 "Some 1"] by auto
qed

subsection \<open>Grounding\<close>

lemma integrity_issue_kind [simp]: "get_str (integrity_issue k d) ''kind'' = Some k"
  by (simp add: get_str_def integrity_issue_def)

lemma valid_record_parts:
  assumes "\<not> list_ex (\<lambda>i. get_str i ''kind'' \<noteq> Some ''unrecognized_value'') (validate_disposition rec sub rs rf)"
  obtains questions where "jget rec ''questions'' = Some (JObj questions)"
    "final_status_issues sub questions = []" "host_fact_issues sub questions = []" "kill_issues sub questions = []"
proof (cases "Option.bind (jget rec ''questions'') as_object")
  case None
  with assms show ?thesis by (simp add: validate_disposition_def)
next
  case (Some questions)
  let ?parts = "set (final_status_issues sub questions) \<union> set (host_fact_issues sub questions) \<union> set (kill_issues sub questions)"
  have "?parts \<subseteq> set (validate_disposition rec sub rs rf)"
    using Some by (auto simp: validate_disposition_def Let_def split: option.splits)
  with assms have kinds: "\<forall>i \<in> ?parts. get_str i ''kind'' = Some ''unrecognized_value''"
    by (auto simp: list_ex_iff)
  have "final_status_issues sub questions = []"
    using kinds by (auto simp: final_status_issues_def split: if_splits)
  moreover have "host_fact_issues sub questions = []"
    using kinds by (auto simp: host_fact_issues_def HOST_FACTS_def split: if_splits)
  moreover have "kill_issues sub questions = []"
  proof (rule ccontr)
    assume "kill_issues sub questions \<noteq> []"
    then obtain i where "i \<in> set (kill_issues sub questions)" "get_str i ''kind'' = Some ''invalid_claim''"
      by (auto simp: kill_issues_def Let_def split: option.splits if_splits)
    with kinds show False by simp
  qed
  moreover from Some have "jget rec ''questions'' = Some (JObj questions)" by (auto simp: bind_eq_Some_conv)
  ultimately show ?thesis using that by blast
qed

lemma jix_object: "jix (JObj m) k = unwrap_or (obj_get m k) JNull"
  by (simp add: jix_def)

lemma final_status_grounded:
  assumes "final_status_issues sub questions = []"
    and "final_disposition (jix (JObj questions) ''final_status'') = (d, extra)"
  shows "(d = ''signaled'' \<longrightarrow> is_reaped sub \<and> get_i64 sub ''exit_code'' = None \<and>
       get_i64 sub ''term_signal'' \<noteq> None \<and>
       get_i64 sub ''term_signal'' = get_i64 (jix (JObj questions) ''final_status'') ''value'') \<and>
    (d = ''clean_exit'' \<longrightarrow> is_reaped sub \<and> get_i64 sub ''exit_code'' = Some 0 \<and> get_i64 sub ''term_signal'' = None) \<and>
    (d = ''nonzero_exit'' \<longrightarrow> is_reaped sub \<and> get_i64 sub ''exit_code'' \<notin> {None, Some 0} \<and> get_i64 sub ''term_signal'' = None) \<and>
    (d = ''conflicting'' \<longrightarrow> is_reaped sub \<and> get_i64 sub ''exit_code'' \<noteq> None \<and> get_i64 sub ''term_signal'' \<noteq> None)"
proof (cases "obj_get questions ''final_status''")
  case None
  with assms(2) show ?thesis
    by (auto simp: final_disposition_def jix_object Let_def get_str_def split: if_splits)
next
  case (Some claim)
  with assms(1) have n: "\<not> final_status_contradiction sub claim"
    by (auto simp: final_status_issues_def split: if_splits)
  from Some have j: "jix (JObj questions) ''final_status'' = claim" by (simp add: jix_object)
  show ?thesis
    using n assms(2) unfolding j
    by (auto simp: final_status_contradiction_def final_disposition_def Let_def split: if_splits)
qed

lemma host_fact_grounded:
  assumes "host_fact_issues sub questions = []" and "(name, key) \<in> set HOST_FACTS"
    and "get_str (jix (JObj questions) name) ''state'' = Some ''supported''"
  shows "get_str (jix (JObj questions) name) ''answer'' = get_str sub key"
proof (cases "obj_get questions name")
  case None
  with assms(3) show ?thesis by (simp add: jix_object get_str_def)
next
  case (Some claim)
  then have j: "jix (JObj questions) name = claim" by (simp add: jix_object)
  have "\<not> is_some_and (obj_get questions name) (\<lambda>claim.
       get_str claim ''state'' = Some ''supported'' \<and> get_str claim ''answer'' \<noteq> get_str sub key)"
    using assms(1, 2) by (fastforce simp: host_fact_issues_def split: if_splits)
  with Some j assms(3) show ?thesis by simp
qed

lemma kill_grounded:
  assumes "kill_issues sub questions = []"
    and "get_str (jix (JObj questions) ''kill_request_and_result'') ''state'' = Some ''supported''"
    and "get_str (jix (JObj questions) ''kill_request_and_result'') ''answer'' = Some ''requested''"
  shows "same_termination_request (jix (jix (JObj questions) ''kill_request_and_result'') ''value'') (jix sub ''termination_request'')"
proof (cases "obj_get questions ''kill_request_and_result''")
  case None
  with assms(2) show ?thesis by (simp add: jix_object get_str_def)
next
  case (Some kill)
  then have "jix (JObj questions) ''kill_request_and_result'' = kill" by (simp add: jix_object)
  with Some assms show ?thesis by (auto simp: kill_issues_def Let_def split: if_splits)
qed

text \<open>The recorded facts a host-attributed termination cause stands on.\<close>

definition host_killed :: "json \<Rightarrow> string \<Rightarrow> bool" where
  "host_killed sub c =
     (get_str sub ''grace_end'' = Some ''exhausted'' \<and>
      is_some_and (get_str sub ''cleanup_trigger'') (\<lambda>t. map_of CAUSE_FOR_TRIGGER t = Some c) \<and>
      get_i64 (jix sub ''termination_request'') ''rc'' = Some 0 \<and>
      get_i64 (jix sub ''termination_request'') ''signal'' = get_i64 sub ''term_signal'')"

lemma cause_grounded:
  assumes host: "host_fact_issues sub questions = []" and kill: "kill_issues sub questions = []"
    and sig: "get_i64 sub ''term_signal'' = get_i64 (jix (JObj questions) ''final_status'') ''value''"
    and c: "termination_cause (JObj questions) ''signaled'' = Some c" "c \<noteq> ''unknown''"
  shows "host_killed sub c"
proof -
  let ?k = "jix (JObj questions) ''kill_request_and_result''"
  from c obtain t where trig: "get_str (jix (JObj questions) ''cleanup_trigger'') ''state'' = Some ''supported''"
    and grace: "get_str (jix (JObj questions) ''grace_end'') ''state'' = Some ''supported''"
      "get_str (jix (JObj questions) ''grace_end'') ''answer'' = Some ''exhausted''"
    and k: "get_str ?k ''state'' = Some ''supported''" "get_str ?k ''answer'' = Some ''requested''"
    and rc: "Option.bind (Option.bind (jget ?k ''value'') (\<lambda>v. jget v ''rc'')) as_i64 = Some 0"
      "Option.bind (Option.bind (jget ?k ''value'') (\<lambda>v. jget v ''signal'')) as_i64 =
         get_i64 (jix (JObj questions) ''final_status'') ''value''"
    and t: "get_str (jix (JObj questions) ''cleanup_trigger'') ''answer'' = Some t" "map_of CAUSE_FOR_TRIGGER t = Some c"
    by (auto simp: termination_cause_def Let_def unwrap_or_def split: if_splits option.splits)
  have same: "same_termination_request (jix ?k ''value'') (jix sub ''termination_request'')"
    using kill k by (rule kill_grounded)
  have v: "Option.bind (Option.bind (jget ?k ''value'') (\<lambda>v. jget v x)) as_i64 = get_i64 (jix ?k ''value'') x" for x
    by (cases "jget ?k ''value''") (simp_all add: get_i64_def jix_def)
  have "get_i64 (jix sub ''termination_request'') x = get_i64 (jix ?k ''value'') x" if "x \<in> {''rc'', ''signal''}" for x
    using same that by (auto simp: same_termination_request_def get_i64_jix)
  then have "get_i64 (jix sub ''termination_request'') ''rc'' = Some 0"
    "get_i64 (jix sub ''termination_request'') ''signal'' = get_i64 sub ''term_signal''"
    using rc sig v by simp_all
  moreover have "get_str sub ''grace_end'' = Some ''exhausted''"
    using host_fact_grounded [OF host _ grace(1)] grace(2) by (simp add: HOST_FACTS_def)
  moreover have "get_str sub ''cleanup_trigger'' = Some t"
    using host_fact_grounded [OF host _ trig] t(1) by (simp add: HOST_FACTS_def)
  ultimately show ?thesis using t(2) by (simp add: host_killed_def)
qed

text \<open>
  C32: the projected worker disposition is grounded in the raw facts of the subprocess, never in the
  record alone. A signalled or exited worker was reaped and its recorded status is that signal or exit
  code and nothing else; a cause attributed to the host means the recorded cleanup trigger is that
  cause's, the grace period was exhausted and the recorded kill request succeeded with the very signal
  the worker died of; a reported stop reason is the recorded one. Without a valid record everything is
  withheld.
\<close>

theorem project_disposition_grounded:
  fixes sub reply_steps reporting_failed
  defines "p \<equiv> project_disposition sub reply_steps reporting_failed"
  shows "(disposition p = ''signaled'' \<longrightarrow> is_reaped sub \<and> get_i64 sub ''exit_code'' = None \<and> get_i64 sub ''term_signal'' \<noteq> None) \<and>
    (disposition p = ''clean_exit'' \<longrightarrow> is_reaped sub \<and> get_i64 sub ''exit_code'' = Some 0 \<and> get_i64 sub ''term_signal'' = None) \<and>
    (disposition p = ''nonzero_exit'' \<longrightarrow> is_reaped sub \<and> get_i64 sub ''exit_code'' \<notin> {None, Some 0} \<and> get_i64 sub ''term_signal'' = None) \<and>
    (disposition p = ''conflicting'' \<longrightarrow> is_reaped sub \<and> get_i64 sub ''exit_code'' \<noteq> None \<and> get_i64 sub ''term_signal'' \<noteq> None) \<and>
    (case cause p of None \<Rightarrow> disposition p = ''clean_exit''
       | Some c \<Rightarrow> c = ''unknown'' \<or> disposition p = ''signaled'' \<and> host_killed sub c) \<and>
    (dp_stop_reason p \<noteq> None \<longrightarrow> dp_stop_reason p = get_str sub ''poll_stop_reason'') \<and>
    (integrity p = Some ''valid'' \<or> p = withheld (dp_issues p))"
proof (cases "option_filter (\<lambda>r. \<not> is_null r) (jget sub ''disposition'')")
  case None
  then show ?thesis by (simp add: p_def project_disposition_def withheld_def)
next
  case (Some rec)
  let ?issues = "validate_disposition rec sub reply_steps reporting_failed"
  show ?thesis
  proof (cases "list_ex (\<lambda>i. get_str i ''kind'' \<noteq> Some ''unrecognized_value'') ?issues")
    case True
    with Some have "p = withheld ?issues" by (simp add: p_def project_disposition_def Let_def)
    then show ?thesis by (simp add: withheld_def)
  next
    case False
    then obtain questions where q: "jget rec ''questions'' = Some (JObj questions)"
      and parts: "final_status_issues sub questions = []" "host_fact_issues sub questions = []" "kill_issues sub questions = []"
      by (rule valid_record_parts)
    obtain d extra where d: "final_disposition (jix (JObj questions) ''final_status'') = (d, extra)" by fastforce
    have jq: "jix rec ''questions'' = JObj questions" using q by (simp add: jix_def)
    have p: "disposition p = d" "cause p = termination_cause (JObj questions) d" "integrity p = Some ''valid''"
      "dp_stop_reason p = (if get_str (jix (JObj questions) ''stop_reason'') ''state'' = Some ''supported''
         then option_filter (\<lambda>s. s \<in> set STOP_REASONS) (get_str (jix (JObj questions) ''stop_reason'') ''answer'') else None)"
      using Some False jq d by (simp_all add: p_def project_disposition_def Let_def)
    note g = final_status_grounded [OF parts(1) d]
    have "case cause p of None \<Rightarrow> d = ''clean_exit'' | Some c \<Rightarrow> c = ''unknown'' \<or> d = ''signaled'' \<and> host_killed sub c"
    proof (cases "d = ''signaled''")
      case True
      then show ?thesis
        using p(2) g cause_grounded [OF parts(2, 3)]
        by (auto split: option.splits) (auto simp: termination_cause_def Let_def split: if_splits option.splits)
    next
      case False
      then show ?thesis using p(2) by (simp add: termination_cause_def Let_def)
    qed
    moreover have "dp_stop_reason p = get_str sub ''poll_stop_reason''" if "dp_stop_reason p \<noteq> None"
      using p(4) that host_fact_grounded [OF parts(2), of "''stop_reason''" "''poll_stop_reason''"]
      by (auto simp: HOST_FACTS_def split: if_splits)
    ultimately show ?thesis
      unfolding p(1) using g p(3) by (intro conjI) (elim conjE; assumption | iprover)+
  qed
qed

text \<open>A worker killed by the host after its deadline: the subprocess record and its disposition record.\<close>

definition supported_claim :: "string \<Rightarrow> string list \<Rightarrow> json_map \<Rightarrow> json" where
  "supported_claim answer basis rest =
     JObj ([(''answer'', JStr answer), (''basis'', JArr (map JStr basis)), (''state'', JStr ''supported'')] @ rest)"

definition killed_request :: json where
  "killed_request = JObj [(''errno'', JNull), (''rc'', JNum (PosInt 0)), (''signal'', JNum (PosInt 9))]"

definition killed_subprocess :: json where
  "killed_subprocess = JObj
     [(''cleanup_trigger'', JStr ''deadline_expiry''), (''collection_basis'', JStr ''after_confirmed_reap''),
      (''disposition'', JObj
        [(''issues'', JArr []),
         (''questions'', JObj
           [(''cleanup_trigger'', supported_claim ''deadline_expiry'' [''cleanup_trigger'', ''exit_requested''] []),
            (''collection_basis'', supported_claim ''after_confirmed_reap'' [''collection_basis''] []),
            (''final_status'', supported_claim ''signal'' [''reaped'', ''term_signal''] [(''value'', JNum (PosInt 9))]),
            (''grace_end'', supported_claim ''exhausted'' [''grace_end'', ''exit_requested''] []),
            (''kill_request_and_result'', supported_claim ''requested'' [''termination_request''] [(''value'', killed_request)]),
            (''progress_association'', JObj [(''reason'', JStr ''no_progress''), (''state'', JStr ''unresolved'')]),
            (''stop_reason'', supported_claim ''sentinel_deadline'' [''poll_stop_reason''] [])]),
         (''steps'', JArr [])]),
      (''exit_requested'', JBool True), (''grace_end'', JStr ''exhausted''), (''partial_steps'', JBool False),
      (''pid'', JNum (PosInt 7)), (''poll_stop_reason'', JStr ''sentinel_deadline''), (''reaped'', JBool True), (''term_signal'', JNum (PosInt 9)),
      (''termination_request'', killed_request)]"

lemmas record_checks = validate_disposition_def run_question_issues_def check_claim_def check_supported_def
  check_reference_def sufficient_disposition_basis_def claim_where_def cites_def reference_resolves_def present_def
  cleanup_claim_issues_def final_status_issues_def final_status_contradiction_def host_fact_issues_def HOST_FACTS_def
  kill_issues_def same_termination_request_def plan_issues_def disposition_progress_def unreferenced_issues_def
  DISPOSITION_RUN_QUESTIONS_def DISPOSITION_RUN_REFERENCES_def DISPOSITION_CLAIM_STATES_def
  get_str_def get_i64_def get_u64_def str_eq_def is_reaped_def jix_def i64_max_def

lemma killed_record_valid:
  "validate_disposition (jix killed_subprocess ''disposition'') killed_subprocess [] False = []"
  by (simp add: killed_subprocess_def killed_request_def supported_claim_def record_checks Let_def)

lemma killed_projection:
  "integrity (project_disposition killed_subprocess [] False) = Some ''valid''"
  "disposition (project_disposition killed_subprocess [] False) = ''signaled''"
  "cause (project_disposition killed_subprocess [] False) = Some ''host_sentinel_deadline''"
  using killed_record_valid
  by (simp_all add: project_disposition_def Let_def)
    (simp_all add: killed_subprocess_def killed_request_def supported_claim_def
      final_disposition_def termination_cause_def Let_def get_str_def get_i64_def jix_def CAUSE_FOR_TRIGGER_def i64_max_def)

theorem project_disposition_grounded_witness:
  "cause (project_disposition killed_subprocess [] False) = Some ''host_sentinel_deadline'' \<and>
   is_reaped killed_subprocess \<and> get_i64 killed_subprocess ''exit_code'' = None \<and>
   host_killed killed_subprocess ''host_sentinel_deadline''"
  using project_disposition_grounded [of killed_subprocess "[]" False] killed_projection by simp

end
