(* ===== verification/Actor_Evidence.thy ===== *)
theory Actor_Evidence
  imports Json "HOL-Library.Word"
begin

text \<open>
  The independent reading of actor evidence in a reply (controller/src/actor_evidence.rs): authority
  setup scopes, equipment bindings and entitlement read-backs, policy application, and the termination
  gates between phases. The source pushes a diagnostic per failed condition; here every check yields its
  diagnostics and the checks are appended in the source's order.

  The platform is a parameter: CoreFoundation's property-list parser and the wait-status macros of the
  C library.
\<close>

section \<open>Reading values\<close>

definition bounded :: "json \<Rightarrow> nat \<Rightarrow> bool" where
  "bounded v bytes = is_some_and (as_str v) (\<lambda>s. s \<noteq> [] \<and> length s \<le> bytes \<and> nul \<notin> set s)"

definition hex :: "json \<Rightarrow> nat \<Rightarrow> bool" where
  "hex v bytes = is_some_and (as_str v) (\<lambda>s. length s = bytes \<and> list_all is_lower_hexdigit s)"

definition keys_allowed :: "json \<Rightarrow> string list \<Rightarrow> bool" where
  "keys_allowed v allowed = is_some_and (as_object v) (list_all (\<lambda>p. fst p \<in> set allowed))"

definition issue :: "bool \<Rightarrow> string \<Rightarrow> string list" where
  "issue condition detail = (if condition then [] else [detail])"

lemma issue_Nil [simp]: "issue c d = [] \<longleftrightarrow> c"
  by (simp add: issue_def)

fun unique_rows :: "string \<Rightarrow> json_map \<Rightarrow> json list \<Rightarrow> json_map option" where
  "unique_rows key acc [] = Some acc"
| "unique_rows key acc (row # rows) =
     (case as_str (jix row key) of
        None \<Rightarrow> None
      | Some name \<Rightarrow> if is_some (obj_get acc name) then None else unique_rows key (obj_insert name row acc) rows)"

definition unique_by :: "json list \<Rightarrow> string \<Rightarrow> json_map option" where
  "unique_by rows key = unique_rows key [] rows"

text \<open>The text forms \<open>trim_start\<close> skips: the White_Space characters in UTF-8.\<close>

definition ws_prefix :: "string \<Rightarrow> nat" where
  "ws_prefix s =
     (case map of_char s :: nat list of
        b # rest \<Rightarrow>
          if (9 \<le> b \<and> b \<le> 13) \<or> b = 32 then 1
          else if b = 0xC2 \<and> rest \<noteq> [] \<and> (hd rest = 0x85 \<or> hd rest = 0xA0) then 2
          else if take 3 (b # rest) \<in> {[0xE1, 0x9A, 0x80], [0xE2, 0x80, 0xA8], [0xE2, 0x80, 0xA9], [0xE2, 0x80, 0xAF],
              [0xE2, 0x81, 0x9F], [0xE3, 0x80, 0x80]} then 3
          else if take 2 (b # rest) = [0xE2, 0x80] \<and> length rest \<ge> 2 \<and> 0x80 \<le> rest ! 1 \<and> rest ! 1 \<le> 0x8A then 3
          else 0
      | [] \<Rightarrow> 0)"

function trim_start :: "string \<Rightarrow> string" where
  "trim_start s = (if ws_prefix s = 0 then s else trim_start (drop (ws_prefix s) s))"
  by auto
termination
proof (relation "measure length")
  fix s assume a: "ws_prefix s \<noteq> 0"
  then have "s \<noteq> []" by (auto simp: ws_prefix_def)
  with a show "(drop (ws_prefix s) s, s) \<in> measure length" by simp
qed simp

declare trim_start.simps [simp del]

section \<open>The platform\<close>

text \<open>A value in a parsed property list; a string carries the bytes \<open>CFStringGetCString\<close> writes.\<close>

datatype cf_value = CFString "string option" | CFBoolean bool | CFOther

record 'd platform =
  cf_parse :: "string \<Rightarrow> 'd option"
  cf_equal :: "'d \<Rightarrow> 'd \<Rightarrow> bool"
  cf_entries :: "'d \<Rightarrow> (cf_value \<times> cf_value) list"
  wifexited :: "int \<Rightarrow> bool"
  wexitstatus :: "int \<Rightarrow> int"
  wifsignaled :: "int \<Rightarrow> bool"
  wtermsig :: "int \<Rightarrow> int"

definition dictionary_read :: "'d platform \<Rightarrow> string \<Rightarrow> 'd option" where
  "dictionary_read os txt =
     (if 65536 < length txt \<or>
         \<not> starts_with (trim_start txt) ''<?xml'' \<and> \<not> starts_with (trim_start txt) ''<plist'' then None
      else cf_parse os txt)"

definition dictionary_empty :: "'d platform \<Rightarrow> 'd \<Rightarrow> bool" where
  "dictionary_empty os d = (cf_entries os d = [])"

text \<open>
  A \<open>CFString\<close> holds text when CoreFoundation could write it as UTF-8, which makes the source's second
  check of the encoding succeed.
\<close>

fun granted_entry :: "cf_value \<times> cf_value \<Rightarrow> string option" where
  "granted_entry (CFString (Some s), CFBoolean True) = Some (takeWhile (\<lambda>c. c \<noteq> nul) s)"
| "granted_entry _ = None"

definition granted :: "'d platform \<Rightarrow> 'd \<Rightarrow> string set" where
  "granted os d = set (filter_map granted_entry (cf_entries os d))"

section \<open>Setup scopes\<close>

definition WORKER_OPS :: "string list" where
  "WORKER_OPS = [''issue_symbol'', ''consume_symbol'', ''release_symbol'', ''core_limit'', ''descriptor_presence'',
     ''fstat'', ''page_size'', ''object_size'', ''mmap'', ''descriptor_close'', ''header_binding'',
     ''terminal_owned_inbound_clear'', ''rejected_mapping_munmap'']"

definition REGION_OPS :: "string list" where
  "REGION_OPS = [''shm_open'', ''shm_unlink'', ''fd_cloexec'', ''ftruncate'', ''mmap'', ''header_initialize'',
     ''authority_duplicate'', ''authority_spawn_dup2'', ''close_launch_duplicate'', ''close_original_descriptor'',
     ''shared_clear'', ''munmap'']"

definition CUSTODY_OPS :: "string list" where
  "CUSTODY_OPS = [''mmap'', ''final_erase'', ''munmap'']"

definition integrity_error_issues :: "json \<Rightarrow> string list" where
  "integrity_error_issues scope =
     (case jget scope ''integrity_errors'' of
        None \<Rightarrow> []
      | Some errors \<Rightarrow>
          issue (is_some_and (as_array errors) (\<lambda>items. length items \<le> 16 \<and> list_all (\<lambda>v. bounded v 64) items) \<and>
              (jarray errors = [] \<or> as_str (jix scope ''disposition'') \<notin> {Some ''ready'', Some ''not_required''}))
            ''invalid setup cells cannot establish readiness'')"

definition operation_kind :: "string \<Rightarrow> string" where
  "operation_kind name =
     (if ends_with name ''_symbol'' then ''symbol''
      else if name = ''mmap'' then ''mapping''
      else if name \<in> {''header_initialize'', ''shared_clear'', ''final_erase'', ''terminal_owned_inbound_clear''} then ''memory''
      else if name \<in> {''descriptor_presence'', ''object_size'', ''header_binding''} then ''validation''
      else if name = ''authority_spawn_dup2'' then ''error_code''
      else ''integer'')"

definition errno_valid :: "int option \<Rightarrow> bool" where
  "errno_valid e = is_some_and e (\<lambda>n. 0 \<le> n \<and> n \<le> 2147483647)"

definition operation_result_issues :: "json \<Rightarrow> string \<Rightarrow> string list" where
  "operation_result_issues op st =
     (let rc = as_i64 (jix op ''native_rc''); errno = as_i64 (jix op ''errno'');
          no_rc = is_null (jix op ''native_rc''); no_errno = is_null (jix op ''errno'');
          kind = as_str (jix op ''native_kind'') in
      if kind = Some ''integer'' then
        issue (st \<in> {''succeeded'', ''failed''} \<and> is_some rc \<and>
            (if st = ''failed'' then rc = Some (- 1) \<and> errno_valid errno else is_some_and rc (\<lambda>n. 0 \<le> n) \<and> no_errno))
          ''setup native result or errno''
      else if kind = Some ''error_code'' then
        issue (st \<in> {''succeeded'', ''failed''} \<and> is_some_and rc (\<lambda>n. 0 \<le> n \<and> (n = 0) = (st = ''succeeded'')) \<and> no_errno)
          ''setup error-code result''
      else if kind = Some ''mapping'' then
        issue (st \<in> {''succeeded'', ''failed''} \<and> no_rc \<and> (if st = ''failed'' then errno_valid errno else no_errno))
          ''setup mapping invents native integer result''
      else if kind = Some ''symbol'' then
        issue (st \<in> {''available'', ''unavailable''} \<and> no_rc \<and> no_errno) ''setup symbol invents native result''
      else if kind = Some ''validation'' then
        issue (st \<in> {''accepted'', ''rejected''} \<and> no_rc \<and> no_errno) ''setup validation invents native result''
      else if kind = Some ''memory'' then
        issue (st = ''performed'' \<and> no_rc \<and> no_errno) ''setup memory operation invents native result''
      else [''unknown setup native kind''])"

definition cleanup_slot :: "string \<Rightarrow> nat \<Rightarrow> bool" where
  "cleanup_slot family slot =
     (if family = ''worker'' then 11 \<le> slot else if family = ''region'' then 8 \<le> slot
      else if family = ''custody'' then 1 \<le> slot else False)"

definition OPERATION_FIELDS :: "string list" where
  "OPERATION_FIELDS = [''slot'', ''operation'', ''role'', ''state'', ''native_kind'', ''native_rc'', ''errno'',
     ''detail'', ''value'']"

definition operation_issues :: "string list \<Rightarrow> string \<Rightarrow> nat set \<Rightarrow> nat \<Rightarrow> json \<Rightarrow> string list" where
  "operation_issues names family seen slot op =
     (let st = unwrap_or (as_str (jix op ''state'')) [] in
      issue (slot \<notin> seen \<and> is_some_and (nth_opt names slot) (str_eq (jix op ''operation''))) ''setup operation slot or identity'' @
      issue (keys_allowed op OPERATION_FIELDS) ''unknown setup operation field'' @
      issue (str_eq (jix op ''role'') (if cleanup_slot family slot then ''cleanup'' else ''setup'') \<or>
          family = ''worker'' \<and> slot = 9 \<and> str_eq (jix op ''role'') ''cleanup'') ''setup operation role'' @
      issue (is_null (jix op ''value'') \<or> is_some (as_u64 (jix op ''value''))) ''invalid setup operation value'' @
      issue (is_null (jix op ''detail'') \<or> bounded (jix op ''detail'') 64) ''invalid setup detail'' @
      (if st = ''not_attempted'' then
         issue (is_null (jix op ''native_rc'') \<and> is_null (jix op ''errno'') \<and> is_null (jix op ''value''))
           ''unattempted setup operation fabricates result''
       else
         issue (str_eq (jix op ''native_kind'') (operation_kind (unwrap_or (as_str (jix op ''operation'')) [])))
           ''setup operation native kind'' @
         operation_result_issues op st))"

fun operations_issues :: "string list \<Rightarrow> string \<Rightarrow> nat set \<Rightarrow> json list \<Rightarrow> string list" where
  "operations_issues names family seen [] = []"
| "operations_issues names family seen (op # ops) =
     (case as_u64 (jix op ''slot'') of
        None \<Rightarrow> ''invalid setup operation slot'' # operations_issues names family seen ops
      | Some slot \<Rightarrow> operation_issues names family seen slot op @ operations_issues names family (insert slot seen) ops)"

definition primary_issues :: "json \<Rightarrow> json list \<Rightarrow> string list" where
  "primary_issues scope operations =
     (case as_u64 (jix scope ''primary_operation'') of
        Some primary \<Rightarrow>
          issue (list_ex (\<lambda>op. as_u64 (jix op ''slot'') = Some primary \<and> str_eq (jix op ''role'') ''setup'' \<and>
              as_str (jix op ''state'') \<in> {Some ''failed'', Some ''rejected''}) operations)
            ''setup primary operation lacks independent failure''
      | None \<Rightarrow> issue (is_null (jix scope ''primary_operation'')) ''invalid primary setup operation'')"

definition releasing_operations :: "string \<Rightarrow> string \<Rightarrow> string list" where
  "releasing_operations family name =
     (if name = ''object_name'' then [''shm_unlink'']
      else if name = ''mapping'' then [''munmap'', ''rejected_mapping_munmap'']
      else if name = ''descriptor'' \<and> family = ''worker'' then [''descriptor_close'']
      else if name = ''descriptor'' then [''close_original_descriptor'']
      else [])"

definition ownership_issues :: "string \<Rightarrow> json list \<Rightarrow> string \<Rightarrow> json \<Rightarrow> string list" where
  "ownership_issues family operations name st =
     (let erase = (name = ''shared_erasure'' \<or> name = ''private_erasure'') in
      issue (is_some_and (as_str st) (\<lambda>s.
          if erase then s \<in> {''not_present'', ''performed'', ''withheld_not_quiescent'', ''unobserved''}
          else name \<in> {''object_name'', ''descriptor'', ''mapping''} \<and>
               s \<in> {''not_acquired'', ''held'', ''released'', ''unresolved''}))
        ''invalid setup ownership state'' @
      (if str_eq st ''released'' then
         issue (list_ex (\<lambda>op. unwrap_or (as_str (jix op ''operation'')) [] \<in> set (releasing_operations family name) \<and>
             str_eq (jix op ''state'') ''succeeded'') operations)
           ''released setup ownership lacks successful cleanup''
       else []) @
      (if erase \<and> str_eq st ''performed'' then
         issue (list_ex (\<lambda>op. as_str (jix op ''operation'') \<in>
               {Some ''shared_clear'', Some ''final_erase'', Some ''terminal_owned_inbound_clear''} \<and>
             str_eq (jix op ''state'') ''performed'') operations)
           ''setup erasure lacks performed observation''
       else []))"

definition is_ascii :: "string \<Rightarrow> bool" where
  "is_ascii s = list_all (\<lambda>c. of_char c < (128::nat)) s"

definition cleanup_reference_issues :: "json \<Rightarrow> string \<Rightarrow> json list \<Rightarrow> string list" where
  "cleanup_reference_issues scope family operations =
     (case jget scope ''cleanup_reference'' of
        None \<Rightarrow> []
      | Some reference \<Rightarrow>
          issue (family = ''region'' \<and> str_eq (jix reference ''kind'') ''posix_shm_name'' \<and>
              bounded (jix reference ''name'') 31 \<and>
              is_some_and (as_str (jix reference ''name'')) (\<lambda>s. is_ascii s \<and> starts_with s ''/'') \<and>
              is_some_and (as_i64 (jix reference ''host_pid'')) (\<lambda>v. 0 < v) \<and>
              is_some (as_u64 (jix reference ''session_nonce'')) \<and>
              str_eq (jix reference ''recovery_state'') ''unresolved_manual'' \<and>
              str_eq (jix (jix scope ''ownership'') ''object_name'') ''unresolved'' \<and>
              list_ex (\<lambda>op. str_eq (jix op ''operation'') ''shm_open'' \<and> str_eq (jix op ''state'') ''succeeded'') operations)
            ''unresolved setup cleanup lacks owned creation'')"

definition scope_issues :: "json \<Rightarrow> string list \<Rightarrow> string \<Rightarrow> string list" where
  "scope_issues scope names family =
     integrity_error_issues scope @
     (case as_array (jix scope ''operations'') of
        None \<Rightarrow> [''setup scope lacks operation cells'']
      | Some operations \<Rightarrow>
          issue (length operations \<le> length names) ''setup operation capacity'' @
          operations_issues names family {} operations @
          primary_issues scope operations @
          (case as_object (jix scope ''ownership'') of
             None \<Rightarrow> []
           | Some ownership \<Rightarrow> concat (map (\<lambda>(name, st). ownership_issues family operations name st) ownership)) @
          cleanup_reference_issues scope family operations)"

section \<open>Authority setup\<close>

text \<open>
  Regions and custody rows name an entry of a table by index and reference, each index once; an index is
  marked as seen only when the association holds.
\<close>

fun association_rows :: "string \<Rightarrow> string \<Rightarrow> json list \<Rightarrow> (json \<Rightarrow> string list) \<Rightarrow> string \<Rightarrow> nat option set \<Rightarrow> json list \<Rightarrow> string list" where
  "association_rows index_key ref_key table scope_of detail seen [] = []"
| "association_rows index_key ref_key table scope_of detail seen (row # rows) =
     (let ix = as_u64 (jix row index_key);
          named = is_some_and (Option.bind ix (nth_opt table)) (\<lambda>t. jix t ref_key = jix row ref_key) in
      scope_of row @ issue (named \<and> ix \<notin> seen) detail @
      association_rows index_key ref_key table scope_of detail (if named then insert ix seen else seen) rows)"

definition worker_row_issues :: "json list \<Rightarrow> nat \<Rightarrow> json \<Rightarrow> string list" where
  "worker_row_issues actors i row =
     scope_issues row WORKER_OPS ''worker'' @
     issue (is_some_and (nth_opt actors i) (\<lambda>a. jix a ''actor_id'' = jix row ''actor_id'') \<and>
         as_u64 (jix row ''actor_index'') = Some i \<and> is_boolean (jix row ''required''))
       ''worker setup actor association'' @
     issue (as_str (jix row ''publication'') \<in> {Some ''observed'', Some ''not_observed''}) ''worker setup publication'' @
     (if str_eq (jix row ''publication'') ''not_observed'' then
        issue (is_null (jix row ''disposition'') \<and> is_null (jix row ''primary_operation''))
          ''unpublished setup decision carries values''
      else
        issue (as_str (jix row ''disposition'') \<in> {Some ''ready'', Some ''not_required'', Some ''terminal_required_failure''})
          ''worker setup disposition'' @
        (if str_eq (jix row ''disposition'') ''terminal_required_failure'' then
           issue (jix row ''required'' = JBool True \<and> is_some (as_u64 (jix row ''primary_operation'')))
             ''terminal setup refusal lacks required primary failure''
         else []))"

definition setup_issues :: "json \<Rightarrow> json list \<Rightarrow> string list" where
  "setup_issues runner actors =
     (let set_up = jix runner ''authority_setup''; host = jix set_up ''host'';
          regions = jarray (jix host ''regions''); custody = jarray (jix host ''custody'');
          workers = jarray (jix set_up ''workers'') in
      issue (is_object set_up) ''actor form lacks automatic authority setup'' @
      scope_issues (jix host ''run'') [''core_limit''] ''run'' @
      issue (is_array (jix host ''regions'') \<and> is_array (jix host ''custody'') \<and> is_array (jix set_up ''workers'') \<and>
          length regions \<le> 8 \<and> length custody \<le> 32 \<and> length workers = length actors)
        ''authority setup table capacity'' @
      association_rows ''actor_index'' ''actor_id'' actors (\<lambda>row. scope_issues row REGION_OPS ''region'')
        ''host setup actor association'' {} regions @
      association_rows ''token_index'' ''token_ref'' (jarray (jix (jix runner ''resources'') ''tokens''))
        (\<lambda>row. scope_issues row CUSTODY_OPS ''custody'') ''custody setup token association'' {} custody @
      concat (map (\<lambda>(i, row). worker_row_issues actors i row) (enumerate 0 workers)))"

section \<open>Policy application\<close>

definition one_of :: "nat option \<Rightarrow> nat set \<Rightarrow> bool" where
  "one_of x s = is_some_and x (\<lambda>n. n \<in> s)"

definition application_supported :: "json \<Rightarrow> json \<Rightarrow> string \<Rightarrow> string \<Rightarrow> bool" where
  "application_supported actor set_up st basis =
     (let applied = (jix actor ''applied'' = JBool True);
          evidence = jix (jix actor ''subprocess'') ''worker_evidence''; failure = jix evidence ''failure'';
          published = str_eq (jix evidence ''failure_state'') ''published'';
          op = as_u64 (jix failure ''operation''); code = as_u64 (jix failure ''code'');
          kind = as_u64 (jix failure ''native_kind'');
          input_refusal = (published \<and>
            (op = Some 1 \<and> one_of code {4, 7, 10, 12} \<and> kind = Some 0 \<or> op = Some 2 \<and> one_of code {2, 3, 9, 13}));
          parameter_refusal = (published \<and>
            (op = Some 1 \<and> code = Some 5 \<and> kind = Some 0 \<or> op = Some 3 \<and> code = Some 1 \<and> kind = Some 2 \<or>
             op = Some 4 \<and> (code = Some 1 \<and> kind = Some 1 \<or> code = Some 6 \<and> kind = Some 0)));
          compile_refusal = (published \<and> op = Some 5 \<and> code = Some 1 \<and> kind = Some 2);
          timing_refusal = (published \<and> op = Some 12 \<and>
            (code = Some 1 \<and> kind = Some 1 \<or> code = Some 14 \<and> kind = Some 0 \<or>
             code = Some 15 \<and> jint_eq (jix failure ''detail'') 1 \<and> kind = Some 0));
          apply_mode = str_eq (jix actor ''mode'') ''apply'';
          authority_refused = (str_eq (jix set_up ''publication'') ''observed'' \<and>
            str_eq (jix set_up ''disposition'') ''terminal_required_failure'') in
      if (st, basis) = (''not_requested'', ''unapplied_declaration'') then
        str_eq (jix actor ''mode'') ''unapplied'' \<and> \<not> applied
      else if (st, basis) = (''not_attempted'', ''worker_not_launched'') then
        apply_mode \<and> as_str (jix actor ''setup_status'') \<in> {Some ''launch_refused'', Some ''setup_timeout'', Some ''not_launched''} \<and>
        \<not> applied \<and> is_null (jix actor ''subprocess'') \<and> is_null (jix actor ''launch'')
      else if (st, basis) = (''not_attempted'', ''terminal_authority_setup_refusal'') then apply_mode \<and> authority_refused \<and> \<not> applied
      else if (st, basis) = (''not_attempted'', ''terminal_input_refusal'') then apply_mode \<and> input_refusal \<and> \<not> applied
      else if (st, basis) = (''not_attempted'', ''terminal_parameter_refusal'') then apply_mode \<and> parameter_refusal \<and> \<not> applied
      else if (st, basis) = (''not_attempted'', ''terminal_compile_refusal'') then apply_mode \<and> compile_refusal \<and> \<not> applied
      else if (st, basis) = (''not_attempted'', ''terminal_timing_refusal'') then apply_mode \<and> timing_refusal \<and> \<not> applied
      else if (st, basis) = (''observed'', ''applied_publication'') then apply_mode \<and> applied
      else if (st, basis) = (''observed'', ''apply_failure_publication'') then
        apply_mode \<and> published \<and> op = Some 8 \<and> code = Some 1 \<and> kind = Some 1 \<and>
        is_some_and (as_i64 (jix failure ''native_result'')) (\<lambda>v. v \<noteq> 0) \<and> \<not> applied
      else if (st, basis) = (''unobserved'', ''apply_call_boundary_without_result'') then
        apply_mode \<and> jint_eq (jix (jix evidence ''progress'') ''operation'') 8 \<and>
        one_of (as_u64 (jix (jix evidence ''progress'') ''stage'')) {1, 2} \<and> \<not> applied
      else if (st, basis) = (''unobserved'', ''no_eligible_apply_publication'') then
        apply_mode \<and> \<not> applied \<and> \<not> authority_refused
      else False)"

definition application_issues :: "json \<Rightarrow> json \<Rightarrow> string list" where
  "application_issues actor set_up =
     (let assessment = jix actor ''application''; applied = (jix actor ''applied'' = JBool True) in
      issue (keys_allowed assessment [''state'', ''basis'']) ''invalid application assessment'' @
      issue (one_of (as_u64 (jix actor ''application_count'')) {0, 1} \<and> jint_eq (jix actor ''application_count'') 1 = applied)
        ''application count contradicts successful publication'' @
      issue (application_supported actor set_up (unwrap_or (as_str (jix assessment ''state'')) [])
          (unwrap_or (as_str (jix assessment ''basis'')) []))
        ''application assessment lacks its eligible source'')"

section \<open>Equipment\<close>

type_synonym 'd dictionaries = "string \<Rightarrow> 'd option"

definition inventory_issues :: "json \<Rightarrow> string list" where
  "inventory_issues runner =
     (let inventory = jix runner ''equipment_inventory'' in
      issue (is_object inventory \<and>
          as_str (jix inventory ''status'') \<in> {Some ''verified'', Some ''refused'', Some ''unobserved''} \<and>
          is_array (jix runner ''equipment_bindings'') \<and> is_array (jix runner ''equipment_entitlements'') \<and>
          length (jarray (jix runner ''equipment_bindings'')) \<le> 4 \<and> length (jarray (jix runner ''equipment_entitlements'')) \<le> 12)
        ''equipment table type or capacity'' @
      (if str_eq (jix inventory ''status'') ''verified'' then
         issue (jint_eq (jix inventory ''schema_version'') 1 \<and> hex (jix inventory ''sha256'') 64 \<and>
             hex (jix inventory ''worker_identity'') 64 \<and> hex (jix inventory ''unsigned_worker_sha256'') 64 \<and>
             jint_eq (jix inventory ''seal_osstatus'') 0)
           ''verified equipment inventory lacks sealed identity''
       else []))"

fun read_back_rows :: "'d platform \<Rightarrow> json list \<Rightarrow> 'd dictionaries \<Rightarrow> json list \<Rightarrow> string list \<times> 'd dictionaries" where
  "read_back_rows os actors dicts [] = ([], dicts)"
| "read_back_rows os actors dicts (row # rows) =
     (let id = unwrap_or (as_str (jix row ''entitlements_id'')) [];
          binding = unwrap_or (as_str (jix row ''binding_ref'')) [];
          source = as_str (jix row ''source'');
          expected = (if source = Some ''binding'' then Some (''binding-'' @ binding)
            else if source = Some ''execution'' then
              map_option (\<lambda>i. ''execution-'' @ nat_digits i) (position (\<lambda>a. jix a ''actor_id'' = jix row ''actor_id'') actors)
            else None);
          heads = issue (binding \<in> {''selected'', ''unentitled'', ''override-selected'', ''override-unentitled''})
              ''entitlement read-back binding'' @
            issue (expected = Some id) ''entitlement read-back actor or identity'';
          (bad, dicts') =
            (if str_eq (jix row ''status'') ''observed'' then
               (case Option.bind (as_str (jix row ''raw_plist'')) (dictionary_read os) of
                  Some d \<Rightarrow> ([], dicts(id \<mapsto> d))
                | None \<Rightarrow> ([''invalid or oversized entitlement plist''], dicts))
             else (issue (str_eq (jix row ''status'') ''failed'' \<and> is_null (jix row ''raw_plist''))
                 ''failed entitlement observation invents plist'', dicts));
          (rest, result) = read_back_rows os actors dicts' rows in
      (heads @ bad @ rest, result))"

definition binding_issues :: "'d platform \<Rightarrow> json \<Rightarrow> 'd dictionaries \<Rightarrow> string \<Rightarrow> json \<Rightarrow> string list" where
  "binding_issues os inventory dicts ident binding =
     (let role = unwrap_or (strip_prefix ''override-'' ident) ident; instrumented = starts_with ident ''override-'';
          expected_path = (if role = ''selected'' then ''Contents/MacOS/pw-probe-runner''
            else ''Contents/MacOS/pw-probe-runner-unentitled'');
          reference = ''binding-'' @ ident in
      issue (role \<in> {''selected'', ''unentitled''} \<and> str_eq (jix binding ''role'') role) ''equipment role association'' @
      issue (bounded (jix binding ''path'') 1023 \<and>
          (if instrumented then
             str_eq (jix binding ''source'') ''test_override'' \<and>
             str_eq (jix binding ''implementation_identity'') ''unverified_fixture'' \<and>
             is_null (jix binding ''relative_path'') \<and> is_null (jix binding ''expected_sha256'') \<and>
             is_null (jix binding ''expected_cdhash'')
           else
             str_eq (jix binding ''source'') ''packaged'' \<and>
             str_eq (jix binding ''implementation_identity'') ''inventory_verified'' \<and>
             str_eq (jix binding ''relative_path'') expected_path))
        ''equipment fixed path association'' @
      (if str_eq (jix binding ''status'') ''bound'' then
         issue (str_eq (jix inventory ''status'') ''verified'' \<and> hex (jix binding ''sha256'') 64 \<and>
             (instrumented \<or> jix binding ''sha256'' = jix binding ''expected_sha256'') \<and>
             hex (jix binding ''cdhash'') 40 \<and>
             (instrumented \<or> jix binding ''cdhash'' = jix binding ''expected_cdhash'') \<and>
             jint_eq (jix binding ''signature_osstatus'') 0 \<and>
             (instrumented \<or> jix binding ''entitlements_match'' = JBool True) \<and>
             str_eq (jix binding ''entitlements_ref'') reference \<and> is_some (dicts reference))
           ''bound equipment lacks inspected identity'' @
         (if role = ''unentitled'' \<and> \<not> instrumented then
            issue (is_some_and (dicts reference) (dictionary_empty os)) ''unentitled worker carries entitlements''
          else [])
       else issue (str_eq (jix binding ''status'') ''refused'') ''invalid equipment binding status''))"

definition requirement_issues :: "json \<Rightarrow> string set option \<Rightarrow> string list" where
  "requirement_issues equipment grants =
     (let requirements = jarray (jix equipment ''required_entitlements'');
          required = set (filter_map as_str requirements);
          expected_missing = {key \<in> required. \<not> is_some_and grants (\<lambda>g. key \<in> g)};
          missing = jarray (jix equipment ''missing_requirements'');
          status = as_str (jix equipment ''requirements_status'') in
      issue (is_array (jix equipment ''required_entitlements'') \<and> length requirements \<le> 64 \<and>
          card required = length requirements \<and> list_all (\<lambda>v. bounded v 255) requirements)
        ''invalid actor entitlement requirements'' @
      (if status = Some ''satisfied'' \<or> status = Some ''unsatisfied'' then
         issue (is_some grants \<and> is_array (jix equipment ''missing_requirements'') \<and>
             length missing = card expected_missing \<and>
             list_all (\<lambda>key. is_some_and (as_str key) (\<lambda>k. k \<in> expected_missing)) missing \<and>
             (status = Some ''satisfied'') = (expected_missing = {}))
           ''actor requirements disagree with observed entitlements''
       else if status = Some ''unobserved'' then
         issue (is_null (jix equipment ''missing_requirements'')) ''unobserved actor requirements invent result''
       else [''invalid actor requirement disposition'']))"

definition NATIVE_INSPECTIONS :: "string list" where
  "NATIVE_INSPECTIONS = [''guest_code'', ''dynamic_validity'', ''associated_static_code'', ''signing_information'']"

definition matched_execution :: "'d platform \<Rightarrow> 'd dictionaries \<Rightarrow> json_map \<Rightarrow> json_map \<Rightarrow> nat \<Rightarrow> json \<Rightarrow> bool" where
  "matched_execution os dicts by_binding by_read i actor =
     (let equipment = jix actor ''equipment''; execution = jix equipment ''execution'';
          bound_id = unwrap_or (as_str (jix equipment ''binding_ref'')) [];
          binding = unwrap_or (obj_get by_binding bound_id) JNull;
          required = set (filter_map as_str (jarray (jix equipment ''required_entitlements'')));
          reference = ''execution-'' @ nat_digits i;
          read = unwrap_or (obj_get by_read reference) JNull;
          live = dicts reference in
      str_eq (jix binding ''status'') ''bound'' \<and>
      str_eq (jix equipment ''requirements_status'') ''satisfied'' \<and>
      jix execution ''eligible'' = JBool True \<and> is_null (jix execution ''reason'') \<and>
      jix execution ''pid'' = jix (jix actor ''launch'') ''pid'' \<and>
      is_some_and (as_i64 (jix execution ''pid'')) (\<lambda>n. 0 < n) \<and>
      jix execution ''path'' = jix binding ''path'' \<and> jix execution ''cdhash'' = jix binding ''cdhash'' \<and>
      jix execution ''identifier'' = jix binding ''identifier'' \<and> jix execution ''team_id'' = jix binding ''team_id'' \<and>
      str_eq (jix execution ''entitlements_ref'') reference \<and>
      str_eq (jix read ''binding_ref'') bound_id \<and> jix read ''actor_id'' = jix actor ''actor_id'' \<and>
      is_some_and (dicts (''binding-'' @ bound_id)) (\<lambda>s. is_some_and live (cf_equal os s)) \<and>
      is_some_and live (\<lambda>d. required \<subseteq> granted os d))"

definition native_inspected :: "json \<Rightarrow> bool" where
  "native_inspected execution =
     (let calls = jarray (jix execution ''native_observations'') in
      length calls = 4 \<and>
      list_all (\<lambda>(name, call). str_eq (jix call ''operation'') name \<and> jix call ''attempted'' = JBool True \<and>
        jint_eq (jix call ''osstatus'') 0) (zip NATIVE_INSPECTIONS calls))"

definition actor_equipment_issues ::
    "'d platform \<Rightarrow> 'd dictionaries \<Rightarrow> json_map \<Rightarrow> json_map \<Rightarrow> nat \<Rightarrow> json \<Rightarrow> string list" where
  "actor_equipment_issues os dicts by_binding by_read i actor =
     (let equipment = jix actor ''equipment'';
          resolved = unwrap_or (as_str (jix equipment ''resolved'')) [];
          bound_id = unwrap_or (as_str (jix equipment ''binding_ref'')) [];
          execution = jix equipment ''execution'';
          status = unwrap_or (as_str (jix execution ''status'')) [] in
      issue (resolved \<in> {''selected'', ''unentitled''} \<and> (bound_id = resolved \<or> bound_id = ''override-'' @ resolved) \<and>
          (is_null (jix equipment ''requested'') \<and> resolved = ''selected'' \<or> str_eq (jix equipment ''requested'') resolved))
        ''actor equipment selector association'' @
      requirement_issues equipment (map_option (granted os) (dicts (''binding-'' @ bound_id))) @
      issue (status \<in> {''matched'', ''mismatched'', ''inspection_failed'', ''unobserved''})
        ''invalid execution equipment status'' @
      (if status = ''matched'' then
         issue (matched_execution os dicts by_binding by_read i actor) ''execution equipment does not match its owned binding'' @
         issue (native_inspected execution) ''matched execution lacks native inspection results''
       else issue (jix execution ''eligible'' = JBool False) ''unmatched equipment permits activation''))"

definition runtime_refused :: "json \<Rightarrow> bool" where
  "runtime_refused actor =
     (is_object (jix actor ''launch'') \<and>
      as_str (jix (jix (jix actor ''equipment'') ''execution'') ''status'') \<in> {Some ''mismatched'', Some ''inspection_failed''})"

definition phase_untouched :: "json \<Rightarrow> bool" where
  "phase_untouched p =
     (jix (jix p ''ordering'') ''proceed_set'' \<noteq> JBool True \<and> jix (jix p ''ordering'') ''proceed_observed'' \<noteq> JBool True \<and>
      is_null (jix p ''activation_observation'') \<and> jix p ''arrival_observed'' = JBool False \<and>
      jix p ''completion_observed'' = JBool False \<and> is_null (jix p ''validator_subprocess'') \<and>
      str_eq (jix p ''collection_status'') ''not_reached'')"

definition equipment_issues :: "'d platform \<Rightarrow> json \<Rightarrow> json list \<Rightarrow> string list" where
  "equipment_issues os runner actors =
     inventory_issues runner @
     (let bindings = jarray (jix runner ''equipment_bindings''); reads = jarray (jix runner ''equipment_entitlements'') in
      case unique_by bindings ''binding_id'' of
        None \<Rightarrow> [''duplicate equipment binding'']
      | Some by_binding \<Rightarrow>
          (case unique_by reads ''entitlements_id'' of
             None \<Rightarrow> [''duplicate equipment read-back'']
           | Some by_read \<Rightarrow>
               (case read_back_rows os actors (\<lambda>_. None) reads of (read_issues, dicts) \<Rightarrow>
                  read_issues @
                  concat (map (\<lambda>(ident, binding). binding_issues os (jix runner ''equipment_inventory'') dicts ident binding) by_binding) @
                  concat (map (\<lambda>(i, actor). actor_equipment_issues os dicts by_binding by_read i actor) (enumerate 0 actors)) @
                  (if list_ex runtime_refused actors then
                     issue (\<not> str_eq (jix runner ''normalized_outcome'') ''finished'' \<and>
                         is_null (jix runner ''preparation_failure'') \<and>
                         is_some_and (as_str (jix (jix runner ''schedule'') ''cancelled'')) (\<lambda>s. s \<noteq> []) \<and>
                         list_all phase_untouched (jarray (jix runner ''phases'')))
                       ''runtime equipment refusal lost evidence or enabled schedule''
                   else []))))"

section \<open>Termination gates\<close>

definition owned_reap_valid :: "'d platform \<Rightarrow> json \<Rightarrow> bool" where
  "owned_reap_valid os actor =
     (let reap = jix actor ''owned_reap''; sub = jix actor ''subprocess'' in
      case option_filter (\<lambda>v. 0 < v \<and> v \<le> 2147483647) (as_i64 (jix reap ''pid'')) of
        None \<Rightarrow> False
      | Some pid \<Rightarrow>
          (case Option.bind (as_i64 (jix reap ''raw_status'')) i32_of of
             None \<Rightarrow> False
           | Some status \<Rightarrow>
               is_object reap \<and> as_i64 (jix reap ''native_rc'') = Some pid \<and>
               as_i64 (jix (jix actor ''launch'') ''pid'') = Some pid \<and> as_i64 (jix sub ''pid'') = Some pid \<and>
               jix sub ''reaped'' = JBool True \<and>
               (if wifexited os status then
                  as_i64 (jix sub ''exit_code'') = Some (wexitstatus os status) \<and> is_null (jix sub ''term_signal'')
                else if wifsignaled os status then
                  as_i64 (jix sub ''term_signal'') = Some (wtermsig os status) \<and> is_null (jix sub ''exit_code'')
                else False) \<and>
               is_some_and (as_u64 (jix reap ''capture_ordinal'')) (\<lambda>v. 0 < v) \<and>
               (is_null (jix reap ''observed_ns'') \<or> is_some (as_u64 (jix reap ''observed_ns''))) \<and>
               is_boolean (jix reap ''ownership_unbroken'') \<and> is_boolean (jix reap ''departure_requested'') \<and>
               bounded (jix reap ''stage'') 64))"

definition activation_issues :: "json \<Rightarrow> string list" where
  "activation_issues phase =
     (case jget phase ''activation_observation'' of
        None \<Rightarrow> []
      | Some activation \<Rightarrow>
          issue (keys_allowed activation [''capture_ordinal'', ''observed_ns''] \<and>
              is_some_and (as_u64 (jix activation ''capture_ordinal'')) (\<lambda>v. 0 < v) \<and>
              (is_null (jix activation ''observed_ns'') \<or> is_some (as_u64 (jix activation ''observed_ns''))))
            ''invalid phase activation observation'')"

definition GATE_OUTCOMES :: "string list" where
  "GATE_OUTCOMES = [''not_reached'', ''satisfied'', ''timed_out'', ''ownership_lost'', ''clock_unavailable'',
     ''source_unavailable'', ''source_departure_requested'', ''execution_allowance_exhausted'']"

definition u64_less :: "json \<Rightarrow> json \<Rightarrow> bool" where
  "u64_less a b = is_some_and (as_u64 a) (\<lambda>x. is_some_and (as_u64 b) (\<lambda>y. x < y))"

definition u64_le :: "json \<Rightarrow> json \<Rightarrow> bool" where
  "u64_le a b = is_some_and (as_u64 a) (\<lambda>x. is_some_and (as_u64 b) (\<lambda>y. x \<le> y))"

text \<open>The source actor of a gate and the last phase it is expected to have finished.\<close>

definition gate_source :: "json list \<Rightarrow> json \<Rightarrow> json option" where
  "gate_source actors gate = List.find (\<lambda>a. jix a ''actor_id'' = jix gate ''source_actor_id'') actors"

definition gate_final_phase :: "json list \<Rightarrow> json \<Rightarrow> nat option" where
  "gate_final_phase phases gate = position (\<lambda>p. jix p ''phase_id'' = jix gate ''source_final_phase_id'') phases"

definition gate_reap :: "json list \<Rightarrow> json \<Rightarrow> json" where
  "gate_reap actors gate = (case gate_source actors gate of Some a \<Rightarrow> jix a ''owned_reap'' | None \<Rightarrow> JNull)"

definition gate_activation :: "json list \<Rightarrow> json \<Rightarrow> json" where
  "gate_activation phases gate =
     (case gate_final_phase phases gate of Some i \<Rightarrow> jix (phases ! i) ''activation_observation'' | None \<Rightarrow> JNull)"

definition gate_ordered :: "json list \<Rightarrow> json list \<Rightarrow> nat \<Rightarrow> json \<Rightarrow> json \<Rightarrow> bool" where
  "gate_ordered actors phases i phase gate =
     (is_object gate \<and> str_eq (jix gate ''condition'') ''terminated'' \<and> is_some (gate_source actors gate) \<and>
      jix gate ''source_actor_id'' \<noteq> jix phase ''actor_id'' \<and>
      is_some_and (gate_final_phase phases gate) (\<lambda>j.
        j < i \<and> jix (phases ! j) ''actor_id'' = jix gate ''source_actor_id'' \<and>
        \<not> list_ex (\<lambda>p. jix p ''actor_id'' = jix gate ''source_actor_id'') (drop (j + 1) phases)))"

definition gate_wait_valid :: "json \<Rightarrow> string \<Rightarrow> bool" where
  "gate_wait_valid gate outcome =
     (let wait = jix gate ''wait'' in
      is_some_and (as_u64 (jix wait ''budget_ms'')) (\<lambda>v. v \<le> 5000) \<and> is_boolean (jix wait ''clock_fault'') \<and>
      (is_null (jix wait ''elapsed_ms'') \<or> is_some (as_u64 (jix wait ''elapsed_ms''))) \<and>
      str_eq (jix wait ''stop'') outcome \<and> is_null (jix wait ''excluded_ms''))"

definition gate_observed_valid :: "'d platform \<Rightarrow> json list \<Rightarrow> json \<Rightarrow> bool" where
  "gate_observed_valid os actors gate =
     (let observation = jix gate ''observation''; reap = gate_reap actors gate in
      keys_allowed observation [''capture_ordinal''] \<and>
      is_some_and (as_u64 (jix observation ''capture_ordinal'')) (\<lambda>v. 0 < v) \<and>
      jix observation ''capture_ordinal'' = jix reap ''capture_ordinal'' \<and>
      is_some_and (gate_source actors gate) (owned_reap_valid os) \<and>
      u64_less (jix reap ''capture_ordinal'') (jix gate ''capture_ordinal''))"

definition natural_reap :: "'d platform \<Rightarrow> json list \<Rightarrow> json list \<Rightarrow> json \<Rightarrow> bool" where
  "natural_reap os actors phases gate =
     (let reap = gate_reap actors gate; activation = gate_activation phases gate in
      is_some_and (gate_source actors gate) (owned_reap_valid os) \<and>
      jix reap ''ownership_unbroken'' = JBool True \<and> jix reap ''departure_requested'' = JBool False \<and>
      as_str (jix reap ''stage'') \<in> {Some ''schedule'', Some ''termination_gate''} \<and>
      keys_allowed (jix gate ''observation'') [''capture_ordinal''] \<and>
      jix (jix gate ''observation'') ''capture_ordinal'' = jix reap ''capture_ordinal'' \<and>
      u64_less (jix activation ''capture_ordinal'') (jix reap ''capture_ordinal'') \<and>
      u64_less (jix reap ''capture_ordinal'') (jix gate ''capture_ordinal'') \<and>
      u64_le (jix activation ''observed_ns'') (jix reap ''observed_ns''))"

definition timely_wait :: "json \<Rightarrow> bool" where
  "timely_wait gate =
     (let wait = jix gate ''wait'' in
      is_some_and (as_u64 (jix wait ''budget_ms'')) (\<lambda>v. 0 < v \<and> v \<le> 5000) \<and> jix wait ''clock_fault'' = JBool False \<and>
      is_null (jix wait ''native_errno'') \<and> u64_le (jix wait ''elapsed_ms'') (jix wait ''budget_ms''))"

definition phase_withheld :: "json \<Rightarrow> json \<Rightarrow> bool" where
  "phase_withheld phase gate =
     (jix gate ''activation_eligible'' = JBool False \<and> is_none (jget phase ''activation_observation'') \<and>
      jix (jix phase ''ordering'') ''proceed_set'' \<noteq> JBool True \<and>
      jix (jix phase ''ordering'') ''proceed_observed'' \<noteq> JBool True \<and>
      str_eq (jix phase ''collection_status'') ''not_reached'')"

definition gate_issues :: "'d platform \<Rightarrow> json list \<Rightarrow> json list \<Rightarrow> nat \<Rightarrow> json \<Rightarrow> json \<Rightarrow> string list" where
  "gate_issues os actors phases i phase gate =
     (let outcome = unwrap_or (as_str (jix gate ''outcome'')) [] in
      issue (gate_ordered actors phases i phase gate) ''termination dependency source or ordering'' @
      issue (outcome \<in> set GATE_OUTCOMES) ''termination gate outcome'' @
      (if outcome \<noteq> ''not_reached'' then
         issue (gate_wait_valid gate outcome) ''termination gate wait budget or accounting'' else []) @
      (if \<not> is_null (jix gate ''observation'') then
         issue (gate_observed_valid os actors gate)
           ''termination gate observation does not resolve to its source owned reap'' else []) @
      (if outcome = ''satisfied'' then
         issue (natural_reap os actors phases gate)
           ''satisfied termination gate lacks natural owned reap after final activation'' @
         issue (timely_wait gate) ''satisfied termination gate lacks a timely clocked wait'' @
         (case jget phase ''activation_observation'' of
            None \<Rightarrow> []
          | Some activated \<Rightarrow>
              issue (is_null (jix activated ''observed_ns'') \<or>
                  u64_le (jix (gate_reap actors gate) ''observed_ns'') (jix activated ''observed_ns''))
                ''dependent activation precedes owned termination'')
       else issue (phase_withheld phase gate) ''failed termination gate enabled collection or release'') @
      (if jix gate ''activation_eligible'' = JBool True then
         issue (outcome = ''satisfied'' \<and> list_ex (\<lambda>a. jix a ''actor_id'' = jix phase ''actor_id'' \<and>
             as_str (jix a ''setup_status'') \<in> {Some ''applied'', Some ''unapplied_declared''} \<and>
             jix (jix (jix a ''equipment'') ''execution'') ''eligible'' = JBool True) actors)
           ''termination gate eligibility lacks independent setup''
       else []))"

definition gates_issues :: "'d platform \<Rightarrow> json \<Rightarrow> json list \<Rightarrow> string list" where
  "gates_issues os runner actors =
     (let phases = jarray (jix runner ''phases'') in
      concat (map (\<lambda>actor. if is_some (jget actor ''owned_reap'')
        then issue (owned_reap_valid os actor) ''owned reap disagrees with child identity or wait status'' else []) actors) @
      concat (map (\<lambda>(i, phase). activation_issues phase @
        (case jget phase ''termination_gate'' of None \<Rightarrow> [] | Some gate \<Rightarrow> gate_issues os actors phases i phase gate))
        (enumerate 0 phases)))"

section \<open>The whole reply\<close>

definition preparation_failure_valid :: "json \<Rightarrow> bool" where
  "preparation_failure_valid runner =
     (let failure = jix runner ''preparation_failure''; actors = jarray (jix runner ''actors'');
          phases = jarray (jix runner ''phases''); resources = jix runner ''resources'';
          identities = concat (map (\<lambda>p. jarray (jix p ''action_ids'')) phases) in
      (as_str (jix failure ''stage''), as_str (jix failure ''code'')) \<in>
        {(Some ''resolved_plan'', Some ''inconsistent_assignment''), (Some ''equipment'', Some ''equipment_binding_refused'')} \<and>
      str_eq (jix runner ''execution_form'') ''actors'' \<and> str_eq (jix runner ''normalized_outcome'') ''runner_failed'' \<and>
      jint_eq (jix runner ''rc'') 1 \<and> actors \<noteq> [] \<and>
      list_all (\<lambda>a. str_eq (jix a ''setup_status'') ''launch_refused'' \<and> is_null (jix a ''launch'') \<and>
        is_null (jix a ''subprocess'')) actors \<and>
      list_all (\<lambda>key. as_array (jix runner key) = Some []) [''steps'', ''extension_events'', ''transfers''] \<and>
      list_all (\<lambda>key. jarray (jix resources key) = []) [''tokens'', ''deliveries'', ''handles''] \<and>
      str_eq (jix (jix (jix (jix runner ''authority_setup'') ''host'') ''run'') ''disposition'') ''not_attempted'' \<and>
      is_null (jix runner ''request_failure'') \<and>
      list_all (\<lambda>p. str_eq (jix p ''collection_status'') ''not_reached'' \<and>
        jix (jix p ''ordering'') ''proceed_set'' \<noteq> JBool True \<and>
        jix (jix p ''ordering'') ''proceed_observed'' \<noteq> JBool True) phases \<and>
      length identities \<le> 256 \<and> list_all (\<lambda>i. bounded i 63) identities \<and>
      card (set (filter_map as_str identities)) = length identities)"

definition actor_validate :: "'d platform \<Rightarrow> json \<Rightarrow> string list" where
  "actor_validate os runner =
     (if is_some (jget runner ''extensions'') then [''removed declaration reply field''] else []) @
     (if \<not> str_eq (jix runner ''execution_form'') ''actors'' then
        issue (jarray (jix runner ''extension_events'') = [] \<and> \<not> is_object (jix runner ''authority_setup'') \<and>
            \<not> is_object (jix runner ''equipment_inventory''))
          ''ordinary reply carries actor authority evidence''
      else
        (let actors = jarray (jix runner ''actors'') in
         (if is_some (jget runner ''preparation_failure'') then
            issue (preparation_failure_valid runner) ''invalid before-launch preparation failure'' else []) @
         setup_issues runner actors @ equipment_issues os runner actors @
         concat (map (\<lambda>(i, actor). application_issues actor (jnth (jix (jix runner ''authority_setup'') ''workers'') i))
           (enumerate 0 actors)) @
         gates_issues os runner actors))"

section \<open>Properties\<close>

lemma concat_enumerate_Nil:
  "concat (map f (enumerate 0 xs)) = [] \<longleftrightarrow> (\<forall>i < length xs. f (i, xs ! i) = [])"
  by (auto simp: in_set_enumerate_eq)

lemma actor_validate_parts:
  assumes "actor_validate os runner = []" and "str_eq (jix runner ''execution_form'') ''actors''"
  shows "setup_issues runner (jarray (jix runner ''actors'')) = []"
    "equipment_issues os runner (jarray (jix runner ''actors'')) = []"
    "gates_issues os runner (jarray (jix runner ''actors'')) = []"
  using assms by (simp_all add: actor_validate_def Let_def del: concat_eq_Nil_conv)

subsection \<open>Setup scopes\<close>

definition op_slot :: "json \<Rightarrow> nat option" where "op_slot op = as_u64 (jix op ''slot'')"

lemma operations_identified:
  assumes "operations_issues names family seen ops = []"
  shows "list_all (\<lambda>op. is_some_and (op_slot op) (\<lambda>n. is_some_and (nth_opt names n) (str_eq (jix op ''operation'')))) ops \<and>
    distinct (map op_slot ops) \<and> (\<forall>op \<in> set ops. \<forall>n. op_slot op = Some n \<longrightarrow> n \<notin> seen)"
  using assms
proof (induction ops arbitrary: seen)
  case (Cons op ops)
  from Cons.prems obtain slot where slot: "op_slot op = Some slot"
    and head: "operation_issues names family seen slot op = []"
    and rest: "operations_issues names family (insert slot seen) ops = []"
    by (auto simp: op_slot_def split: option.splits)
  from head have "slot \<notin> seen" "is_some_and (nth_opt names slot) (str_eq (jix op ''operation''))"
    by (simp_all add: operation_issues_def Let_def split: if_splits)
  with Cons.IH [OF rest] slot show ?case by (auto simp: image_iff) metis
qed simp

text \<open>
  C35: an accepted setup scope identifies its operation cells. Every cell names the operation its slot
  stands for and no slot is reported twice; an ownership reported as released is backed by a cleanup
  operation that succeeded.
\<close>

theorem scope_cells_identified:
  assumes "scope_issues scope names family = []"
  shows "\<exists>operations. as_array (jix scope ''operations'') = Some operations \<and>
    length operations \<le> length names \<and> distinct (map op_slot operations) \<and>
    (\<forall>op \<in> set operations. \<exists>n < length names. op_slot op = Some n \<and> jix op ''operation'' = JStr (names ! n)) \<and>
    (\<forall>name. jget (jix scope ''ownership'') name = Some (JStr ''released'') \<longrightarrow>
      (\<exists>op \<in> set operations. \<exists>o1 \<in> set (releasing_operations family name).
        jix op ''operation'' = JStr o1 \<and> jix op ''state'' = JStr ''succeeded''))"
proof -
  from assms obtain ops where ops: "as_array (jix scope ''operations'') = Some ops"
    by (auto simp: scope_issues_def split: option.splits)
  from assms ops have parts: "length ops \<le> length names" "operations_issues names family {} ops = []"
    "\<And>m. as_object (jix scope ''ownership'') = Some m \<Longrightarrow> \<forall>(name, st) \<in> set m. ownership_issues family ops name st = []"
    by (auto simp: scope_issues_def)
  note ident = operations_identified [OF parts(2)]
  show ?thesis
  proof (intro exI [of _ ops] conjI ballI allI impI)
    show "as_array (jix scope ''operations'') = Some ops" "length ops \<le> length names" by fact+
    show "distinct (map op_slot ops)" using ident by simp
    show "\<exists>n < length names. op_slot op = Some n \<and> jix op ''operation'' = JStr (names ! n)" if "op \<in> set ops" for op
      using ident that by (auto simp: list_all_iff is_some_and_iff nth_opt_Some str_eq_def)
  next
    fix name assume r: "jget (jix scope ''ownership'') name = Some (JStr ''released'')"
    then obtain m where m: "jix scope ''ownership'' = JObj m" "map_of m name = Some (JStr ''released'')"
      by (cases "jix scope ''ownership''") auto
    with parts(3) have "ownership_issues family ops name (JStr ''released'') = []" by (auto dest: map_of_SomeD)
    then have "list_ex (\<lambda>op. unwrap_or (as_str (jix op ''operation'')) [] \<in> set (releasing_operations family name) \<and>
        str_eq (jix op ''state'') ''succeeded'') ops"
      by (simp add: ownership_issues_def str_eq_def Let_def)
    moreover have "[] \<notin> set (releasing_operations family name)" by (simp add: releasing_operations_def)
    ultimately show "\<exists>op \<in> set ops. \<exists>o1 \<in> set (releasing_operations family name).
        jix op ''operation'' = JStr o1 \<and> jix op ''state'' = JStr ''succeeded''"
      by (auto simp: list_ex_iff str_eq_def unwrap_or_def split: option.splits)
  qed
qed

definition sample_scope :: json where
  "sample_scope = JObj
     [(''operations'', JArr
        [JObj [(''native_kind'', JStr ''mapping''), (''operation'', JStr ''mmap''), (''role'', JStr ''setup''),
           (''slot'', JNum (PosInt 0)), (''state'', JStr ''succeeded'')],
         JObj [(''native_kind'', JStr ''integer''), (''native_rc'', JNum (PosInt 0)), (''operation'', JStr ''munmap''),
           (''role'', JStr ''cleanup''), (''slot'', JNum (PosInt 2)), (''state'', JStr ''succeeded'')]]),
      (''ownership'', JObj [(''mapping'', JStr ''released'')])]"

theorem scope_cells_identified_witness:
  "scope_issues sample_scope CUSTODY_OPS ''custody'' = [] \<and>
   (\<exists>op \<in> set (jarray (jix sample_scope ''operations'')). \<exists>o1 \<in> set (releasing_operations ''custody'' ''mapping'').
      jix op ''operation'' = JStr o1 \<and> jix op ''state'' = JStr ''succeeded'')"
proof -
  have v: "scope_issues sample_scope CUSTODY_OPS ''custody'' = []"
    by (simp add: sample_scope_def scope_issues_def integrity_error_issues_def CUSTODY_OPS_def operation_issues_def
      keys_allowed_def OPERATION_FIELDS_def cleanup_slot_def operation_kind_def operation_result_issues_def
      primary_issues_def ownership_issues_def releasing_operations_def cleanup_reference_issues_def ends_with_def
      issue_def jix_def str_eq_def i64_max_def)
  have r: "jget (jix sample_scope ''ownership'') ''mapping'' = Some (JStr ''released'')"
    by (simp add: sample_scope_def jix_def)
  from scope_cells_identified [OF v] r v show ?thesis by (auto simp: jarray_def)
qed

subsection \<open>Termination gates\<close>

lemma gates_issues_gate:
  assumes "gates_issues os runner actors = []" and "i < length (jarray (jix runner ''phases''))"
    and "jget (jarray (jix runner ''phases'') ! i) ''termination_gate'' = Some gate"
  shows "gate_issues os actors (jarray (jix runner ''phases'')) i (jarray (jix runner ''phases'') ! i) gate = []"
  using assms by (auto simp: gates_issues_def Let_def concat_enumerate_Nil simp del: concat_eq_Nil_conv)

lemma gate_accepted:
  assumes "gate_issues os actors phases i phase gate = []"
  shows "gate_ordered actors phases i phase gate"
    "jix gate ''outcome'' = JStr ''satisfied'' \<and> natural_reap os actors phases gate \<and> timely_wait gate \<and>
       is_none_or (jget phase ''activation_observation'') (\<lambda>a. is_null (jix a ''observed_ns'') \<or>
         u64_le (jix (gate_reap actors gate) ''observed_ns'') (jix a ''observed_ns'')) \<or> phase_withheld phase gate"
  using assms
  by (auto simp: gate_issues_def Let_def unwrap_or_def split: if_splits option.splits)

text \<open>
  What a phase behind a termination gate shows once it was let go: it was declared eligible, its
  activation was observed, it was told or seen to proceed, or its collection was reached.
\<close>

definition phase_released :: "json \<Rightarrow> json \<Rightarrow> bool" where
  "phase_released phase gate =
     (jix gate ''activation_eligible'' = JBool True \<or> is_some (jget phase ''activation_observation'') \<or>
      jix (jix phase ''ordering'') ''proceed_set'' = JBool True \<or>
      jix (jix phase ''ordering'') ''proceed_observed'' = JBool True \<or>
      \<not> str_eq (jix phase ''collection_status'') ''not_reached'')"

text \<open>
  C33: in an accepted actor reply no gated phase is released before its source actor has terminated. If
  a phase behind a termination gate was released in any way, the gate is satisfied within its budget,
  its source is another actor whose last phase precedes this one, and that actor's own child was reaped
  naturally: pid, wait status and subprocess record agree, the reap was captured after the activation of
  the source's last phase and before the gate, and no clock reading puts it after this phase's
  activation.
\<close>

theorem termination_gate_sound:
  fixes os runner
  defines "actors \<equiv> jarray (jix runner ''actors'')" and "phases \<equiv> jarray (jix runner ''phases'')"
  assumes "actor_validate os runner = []" and "str_eq (jix runner ''execution_form'') ''actors''"
    and "i < length phases" and "jget (phases ! i) ''termination_gate'' = Some gate"
    and "phase_released (phases ! i) gate"
  shows "\<exists>source \<in> set actors. \<exists>j < i.
    jix gate ''outcome'' = JStr ''satisfied'' \<and> timely_wait gate \<and>
    jix source ''actor_id'' = jix gate ''source_actor_id'' \<and> jix source ''actor_id'' \<noteq> jix (phases ! i) ''actor_id'' \<and>
    jix (phases ! j) ''actor_id'' = jix source ''actor_id'' \<and>
    (\<forall>k < length phases. jix (phases ! k) ''actor_id'' = jix source ''actor_id'' \<longrightarrow> k \<le> j) \<and>
    owned_reap_valid os source \<and>
    jix (jix source ''owned_reap'') ''ownership_unbroken'' = JBool True \<and>
    jix (jix source ''owned_reap'') ''departure_requested'' = JBool False \<and>
    u64_less (jix (jix (phases ! j) ''activation_observation'') ''capture_ordinal'') (jix (jix source ''owned_reap'') ''capture_ordinal'') \<and>
    u64_less (jix (jix source ''owned_reap'') ''capture_ordinal'') (jix gate ''capture_ordinal'') \<and>
    is_none_or (jget (phases ! i) ''activation_observation'') (\<lambda>a. is_null (jix a ''observed_ns'') \<or>
      u64_le (jix (jix source ''owned_reap'') ''observed_ns'') (jix a ''observed_ns''))"
proof -
  have "gate_issues os actors phases i (phases ! i) gate = []"
    using gates_issues_gate [OF actor_validate_parts(3) [OF assms(3, 4)]] assms(5, 6) by (simp add: actors_def phases_def)
  note g = gate_accepted [OF this]
  have "\<not> phase_withheld (phases ! i) gate"
    using assms(7) by (auto simp: phase_released_def phase_withheld_def rust_simps)
  with g(2) have s: "jix gate ''outcome'' = JStr ''satisfied''" "natural_reap os actors phases gate" "timely_wait gate"
    "is_none_or (jget (phases ! i) ''activation_observation'') (\<lambda>a. is_null (jix a ''observed_ns'') \<or>
       u64_le (jix (gate_reap actors gate) ''observed_ns'') (jix a ''observed_ns''))" by simp_all
  from g(1) obtain source j where src: "gate_source actors gate = Some source" and fin: "gate_final_phase phases gate = Some j"
    and ord: "j < i" "jix gate ''source_actor_id'' \<noteq> jix (phases ! i) ''actor_id''"
      "jix (phases ! j) ''actor_id'' = jix gate ''source_actor_id''"
      "\<not> list_ex (\<lambda>p. jix p ''actor_id'' = jix gate ''source_actor_id'') (drop (j + 1) phases)"
    by (auto simp: gate_ordered_def is_some_and_iff rust_simps)
  have here: "source \<in> set actors" "jix source ''actor_id'' = jix gate ''source_actor_id''"
    using src by (auto simp: gate_source_def find_Some_iff)
  have reap: "gate_reap actors gate = jix source ''owned_reap''"
    "gate_activation phases gate = jix (phases ! j) ''activation_observation''"
    using src fin by (simp_all add: gate_reap_def gate_activation_def)
  have final: "k \<le> j" if "k < length phases" "jix (phases ! k) ''actor_id'' = jix source ''actor_id''" for k
  proof (rule ccontr)
    assume "\<not> k \<le> j"
    with that(1) have "phases ! k \<in> set (drop (j + 1) phases)"
      by (auto simp: in_set_conv_nth intro!: exI [of _ "k - (j + 1)"])
    with ord(4) that(2) here(2) show False by (auto simp: list_ex_iff)
  qed
  from s(2) src reap have "owned_reap_valid os source"
    "jix (jix source ''owned_reap'') ''ownership_unbroken'' = JBool True"
    "jix (jix source ''owned_reap'') ''departure_requested'' = JBool False"
    "u64_less (jix (jix (phases ! j) ''activation_observation'') ''capture_ordinal'') (jix (jix source ''owned_reap'') ''capture_ordinal'')"
    "u64_less (jix (jix source ''owned_reap'') ''capture_ordinal'') (jix gate ''capture_ordinal'')"
    by (simp_all add: natural_reap_def Let_def)
  with s(1, 3, 4) here ord final show ?thesis
    unfolding reap(1) by (intro bexI [of _ source] exI [of _ j] conjI) simp_all
qed

text \<open>A two-actor reply: actor \<open>a\<close> runs phase \<open>p\<close> and exits, then actor \<open>b\<close> runs phase \<open>q\<close>.\<close>

definition sample_platform :: "unit platform" where
  "sample_platform = \<lparr>cf_parse = (\<lambda>_. Some ()), cf_equal = (=), cf_entries = (\<lambda>_. []),
     wifexited = (\<lambda>s. s mod 128 = 0), wexitstatus = (\<lambda>s. s div 256 mod 256),
     wifsignaled = (\<lambda>s. s mod 128 \<noteq> 0 \<and> s mod 128 \<noteq> 127), wtermsig = (\<lambda>s. s mod 128)\<rparr>"

definition sample_actor :: "string \<Rightarrow> json_map \<Rightarrow> json" where
  "sample_actor name rest = JObj (
     [(''actor_id'', JStr name), (''application'', JObj [(''basis'', JStr ''unapplied_declaration''), (''state'', JStr ''not_requested'')]),
      (''application_count'', JNum (PosInt 0)),
      (''equipment'', JObj [(''binding_ref'', JStr ''selected''),
        (''execution'', JObj [(''eligible'', JBool False), (''status'', JStr ''unobserved'')]),
        (''required_entitlements'', JArr []), (''requirements_status'', JStr ''unobserved''), (''resolved'', JStr ''selected'')])]
     @ rest)"

definition sample_reap :: json_map where
  "sample_reap =
     [(''launch'', JObj [(''pid'', JNum (PosInt 7))]), (''mode'', JStr ''unapplied''),
      (''owned_reap'', JObj [(''capture_ordinal'', JNum (PosInt 2)), (''departure_requested'', JBool False),
        (''native_rc'', JNum (PosInt 7)), (''observed_ns'', JNum (PosInt 20)), (''ownership_unbroken'', JBool True),
        (''pid'', JNum (PosInt 7)), (''raw_status'', JNum (PosInt 0)), (''stage'', JStr ''schedule'')]),
      (''subprocess'', JObj [(''exit_code'', JNum (PosInt 0)), (''pid'', JNum (PosInt 7)), (''reaped'', JBool True)])]"

definition sample_worker_row :: "string \<Rightarrow> nat \<Rightarrow> json" where
  "sample_worker_row name i = JObj
     [(''actor_id'', JStr name), (''actor_index'', JNum (PosInt i)), (''operations'', JArr []),
      (''publication'', JStr ''not_observed''), (''required'', JBool False)]"

definition sample_gate :: json where
  "sample_gate = JObj
     [(''capture_ordinal'', JNum (PosInt 3)), (''condition'', JStr ''terminated''),
      (''observation'', JObj [(''capture_ordinal'', JNum (PosInt 2))]), (''outcome'', JStr ''satisfied''),
      (''source_actor_id'', JStr ''a''), (''source_final_phase_id'', JStr ''p''),
      (''wait'', JObj [(''budget_ms'', JNum (PosInt 50)), (''clock_fault'', JBool False), (''elapsed_ms'', JNum (PosInt 4)),
        (''stop'', JStr ''satisfied'')])]"

definition sample_phases :: "json list" where
  "sample_phases =
     [JObj [(''activation_observation'', JObj [(''capture_ordinal'', JNum (PosInt 1)), (''observed_ns'', JNum (PosInt 10))]),
        (''actor_id'', JStr ''a''), (''phase_id'', JStr ''p'')],
      JObj [(''activation_observation'', JObj [(''capture_ordinal'', JNum (PosInt 4)), (''observed_ns'', JNum (PosInt 30))]),
        (''actor_id'', JStr ''b''), (''phase_id'', JStr ''q''), (''termination_gate'', sample_gate)]]"

definition sample_actors :: "json list" where
  "sample_actors = [sample_actor ''a'' sample_reap, sample_actor ''b'' [(''mode'', JStr ''unapplied'')]]"

definition sample_reply :: json where
  "sample_reply = JObj
     [(''actors'', JArr sample_actors),
      (''authority_setup'', JObj
        [(''host'', JObj [(''custody'', JArr []), (''regions'', JArr []), (''run'', JObj [(''operations'', JArr [])])]),
         (''workers'', JArr [sample_worker_row ''a'' 0, sample_worker_row ''b'' 1])]),
      (''equipment_bindings'', JArr []), (''equipment_entitlements'', JArr []),
      (''equipment_inventory'', JObj [(''status'', JStr ''unobserved'')]),
      (''execution_form'', JStr ''actors''), (''phases'', JArr sample_phases)]"

lemmas sample_defs = sample_reply_def sample_actors_def sample_actor_def sample_worker_row_def jix_def str_eq_def issue_def

lemma sample_setup: "setup_issues sample_reply sample_actors = []"
  by (simp add: sample_defs setup_issues_def scope_issues_def integrity_error_issues_def primary_issues_def
    cleanup_reference_issues_def worker_row_issues_def Let_def)

lemma sample_equipment: "equipment_issues sample_platform sample_reply sample_actors = []"
  by (simp add: sample_defs equipment_issues_def inventory_issues_def unique_by_def actor_equipment_issues_def
    requirement_issues_def runtime_refused_def Let_def sample_reap_def i64_max_def)

lemma sample_application:
  "application_issues (sample_actor n sample_reap) w = []"
  "application_issues (sample_actor n [(''mode'', JStr ''unapplied'')]) w = []"
  by (simp_all add: sample_actor_def sample_reap_def jix_def str_eq_def issue_def application_issues_def
    application_supported_def keys_allowed_def one_of_def jint_eq_def i64_max_def Let_def)

lemma sample_gates: "gates_issues sample_platform sample_reply sample_actors = []"
  by (simp add: sample_defs sample_reap_def sample_phases_def sample_gate_def gates_issues_def activation_issues_def
    gate_issues_def gate_ordered_def gate_source_def gate_final_phase_def gate_reap_def gate_activation_def
    gate_wait_valid_def gate_observed_valid_def natural_reap_def timely_wait_def owned_reap_valid_def
    keys_allowed_def bounded_def u64_less_def u64_le_def GATE_OUTCOMES_def i32_of_def i64_max_def nul_def
    sample_platform_def Let_def)

lemma sample_actors_reply [simp]: "jarray (jix sample_reply ''actors'') = sample_actors"
    "jarray (jix sample_reply ''phases'') = sample_phases" "jget sample_reply ''extensions'' = None"
    "jget sample_reply ''preparation_failure'' = None" "str_eq (jix sample_reply ''execution_form'') ''actors''"
  by (simp_all add: sample_reply_def jix_def str_eq_def)

lemma sample_valid: "actor_validate sample_platform sample_reply = []"
  using sample_setup sample_equipment sample_gates
  by (simp add: actor_validate_def Let_def) (simp add: sample_actors_def sample_application)

theorem termination_gate_sound_witness:
  "actor_validate sample_platform sample_reply = [] \<and>
   (\<exists>source \<in> set sample_actors. jix source ''actor_id'' = JStr ''a'' \<and> owned_reap_valid sample_platform source)"
proof -
  have "jget (sample_phases ! 1) ''termination_gate'' = Some sample_gate" "phase_released (sample_phases ! 1) sample_gate"
    "jix sample_gate ''source_actor_id'' = JStr ''a''" "1 < length sample_phases"
    by (simp_all add: sample_phases_def phase_released_def sample_gate_def jix_def)
  with termination_gate_sound [OF sample_valid, of 1 sample_gate] sample_valid show ?thesis by auto
qed

subsection \<open>Equipment\<close>

lemma unique_rows_lookup:
  assumes "unique_rows key acc rows = Some m" and "strict_keys acc"
  shows "map_of m k = Some row \<Longrightarrow> map_of acc k = Some row \<or> row \<in> set rows \<and> jix row key = JStr k"
  using assms
proof (induction rows arbitrary: acc)
  case (Cons r rows)
  from Cons.prems(2) obtain name where name: "jix r key = JStr name"
    and rest: "unique_rows key (obj_insert name r acc) rows = Some m"
    by (auto split: option.splits if_splits)
  from Cons.IH [OF Cons.prems(1) rest obj.inv_insert [OF Cons.prems(3)]] name Cons.prems(3)
  show ?case by (auto simp: obj.lookup_insert split: if_splits)
qed simp

lemma unique_by_lookup:
  "unique_by rows key = Some m \<Longrightarrow> map_of m k = Some row \<Longrightarrow> row \<in> set rows \<and> jix row key = JStr k"
  using unique_rows_lookup [of key "[]" rows m k row] by (simp add: unique_by_def)

lemma read_back_dictionary:
  assumes "read_back_rows os actors dicts rows = (out, result)" and "result k = Some d" and "k \<noteq> []"
  shows "dicts k = Some d \<or> (\<exists>row \<in> set rows. jix row ''entitlements_id'' = JStr k \<and> jix row ''status'' = JStr ''observed'' \<and>
    (\<exists>txt. jix row ''raw_plist'' = JStr txt \<and> dictionary_read os txt = Some d))"
  using assms
proof (induction rows arbitrary: dicts out)
  case (Cons row rows)
  let ?id = "unwrap_or (as_str (jix row ''entitlements_id'')) []"
  let ?d = "if str_eq (jix row ''status'') ''observed'' then Option.bind (as_str (jix row ''raw_plist'')) (dictionary_read os) else None"
  let ?dicts = "case ?d of Some d' \<Rightarrow> dicts(?id \<mapsto> d') | None \<Rightarrow> dicts"
  from Cons.prems(1) obtain out' where rest: "read_back_rows os actors ?dicts rows = (out', result)"
    by (auto simp: Let_def split: prod.splits if_splits option.splits)
  from Cons.IH [OF rest Cons.prems(2, 3)] show ?case
  proof
    assume a: "?dicts k = Some d"
    show ?thesis
    proof (cases "dicts k = Some d")
      case False
      with a Cons.prems(3) have "?id = k" "?d = Some d" by (auto split: option.splits if_splits)
      with Cons.prems(3) show ?thesis
        by (intro disjI2 bexI [of _ row]) (auto simp: str_eq_def unwrap_or_def bind_eq_Some_conv split: if_splits option.splits)
    qed simp
  qed auto
qed simp

text \<open>
  C34: in an accepted actor reply an actor whose execution equipment matched ran exactly the inspected
  binary with the entitlements it requires. Its binding is in the reply and bound under a verified
  inventory; a packaged binding's digest and code directory hash are the expected ones; the running
  process has that code directory hash; and the entitlements read from the running process are a property
  list of the reply that grants every requirement and equals the one read from the binding.
\<close>

theorem matched_equipment_sound:
  fixes os :: "'d platform" and runner
  defines "actors \<equiv> jarray (jix runner ''actors'')"
  defines "bindings \<equiv> jarray (jix runner ''equipment_bindings'')" and "reads \<equiv> jarray (jix runner ''equipment_entitlements'')"
  assumes "actor_validate os runner = []" and "str_eq (jix runner ''execution_form'') ''actors''"
    and "i < length actors" and "actors ! i = actor"
    and "str_eq (jix (jix (jix actor ''equipment'') ''execution'') ''status'') ''matched''"
  shows "\<exists>b binding read txt live. jix (jix actor ''equipment'') ''binding_ref'' = JStr b \<and>
    binding \<in> set bindings \<and> jix binding ''binding_id'' = JStr b \<and> str_eq (jix binding ''status'') ''bound'' \<and>
    str_eq (jix (jix runner ''equipment_inventory'') ''status'') ''verified'' \<and>
    (starts_with b ''override-'' \<or> jix binding ''sha256'' = jix binding ''expected_sha256'' \<and>
       jix binding ''cdhash'' = jix binding ''expected_cdhash'') \<and>
    jix (jix (jix actor ''equipment'') ''execution'') ''cdhash'' = jix binding ''cdhash'' \<and>
    read \<in> set reads \<and> jix read ''entitlements_id'' = JStr (''execution-'' @ nat_digits i) \<and>
    jix read ''raw_plist'' = JStr txt \<and> dictionary_read os txt = Some live \<and>
    (\<forall>key \<in> set (filter_map as_str (jarray (jix (jix actor ''equipment'') ''required_entitlements''))). key \<in> granted os live) \<and>
    (\<exists>row \<in> set reads. \<exists>s static. jix row ''entitlements_id'' = JStr (''binding-'' @ b) \<and>
       jix row ''raw_plist'' = JStr s \<and> dictionary_read os s = Some static \<and> cf_equal os static live)"
proof -
  let ?eq = "jix actor ''equipment''" and ?ref = "''execution-'' @ nat_digits i"
  let ?b = "unwrap_or (as_str (jix ?eq ''binding_ref'')) []"
  note eq = actor_validate_parts(2) [OF assms(4, 5)]
  then obtain by_binding by_read out dicts where u: "unique_by bindings ''binding_id'' = Some by_binding"
      "unique_by reads ''entitlements_id'' = Some by_read"
    and dicts: "read_back_rows os actors (\<lambda>_. None) reads = (out, dicts)"
    and rows: "\<forall>(ident, binding) \<in> set by_binding. binding_issues os (jix runner ''equipment_inventory'') dicts ident binding = []"
    and acts: "concat (map (\<lambda>(i, actor). actor_equipment_issues os dicts by_binding by_read i actor) (enumerate 0 actors)) = []"
    by (auto simp: equipment_issues_def Let_def actors_def bindings_def reads_def split: option.splits prod.splits)
  have "actor_equipment_issues os dicts by_binding by_read i actor = []"
    using acts assms(6, 7) unfolding concat_enumerate_Nil by auto
  then have m: "matched_execution os dicts by_binding by_read i actor"
    using assms(8) by (simp add: actor_equipment_issues_def str_eq_def Let_def)
  define binding where "binding = unwrap_or (obj_get by_binding ?b) JNull"
  from m obtain static live where st: "str_eq (jix binding ''status'') ''bound''"
    and hash: "jix (jix ?eq ''execution'') ''cdhash'' = jix binding ''cdhash''"
    and live: "dicts ?ref = Some live" "dicts (''binding-'' @ ?b) = Some static" "cf_equal os static live"
    and req: "set (filter_map as_str (jarray (jix ?eq ''required_entitlements''))) \<subseteq> granted os live"
    by (auto simp: matched_execution_def Let_def is_some_and_iff binding_def)
  have row: "obj_get by_binding ?b = Some binding"
    using st by (cases "obj_get by_binding ?b") (auto simp: binding_def str_eq_def jix_def)
  have bi: "binding_issues os (jix runner ''equipment_inventory'') dicts ?b binding = []"
    using rows map_of_SomeD [OF row] by auto
  have binding: "binding \<in> set bindings" "jix binding ''binding_id'' = JStr ?b"
    using unique_by_lookup [OF u(1) row] by auto
  have "?b \<in> {''selected'', ''unentitled''} \<or> starts_with ?b ''override-''"
    using bi by (auto simp: binding_issues_def Let_def strip_prefix_def split: if_splits)
  then have b: "jix ?eq ''binding_ref'' = JStr ?b"
    by (cases "jix ?eq ''binding_ref''") auto
  have pack: "str_eq (jix (jix runner ''equipment_inventory'') ''status'') ''verified''"
    "starts_with ?b ''override-'' \<or> jix binding ''sha256'' = jix binding ''expected_sha256'' \<and>
       jix binding ''cdhash'' = jix binding ''expected_cdhash''"
    using bi st by (auto simp: binding_issues_def Let_def)
  from read_back_dictionary [OF dicts live(1)] obtain read plist where
    r: "read \<in> set reads" "jix read ''entitlements_id'' = JStr ?ref" "jix read ''raw_plist'' = JStr plist" "dictionary_read os plist = Some live"
    by auto
  from read_back_dictionary [OF dicts live(2)] have s: "\<exists>row \<in> set reads. \<exists>s static. jix row ''entitlements_id'' = JStr (''binding-'' @ ?b) \<and>
       jix row ''raw_plist'' = JStr s \<and> dictionary_read os s = Some static \<and> cf_equal os static live"
    using live(3) by auto
  show ?thesis
    using b binding st pack hash r req s by blast
qed

text \<open>A reply of one actor that ran the packaged worker with one required entitlement.\<close>

definition entitled_platform :: "unit platform" where
  "entitled_platform = sample_platform\<lparr>cf_entries := (\<lambda>_. [(CFString (Some ''get-task-allow''), CFBoolean True)])\<rparr>"

definition sample_digest :: "nat \<Rightarrow> json" where "sample_digest n = JStr (replicate n CHR ''0'')"

definition entitled_actor :: json where
  "entitled_actor = JObj
     [(''actor_id'', JStr ''a''), (''application'', JObj [(''basis'', JStr ''unapplied_declaration''), (''state'', JStr ''not_requested'')]),
      (''application_count'', JNum (PosInt 0)),
      (''equipment'', JObj [(''binding_ref'', JStr ''selected''),
        (''execution'', JObj [(''cdhash'', sample_digest 40), (''eligible'', JBool True), (''entitlements_ref'', JStr ''execution-0''),
           (''native_observations'', JArr (map (\<lambda>n. JObj [(''attempted'', JBool True), (''operation'', JStr n),
              (''osstatus'', JNum (PosInt 0))]) NATIVE_INSPECTIONS)),
           (''path'', JStr ''/w''), (''pid'', JNum (PosInt 7)), (''status'', JStr ''matched'')]),
        (''missing_requirements'', JArr []), (''required_entitlements'', JArr [JStr ''get-task-allow'']),
        (''requirements_status'', JStr ''satisfied''), (''resolved'', JStr ''selected'')]),
      (''launch'', JObj [(''pid'', JNum (PosInt 7))]), (''mode'', JStr ''unapplied'')]"

definition entitled_binding :: json where
  "entitled_binding = JObj
     [(''binding_id'', JStr ''selected''), (''cdhash'', sample_digest 40), (''entitlements_match'', JBool True),
      (''entitlements_ref'', JStr ''binding-selected''), (''expected_cdhash'', sample_digest 40),
      (''expected_sha256'', sample_digest 64), (''implementation_identity'', JStr ''inventory_verified''),
      (''path'', JStr ''/w''), (''relative_path'', JStr ''Contents/MacOS/pw-probe-runner''), (''role'', JStr ''selected''),
      (''sha256'', sample_digest 64), (''signature_osstatus'', JNum (PosInt 0)), (''source'', JStr ''packaged''),
      (''status'', JStr ''bound'')]"

definition entitled_reads :: "json list" where
  "entitled_reads =
     [JObj [(''binding_ref'', JStr ''selected''), (''entitlements_id'', JStr ''binding-selected''),
        (''raw_plist'', JStr ''<plist''), (''source'', JStr ''binding''), (''status'', JStr ''observed'')],
      JObj [(''actor_id'', JStr ''a''), (''binding_ref'', JStr ''selected''), (''entitlements_id'', JStr ''execution-0''),
        (''raw_plist'', JStr ''<plist''), (''source'', JStr ''execution''), (''status'', JStr ''observed'')]]"

definition entitled_reply :: json where
  "entitled_reply = JObj
     [(''actors'', JArr [entitled_actor]),
      (''authority_setup'', JObj
        [(''host'', JObj [(''custody'', JArr []), (''regions'', JArr []), (''run'', JObj [(''operations'', JArr [])])]),
         (''workers'', JArr [sample_worker_row ''a'' 0])]),
      (''equipment_bindings'', JArr [entitled_binding]), (''equipment_entitlements'', JArr entitled_reads),
      (''equipment_inventory'', JObj [(''schema_version'', JNum (PosInt 1)), (''seal_osstatus'', JNum (PosInt 0)),
        (''sha256'', sample_digest 64), (''status'', JStr ''verified''), (''unsigned_worker_sha256'', sample_digest 64),
        (''worker_identity'', sample_digest 64)]),
      (''execution_form'', JStr ''actors''), (''phases'', JArr [])]"

lemma hex_sample_digest [simp]: "hex (sample_digest n) n"
  by (simp add: hex_def sample_digest_def is_lower_hexdigit_def is_ascii_digit_def list_all_iff)

lemma digits_0: "nat_digits 0 = ''0''"
  by code_simp

lemma entitled_read: "dictionary_read entitled_platform ''<plist'' = Some ()"
  by (simp add: dictionary_read_def trim_start.simps ws_prefix_def entitled_platform_def sample_platform_def)

lemma entitled_granted: "granted entitled_platform () = {''get-task-allow''}"
  by (simp add: granted_def entitled_platform_def nul_def)

lemma entitled_dicts:
  "read_back_rows entitled_platform [entitled_actor] (\<lambda>_. None) entitled_reads =
     ([], [''binding-selected'' \<mapsto> (), ''execution-0'' \<mapsto> ()])"
  by (simp add: entitled_reads_def entitled_read jix_def str_eq_def issue_def entitled_actor_def digits_0)

lemma entitled_setup: "setup_issues entitled_reply [entitled_actor] = []"
  by (simp add: entitled_reply_def entitled_actor_def sample_worker_row_def jix_def str_eq_def issue_def setup_issues_def
    scope_issues_def integrity_error_issues_def primary_issues_def cleanup_reference_issues_def worker_row_issues_def Let_def)

lemma entitled_binding_ok:
  "binding_issues entitled_platform (jix entitled_reply ''equipment_inventory'') [''binding-selected'' \<mapsto> (), ''execution-0'' \<mapsto> ()]
     ''selected'' entitled_binding = []"
  by (simp add: binding_issues_def entitled_reply_def entitled_binding_def jix_def str_eq_def issue_def Let_def
    strip_prefix_def bounded_def nul_def jint_eq_def i64_max_def)

lemma entitled_matched:
  "actor_equipment_issues entitled_platform [''binding-selected'' \<mapsto> (), ''execution-0'' \<mapsto> ()]
     [(''selected'', entitled_binding)] [(''binding-selected'', entitled_reads ! 0), (''execution-0'', entitled_reads ! 1)]
     0 entitled_actor = []"
  by (simp add: actor_equipment_issues_def requirement_issues_def matched_execution_def native_inspected_def
    entitled_actor_def entitled_binding_def entitled_reads_def entitled_granted NATIVE_INSPECTIONS_def
    jix_def str_eq_def issue_def Let_def bounded_def nul_def jint_eq_def i64_max_def digits_0)
    (simp add: entitled_platform_def sample_platform_def)

lemma entitled_equipment: "equipment_issues entitled_platform entitled_reply [entitled_actor] = []"
proof -
  have "inventory_issues entitled_reply = []"
    by (simp add: inventory_issues_def entitled_reply_def entitled_reads_def jix_def str_eq_def issue_def Let_def jint_eq_def i64_max_def)
  moreover have "unique_by (jarray (jix entitled_reply ''equipment_bindings'')) ''binding_id'' = Some [(''selected'', entitled_binding)]"
    by (simp add: unique_by_def entitled_reply_def jix_def entitled_binding_def)
  moreover have "jarray (jix entitled_reply ''equipment_entitlements'') = entitled_reads"
    by (simp add: entitled_reply_def jix_def)
  moreover have "unique_by entitled_reads ''entitlements_id'' =
      Some [(''binding-selected'', entitled_reads ! 0), (''execution-0'', entitled_reads ! 1)]"
    by (simp add: unique_by_def entitled_reads_def jix_def)
  moreover have "\<not> runtime_refused entitled_actor"
    by (simp add: runtime_refused_def entitled_actor_def jix_def)
  ultimately show ?thesis
    using entitled_dicts entitled_binding_ok entitled_matched by (simp add: equipment_issues_def Let_def)
qed

lemma entitled_valid: "actor_validate entitled_platform entitled_reply = []"
proof -
  have "application_issues entitled_actor w = []" for w
    by (simp add: entitled_actor_def jix_def str_eq_def issue_def application_issues_def
      application_supported_def keys_allowed_def one_of_def jint_eq_def i64_max_def Let_def)
  moreover have "jget entitled_actor ''owned_reap'' = None" by (simp add: entitled_actor_def)
  moreover have "jarray (jix entitled_reply ''actors'') = [entitled_actor]" "jarray (jix entitled_reply ''phases'') = []"
    "jget entitled_reply ''extensions'' = None" "jget entitled_reply ''preparation_failure'' = None"
    "str_eq (jix entitled_reply ''execution_form'') ''actors''"
    by (simp_all add: entitled_reply_def jix_def str_eq_def)
  ultimately show ?thesis
    using entitled_setup entitled_equipment by (simp add: actor_validate_def gates_issues_def Let_def)
qed

theorem matched_equipment_sound_witness:
  "actor_validate entitled_platform entitled_reply = [] \<and>
   (\<exists>binding \<in> set (jarray (jix entitled_reply ''equipment_bindings'')).
      jix binding ''binding_id'' = JStr ''selected'' \<and> jix binding ''sha256'' = jix binding ''expected_sha256'')"
proof -
  have a: "jarray (jix entitled_reply ''actors'') = [entitled_actor]" "str_eq (jix entitled_reply ''execution_form'') ''actors''"
    "str_eq (jix (jix (jix entitled_actor ''equipment'') ''execution'') ''status'') ''matched''"
    "jix (jix entitled_actor ''equipment'') ''binding_ref'' = JStr ''selected''"
    by (simp_all add: entitled_reply_def entitled_actor_def jix_def str_eq_def)
  show ?thesis
    using matched_equipment_sound [OF entitled_valid a(2), of 0 entitled_actor] a entitled_valid by fastforce
qed

end
