(* ===== verification/Exec_Evidence.thy ===== *)
theory Exec_Evidence
  imports Disposition Actor_Evidence "HOL-Library.Multiset"
begin

text \<open>
  The native evidence that can withhold a projection (controller/src/disposition.rs): the bounded
  observation of a spawned child, the collection status of each phase and the join between a phase's
  query plan and its validator records.
\<close>

section \<open>The observation of a spawned child\<close>

definition i32_value :: "json \<Rightarrow> int option" where
  "i32_value v = option_filter (\<lambda>n. - 2147483648 \<le> n \<and> n \<le> 2147483647) (as_i64 v)"

definition null_or_positive :: "json \<Rightarrow> bool" where
  "null_or_positive v = (is_null v \<or> is_some_and (i32_value v) (\<lambda>n. 0 < n))"

abbreviation is_true :: "json \<Rightarrow> bool" where "is_true v \<equiv> v = JBool True"

definition stream_invalid :: "json \<Rightarrow> bool" where
  "stream_invalid stream =
     (let read = jix stream ''read_errno''; events = jix stream ''poll_revents'';
          event_ok = (is_null events \<or>
            is_some_and (i32_value events) (\<lambda>n. - 32768 \<le> n \<and> n \<le> 32767 \<and> n AND 0x28 \<noteq> 0 \<and> n AND 0x11 = 0)) in
      \<not> is_boolean (jix stream ''eof'') \<or> \<not> null_or_positive read \<or> as_i64 read \<in> {Some 4, Some 35} \<or> \<not> event_ok \<or>
      (is_true (jix stream ''eof'') \<and> (\<not> is_null read \<or> \<not> is_null events)) \<or>
      (\<not> is_null read \<and> \<not> is_null events))"

definition clock_reason_invalid :: "json \<Rightarrow> bool" where
  "clock_reason_invalid fault = (\<not> is_null fault \<and> \<not> is_some_and (as_u64 fault) (\<lambda>n. 0 < n \<and> n \<le> u32_max))"

definition stream_error :: "json \<Rightarrow> bool" where
  "stream_error c = list_ex (\<lambda>s. \<not> is_null (jix s ''read_errno'') \<or> \<not> is_null (jix s ''poll_revents''))
     [jix c ''stdout'', jix c ''stderr'']"

definition collection_errors :: "json \<Rightarrow> bool" where
  "collection_errors c = (\<not> is_null (jix c ''waitid_errno'') \<or> \<not> is_null (jix c ''poll_errno'') \<or> stream_error c)"

definition collection_valid :: "json \<Rightarrow> bool" where
  "collection_valid c =
     (let stop = as_str (jix c ''stop_reason''); fault = jix c ''clock_fault''; deadline = jix c ''deadline_kind'';
          errors = collection_errors c in
      if stop = Some ''leader_exit_and_eof'' then
        is_true (jix c ''leader_exit_observed'') \<and> is_true (jix (jix c ''stdout'') ''eof'') \<and>
        is_true (jix (jix c ''stderr'') ''eof'') \<and> \<not> errors \<and> is_null fault \<and> is_null deadline
      else if stop = Some ''deadline'' then as_str deadline \<in> {Some ''child'', Some ''plan''} \<and> \<not> errors \<and> is_null fault
      else if stop = Some ''observation_error'' then errors \<and> is_null fault \<and> is_null deadline
      else if stop = Some ''clock_fault'' then \<not> is_null fault \<and> \<not> errors \<and> is_null deadline
      else False)"

definition signal_valid :: "json \<Rightarrow> int \<Rightarrow> bool" where
  "signal_valid request target =
     (is_object request \<and> i32_value (jix request ''target'') = Some target \<and> i32_value (jix request ''signal'') = Some 9 \<and>
      (if i32_value (jix request ''rc'') = Some (- 1) then is_some_and (i32_value (jix request ''errno'')) (\<lambda>n. 0 < n)
       else if i32_value (jix request ''rc'') = Some 0 then is_null (jix request ''errno'')
       else False))"

text \<open>A group request that failed for another reason than a missing process (\<open>ESRCH\<close>).\<close>

definition failed_group :: "json \<Rightarrow> bool" where
  "failed_group k = (jint_eq (jix (jix k ''group_request'') ''rc'') (- 1) \<and> \<not> jint_eq (jix (jix k ''group_request'') ''errno'') 3)"

definition cleanup_valid :: "int \<Rightarrow> json \<Rightarrow> json \<Rightarrow> bool" where
  "cleanup_valid pid c k =
     (let group = jix k ''group_request''; fallback = jix k ''leader_fallback''; st = as_str (jix k ''state'');
          complete = (as_str (jix c ''stop_reason'') = Some ''leader_exit_and_eof''); wi = jix c ''waitid_errno'' in
      if st = Some ''not_requested'' then complete \<and> is_null group \<and> is_null fallback
      else if st = Some ''ownership_unconfirmed'' then \<not> is_null wi \<and> is_null group \<and> is_null fallback
      else if st = Some ''requested'' then
        \<not> complete \<and> is_null wi \<and> signal_valid group (- pid) \<and> failed_group k = (\<not> is_null fallback) \<and>
        (is_null fallback \<or> signal_valid fallback pid)
      else False)"

definition wait_decoded :: "json \<Rightarrow> int \<times> int" where
  "wait_decoded status =
     (case i32_value status of
        Some s \<Rightarrow>
          let bits = s AND 0x7f in
          (if bits = 0 then drop_bit 8 s AND 0xff else - 1, if bits \<noteq> 0 \<and> bits \<noteq> 127 then bits else 0)
      | None \<Rightarrow> (- 1, 0))"

definition reap_valid :: "int \<Rightarrow> json \<Rightarrow> json \<Rightarrow> bool" where
  "reap_valid pid k r =
     (let wait = jix r ''last_wait''; rc = i32_value (jix wait ''rc''); errno = jix wait ''errno'';
          st = as_str (jix k ''state''); stop = as_str (jix r ''stop_reason'');
          unowned = (st = Some ''ownership_unconfirmed'') in
      if stop = Some ''reaped'' then rc = Some pid
      else if stop = Some ''wait_error'' then rc = Some (- 1) \<and> \<not> jint_eq errno 4
      else if stop \<in> {Some ''ownership_unconfirmed'', Some ''group_request_failed'', Some ''clock_fault'', Some ''deadline''} then
        (rc = Some 0 \<or> rc = Some (- 1) \<and> jint_eq errno 4) \<and>
        (if stop = Some ''ownership_unconfirmed'' then unowned
         else if stop = Some ''group_request_failed'' then \<not> unowned \<and> failed_group k
         else \<not> unowned \<and> \<not> failed_group k \<and> (stop = Some ''clock_fault'') = (\<not> is_null (jix r ''clock_fault'')))
      else False)"

definition exec_observation_problem :: "json \<Rightarrow> string option" where
  "exec_observation_problem attempt =
     (let value = jix attempt ''exec_observation''; c = jix value ''collection''; k = jix value ''cleanup'';
          r = jix value ''reap''; out = jix c ''stdout''; err = jix c ''stderr''; wait = jix r ''last_wait'';
          wi = jix c ''waitid_errno''; po = jix c ''poll_errno''; rc = i32_value (jix wait ''rc'');
          errno = jix wait ''errno''; status = jix wait ''status'' in
      if is_null value then None
      else (case option_filter (\<lambda>p. 0 < p) (i32_value (jix attempt ''child_pid'')) of
        None \<Rightarrow> Some ''exec observation requires positive native child PID''
      | Some pid \<Rightarrow>
          if \<not> is_object value \<or> \<not> str_eq (jix attempt ''requested_kind'') ''exec'' \<or>
             \<not> str_eq (jix attempt ''requested_action'') ''spawn'' \<or> \<not> str_eq (jix attempt ''result_source'') ''worker'' \<or>
             \<not> str_eq (jix (jix attempt ''lifecycle'') ''summary'') ''completed''
          then Some ''exec observation requires published worker exec''
          else if \<not> list_all is_object [c, k, r, out, err, wait] \<or> \<not> is_boolean (jix c ''leader_exit_observed'')
          then Some ''exec observation lacks typed sections''
          else if list_ex stream_invalid [out, err] then Some ''invalid exec stream observation''
          else if \<not> null_or_positive wi \<or> \<not> null_or_positive po \<or> jint_eq wi 4 \<or> jint_eq po 4
          then Some ''invalid exec collection errno''
          else if list_ex clock_reason_invalid [jix c ''clock_fault'', jix r ''clock_fault'']
          then Some ''invalid exec clock reason''
          else if \<not> is_null wi \<and> is_true (jix c ''leader_exit_observed'')
          then Some ''waitid failure after already observed leader exit''
          else if (\<not> is_null wi \<and> (\<not> is_null po \<or> stream_error c)) \<or> (\<not> is_null po \<and> stream_error c)
          then Some ''incompatible exec collection branches''
          else if \<not> collection_valid c then Some ''exec collection stop contradicts observations''
          else if \<not> cleanup_valid pid c k then Some ''exec cleanup contradicts native call roles''
          else if rc \<notin> {Some (- 1), Some 0} \<and> rc \<noteq> Some pid then Some ''invalid exec wait return''
          else if \<not> (if rc = Some (- 1) then is_some_and (i32_value errno) (\<lambda>n. 0 < n) else is_null errno) \<or>
                  \<not> (if rc = Some pid then is_some (i32_value status) else is_null status)
          then Some ''exec wait errno or status lacks supporting return''
          else if i32_value (jix attempt ''child_exit_code'') \<noteq> Some (fst (wait_decoded status)) \<or>
                  i32_value (jix attempt ''child_term_signal'') \<noteq> Some (snd (wait_decoded status))
          then Some ''exec legacy leader status disagrees with confirmed wait''
          else if \<not> reap_valid pid k r then Some ''exec reap stop contradicts final wait or branch priority''
          else None))"

definition exec_observation_issues :: "json \<Rightarrow> json list" where
  "exec_observation_issues runner =
     (if is_object (jix runner ''reporting_failure'') then []
      else filter_map (\<lambda>step. map_option (integrity_issue ''exec_observation'')
        (exec_observation_problem (jix step ''attempt''))) (jarray (jix runner ''steps'')))"

section \<open>The join of a query plan and its records\<close>

text \<open>
  The source groups the records by step id in an ordered map: a group is the records of one id in
  order, the groups come in ascending order of the ids.
\<close>

definition record_ids :: "json list \<Rightarrow> string list" where
  "record_ids records = fold set_insert (filter_map (\<lambda>r. as_str (jix r ''step_id'')) records) []"

definition record_group :: "json list \<Rightarrow> string \<Rightarrow> json list" where
  "record_group records sid = filter (\<lambda>r. as_str (jix r ''step_id'') = Some sid) records"

type_synonym association_issue = "string \<times> string option \<times> nat"

text \<open>\<open>upper\<close> is the standard library's Unicode \<open>to_uppercase\<close>.\<close>

definition query_mismatch :: "(string \<Rightarrow> string) \<Rightarrow> json \<Rightarrow> json \<Rightarrow> bool" where
  "query_mismatch upper record query =
     (let prediction = (as_str (jix record ''outcome'') \<in> {Some ''allow'', Some ''deny''});
          kind = unwrap_or (as_str (jix query ''filter_kind'')) [];
          filter_value = (if kind = ''none'' then JNull else jix query ''filter_value'') in
      ((prediction \<or> \<not> is_null (jix record ''operation'')) \<and> jix record ''operation'' \<noteq> jix query ''operation'') \<or>
      ((prediction \<or> \<not> is_null (jix record ''filter_type'')) \<and> \<not> str_eq (jix record ''filter_type'') (upper kind)) \<or>
      ((prediction \<or> \<not> is_null (jix record ''filter_value'')) \<and> jix record ''filter_value'' \<noteq> filter_value))"

definition step_association :: "(string \<Rightarrow> string) \<Rightarrow> json list \<Rightarrow> json \<Rightarrow> association_issue list" where
  "step_association upper records step =
     (let sid = unwrap_or (as_str (jix step ''step_id'')) [] in
      case record_group records sid of
        [record] \<Rightarrow>
          if query_mismatch upper record (jix step ''sandbox_check'') then [(''query_mismatch'', Some sid, 1)] else []
      | matches \<Rightarrow> [(if matches = [] then ''missing_id'' else ''duplicate_id'', Some sid, length matches)])"

definition association_issues :: "(string \<Rightarrow> string) \<Rightarrow> json list \<Rightarrow> json list \<Rightarrow> association_issue list" where
  "association_issues upper records eligible =
     (let wanted = filter_map (\<lambda>s. as_str (jix s ''step_id'')) eligible;
          unassociated = length (filter (\<lambda>r. is_null (jix r ''step_id'')) records) in
      sort (concat (map (step_association upper records) eligible) @
        concat (map (\<lambda>sid. if sid \<in> set wanted then [] else [(''unexpected_id'', Some sid, length (record_group records sid))])
          (record_ids records)) @
        (if 0 < unassociated then [(''unassociated'', None, unassociated)] else [])))"

section \<open>Phase collection\<close>

text \<open>\<open>windows(2).all(|w| w[0] != w[1])\<close>.\<close>

fun adjacent_distinct :: "'a list \<Rightarrow> bool" where
  "adjacent_distinct (x # y # zs) = (x \<noteq> y \<and> adjacent_distinct (y # zs))"
| "adjacent_distinct _ = True"

definition eligible_steps :: "json \<Rightarrow> json \<Rightarrow> json list" where
  "eligible_steps runner phase =
     filter (\<lambda>s. jix s ''phase_id'' = jix phase ''phase_id'' \<and>
       \<not> str_eq (jix (jix s ''sandbox_check'') ''missing_reason'') ''query_not_requested'') (jarray (jix runner ''steps''))"

definition null_or_string :: "json \<Rightarrow> bool" where
  "null_or_string v = (is_null v \<or> is_string v)"

definition reported_issue :: "json \<Rightarrow> association_issue" where
  "reported_issue i = (the (as_str (jix i ''kind'')), as_str (jix i ''step_id''), the (as_u64 (jix i ''count'')))"

definition validator_ownership_problem :: "(string \<Rightarrow> string) \<Rightarrow> json \<Rightarrow> json \<Rightarrow> json \<Rightarrow> string option" where
  "validator_ownership_problem upper runner phase block =
     (let eligible = eligible_steps runner phase in
      case (as_str (jix block ''phase_id''), as_i64 (jix block ''ordinal'')) of
        (Some own, Some ordinal) \<Rightarrow>
          if Some own \<noteq> as_str (jix phase ''phase_id'') \<or> Some ordinal \<noteq> as_i64 (jix phase ''ordinal'')
          then Some ''validator collection names another phase''
          else (case as_array (jix block ''expected_step_ids'') of
            None \<Rightarrow> Some ''validator collection lacks its expected plan''
          | Some expected \<Rightarrow>
              if list_ex (\<lambda>s. \<not> is_string (jix s ''step_id'') \<or> \<not> is_object (jix s ''sandbox_check'')) eligible \<or>
                 list_ex (\<lambda>v. \<not> is_string v) expected
              then Some ''validator query plan has an invalid type''
              else
                let plan = sort (map (\<lambda>s. the (as_str (jix s ''step_id''))) eligible);
                    named = sort (map (\<lambda>v. the (as_str v)) expected) in
                if \<not> adjacent_distinct named \<or> named \<noteq> plan
                then Some ''validator expected IDs disagree with the phase's eligible query plan''
                else (case (as_array (jix block ''records''), as_array (jix block ''association_issues'')) of
                  (Some records, Some issues) \<Rightarrow>
                    if list_ex (\<lambda>r. \<not> is_object r \<or> \<not> null_or_string (jix r ''step_id'')) records \<or>
                       list_ex (\<lambda>i. \<not> is_object i \<or> \<not> is_string (jix i ''kind'') \<or> \<not> null_or_string (jix i ''step_id'') \<or>
                         \<not> is_some_and (as_i64 (jix i ''count'')) (\<lambda>v. 0 \<le> v)) issues
                    then Some ''validator association evidence has an invalid type''
                    else if sort (map reported_issue issues) \<noteq> association_issues upper records eligible
                    then Some ''validator association issues disagree with its records''
                    else None
                | _ \<Rightarrow> Some ''validator collection lacks records or association issues''))
      | _ \<Rightarrow> Some ''validator collection lacks phase ownership'')"

definition null_or_object :: "json \<Rightarrow> bool" where
  "null_or_object v = (is_null v \<or> is_object v)"

definition collection_allowed :: "string option \<Rightarrow> string option \<Rightarrow> bool" where
  "collection_allowed status disp =
     (if status = Some ''not_reached'' then disp \<in> {None, Some ''not_invoked''}
      else if status = Some ''not_needed'' then disp = Some ''not_needed''
      else if status = Some ''collected'' then disp \<in> {Some ''not_spawned'', Some ''reaped'', Some ''unconfirmed''}
      else if status = Some ''budget_exhausted'' then disp = Some ''not_spawned''
      else if status = Some ''clock_unavailable'' then disp \<in> {Some ''not_needed'', Some ''not_spawned''}
      else False)"

definition phase_issues :: "(string \<Rightarrow> string) \<Rightarrow> json \<Rightarrow> json \<Rightarrow> json list" where
  "phase_issues upper runner phase =
     (let ordering = jix phase ''ordering''; raw = jix ordering ''validator_disposition'';
          spawn = jix phase ''validator_spawn_failure''; validator = jix phase ''validator_subprocess'';
          disp = as_str raw; status = as_str (jix phase ''collection_status'');
          observations =
            (if status \<noteq> Some ''collected'' then is_null validator \<and> is_null spawn
             else if disp = Some ''not_spawned'' then is_null validator
             else is_object validator \<and> is_null spawn \<and>
               as_bool (jix validator ''reaped'') = Some (disp = Some ''reaped'')) in
      if \<not> is_object phase \<or> \<not> null_or_object ordering \<or> \<not> null_or_string raw \<or> \<not> null_or_object spawn then
        [integrity_issue ''phase_collection'' ''phase collection evidence has an invalid type'']
      else
        (if \<not> collection_allowed status disp \<or> \<not> observations then
           [integrity_issue ''phase_collection'' ''phase collection status contradicts validator evidence''] else []) @
        (if is_object validator then
           (case validator_ownership_problem upper runner phase validator of
              None \<Rightarrow> [] | Some detail \<Rightarrow> [integrity_issue ''phase_collection'' detail])
         else []))"

definition phase_collection_issues :: "(string \<Rightarrow> string) \<Rightarrow> json \<Rightarrow> json list" where
  "phase_collection_issues upper runner =
     (if is_object (jix runner ''reporting_failure'') then []
      else (case jget runner ''phases'' of
          None \<Rightarrow> []
        | Some JNull \<Rightarrow> []
        | Some (JArr phases) \<Rightarrow> concat (map (phase_issues upper runner) phases)
        | Some _ \<Rightarrow> [integrity_issue ''phase_collection'' ''phases is not an array'']))"

section \<open>Properties\<close>

subsection \<open>A spawned child\<close>

text \<open>
  What the record of a kill must say: the process or group it went to, the signal that cannot be caught,
  and a success without or a failure with an error number.
\<close>

definition kill_sent :: "int \<Rightarrow> json \<Rightarrow> bool" where
  "kill_sent target request =
     (i32_value (jix request ''target'') = Some target \<and> i32_value (jix request ''signal'') = Some 9 \<and>
      (i32_value (jix request ''rc'') = Some 0 \<and> jix request ''errno'' = JNull \<or>
       i32_value (jix request ''rc'') = Some (- 1) \<and> (\<exists>e > 0. i32_value (jix request ''errno'') = Some e)))"

lemma signal_valid_sent: "signal_valid request target \<Longrightarrow> kill_sent target request"
  by (auto simp: signal_valid_def kill_sent_def is_null_def is_some_and_iff split: if_splits)

text \<open>
  What a wait status says, by its arithmetic: a multiple of 128 is an exit whose code is the second byte,
  a remainder of 127 a stop, any other remainder the signal the process died of.
\<close>

definition wait_says :: "int \<Rightarrow> int \<Rightarrow> int \<Rightarrow> bool" where
  "wait_says status exit_code sig =
     (if status mod 128 = 0 then exit_code = status div 256 mod 256 \<and> sig = 0
      else exit_code = - 1 \<and> sig = (if status mod 128 = 127 then 0 else status mod 128))"

lemma wait_decoded_says:
  "i32_value v = Some s \<Longrightarrow> wait_says s (fst (wait_decoded v)) (snd (wait_decoded v))"
proof -
  have "s AND 0x7f = s mod 128" "drop_bit 8 s AND 0xff = s div 256 mod 256"
    using take_bit_eq_mask [of 7 s] take_bit_eq_mask [of 8 "drop_bit 8 s"]
    by (simp_all add: take_bit_eq_mod drop_bit_eq_div mask_eq_exp_minus_1)
  then show "i32_value v = Some s \<Longrightarrow> ?thesis" by (simp add: wait_decoded_def wait_says_def Let_def)
qed

lemma cleanup_valid_cases:
  assumes "cleanup_valid pid c k" and "collection_valid c"
  obtains (complete) "jix k ''state'' = JStr ''not_requested''" "jix c ''stop_reason'' = JStr ''leader_exit_and_eof''"
      "jix k ''group_request'' = JNull" "jix k ''leader_fallback'' = JNull"
  | (unowned) "jix k ''state'' = JStr ''ownership_unconfirmed''" "jix c ''stop_reason'' \<noteq> JStr ''leader_exit_and_eof''"
      "jix c ''waitid_errno'' \<noteq> JNull" "jix k ''group_request'' = JNull" "jix k ''leader_fallback'' = JNull"
  | (killed) "jix k ''state'' = JStr ''requested''" "jix c ''stop_reason'' \<noteq> JStr ''leader_exit_and_eof''"
      "jix c ''waitid_errno'' = JNull" "kill_sent (- pid) (jix k ''group_request'')"
      "if jint_eq (jix (jix k ''group_request'') ''rc'') (- 1) \<and> \<not> jint_eq (jix (jix k ''group_request'') ''errno'') 3
       then kill_sent pid (jix k ''leader_fallback'') else jix k ''leader_fallback'' = JNull"
proof -
  have "jix c ''waitid_errno'' = JNull" if "jix c ''stop_reason'' = JStr ''leader_exit_and_eof''"
    using assms(2) that by (auto simp: collection_valid_def collection_errors_def is_null_def Let_def)
  with assms(1) show thesis
    by (auto simp: cleanup_valid_def failed_group_def is_null_def Let_def dest!: signal_valid_sent
        split: if_splits intro: complete unowned killed)
qed

text \<open>
  C39: an accepted observation of a spawned child is coherent. The child has a positive pid. Cleanup
  signalled nothing but that child: nothing at all when the collection ended with the leader's exit and
  both streams at their end or when the ownership of the child was lost; otherwise signal 9 to the
  child's own process group and, exactly when that failed for another reason than a missing process,
  signal 9 to the child itself. The child counts as reaped exactly when the last wait returned its pid,
  and then the published exit code and signal are what the wait status says arithmetically; otherwise
  none is published.
\<close>

theorem exec_observation_sound:
  fixes attempt
  defines "v \<equiv> jix attempt ''exec_observation''"
  defines "c \<equiv> jix v ''collection''" and "k \<equiv> jix v ''cleanup''" and "r \<equiv> jix v ''reap''"
  assumes "exec_observation_problem attempt = None" and "\<not> is_null v"
  shows "\<exists>pid > 0. i32_value (jix attempt ''child_pid'') = Some pid \<and>
    (if jix c ''stop_reason'' = JStr ''leader_exit_and_eof'' \<or> jix c ''waitid_errno'' \<noteq> JNull
     then jix k ''group_request'' = JNull \<and> jix k ''leader_fallback'' = JNull
     else kill_sent (- pid) (jix k ''group_request'') \<and>
       (if jint_eq (jix (jix k ''group_request'') ''rc'') (- 1) \<and> \<not> jint_eq (jix (jix k ''group_request'') ''errno'') 3
        then kill_sent pid (jix k ''leader_fallback'') else jix k ''leader_fallback'' = JNull)) \<and>
    (jix r ''stop_reason'' = JStr ''reaped'' \<longleftrightarrow> i32_value (jix (jix r ''last_wait'') ''rc'') = Some pid) \<and>
    (\<exists>exit_code sig. i32_value (jix attempt ''child_exit_code'') = Some exit_code \<and>
       i32_value (jix attempt ''child_term_signal'') = Some sig \<and>
       (if jix r ''stop_reason'' = JStr ''reaped''
        then \<exists>status. i32_value (jix (jix r ''last_wait'') ''status'') = Some status \<and> wait_says status exit_code sig
        else exit_code = - 1 \<and> sig = 0))"
proof -
  let ?wait = "jix r ''last_wait''"
  from assms(5, 6) obtain pid where pid: "i32_value (jix attempt ''child_pid'') = Some pid" "0 < pid"
    and clean: "cleanup_valid pid c k" "collection_valid c"
    and status: "if i32_value (jix ?wait ''rc'') = Some pid then is_some (i32_value (jix ?wait ''status'')) else is_null (jix ?wait ''status'')"
    and exits: "i32_value (jix attempt ''child_exit_code'') = Some (fst (wait_decoded (jix ?wait ''status'')))"
      "i32_value (jix attempt ''child_term_signal'') = Some (snd (wait_decoded (jix ?wait ''status'')))"
    and reap: "reap_valid pid k r"
    by (auto simp: exec_observation_problem_def Let_def v_def c_def k_def r_def split: option.splits if_splits)
  have kill: "if jix c ''stop_reason'' = JStr ''leader_exit_and_eof'' \<or> jix c ''waitid_errno'' \<noteq> JNull
     then jix k ''group_request'' = JNull \<and> jix k ''leader_fallback'' = JNull
     else kill_sent (- pid) (jix k ''group_request'') \<and>
       (if jint_eq (jix (jix k ''group_request'') ''rc'') (- 1) \<and> \<not> jint_eq (jix (jix k ''group_request'') ''errno'') 3
        then kill_sent pid (jix k ''leader_fallback'') else jix k ''leader_fallback'' = JNull)"
    using clean by (cases rule: cleanup_valid_cases) simp_all
  have reaped: "jix r ''stop_reason'' = JStr ''reaped'' \<longleftrightarrow> i32_value (jix ?wait ''rc'') = Some pid"
    using reap pid(2) by (auto simp: reap_valid_def Let_def split: if_splits)
  have none: "wait_decoded JNull = (- 1, 0)" by (simp add: wait_decoded_def i32_value_def)
  have "if jix r ''stop_reason'' = JStr ''reaped''
     then \<exists>status. i32_value (jix ?wait ''status'') = Some status \<and>
       wait_says status (fst (wait_decoded (jix ?wait ''status''))) (snd (wait_decoded (jix ?wait ''status'')))
     else wait_decoded (jix ?wait ''status'') = (- 1, 0)"
    using status wait_decoded_says [of "jix ?wait ''status''"] none unfolding reaped
    by (cases "i32_value (jix ?wait ''status'')") (auto simp: is_null_def split: if_splits)
  then show ?thesis
    using pid kill reaped exits by (intro exI [of _ pid]) (auto split: if_splits)
qed

definition sample_stream :: json where "sample_stream = JObj [(''eof'', JBool True)]"

definition sample_exec :: json where
  "sample_exec = JObj
     [(''child_exit_code'', JNum (PosInt 3)), (''child_pid'', JNum (PosInt 41)), (''child_term_signal'', JNum (PosInt 0)),
      (''exec_observation'', JObj
        [(''cleanup'', JObj [(''state'', JStr ''not_requested'')]),
         (''collection'', JObj [(''leader_exit_observed'', JBool True), (''stderr'', sample_stream), (''stdout'', sample_stream),
            (''stop_reason'', JStr ''leader_exit_and_eof'')]),
         (''reap'', JObj [(''last_wait'', JObj [(''rc'', JNum (PosInt 41)), (''status'', JNum (PosInt 768))]),
            (''stop_reason'', JStr ''reaped'')])]),
      (''lifecycle'', JObj [(''summary'', JStr ''completed'')]), (''requested_action'', JStr ''spawn''),
      (''requested_kind'', JStr ''exec''), (''result_source'', JStr ''worker'')]"

theorem exec_observation_sound_witness:
  "exec_observation_problem sample_exec = None \<and>
   (\<exists>pid > 0. i32_value (jix sample_exec ''child_pid'') = Some pid \<and>
      i32_value (jix (jix (jix (jix sample_exec ''exec_observation'') ''reap'') ''last_wait'') ''rc'') = Some pid) \<and>
   (\<exists>exit_code sig. i32_value (jix sample_exec ''child_exit_code'') = Some exit_code \<and> wait_says 768 exit_code sig)"
proof -
  have s: "exec_observation_problem sample_exec = None"
    by (simp add: exec_observation_problem_def sample_exec_def sample_stream_def jix_def str_eq_def i32_value_def
      i64_max_def stream_invalid_def null_or_positive_def jint_eq_def clock_reason_invalid_def stream_error_def
      collection_valid_def collection_errors_def cleanup_valid_def wait_decoded_def reap_valid_def drop_bit_eq_div Let_def)
  have n: "\<not> is_null (jix sample_exec ''exec_observation'')"
    "jix (jix (jix sample_exec ''exec_observation'') ''reap'') ''stop_reason'' = JStr ''reaped''"
    "i32_value (jix (jix (jix (jix sample_exec ''exec_observation'') ''reap'') ''last_wait'') ''status'') = Some 768"
    by (simp_all add: sample_exec_def jix_def i32_value_def i64_max_def)
  from exec_observation_sound [OF s n(1)] n(2, 3) s show ?thesis by auto
qed

subsection \<open>The validator join\<close>

lemma set_fold_set_insert: "set (fold set_insert xs acc) = set xs \<union> set acc"
  by (induction xs arbitrary: acc) auto

lemma set_record_ids: "sid \<in> set (record_ids records) \<longleftrightarrow> record_group records sid \<noteq> []"
  by (auto simp: record_ids_def set_fold_set_insert set_filter_map record_group_def filter_empty_conv)

lemma step_association_Nil:
  "step_association upper records step = [] \<longleftrightarrow>
     (\<exists>r. record_group records (unwrap_or (as_str (jix step ''step_id'')) []) = [r] \<and>
        \<not> query_mismatch upper r (jix step ''sandbox_check''))"
  by (auto simp: step_association_def Let_def split: list.splits)

lemma adjacent_distinct_sorted: "sorted xs \<Longrightarrow> adjacent_distinct xs = distinct (xs :: 'a::linorder list)"
  by (induction xs rule: adjacent_distinct.induct) (auto simp: order.order_iff_strict dest: order.antisym)

lemma count_step_id:
  "count (mset (map (\<lambda>r. jix r ''step_id'') rs)) (JStr sid) = length (record_group rs sid)"
  by (induction rs) (auto simp: record_group_def)

text \<open>
  The join has no issue exactly when records and eligible steps name the same ids, each once, and
  every record answers its step's query.
\<close>

lemma association_issues_exact:
  assumes ids: "list_all (\<lambda>s. is_string (jix s ''step_id'')) eligible" "distinct (map (\<lambda>s. jix s ''step_id'') eligible)"
    and recs: "list_all (\<lambda>r. null_or_string (jix r ''step_id'')) records"
  shows "association_issues upper records eligible = [] \<longleftrightarrow>
    mset (map (\<lambda>r. jix r ''step_id'') records) = mset (map (\<lambda>s. jix s ''step_id'') eligible) \<and>
    (\<forall>s \<in> set eligible. \<forall>r \<in> set records. jix r ''step_id'' = jix s ''step_id'' \<longrightarrow>
       \<not> query_mismatch upper r (jix s ''sandbox_check''))" (is "?L \<longleftrightarrow> ?M \<and> ?Q")
proof -
  let ?id = "\<lambda>s. jix s ''step_id''"
  have L: "?L \<longleftrightarrow> (\<forall>s \<in> set eligible. step_association upper records s = []) \<and>
      (\<forall>sid. record_group records sid \<noteq> [] \<longrightarrow> (\<exists>s \<in> set eligible. ?id s = JStr sid)) \<and>
      filter (\<lambda>r. is_null (?id r)) records = []"
    by (simp add: association_issues_def concat_if_Nil set_record_ids [symmetric] list_all_iff set_filter_map
      Let_def del: concat_eq_Nil_conv)
      (auto simp: filter_empty_conv)
  have str: "\<exists>sid. ?id s = JStr sid" if "s \<in> set eligible" for s
    using ids(1) that by (auto simp: list_all_iff is_string_def rust_simps)
  have one: "length (record_group eligible sid) = 1" if "s \<in> set eligible" "?id s = JStr sid" for s sid
  proof -
    have "JStr sid \<in> set (map ?id eligible)" using that by force
    with ids(2) have "count (mset (map ?id eligible)) (JStr sid) = 1" by (simp only: distinct_count_atmost_1) simp
    then show ?thesis by (simp only: count_step_id)
  qed
  have group: "r \<in> set (record_group records sid) \<longleftrightarrow> r \<in> set records \<and> ?id r = JStr sid" for r sid
    by (simp add: record_group_def)
  show ?thesis
  proof
    assume ?L
    with L have steps: "\<forall>s \<in> set eligible. step_association upper records s = []"
      and known: "\<And>sid. record_group records sid \<noteq> [] \<Longrightarrow> \<exists>s \<in> set eligible. ?id s = JStr sid"
      and nonnull: "filter (\<lambda>r. is_null (?id r)) records = []" by auto
    have single: "\<exists>r. record_group records sid = [r] \<and> \<not> query_mismatch upper r (jix s ''sandbox_check'')"
      if "s \<in> set eligible" "?id s = JStr sid" for s sid
      using steps that by (auto simp: step_association_Nil)
    have rstr: "\<exists>sid. ?id r = JStr sid" if "r \<in> set records" for r
      using recs nonnull that by (auto simp: list_all_iff null_or_string_def is_string_def rust_simps filter_empty_conv)
    have ?M
    proof (rule multiset_eqI)
      fix x
      show "count (mset (map ?id records)) x = count (mset (map ?id eligible)) x"
      proof (cases "\<exists>sid. x = JStr sid")
        case True
        then obtain sid where x: "x = JStr sid" by blast
        show ?thesis
        proof (cases "\<exists>s \<in> set eligible. ?id s = x")
          case True
          then obtain s where "s \<in> set eligible" "?id s = JStr sid" by (auto simp: x)
          from single [OF this] one [OF this] have "length (record_group records sid) = length (record_group eligible sid)" by auto
          then show ?thesis by (simp only: x count_step_id)
        next
          case False
          then have "record_group records sid = []" "record_group eligible sid = []"
            using known by (auto simp: x record_group_def filter_empty_conv)
          then show ?thesis by (simp only: x count_step_id)
        qed
      next
        case False
        then have "x \<notin> ?id ` set records" "x \<notin> ?id ` set eligible" using rstr str by blast+
        then have "count (mset (map ?id records)) x = 0" "count (mset (map ?id eligible)) x = 0"
          by (simp_all only: count_mset_0_iff set_map not_False_eq_True)
        then show ?thesis by (simp only:)
      qed
    qed
    moreover have ?Q
    proof (intro ballI impI)
      fix s r assume s: "s \<in> set eligible" "r \<in> set records" "?id r = ?id s"
      obtain sid where sid: "?id s = JStr sid" using str [OF s(1)] by blast
      from single [OF s(1) sid] group [of r sid] s sid show "\<not> query_mismatch upper r (jix s ''sandbox_check'')" by auto
    qed
    ultimately show "?M \<and> ?Q" by simp
  next
    assume MQ: "?M \<and> ?Q"
    then have len: "length (record_group records sid) = length (record_group eligible sid)" for sid
      using count_step_id by metis
    have "step_association upper records s = []" if s: "s \<in> set eligible" for s
    proof -
      obtain sid where sid: "?id s = JStr sid" using str [OF s] by blast
      from len [of sid] one [OF s sid] obtain r where r: "record_group records sid = [r]"
        by (metis One_nat_def length_0_conv length_Suc_conv)
      then have "r \<in> set records" "?id r = ?id s" using group [of r sid] sid by auto
      with MQ s r sid show ?thesis by (auto simp: step_association_Nil)
    qed
    moreover have "\<exists>s \<in> set eligible. ?id s = JStr sid" if "record_group records sid \<noteq> []" for sid
    proof -
      from that len [of sid] have "record_group eligible sid \<noteq> []" by auto
      then show ?thesis by (auto simp: record_group_def filter_empty_conv)
    qed
    moreover have "filter (\<lambda>r. is_null (?id r)) records = []"
    proof -
      have "set (map ?id records) = set (map ?id eligible)" using MQ by (metis set_mset_mset)
      then have "?id r \<in> ?id ` set eligible" if "r \<in> set records" for r using that by auto
      then show ?thesis using str by (fastforce simp: filter_empty_conv is_null_def)
    qed
    ultimately show ?L using L by blast
  qed
qed

text \<open>
  What it is to answer a query: each field of the record is the query's, the filter kind in upper case and
  the filter value null for the kind \<open>none\<close>; a record that predicts neither way may leave a field null.
\<close>

definition answers_query :: "(string \<Rightarrow> string) \<Rightarrow> json \<Rightarrow> json \<Rightarrow> bool" where
  "answers_query upper r q =
     (let filt = (case jix q ''filter_kind'' of JStr t \<Rightarrow> t | _ \<Rightarrow> []) in
      \<forall>(field, asked) \<in> {(''operation'', jix q ''operation''), (''filter_type'', JStr (upper filt)),
          (''filter_value'', if filt = ''none'' then JNull else jix q ''filter_value'')}.
        jix r field = asked \<or> jix r field = JNull \<and> jix r ''outcome'' \<notin> {JStr ''allow'', JStr ''deny''})"

lemma query_mismatch_answers: "\<not> query_mismatch upper r q \<longleftrightarrow> answers_query upper r q"
proof -
  have "unwrap_or (as_str (jix q ''filter_kind'')) [] = (case jix q ''filter_kind'' of JStr t \<Rightarrow> t | _ \<Rightarrow> [])"
    by (cases "jix q ''filter_kind''") simp_all
  moreover have "as_str (jix r ''outcome'') \<in> {Some ''allow'', Some ''deny''} \<longleftrightarrow> jix r ''outcome'' \<in> {JStr ''allow'', JStr ''deny''}"
    by (cases "jix r ''outcome''") simp_all
  ultimately show ?thesis
    unfolding query_mismatch_def answers_query_def Let_def by (simp add: is_null_def str_eq_def) blast
qed

text \<open>
  C40: a validator collection that is accepted and reports no association issue answers exactly the
  queries of its own phase. It names that phase and its ordinal. The steps that count are those of the
  run with that phase id whose query was not left out on request; the ids the collection expected are
  exactly these steps' ids, all distinct; its records carry exactly these ids, each once; and every
  record answers, field by field, the query of the step it names.
\<close>

theorem validator_collection_sound:
  fixes runner phase
  defines "asked \<equiv> filter (\<lambda>s. jix s ''phase_id'' = jix phase ''phase_id'' \<and>
    jix (jix s ''sandbox_check'') ''missing_reason'' \<noteq> JStr ''query_not_requested'') (jarray (jix runner ''steps''))"
  assumes "validator_ownership_problem upper runner phase block = None" and "jix block ''association_issues'' = JArr []"
  shows "jix block ''phase_id'' = jix phase ''phase_id'' \<and> as_i64 (jix block ''ordinal'') = as_i64 (jix phase ''ordinal'') \<and>
    distinct (map (\<lambda>s. jix s ''step_id'') asked) \<and>
    mset (jarray (jix block ''expected_step_ids'')) = mset (map (\<lambda>s. jix s ''step_id'') asked) \<and>
    mset (map (\<lambda>r. jix r ''step_id'') (jarray (jix block ''records''))) = mset (map (\<lambda>s. jix s ''step_id'') asked) \<and>
    (\<forall>s \<in> set asked. \<forall>r \<in> set (jarray (jix block ''records'')). jix r ''step_id'' = jix s ''step_id'' \<longrightarrow>
       answers_query upper r (jix s ''sandbox_check''))"
proof -
  define eligible where "eligible = eligible_steps runner phase"
  have asked: "asked = eligible"
    unfolding asked_def eligible_def eligible_steps_def str_eq_def by (rule refl)
  let ?id = "\<lambda>s. jix s ''step_id''" and ?str = "\<lambda>v. the (as_str v)"
  from assms(2, 3) obtain expected records where
    own: "jix block ''phase_id'' = jix phase ''phase_id''" "as_i64 (jix block ''ordinal'') = as_i64 (jix phase ''ordinal'')"
    and expected: "jix block ''expected_step_ids'' = JArr expected" "list_all is_string expected"
    and ids: "list_all (\<lambda>s. is_string (?id s)) eligible"
    and plan: "adjacent_distinct (sort (map ?str expected))" "sort (map ?str expected) = sort (map (\<lambda>s. ?str (?id s)) eligible)"
    and records: "jix block ''records'' = JArr records" "list_all (\<lambda>r. null_or_string (?id r)) records"
    and join: "association_issues upper records eligible = []"
    by (auto simp: validator_ownership_problem_def eligible_def Let_def list_ex_iff list_all_iff
      eq_commute [of "[]" "association_issues u r e" for u r e] split: option.splits if_splits)
  have restr: "map JStr (map ?str vs) = vs" if "list_all is_string vs" for vs
    using that by (induction vs) (auto simp: is_string_def rust_simps)
  have "mset (map ?str expected) = mset (map ?str (map ?id eligible))"
    using arg_cong [OF plan(2), of mset] by (simp add: comp_def)
  then have "mset (map JStr (map ?str expected)) = mset (map JStr (map ?str (map ?id eligible)))"
    by (simp only: mset_map)
  then have same: "mset expected = mset (map ?id eligible)"
    using restr [OF expected(2)] restr [of "map ?id eligible"] ids by (simp add: list_all_iff del: map_map mset_map)
  have "distinct (map ?str expected)"
    using plan(1) adjacent_distinct_sorted [of "sort (map ?str expected)"] by simp
  then have "distinct expected" by (simp add: distinct_map)
  then have dist: "distinct (map ?id eligible)" using same by (metis mset_eq_imp_distinct_iff)
  from association_issues_exact [OF ids dist records(2)] join own expected(1) same dist records(1)
  show ?thesis unfolding asked query_mismatch_answers by simp
qed

definition sample_query_step :: json where
  "sample_query_step = JObj
     [(''phase_id'', JStr ''p''),
      (''sandbox_check'', JObj [(''filter_kind'', JStr ''path''), (''filter_value'', JStr ''/tmp''), (''operation'', JStr ''file-read'')]),
      (''step_id'', JStr ''s'')]"

definition sample_collection :: json where
  "sample_collection = JObj
     [(''association_issues'', JArr []), (''expected_step_ids'', JArr [JStr ''s'']), (''ordinal'', JNum (PosInt 1)),
      (''phase_id'', JStr ''p''),
      (''records'', JArr [JObj [(''filter_type'', JStr ''PATH''), (''filter_value'', JStr ''/tmp''),
         (''operation'', JStr ''file-read''), (''outcome'', JStr ''allow''), (''step_id'', JStr ''s'')]])]"

definition sample_phase :: json where
  "sample_phase = JObj [(''ordinal'', JNum (PosInt 1)), (''phase_id'', JStr ''p'')]"

definition sample_run :: json where
  "sample_run = JObj [(''steps'', JArr [sample_query_step])]"

theorem validator_collection_sound_witness:
  "validator_ownership_problem (\<lambda>_. ''PATH'') sample_run sample_phase sample_collection = None \<and>
   mset (map (\<lambda>r. jix r ''step_id'') (jarray (jix sample_collection ''records''))) = {#JStr ''s''#} \<and>
   answers_query (\<lambda>_. ''PATH'') (hd (jarray (jix sample_collection ''records''))) (jix sample_query_step ''sandbox_check'')"
proof -
  have e: "eligible_steps sample_run sample_phase = [sample_query_step]"
    by (simp add: eligible_steps_def sample_run_def sample_query_step_def sample_phase_def jix_def str_eq_def)
  have j: "association_issues (\<lambda>_. ''PATH'') (jarray (jix sample_collection ''records'')) [sample_query_step] = []"
    by (simp add: association_issues_def step_association_def record_group_def record_ids_def query_mismatch_def
      sample_collection_def sample_query_step_def jix_def str_eq_def set_insert_def insort_insert_key_def)
  have v: "validator_ownership_problem (\<lambda>_. ''PATH'') sample_run sample_phase sample_collection = None"
    using j unfolding validator_ownership_problem_def e
    by (simp add: sample_collection_def sample_query_step_def sample_phase_def jix_def null_or_string_def Let_def i64_max_def)
  have "jix sample_collection ''association_issues'' = JArr []" by (simp add: sample_collection_def jix_def)
  note sound = validator_collection_sound [OF v this]
  obtain r where r: "jarray (jix sample_collection ''records'') = [r]" "jix r ''step_id'' = jix sample_query_step ''step_id''"
    by (simp add: sample_collection_def sample_query_step_def jix_def)
  have asked: "filter (\<lambda>s. jix s ''phase_id'' = jix sample_phase ''phase_id'' \<and>
      jix (jix s ''sandbox_check'') ''missing_reason'' \<noteq> JStr ''query_not_requested'') (jarray (jix sample_run ''steps'')) =
      [sample_query_step]"
    using e unfolding eligible_steps_def str_eq_def .
  have "jix sample_query_step ''step_id'' = JStr ''s''" by (simp add: sample_query_step_def jix_def)
  then show ?thesis using v sound r(2) unfolding asked r(1) by simp
qed

end
