(* ===== verification/Extension_Evidence.thy ===== *)
theory Extension_Evidence
  imports Exec_Evidence
begin

text \<open>
  The extension evidence of the actor form (controller/src/disposition.rs, \<open>actor_extension_issues\<close>):
  every event names a live actor and one of its phases, references resolve in the resource tables to
  their owners, and each status is published only by the shape it claims. The loop over the events
  keeps the handles consumed and released so far.
\<close>

section \<open>Tables\<close>

record extension_tables =
  et_actors :: "json list"
  et_phases :: "json list"
  et_tokens :: "json list"
  et_deliveries :: "json list"
  et_handles :: "json list"
  et_transfers :: "json list"
  et_events :: "json list"

definition extension_tables_of :: "json \<Rightarrow> json list \<Rightarrow> json_map \<Rightarrow> json list \<Rightarrow> extension_tables" where
  "extension_tables_of runner actors resources transfers =
     \<lparr>et_actors = actors, et_phases = jarray (jix runner ''phases''),
      et_tokens = jarray (unwrap_or (obj_get resources ''tokens'') JNull),
      et_deliveries = jarray (unwrap_or (obj_get resources ''deliveries'') JNull),
      et_handles = jarray (unwrap_or (obj_get resources ''handles'') JNull),
      et_transfers = transfers, et_events = jarray (jix runner ''extension_events'')\<rparr>"

definition phase_action_ids :: "json list \<Rightarrow> json list" where
  "phase_action_ids phases = concat (map (\<lambda>p. jarray (jix p ''action_ids'')) phases)"

definition is_reference :: "json \<Rightarrow> bool" where "is_reference v = bounded v 63"

definition action_before :: "extension_tables \<Rightarrow> json \<Rightarrow> json \<Rightarrow> bool" where
  "action_before T first second =
     (let ids = phase_action_ids (et_phases T) in
      is_some_and (position (\<lambda>i. i = first) ids) (\<lambda>a. is_some_and (position (\<lambda>i. i = second) ids) (\<lambda>b. a < b)))"

definition application_mismatch :: "json \<Rightarrow> bool" where
  "application_mismatch actor =
     (\<not> one_of (as_u64 (jix actor ''application_count'')) {0, 1} \<or>
      jint_eq (jix actor ''application_count'') 1 \<noteq> (jix actor ''applied'' = JBool True) \<or>
      str_eq (jix actor ''setup_status'') ''applied'' \<and> jix actor ''applied'' \<noteq> JBool True)"

text \<open>\<open>any\<close> over the rows of one table, with the set of references seen so far.\<close>

fun reference_repeats :: "string \<Rightarrow> string set \<Rightarrow> json list \<Rightarrow> bool" where
  "reference_repeats key seen [] = False"
| "reference_repeats key seen (row # rows) =
     (let name = unwrap_or (as_str (jix row key)) [] in
      \<not> is_reference (jix row key) \<or> name \<in> seen \<or> reference_repeats key (insert name seen) rows)"

section \<open>Events\<close>

record event_state =
  consumed :: "string \<Rightarrow> json option"
  released :: "string set"
  rejected :: "string list"

definition reject :: "string \<Rightarrow> event_state \<Rightarrow> event_state" where
  "reject detail s = s\<lparr>rejected := rejected s @ [detail]\<rparr>"

definition note_issues :: "string list \<Rightarrow> event_state \<Rightarrow> event_state" where
  "note_issues details s = s\<lparr>rejected := rejected s @ details\<rparr>"

definition event_handle :: "json \<Rightarrow> string" where
  "event_handle ev = unwrap_or (as_str (jix ev ''handle_ref'')) []"

definition agree :: "json \<Rightarrow> json \<Rightarrow> string list \<Rightarrow> bool" where
  "agree a b ks = list_all (\<lambda>k. jix a k = jix b k) ks"

definition event_status :: "json \<Rightarrow> string" where
  "event_status ev = unwrap_or (as_str (jix ev ''status'')) []"

definition event_published :: "json \<Rightarrow> bool" where "event_published ev = (jix ev ''result_published'' = JBool True)"
definition event_called :: "json \<Rightarrow> bool" where "event_called ev = (jix ev ''call_boundary_observed'' = JBool True)"

definition issue_event :: "extension_tables \<Rightarrow> json \<Rightarrow> string list" where
  "issue_event T ev =
     issue (is_reference (jix ev ''token_ref'') \<and>
         list_ex (\<lambda>t. agree t ev [''token_ref'', ''actor_id'', ''step_id'']) (et_tokens T) \<and>
         is_null (jix ev ''handle_ref'') \<and> is_null (jix ev ''delivery_ref''))
       ''issue reference'' @
     issue (\<not> (event_status ev = ''returned'' \<and>
         (as_i64 (jix ev ''native_result'') \<notin> {Some 0, Some 1} \<or>
          as_bool (jix ev ''native_nonnull'') \<noteq> Some (jint_eq (jix ev ''native_result'') 1))))
       ''issue nonnull disagrees with native result''"

definition transfer_event :: "extension_tables \<Rightarrow> json \<Rightarrow> string list" where
  "transfer_event T ev =
     issue (is_reference (jix ev ''token_ref'') \<and> is_reference (jix ev ''delivery_ref'') \<and>
         list_ex (\<lambda>d. agree d ev [''delivery_ref'', ''token_ref'', ''step_id''] \<and>
           jix d ''source_actor_id'' = jix ev ''actor_id'') (et_deliveries T) \<and>
         is_null (jix ev ''handle_ref''))
       ''transfer reference'' @
     issue (list_ex (\<lambda>t. agree t ev [''token_ref'', ''actor_id''] \<and> action_before T (jix t ''step_id'') (jix ev ''step_id''))
         (et_tokens T))
       ''transfer token owner/order'' @
     issue (\<not> (event_called ev \<or> \<not> is_null (jix ev ''native_result'') \<or> \<not> is_null (jix ev ''errno'')))
       ''transfer carries a native result'' @
     issue (if event_status ev = ''unresolved'' then \<not> event_published ev
         else event_published ev \<and> actor_transfer_status (event_status ev))
       ''transfer status''"

definition consume_event :: "extension_tables \<Rightarrow> json \<Rightarrow> event_state \<Rightarrow> event_state" where
  "consume_event T ev s =
     (let handle = event_handle ev;
          ok = (is_reference (jix ev ''delivery_ref'') \<and> is_reference (jix ev ''handle_ref'') \<and>
            list_ex (\<lambda>h. agree h ev [''handle_ref'', ''delivery_ref'', ''actor_id'', ''step_id'']) (et_handles T) \<and>
            is_null (jix ev ''token_ref'')) in
      note_issues (
        issue (ok \<and> consumed s handle = None) ''consume reference'' @
        issue (list_ex (\<lambda>d. jix d ''delivery_ref'' = jix ev ''delivery_ref'' \<and>
            jix d ''recipient_actor_id'' = jix ev ''actor_id'' \<and> action_before T (jix d ''step_id'') (jix ev ''step_id''))
            (et_deliveries T))
          ''consume delivery recipient/order'')
        (s\<lparr>consumed := (consumed s)(handle \<mapsto> ev)\<rparr>))"

definition release_event :: "extension_tables \<Rightarrow> json \<Rightarrow> event_state \<Rightarrow> event_state" where
  "release_event T ev s =
     (let handle = event_handle ev; prior = consumed s handle;
          order_ok = is_some_and prior (\<lambda>p. action_before T (jix p ''step_id'') (jix ev ''step_id''));
          ok = (is_reference (jix ev ''handle_ref'') \<and> is_null (jix ev ''token_ref'') \<and> is_null (jix ev ''delivery_ref'') \<and>
            list_ex (\<lambda>h. agree h ev [''handle_ref'', ''actor_id''] \<and> jix h ''release_step_id'' = jix ev ''step_id'') (et_handles T) \<and>
            handle \<notin> released s \<and> order_ok) in
      note_issues (
        issue ok ''release reference/order'' @
        issue (\<not> (event_status ev = ''returned'' \<and> is_some_and prior (\<lambda>p.
            \<not> str_eq (jix p ''status'') ''returned'' \<or> is_null (jix p ''native_result'') \<or> jint_eq (jix p ''native_result'') (- 1))))
          ''release lacks an observed consume handle'')
        (s\<lparr>released := insert handle (released s)\<rparr>))"

definition UNAVAILABLE_REASONS :: "string list" where
  "UNAVAILABLE_REASONS = [''token_unavailable'', ''handle_unavailable'', ''native_api_unavailable'', ''repeated_action'',
     ''authority_channel_unavailable'', ''delivery_unavailable'']"

definition native_status_issues :: "json \<Rightarrow> string list" where
  "native_status_issues ev =
     (let status = event_status ev; published = event_published ev; called = event_called ev;
          native = jix ev ''native_result''; errno = jix ev ''errno''; reason = jix ev ''unavailable_reason'' in
      if status = ''returned'' then
        issue (published \<and> called \<and> \<not> is_null native \<and> is_some_and (as_i64 errno) (\<lambda>e. 0 \<le> e) \<and> is_null reason)
          ''native extension result lacks publication''
      else if status = ''unavailable'' then
        issue (published \<and> \<not> called \<and> is_null native \<and> is_null errno \<and>
            unwrap_or (as_str reason) [] \<in> set UNAVAILABLE_REASONS)
          ''unavailable extension action fabricates a call''
      else if status = ''unresolved'' then
        issue (\<not> published \<and> is_null native \<and> is_null errno \<and> is_null reason)
          ''unpublished extension result must stay unresolved''
      else [''invalid extension event status''])"

definition publication_issues :: "json \<Rightarrow> json \<Rightarrow> json \<Rightarrow> string list" where
  "publication_issues actor phase ev =
     (let published = event_published ev; called = event_called ev; sub = jix actor ''subprocess'';
          recorded = Option.bind (as_array (jix (jix sub ''disposition'') ''steps''))
            (List.find (\<lambda>s. jix s ''step_id'' = jix ev ''step_id'')) in
      (case recorded of
         Some step \<Rightarrow>
           issue (published = str_eq (jix step ''slot'') ''completed'' \<and>
               jix (jix ev ''lifecycle'') ''boundary'' = jix (jix step ''questions'') ''step_boundary_reached'' \<and>
               jix (jix ev ''lifecycle'') ''result'' = jix (jix step ''questions'') ''step_result_published'')
             ''extension publication disagrees with disposition''
       | None \<Rightarrow>
           issue (\<not> (is_object sub \<or> called \<or> published \<or> \<not> is_null (jix ev ''lifecycle'')))
             ''extension event lacks disposition'') @
      issue (\<not> ((published \<or> called) \<and>
          (jix (jix phase ''ordering'') ''proceed_observed'' \<noteq> JBool True \<or>
           unwrap_or (as_str (jix actor ''setup_status'')) [] \<notin> {''applied'', ''unapplied_declared''})))
        ''extension publication lacks setup and phase acknowledgement'')"

text \<open>One operation of an event; an unknown one yields no state and ends the event.\<close>

definition operation_step :: "extension_tables \<Rightarrow> json \<Rightarrow> event_state \<Rightarrow> event_state option" where
  "operation_step T ev s =
     (let op = as_str (jix ev ''operation'') in
      if op = Some ''issue'' then Some (note_issues (issue_event T ev) s)
      else if op = Some ''transfer'' then Some (note_issues (transfer_event T ev) s)
      else if op = Some ''consume'' then Some (consume_event T ev s)
      else if op = Some ''release'' then Some (release_event T ev s)
      else None)"

definition event_actor :: "extension_tables \<Rightarrow> json \<Rightarrow> json option" where
  "event_actor T ev =
     List.find (\<lambda>a. is_string (jix ev ''actor_id'') \<and> jix a ''actor_id'' = jix ev ''actor_id'') (et_actors T)"

definition event_phase :: "extension_tables \<Rightarrow> json \<Rightarrow> json option" where
  "event_phase T ev =
     List.find (\<lambda>p. jix p ''phase_id'' = jix ev ''phase_id'' \<and>
       is_some_and (as_array (jix p ''action_ids'')) (\<lambda>ids. jix ev ''step_id'' \<in> set ids)) (et_phases T)"

definition event_step :: "extension_tables \<Rightarrow> json \<Rightarrow> event_state \<Rightarrow> event_state" where
  "event_step T ev s =
     (case event_actor T ev of
        None \<Rightarrow> reject ''extension event actor'' s
      | Some actor \<Rightarrow>
          (case event_phase T ev of
             None \<Rightarrow> reject ''extension event phase association'' s
           | Some phase \<Rightarrow>
               if jix phase ''actor_id'' \<noteq> jix ev ''actor_id'' then reject ''extension event phase association'' s
               else if \<not> str_eq (jix ev ''family'') ''file'' then reject ''extension event family'' s
               else (case operation_step T ev s of
                  None \<Rightarrow> reject ''unknown extension operation'' s
                | Some s' \<Rightarrow>
                    note_issues ((if str_eq (jix ev ''operation'') ''transfer'' then [] else native_status_issues ev) @
                      publication_issues actor phase ev) s')))"

definition initial_events :: event_state where
  "initial_events = \<lparr>consumed = (\<lambda>_. None), released = {}, rejected = []\<rparr>"

section \<open>Transfers and resources\<close>

definition transfer_record_issues :: "extension_tables \<Rightarrow> json \<Rightarrow> string list" where
  "transfer_record_issues T t =
     issue (list_ex (\<lambda>d. agree d t [''delivery_ref'', ''token_ref'', ''source_actor_id'', ''recipient_actor_id'', ''step_id''])
         (et_deliveries T) \<and> is_some_and (as_str (jix t ''status'')) actor_transfer_status)
       ''transfer record association'' @
     issue (list_ex (\<lambda>e. str_eq (jix e ''operation'') ''transfer'' \<and> agree e t [''delivery_ref'', ''phase_id'', ''lifecycle''])
         (et_events T))
       ''transfer source phase/lifecycle association''"

definition transfer_delivery_issues :: "extension_tables \<Rightarrow> json \<Rightarrow> string list" where
  "transfer_delivery_issues T t =
     issue (\<not> (str_eq (jix t ''status'') ''delivered'' \<and>
         (jix t ''request_published'' \<noteq> JBool True \<or> \<not> str_eq (jix t ''custody_status'') ''held'' \<or>
          \<not> str_eq (jix t ''copy_status'') ''copied'' \<or> \<not> str_eq (jix t ''equality'') ''equal'' \<or>
          jix t ''recipient_acknowledged'' \<noteq> JBool True)))
       ''delivered transfer lacks custody, copy or recipient acknowledgement'' @
     issue (\<not> (jix t ''source_acknowledged'' = JBool True \<and>
         \<not> list_ex (\<lambda>e. str_eq (jix e ''operation'') ''transfer'' \<and> jix e ''step_id'' = jix t ''step_id'' \<and>
           jix e ''actor_id'' = jix t ''source_actor_id'' \<and> event_published e \<and> jix e ''status'' = jix t ''status'')
           (et_events T)))
       ''source acknowledgement lacks matching publication''"

definition length_in_range :: "json \<Rightarrow> bool" where
  "length_in_range v = is_some_and (as_u64 v) (\<lambda>n. 1 \<le> n \<and> n < 16384)"

definition host_delivery_issues :: "extension_tables \<Rightarrow> json \<Rightarrow> json \<Rightarrow> string list" where
  "host_delivery_issues T host res =
     issue (agree res host [''status'', ''equality'']) ''delivery projection contradicts host transfer'' @
     (if str_eq (jix host ''status'') ''delivered'' then
        issue (\<not> (\<not> length_in_range (jix res ''delivered_length'') \<or>
            is_some_and (List.find (\<lambda>t. jix t ''token_ref'' = jix res ''token_ref'') (et_tokens T)) (\<lambda>t.
              \<not> is_null (jix t ''token_length'') \<and> jix t ''token_length'' \<noteq> jix res ''delivered_length'')))
          ''delivered length contradicts custody''
      else issue (is_null (jix res ''delivered_length'')) ''undelivered resource carries delivered length'')"

definition unobserved_delivery_issues :: "json \<Rightarrow> json \<Rightarrow> string list" where
  "unobserved_delivery_issues ev res =
     issue (is_null (jix res ''equality'') \<and> is_null (jix res ''delivered_length'') \<and>
         event_status ev \<in> {''none'', ''host_timeout'', ''clock_fault'', ''unresolved''})
       ''delivery claims host observation without transfer'' @
     issue (\<not> (event_published ev \<and>
         \<not> str_eq (jix res ''status'') (unwrap_or (as_str (jix ev ''unavailable_reason'')) ''unrequested'')))
       ''unobserved delivery status contradicts source''"

definition unpublished_status :: "json \<Rightarrow> string" where
  "unpublished_status ev =
     (let boundary = jix (jix ev ''lifecycle'') ''boundary'' in
      if str_eq (jix boundary ''state'') ''supported'' \<and> str_eq (jix boundary ''answer'') ''not_reached'' \<and>
         jix ev ''call_boundary_observed'' = JBool False then ''not_reached'' else ''unresolved'')"

definition resource_status_issues :: "string \<Rightarrow> json \<Rightarrow> json \<Rightarrow> string list" where
  "resource_status_issues op ev res =
     (let status = jix res ''status''; unavailable = str_eq (jix ev ''status'') ''unavailable'' in
      if \<not> event_published ev then
        issue (str_eq status (unpublished_status ev)) ''unpublished resource status contradicts lifecycle''
      else if op = ''issue'' then
        issue (if unavailable then str_eq status ''unavailable''
            else if jint_eq (jix ev ''native_result'') 0 then str_eq status ''null''
            else str_eq status ''issued'' \<or> str_eq status ''issued_uncustodied'')
          ''token status contradicts issue''
      else if op = ''consume'' then
        issue (str_eq status (if unavailable then ''unavailable''
            else if jint_eq (jix ev ''native_result'') (- 1) then ''consume_failed'' else ''produced''))
          ''handle status or value contradicts consume''
      else [])"

definition btree_of :: "'a::linorder list \<Rightarrow> 'a list" where
  "btree_of xs = fold set_insert xs []"

definition handle_projection_issues :: "extension_tables \<Rightarrow> json \<Rightarrow> string list" where
  "handle_projection_issues T res =
     (let release = List.find (\<lambda>e. str_eq (jix e ''operation'') ''release'' \<and> jix e ''handle_ref'' = jix res ''handle_ref'') (et_events T);
          equal_handles = btree_of (filter_map (\<lambda>h. as_str (jix h ''handle_ref''))
            (filter (\<lambda>h. jix h ''handle_ref'' \<noteq> jix res ''handle_ref'' \<and> jix h ''actor_id'' = jix res ''actor_id'' \<and>
               \<not> is_null (jix res ''native_handle'') \<and> jix h ''native_handle'' = jix res ''native_handle'') (et_handles T)));
          observed = as_array (jix res ''raw_equal_handles'');
          uniq = btree_of (filter_map as_str (unwrap_or observed [])) in
      issue (jix res ''release_step_id'' = (case release of Some e \<Rightarrow> jix e ''step_id'' | None \<Rightarrow> JNull) \<and>
          as_bool (jix res ''release_attempted'') = Some (is_some_and release event_called))
        ''handle release projection contradicts event'' @
      issue (\<not> (is_none_or observed (\<lambda>a. length a \<noteq> length uniq) \<or> uniq \<noteq> equal_handles))
        ''handle equality projection contradicts native handles'')"

definition resource_issues :: "extension_tables \<Rightarrow> string \<Rightarrow> string \<Rightarrow> json \<Rightarrow> string list" where
  "resource_issues T op key res =
     (case filter (\<lambda>e. str_eq (jix e ''operation'') op \<and> jix e key = jix res key) (et_events T) of
        [ev] \<Rightarrow>
          (let host = (if op = ''transfer'' then List.find (\<lambda>t. jix t ''delivery_ref'' = jix res key) (et_transfers T) else None) in
           (if op = ''transfer'' then
              issue (list_ex (\<lambda>a. jix a ''actor_id'' = jix res ''recipient_actor_id'') (et_actors T))
                ''delivery recipient does not exist'' @
              (case host of Some h \<Rightarrow> host_delivery_issues T h res | None \<Rightarrow> unobserved_delivery_issues ev res)
            else []) @
           (if is_some host then []
            else
              resource_status_issues op ev res @
              (if op = ''consume'' then
                 issue (jix res ''native_handle'' = (if str_eq (jix res ''status'') ''produced'' then jix ev ''native_result'' else JNull))
                   ''handle status or value contradicts consume'' else []) @
              (if op = ''issue'' then
                 issue (str_eq (jix res ''family'') ''file'' \<and> jix res ''token_length'' = jix ev ''token_length'' \<and>
                     \<not> (str_eq (jix res ''status'') ''issued'' \<and> \<not> length_in_range (jix res ''token_length'')))
                   ''token metadata contradicts issue'' else []) @
              (if op = ''consume'' then handle_projection_issues T res else [])))
      | _ \<Rightarrow> [''resource lacks unique producing event''])"

definition table_issues :: "extension_tables \<Rightarrow> string list" where
  "table_issues T =
     concat (map (\<lambda>a. issue (\<not> application_mismatch a) ''application count contradicts application publication'') (et_actors T)) @
     concat (map (\<lambda>(rows, key). issue (\<not> reference_repeats key {} rows) ''resource and transfer references must be unique'')
       [(et_tokens T, ''token_ref''), (et_deliveries T, ''delivery_ref''), (et_handles T, ''handle_ref''),
        (et_transfers T, ''delivery_ref'')])"

definition record_issues :: "extension_tables \<Rightarrow> string list" where
  "record_issues T =
     concat (map (transfer_record_issues T) (et_transfers T)) @
     concat (map (transfer_delivery_issues T) (et_transfers T)) @
     concat (map (\<lambda>(rows, op, key). concat (map (resource_issues T op key) rows))
       [(et_tokens T, ''issue'', ''token_ref''), (et_handles T, ''consume'', ''handle_ref''),
        (et_deliveries T, ''transfer'', ''delivery_ref'')])"

definition capacity_exceeded :: "extension_tables \<Rightarrow> bool" where
  "capacity_exceeded T =
     (et_actors T = [] \<or> 8 < length (et_actors T) \<or> 32 < length (et_tokens T) \<or> 64 < length (et_deliveries T) \<or>
      64 < length (et_handles T) \<or> 64 < length (et_transfers T) \<or> 32 + 128 + 64 + 64 < length (et_events T))"

definition singular_projections :: "json \<Rightarrow> bool" where
  "singular_projections runner =
     list_ex (\<lambda>k. \<not> is_null (jix runner k)) [''extensions'', ''runner_subprocess'', ''policy_sha256'', ''sandboxed_after_apply'']"

text \<open>
  The three resource tables are read by indexing the object itself, which panics on a missing key
  (unlike indexing a value, which reads null).
\<close>

definition RESOURCE_TABLES :: "string list" where
  "RESOURCE_TABLES = [''tokens'', ''deliveries'', ''handles'']"

definition extension_details :: "json \<Rightarrow> string list call" where
  "extension_details runner =
     (case (as_array (jix runner ''actors''), as_object (jix runner ''resources''), as_array (jix runner ''transfers'')) of
        (Some actors, Some resources, Some transfers) \<Rightarrow>
          (let T = extension_tables_of runner actors resources transfers in
           if singular_projections runner then Returned [''actor form carries singular projections'']
           else if list_ex (\<lambda>k. obj_get resources k = None) RESOURCE_TABLES then Panicked
           else if capacity_exceeded T then Returned [''actor extension record capacity'']
           else Returned (table_issues T @ rejected (fold (event_step T) (et_events T) initial_events) @ record_issues T))
      | _ \<Rightarrow> Returned [''actor form lacks actor, resource or transfer tables''])"

definition actor_extension_issues :: "json \<Rightarrow> json list call" where
  "actor_extension_issues runner =
     call_bind (extension_details runner) (\<lambda>ds. Returned (map (integrity_issue ''extension_evidence'') ds))"

definition extension_account_issues :: "'d platform \<Rightarrow> json \<Rightarrow> json list call" where
  "extension_account_issues os runner =
     call_bind (if str_eq (jix runner ''execution_form'') ''actors'' then actor_extension_issues runner else Returned [])
       (\<lambda>extension. Returned (map (integrity_issue ''actor_evidence'') (actor_validate os runner) @ extension))"

section \<open>The event loop\<close>

text \<open>Every event changes the handle tables by at most its own handle and only adds diagnostics.\<close>

lemma note_issues_fields [simp]:
  "consumed (note_issues d s) = consumed s" "released (note_issues d s) = released s"
  "rejected (note_issues d s) = rejected s @ d"
  by (simp_all add: note_issues_def)

lemma reject_fields [simp]:
  "consumed (reject d s) = consumed s" "released (reject d s) = released s" "rejected (reject d s) = rejected s @ [d]"
  by (simp_all add: reject_def)

lemma operation_step_effect:
  assumes "operation_step T ev s = Some s'"
  shows "\<exists>d. rejected s' = rejected s @ d"
    "consumed s' = (if jix ev ''operation'' = JStr ''consume'' then (consumed s)(event_handle ev \<mapsto> ev) else consumed s)"
    "released s' = (if jix ev ''operation'' = JStr ''release'' then insert (event_handle ev) (released s) else released s)"
  using assms
  by (auto simp: operation_step_def consume_event_def release_event_def Let_def split: if_splits)

lemma event_step_rejected: "\<exists>d. rejected (event_step T ev s) = rejected s @ d"
  by (auto simp: event_step_def dest!: operation_step_effect(1) split: option.splits)

lemma event_step_consumed:
  "consumed (event_step T ev s) h = Some p \<Longrightarrow>
     consumed s h = Some p \<or> p = ev \<and> jix ev ''operation'' = JStr ''consume'' \<and> event_handle ev = h"
  by (auto simp: event_step_def operation_step_effect(2) split: option.splits if_splits)

lemma event_step_released: "released s \<subseteq> released (event_step T ev s)"
  by (auto simp: event_step_def operation_step_effect(3) split: option.splits)

text \<open>Two invariants of the loop: recorded consumptions are consumptions, and a diagnostic stays.\<close>

definition consumed_ok :: "event_state \<Rightarrow> bool" where
  "consumed_ok s = (\<forall>h p. consumed s h = Some p \<longrightarrow> jix p ''operation'' = JStr ''consume'' \<and> event_handle p = h)"

interpretation consumptions: state_loop "event_step T" consumed_ok for T
  by unfold_locales (auto simp: consumed_ok_def dest!: event_step_consumed)

interpretation diagnosed: state_loop "event_step T" "\<lambda>s. rejected s \<noteq> []" for T
  by unfold_locales (metis append_is_Nil_conv event_step_rejected)

lemma fold_take_Suc:
  "i < length xs \<Longrightarrow> fold f (take (Suc i) xs) s = f (xs ! i) (fold f (take i xs) s)"
  by (simp add: take_Suc_conv_app_nth)

definition event_prefix :: "extension_tables \<Rightarrow> nat \<Rightarrow> event_state" where
  "event_prefix T i = fold (event_step T) (take i (et_events T)) initial_events"

lemma event_prefix_Suc:
  "i < length (et_events T) \<Longrightarrow> event_prefix T (Suc i) = event_step T (et_events T ! i) (event_prefix T i)"
  by (simp add: event_prefix_def fold_take_Suc)

lemma accepted_event:
  assumes "rejected (fold (event_step T) (et_events T) initial_events) = []" and "i < length (et_events T)"
  shows "rejected (event_step T (et_events T ! i) (event_prefix T i)) = []"
proof (rule ccontr)
  assume "rejected (event_step T (et_events T ! i) (event_prefix T i)) \<noteq> []"
  then have "rejected (fold (event_step T) (drop (Suc i) (et_events T)) (event_prefix T (Suc i))) \<noteq> []"
    unfolding event_prefix_Suc [OF assms(2)] by (rule diagnosed.fold_inv)
  then have "rejected (fold (event_step T) (take (Suc i) (et_events T) @ drop (Suc i) (et_events T)) initial_events) \<noteq> []"
    by (simp add: event_prefix_def del: append_take_drop_id)
  with assms(1) show False by simp
qed

lemma accepted_operation:
  assumes "rejected (event_step T ev s) = []"
  obtains s' where "operation_step T ev s = Some s'" "rejected s' = []"
    "released (event_step T ev s) = released s'"
  using assms by (auto simp: event_step_def split: option.splits if_splits)

lemma consumed_origin:
  "i \<le> length (et_events T) \<Longrightarrow> consumed (event_prefix T i) h = Some p \<Longrightarrow> \<exists>j < i. et_events T ! j = p"
proof (induction i)
  case 0
  then show ?case by (simp add: event_prefix_def initial_events_def)
next
  case (Suc i)
  then have "consumed (event_prefix T i) h = Some p \<or> p = et_events T ! i"
    by (auto simp: event_prefix_Suc dest!: event_step_consumed)
  then show ?case
  proof
    assume "consumed (event_prefix T i) h = Some p"
    with Suc.IH Suc.prems(1) show ?thesis by (auto intro: less_SucI)
  next
    assume "p = et_events T ! i"
    then show ?thesis by blast
  qed
qed

lemma consumed_prefix_ok: "consumed_ok (event_prefix T i)"
  unfolding event_prefix_def by (rule consumptions.fold_inv) (simp add: consumed_ok_def initial_events_def)

lemma released_mono: "k \<le> i \<Longrightarrow> i \<le> length (et_events T) \<Longrightarrow> released (event_prefix T k) \<subseteq> released (event_prefix T i)"
proof (induction i rule: dec_induct)
  case (step i)
  then have "released (event_prefix T k) \<subseteq> released (event_prefix T i)" by simp
  also have "\<dots> \<subseteq> released (event_prefix T (Suc i))"
    using step.prems by (simp add: event_prefix_Suc event_step_released)
  finally show ?case .
qed simp

lemma reference_unique:
  assumes "\<not> reference_repeats key seen rows"
  shows "inj_on (\<lambda>r. jix r key) (set rows) \<and> (\<forall>r \<in> set rows. \<exists>s. jix r key = JStr s \<and> s \<notin> seen)"
  using assms
proof (induction rows arbitrary: seen)
  case (Cons row rows)
  let ?n = "unwrap_or (as_str (jix row key)) []"
  from Cons.prems have ref: "is_reference (jix row key)" "?n \<notin> seen" "\<not> reference_repeats key (insert ?n seen) rows"
    by (simp_all add: Let_def)
  from ref(1) obtain s where s: "jix row key = JStr s"
    by (auto simp: is_reference_def bounded_def is_some_and_iff)
  have fresh: "s \<notin> seen" "\<not> reference_repeats key (insert s seen) rows" using ref(2, 3) s by simp_all
  note ih = Cons.IH [OF fresh(2)]
  have other: "jix r key \<noteq> JStr s" if "r \<in> set rows" for r using ih that by fastforce
  show ?case using ih s fresh(1) other by (auto simp: inj_on_insert)
qed simp

lemma released_once:
  assumes "rejected (fold (event_step T) (et_events T) initial_events) = []" and "k < i" and "i < length (et_events T)"
    and "jix (et_events T ! k) ''operation'' = JStr ''release''"
  shows "event_handle (et_events T ! k) \<in> released (event_prefix T i)"
proof -
  have k: "k < length (et_events T)" using assms(2, 3) by simp
  from accepted_operation [OF accepted_event [OF assms(1) k]] obtain s' where
    "operation_step T (et_events T ! k) (event_prefix T k) = Some s'" "released (event_prefix T (Suc k)) = released s'"
    by (metis event_prefix_Suc k)
  with assms(4) have "event_handle (et_events T ! k) \<in> released (event_prefix T (Suc k))"
    by (simp add: operation_step_effect(3))
  with released_mono [of "Suc k" i T] assms(2, 3) show ?thesis by auto
qed

section \<open>Properties\<close>

lemma actor_extension_panics:
  "actor_extension_issues runner = Panicked \<longleftrightarrow>
     (\<exists>actors resources transfers. jix runner ''actors'' = JArr actors \<and> jix runner ''resources'' = JObj resources \<and>
        jix runner ''transfers'' = JArr transfers \<and> jix runner ''extensions'' = JNull \<and> jix runner ''runner_subprocess'' = JNull \<and>
        jix runner ''policy_sha256'' = JNull \<and> jix runner ''sandboxed_after_apply'' = JNull \<and>
        (obj_get resources ''tokens'' = None \<or> obj_get resources ''deliveries'' = None \<or> obj_get resources ''handles'' = None))"
proof -
  have "call_bind c (\<lambda>ds. Returned (f ds)) = Panicked \<longleftrightarrow> c = Panicked" for c :: "string list call" and f :: "string list \<Rightarrow> json list"
    by (cases c) simp_all
  then have "actor_extension_issues runner = Panicked \<longleftrightarrow> extension_details runner = Panicked"
    by (simp add: actor_extension_issues_def)
  then show ?thesis
    by (cases "jix runner ''actors''"; cases "jix runner ''resources''"; cases "jix runner ''transfers''")
      (auto simp: extension_details_def singular_projections_def RESOURCE_TABLES_def is_null_def Let_def)
qed

lemma accepted_extensions:
  assumes "actor_extension_issues runner = Returned []"
  obtains T where "et_events T = jarray (jix runner ''extension_events'')" "et_phases T = jarray (jix runner ''phases'')"
    "et_handles T = jarray (jix (jix runner ''resources'') ''handles'')"
    "table_issues T = []" "rejected (fold (event_step T) (et_events T) initial_events) = []"
proof -
  from assms obtain actors resources transfers where r: "jix runner ''actors'' = JArr actors" "jix runner ''resources'' = JObj resources"
    "jix runner ''transfers'' = JArr transfers"
    and ok: "table_issues (extension_tables_of runner actors resources transfers) = []"
      "rejected (fold (event_step (extension_tables_of runner actors resources transfers))
         (et_events (extension_tables_of runner actors resources transfers)) initial_events) = []"
    by (auto simp: actor_extension_issues_def extension_details_def Let_def split: option.splits if_splits)
  show ?thesis
    by (rule that [of "extension_tables_of runner actors resources transfers"])
      (use r ok in \<open>simp_all add: extension_tables_of_def jix_def\<close>)
qed

lemma accepted_release:
  assumes "operation_step T ev s = Some s'" and "rejected s' = []" and "jix ev ''operation'' = JStr ''release''"
  shows "event_handle ev \<notin> released s" "\<exists>h \<in> set (et_handles T). agree h ev [''handle_ref'', ''actor_id'']"
    "\<exists>p. consumed s (event_handle ev) = Some p \<and> action_before T (jix p ''step_id'') (jix ev ''step_id'') \<and>
       (event_status ev = ''returned'' \<longrightarrow> jix p ''status'' = JStr ''returned'' \<and> \<not> is_null (jix p ''native_result'') \<and>
          \<not> jint_eq (jix p ''native_result'') (- 1))"
    "\<exists>n. jix ev ''handle_ref'' = JStr n"
  using assms
  by (auto simp: operation_step_def release_event_def Let_def list_ex_iff is_some_and_iff str_eq_def is_reference_def bounded_def)

lemma accepted_consume:
  assumes "operation_step T ev s = Some s'" and "rejected s' = []" and "jix ev ''operation'' = JStr ''consume''"
  shows "\<exists>h \<in> set (et_handles T). agree h ev [''handle_ref'', ''delivery_ref'', ''actor_id'', ''step_id'']"
    "\<exists>n. jix ev ''handle_ref'' = JStr n"
  using assms
  by (auto simp: operation_step_def consume_event_def Let_def list_ex_iff is_some_and_iff is_reference_def bounded_def)

lemma unique_handles:
  assumes "table_issues T = []"
  shows "inj_on (\<lambda>r. jix r ''handle_ref'') (set (et_handles T))"
  using assms reference_unique [of "''handle_ref''" "{}" "et_handles T"] by (simp add: table_issues_def)

text \<open>
  C37: in accepted extension evidence every handle is consumed before it is released, and released once.
  A release event follows, in the reply and in the order of the phases' actions, a consume event of the
  same handle by the same actor; no earlier event releases that handle; and a release that returned
  follows a consume that returned a handle.
\<close>

theorem extension_release_sound:
  fixes runner
  defines "events \<equiv> jarray (jix runner ''extension_events'')"
    and "ids \<equiv> phase_action_ids (jarray (jix runner ''phases''))"
  assumes "actor_extension_issues runner = Returned []"
    and "i < length events" and "jix (events ! i) ''operation'' = JStr ''release''"
  shows "\<exists>j < i. jix (events ! j) ''operation'' = JStr ''consume'' \<and>
      jix (events ! j) ''handle_ref'' = jix (events ! i) ''handle_ref'' \<and>
      jix (events ! j) ''actor_id'' = jix (events ! i) ''actor_id'' \<and>
      (\<exists>a b. a < b \<and> position (\<lambda>x. x = jix (events ! j) ''step_id'') ids = Some a \<and>
         position (\<lambda>x. x = jix (events ! i) ''step_id'') ids = Some b) \<and>
      (event_status (events ! i) = ''returned'' \<longrightarrow> jix (events ! j) ''status'' = JStr ''returned'' \<and>
         \<not> is_null (jix (events ! j) ''native_result'') \<and> \<not> jint_eq (jix (events ! j) ''native_result'') (- 1)) \<and>
      (\<forall>k < i. jix (events ! k) ''operation'' = JStr ''release'' \<longrightarrow>
         event_handle (events ! k) \<noteq> event_handle (events ! i))"
proof -
  obtain T where T: "et_events T = events" "et_phases T = jarray (jix runner ''phases'')" "table_issues T = []"
    "rejected (fold (event_step T) (et_events T) initial_events) = []"
    using accepted_extensions [OF assms(3)] unfolding events_def by metis
  have i: "i < length (et_events T)" using assms(4) T(1) by simp
  let ?ev = "events ! i" and ?s = "event_prefix T i"
  obtain s' where op: "operation_step T ?ev ?s = Some s'" "rejected s' = []"
    using accepted_operation [OF accepted_event [OF T(4) i]] T(1) by metis
  note rel = accepted_release [OF op assms(5)]
  from rel(3) obtain p where p: "consumed ?s (event_handle ?ev) = Some p"
    "action_before T (jix p ''step_id'') (jix ?ev ''step_id'')"
    "event_status ?ev = ''returned'' \<longrightarrow> jix p ''status'' = JStr ''returned'' \<and> \<not> is_null (jix p ''native_result'') \<and>
       \<not> jint_eq (jix p ''native_result'') (- 1)" by blast
  obtain j where j: "j < i" "events ! j = p" using consumed_origin [of i T, OF _ p(1)] i T(1) by auto
  have c: "jix p ''operation'' = JStr ''consume''" "event_handle p = event_handle ?ev"
    using consumed_prefix_ok [of T i] p(1) by (auto simp: consumed_ok_def)
  have jl: "j < length (et_events T)" using j(1) i by simp
  obtain s'' where "operation_step T p (event_prefix T j) = Some s''" "rejected s'' = []"
    using accepted_operation [OF accepted_event [OF T(4) jl]] T(1) j(2) by metis
  note con = accepted_consume [OF this c(1)]
  from rel(4) con(2) c(2) have ref: "jix p ''handle_ref'' = jix ?ev ''handle_ref''" by (auto simp: event_handle_def)
  from rel(2) con(1) obtain h h' where "h \<in> set (et_handles T)" "agree h ?ev [''handle_ref'', ''actor_id'']"
    "h' \<in> set (et_handles T)" "agree h' p [''handle_ref'', ''delivery_ref'', ''actor_id'', ''step_id'']" by blast
  with ref unique_handles [OF T(3)] have act: "jix p ''actor_id'' = jix ?ev ''actor_id''"
    by (auto simp: agree_def inj_on_def)
  have ord: "\<exists>a b. a < b \<and> position (\<lambda>x. x = jix p ''step_id'') ids = Some a \<and> position (\<lambda>x. x = jix ?ev ''step_id'') ids = Some b"
    using p(2) T(2) by (auto simp: action_before_def ids_def Let_def is_some_and_iff)
  have once: "\<forall>k < i. jix (events ! k) ''operation'' = JStr ''release'' \<longrightarrow> event_handle (events ! k) \<noteq> event_handle ?ev"
    using released_once [OF T(4) _ i] rel(1) T(1) by metis
  show ?thesis using j c(1) ref act ord p(3) once by (intro exI [of _ j]) simp
qed

text \<open>One actor issues a token, transfers it to itself, consumes it and releases the handle.\<close>

definition sample_event :: "string \<Rightarrow> string \<Rightarrow> json_map \<Rightarrow> json" where
  "sample_event op step rest = JObj (
     [(''actor_id'', JStr ''a''), (''family'', JStr ''file''), (''operation'', JStr op), (''phase_id'', JStr ''p''),
      (''result_published'', JBool True), (''step_id'', JStr step)] @ rest)"

definition sample_native :: "nat \<Rightarrow> json_map" where
  "sample_native n = [(''call_boundary_observed'', JBool True), (''errno'', JNum (PosInt 0)), (''native_result'', JNum (PosInt n)),
     (''status'', JStr ''returned'')]"

definition sample_events :: "json list" where
  "sample_events =
     [sample_event ''issue'' ''i1'' (sample_native 1 @ [(''native_nonnull'', JBool True), (''token_length'', JNum (PosInt 10)), (''token_ref'', JStr ''t'')]),
      sample_event ''transfer'' ''i2'' [(''delivery_ref'', JStr ''d''), (''status'', JStr ''none''), (''token_ref'', JStr ''t'')],
      sample_event ''consume'' ''i3'' (sample_native 5 @ [(''delivery_ref'', JStr ''d''), (''handle_ref'', JStr ''h'')]),
      sample_event ''release'' ''i4'' (sample_native 0 @ [(''handle_ref'', JStr ''h'')])]"

definition sample_resources :: json_map where
  "sample_resources =
     [(''deliveries'', JArr [JObj [(''delivery_ref'', JStr ''d''), (''recipient_actor_id'', JStr ''a''), (''source_actor_id'', JStr ''a''),
         (''status'', JStr ''unrequested''), (''step_id'', JStr ''i2''), (''token_ref'', JStr ''t'')]]),
      (''handles'', JArr [JObj [(''actor_id'', JStr ''a''), (''delivery_ref'', JStr ''d''), (''handle_ref'', JStr ''h''),
         (''native_handle'', JNum (PosInt 5)), (''raw_equal_handles'', JArr []), (''release_attempted'', JBool True),
         (''release_step_id'', JStr ''i4''), (''status'', JStr ''produced''), (''step_id'', JStr ''i3'')]]),
      (''tokens'', JArr [JObj [(''actor_id'', JStr ''a''), (''family'', JStr ''file''), (''status'', JStr ''issued''),
         (''step_id'', JStr ''i1''), (''token_length'', JNum (PosInt 10)), (''token_ref'', JStr ''t'')]])]"

definition sample_extension_actor :: json where
  "sample_extension_actor = JObj
     [(''actor_id'', JStr ''a''), (''application_count'', JNum (PosInt 0)), (''setup_status'', JStr ''unapplied_declared''),
      (''subprocess'', JObj [(''disposition'', JObj [(''steps'', JArr (map (\<lambda>i. JObj [(''slot'', JStr ''completed''), (''step_id'', JStr i)])
         [''i1'', ''i2'', ''i3'', ''i4'']))])])]"

definition sample_extension_phase :: json where
  "sample_extension_phase = JObj
     [(''action_ids'', JArr [JStr ''i1'', JStr ''i2'', JStr ''i3'', JStr ''i4'']), (''actor_id'', JStr ''a''),
      (''ordering'', JObj [(''proceed_observed'', JBool True)]), (''phase_id'', JStr ''p'')]"

definition sample_extension_reply :: json where
  "sample_extension_reply = JObj
     [(''actors'', JArr [sample_extension_actor]), (''execution_form'', JStr ''actors''), (''extension_events'', JArr sample_events),
      (''phases'', JArr [sample_extension_phase]), (''resources'', JObj sample_resources), (''transfers'', JArr [])]"

definition sample_tables :: extension_tables where
  "sample_tables = extension_tables_of sample_extension_reply [sample_extension_actor] sample_resources []"

lemma sample_tables_fields [simp]:
  "et_actors sample_tables = [sample_extension_actor]" "et_phases sample_tables = [sample_extension_phase]"
  "et_events sample_tables = sample_events" "et_transfers sample_tables = []"
  "et_tokens sample_tables = jarray (jix (JObj sample_resources) ''tokens'')"
  "et_deliveries sample_tables = jarray (jix (JObj sample_resources) ''deliveries'')"
  "et_handles sample_tables = jarray (jix (JObj sample_resources) ''handles'')"
  by (simp_all add: sample_tables_def extension_tables_of_def sample_extension_reply_def jix_def)

lemmas sample_event_defs = sample_events_def sample_event_def sample_native_def sample_resources_def sample_extension_actor_def
  sample_extension_phase_def jix_def str_eq_def jint_eq_def i64_max_def

lemmas sample_checks = event_step_def event_actor_def event_phase_def operation_step_def issue_event_def transfer_event_def
  consume_event_def release_event_def native_status_issues_def publication_issues_def event_status_def event_published_def
  event_called_def event_handle_def agree_def is_reference_def bounded_def nul_def action_before_def phase_action_ids_def
  note_issues_def issue_def actor_transfer_status_def Let_def

lemma sample_events_accepted: "rejected (fold (event_step sample_tables) sample_events initial_events) = []"
  by (simp add: sample_events_def) (simp add: sample_checks sample_event_defs initial_events_def)

lemma sample_tables_accepted: "table_issues sample_tables = []"
  by (simp add: table_issues_def application_mismatch_def one_of_def is_reference_def bounded_def nul_def sample_event_defs issue_def)

lemma sample_records_accepted: "record_issues sample_tables = []"
  by (simp add: record_issues_def) (simp add: resource_issues_def resource_status_issues_def handle_projection_issues_def
    unobserved_delivery_issues_def length_in_range_def btree_of_def event_status_def event_published_def event_called_def
    issue_def sample_event_defs Let_def)

lemma sample_extension_accepted: "actor_extension_issues sample_extension_reply = Returned []"
proof -
  have "extension_details sample_extension_reply =
      Returned (table_issues sample_tables @ rejected (fold (event_step sample_tables) (et_events sample_tables) initial_events) @ record_issues sample_tables)"
  proof -
    have "jix sample_extension_reply ''actors'' = JArr [sample_extension_actor]"
      "jix sample_extension_reply ''resources'' = JObj sample_resources" "jix sample_extension_reply ''transfers'' = JArr []"
      by (simp_all add: sample_extension_reply_def jix_def)
    moreover have "\<not> singular_projections sample_extension_reply"
      by (simp add: singular_projections_def sample_extension_reply_def jix_def)
    moreover have "\<not> list_ex (\<lambda>k. obj_get sample_resources k = None) RESOURCE_TABLES"
      by (simp add: RESOURCE_TABLES_def sample_resources_def)
    moreover have "\<not> capacity_exceeded sample_tables"
      by (simp add: capacity_exceeded_def sample_events_def sample_resources_def jix_def)
    ultimately show ?thesis by (simp add: extension_details_def Let_def sample_tables_def [symmetric])
  qed
  then show ?thesis
    by (simp add: actor_extension_issues_def sample_events_accepted sample_tables_accepted sample_records_accepted)
qed

theorem extension_release_sound_witness:
  "actor_extension_issues sample_extension_reply = Returned [] \<and>
   (\<exists>j < 3. jix (sample_events ! j) ''operation'' = JStr ''consume'' \<and> jix (sample_events ! j) ''handle_ref'' = JStr ''h'')"
proof -
  have e: "jarray (jix sample_extension_reply ''extension_events'') = sample_events"
    by (simp add: sample_extension_reply_def jix_def)
  have "3 < length sample_events" "jix (sample_events ! 3) ''operation'' = JStr ''release''"
    "jix (sample_events ! 3) ''handle_ref'' = JStr ''h''"
    by (simp_all add: sample_event_defs)
  with extension_release_sound [OF sample_extension_accepted, of 3] sample_extension_accepted e show ?thesis by auto
qed

end
