(* ===== verification/Diagnostics.thy ===== *)
theory Diagnostics
  imports Extension_Evidence
begin

text \<open>
  The execution diagnostics of an envelope (controller/src/disposition.rs, \<open>execution_diagnostics\<close>):
  the projection of the worker's disposition, or one projection per actor, withheld as a whole when
  the native evidence of the reply has an issue.
\<close>

section \<open>Definitions\<close>

record actor_execution_diagnostics =
  ad_actor_id :: "string option"
  ad_process_disposition :: string
  ad_termination_cause :: "string option"
  ad_stop_reason :: "string option"
  ad_disposition_integrity :: "string option"
  ad_disposition_issues :: "json list"

record runner_execution_diagnostics =
  process_disposition :: string
  rd_termination_cause :: "string option"
  rd_stop_reason :: "string option"
  disposition_integrity :: "string option"
  disposition_issues :: "json list"
  rd_actors :: "actor_execution_diagnostics list option"

definition native_issues :: "'d platform \<Rightarrow> (string \<Rightarrow> string) \<Rightarrow> json \<Rightarrow> json list call" where
  "native_issues os upper runner =
     call_bind (extension_account_issues os runner)
       (\<lambda>account. Returned (account @ phase_collection_issues upper runner @ exec_observation_issues runner))"

definition reporting_failed :: "json \<Rightarrow> bool" where
  "reporting_failed runner =
     (str_eq (jix runner ''normalized_outcome'') ''runner_reporting_failed'' \<and> is_object (jix runner ''reporting_failure''))"

definition no_worker :: disposition_projection where
  "no_worker = \<lparr>disposition = ''no_worker'', cause = None, dp_stop_reason = None, integrity = None, dp_issues = []\<rparr>"

definition actor_steps :: "json \<Rightarrow> json \<Rightarrow> json list" where
  "actor_steps runner actor =
     (let ids = phase_action_ids (jarray (jix runner ''phases'')) in
      sort_key (\<lambda>a. unwrap_or (position (\<lambda>i. i = jix a ''step_id'') ids) u64_max)
        (filter (\<lambda>s. jix s ''actor_id'' = jix actor ''actor_id'')
          (jarray (jix runner ''steps'') @ jarray (jix runner ''extension_events''))))"

definition actor_projection :: "json \<Rightarrow> json \<Rightarrow> disposition_projection" where
  "actor_projection runner actor =
     (case option_filter is_object (jget actor ''subprocess'') of
        None \<Rightarrow> no_worker
      | Some sub \<Rightarrow> project_disposition sub (actor_steps runner actor) (reporting_failed runner))"

definition launched :: "json \<Rightarrow> bool" where
  "launched actor = is_some (option_filter is_object (jget actor ''subprocess''))"

definition actor_diagnostics_row :: "json \<Rightarrow> json \<Rightarrow> actor_execution_diagnostics" where
  "actor_diagnostics_row runner actor =
     (let p = actor_projection runner actor in
      \<lparr>ad_actor_id = as_str (jix actor ''actor_id''), ad_process_disposition = disposition p, ad_termination_cause = cause p,
       ad_stop_reason = dp_stop_reason p, ad_disposition_integrity = integrity p, ad_disposition_issues = dp_issues p\<rparr>)"

definition actor_execution :: "'d platform \<Rightarrow> (string \<Rightarrow> string) \<Rightarrow> json \<Rightarrow> runner_execution_diagnostics call" where
  "actor_execution os upper runner =
     (let actors = jarray (jix runner ''actors'');
          rows = map (actor_diagnostics_row runner) actors;
          all_valid = list_all (\<lambda>a. \<not> launched a \<or> integrity (actor_projection runner a) = Some ''valid'') actors in
      call_bind (native_issues os upper runner) (\<lambda>issues.
        let any_launched = list_ex (\<lambda>a. ad_process_disposition a \<noteq> ''no_worker'') rows; held = (issues \<noteq> []) in
        Returned \<lparr>process_disposition = (if held then ''withheld'' else if any_launched then ''per_actor'' else ''no_worker''),
          rd_termination_cause = (if held then Some ''unknown'' else None), rd_stop_reason = None,
          disposition_integrity = (if \<not> any_launched \<and> \<not> held then None
            else if held \<or> \<not> all_valid then Some ''invalid'' else Some ''valid''),
          disposition_issues = issues, rd_actors = Some rows\<rparr>))"

definition ordinary_projection :: "json option \<Rightarrow> disposition_projection" where
  "ordinary_projection runner =
     (case (worker_pid runner, Option.bind runner (\<lambda>r. jget r ''runner_subprocess'')) of
        (Some _, Some sub) \<Rightarrow>
          project_disposition sub (unwrap_or (Option.bind (Option.bind runner (\<lambda>r. jget r ''steps'')) as_array) [])
            (is_some_and runner reporting_failed)
      | _ \<Rightarrow> no_worker)"

definition withhold :: "json list \<Rightarrow> disposition_projection \<Rightarrow> disposition_projection" where
  "withhold issues p =
     (if issues = [] then p
      else p\<lparr>disposition := ''withheld'', cause := Some ''unknown'', integrity := Some ''invalid'', dp_issues := dp_issues p @ issues\<rparr>)"

definition ordinary_diagnostics :: "disposition_projection \<Rightarrow> runner_execution_diagnostics" where
  "ordinary_diagnostics p =
     \<lparr>process_disposition = disposition p, rd_termination_cause = cause p, rd_stop_reason = dp_stop_reason p,
      disposition_integrity = integrity p, disposition_issues = dp_issues p, rd_actors = None\<rparr>"

definition execution_diagnostics ::
    "'d platform \<Rightarrow> (string \<Rightarrow> string) \<Rightarrow> json option \<Rightarrow> runner_execution_diagnostics call" where
  "execution_diagnostics os upper runner =
     (case runner of
        None \<Rightarrow> Returned (ordinary_diagnostics (ordinary_projection None))
      | Some r \<Rightarrow>
          if str_eq (jix r ''execution_form'') ''actors'' then actor_execution os upper r
          else call_bind (native_issues os upper r)
            (\<lambda>issues. Returned (ordinary_diagnostics (withhold issues (ordinary_projection runner)))))"

section \<open>Properties\<close>

lemma call_Panicked: "call_bind c (\<lambda>x. Returned (f x)) = Panicked \<longleftrightarrow> c = Panicked"
  by (cases c) simp_all

lemma project_disposition_integrity: "integrity (project_disposition sub steps rf) \<in> {Some ''valid'', Some ''invalid''}"
  by (simp add: project_disposition_def withheld_def Let_def split: option.splits prod.splits)

lemma project_disposition_worker: "disposition (project_disposition sub steps rf) \<noteq> ''no_worker''"
  by (auto simp: project_disposition_def withheld_def final_disposition_def Let_def split: option.splits prod.splits if_splits)

lemma native_issues_Nil:
  assumes "native_issues os upper runner = Returned []"
  shows "actor_validate os runner = []" "phase_collection_issues upper runner = []" "exec_observation_issues runner = []"
    "str_eq (jix runner ''execution_form'') ''actors'' \<Longrightarrow> actor_extension_issues runner = Returned []"
  using assms by (auto simp: native_issues_def extension_account_issues_def split: if_splits)

text \<open>The reply's native evidence has no issue: what the validity of a whole envelope rests on.\<close>

definition evidence_clean :: "'d platform \<Rightarrow> (string \<Rightarrow> string) \<Rightarrow> json \<Rightarrow> bool" where
  "evidence_clean os upper runner =
     (actor_validate os runner = [] \<and> phase_collection_issues upper runner = [] \<and> exec_observation_issues runner = [] \<and>
      (str_eq (jix runner ''execution_form'') ''actors'' \<longrightarrow> actor_extension_issues runner = Returned []))"

lemma evidence_clean_native: "evidence_clean os upper runner \<longleftrightarrow> native_issues os upper runner = Returned []"
  by (auto simp: evidence_clean_def native_issues_def extension_account_issues_def split: if_splits)

text \<open>
  C36: an envelope is marked valid exactly when nothing is wrong anywhere. With \<open>valid\<close> integrity the
  native evidence of the whole reply is clean, at least one worker ran, and every launched worker's own
  disposition record was validated and projected; one issue of the native evidence withholds the whole
  projection whatever the records say.
\<close>

theorem execution_diagnostics_valid_exact:
  "execution_diagnostics os upper (Some runner) = Returned d \<and> disposition_integrity d = Some ''valid'' \<longleftrightarrow>
   evidence_clean os upper runner \<and>
   (if str_eq (jix runner ''execution_form'') ''actors''
    then (\<exists>a \<in> set (jarray (jix runner ''actors'')). launched a) \<and>
      (\<forall>a \<in> set (jarray (jix runner ''actors'')). launched a \<longrightarrow> integrity (actor_projection runner a) = Some ''valid'') \<and>
      d = \<lparr>process_disposition = ''per_actor'', rd_termination_cause = None, rd_stop_reason = None,
        disposition_integrity = Some ''valid'', disposition_issues = [],
        rd_actors = Some (map (actor_diagnostics_row runner) (jarray (jix runner ''actors'')))\<rparr>
    else integrity (ordinary_projection (Some runner)) = Some ''valid'' \<and>
      d = ordinary_diagnostics (ordinary_projection (Some runner)))"
proof -
  have ran: "ad_process_disposition (actor_diagnostics_row runner a) \<noteq> ''no_worker'' \<longleftrightarrow> launched a" for a
    by (auto simp: actor_diagnostics_row_def actor_projection_def launched_def no_worker_def project_disposition_worker
      Let_def rust_simps split: option.splits)
  have any: "list_ex (\<lambda>a. ad_process_disposition a \<noteq> ''no_worker'') (map (actor_diagnostics_row runner) xs) \<longleftrightarrow>
      (\<exists>a \<in> set xs. launched a)" for xs
    using ran by (auto simp: list_ex_iff)
  show ?thesis
  proof (cases "native_issues os upper runner")
    case Panicked
    then show ?thesis by (simp add: evidence_clean_native execution_diagnostics_def actor_execution_def Let_def)
  next
    case (Returned issues)
    show ?thesis
    proof (cases "str_eq (jix runner ''execution_form'') ''actors''")
      case True
      then show ?thesis
        using Returned
        by (auto simp: evidence_clean_native execution_diagnostics_def actor_execution_def Let_def any list_all_iff)
    next
      case False
      then show ?thesis
        using Returned
        by (auto simp: evidence_clean_native execution_diagnostics_def withhold_def ordinary_diagnostics_def)
    qed
  qed
qed

definition killed_reply :: json where
  "killed_reply = JObj [(''runner_subprocess'', killed_subprocess)]"

theorem execution_diagnostics_valid_exact_witness:
  "\<exists>d. execution_diagnostics sample_platform id (Some killed_reply) = Returned d \<and>
     disposition_integrity d = Some ''valid'' \<and> process_disposition d = ''signaled''"
proof -
  have form: "\<not> str_eq (jix killed_reply ''execution_form'') ''actors''"
    by (simp add: killed_reply_def jix_def str_eq_def)
  have "evidence_clean sample_platform id killed_reply"
    using form by (simp add: evidence_clean_def actor_validate_def issue_def phase_collection_issues_def exec_observation_issues_def)
      (simp add: killed_reply_def jix_def)
  moreover have "worker_pid (Some killed_reply) = Some 7"
    by (simp add: worker_pid_def killed_reply_def killed_subprocess_def i32_of_def i64_max_def)
  then have p: "ordinary_projection (Some killed_reply) = project_disposition killed_subprocess [] False"
    by (simp add: ordinary_projection_def killed_reply_def reporting_failed_def jix_def str_eq_def)
  ultimately show ?thesis
    using execution_diagnostics_valid_exact [of sample_platform id killed_reply
        "ordinary_diagnostics (project_disposition killed_subprocess [] False)"] form killed_projection
    by (simp add: ordinary_diagnostics_def)
qed

text \<open>
  C38: deriving the diagnostics of a run panics on exactly one kind of reply and on no other, also not when
  there is no reply: an actor-form reply with its three tables and without any of the four singular
  projections whose resource object lacks the list of tokens, of deliveries or of handles. Every other
  reply, however malformed, gives diagnostics.
\<close>

theorem execution_diagnostics_panics_exact:
  "execution_diagnostics os upper reply = Panicked \<longleftrightarrow>
     (\<exists>runner actors resources transfers. reply = Some runner \<and> jix runner ''execution_form'' = JStr ''actors'' \<and>
        jix runner ''actors'' = JArr actors \<and> jix runner ''resources'' = JObj resources \<and> jix runner ''transfers'' = JArr transfers \<and>
        jix runner ''extensions'' = JNull \<and> jix runner ''runner_subprocess'' = JNull \<and> jix runner ''policy_sha256'' = JNull \<and>
        jix runner ''sandboxed_after_apply'' = JNull \<and>
        (obj_get resources ''tokens'' = None \<or> obj_get resources ''deliveries'' = None \<or> obj_get resources ''handles'' = None))"
proof -
  have native: "native_issues os upper runner = Panicked \<longleftrightarrow>
      str_eq (jix runner ''execution_form'') ''actors'' \<and> actor_extension_issues runner = Panicked" for runner
    by (auto simp: native_issues_def extension_account_issues_def call_Panicked)
  have "execution_diagnostics os upper reply = Panicked \<longleftrightarrow> (\<exists>runner. reply = Some runner \<and> native_issues os upper runner = Panicked)"
    by (auto simp: execution_diagnostics_def actor_execution_def Let_def call_Panicked split: option.splits)
  then show ?thesis unfolding native actor_extension_panics str_eq_def by auto
qed

end
