(* ===== verification/Run_Flow.thy ===== *)
theory Run_Flow
  imports Dossier Policy_Check Diagnostics
begin

text \<open>
  One run of the controller (controller/src/run_flow.rs) and the command-line dispatch
  (controller/src/cli.rs). The three dependencies the source names as such, the manifest load, the
  runner client and the fallback compiler, act on a world of their own; the files, the JSON text
  functions, \<open>sysctl\<close> and the environment are parameters. A panic of a callee is a value. The frame
  that prints an envelope is not modelled: an envelope is its result, its data and its exit code.
\<close>

section \<open>Envelopes\<close>

definition RESPONSE_SCHEMA_VERSION :: nat where "RESPONSE_SCHEMA_VERSION = 27"

record actor_policy_check =
  apc_actor_id :: "string option"
  apc_policy_check :: policy_check_capture

record execution_data =
  ex_specimen :: specimen
  ex_policy_check :: "policy_check_capture option"
  ex_actor_policy_checks :: "actor_policy_check list option"
  ex_timeout_ms :: "nat option"
  ex_runner_client :: "runner_client_run option"
  ex_runner_result :: "json option"
  ex_request_failure :: "json option"

record run_data =
  rd_execution :: execution_data
  rd_diagnostics :: "runner_execution_diagnostics option"

record completed_execution =
  ce_data :: execution_data
  ce_diagnostics :: runner_execution_diagnostics
  ce_result :: json_result
  ce_exit_code :: int

datatype run_output = HelpOutput | Envelope json_result run_data int

definition execution_only ::
    "specimen \<Rightarrow> nat option \<Rightarrow> runner_client_run option \<Rightarrow> json option \<Rightarrow> run_data" where
  "execution_only s timeout client reply =
     \<lparr>rd_execution = \<lparr>ex_specimen = s, ex_policy_check = None, ex_actor_policy_checks = None, ex_timeout_ms = timeout,
        ex_runner_client = client, ex_runner_result = reply, ex_request_failure = None\<rparr>,
      rd_diagnostics = None\<rparr>"

definition tool_error_envelope :: "specimen \<Rightarrow> nat option \<Rightarrow> message \<Rightarrow> json_result \<times> run_data" where
  "tool_error_envelope s timeout e =
     (json_result_new False 2 (Some ''tool_error'') (Some e), execution_only s timeout None None)"

definition tool_error :: "specimen \<Rightarrow> nat option \<Rightarrow> message \<Rightarrow> run_output" where
  "tool_error s timeout e = (case tool_error_envelope s timeout e of (result, data) \<Rightarrow> Envelope result data 2)"

text \<open>The serialised \<open>RequestFailure\<close>: an absent path is null, an absent version is left out.\<close>

definition request_failure_json :: "request_failure \<Rightarrow> json" where
  "request_failure_json f =
     JObj ([(''code'', JStr (code f))] @
       (case expected_schema f of None \<Rightarrow> [] | Some v \<Rightarrow> [(''expected_schema'', JNum (PosInt v))]) @
       [(''path'', case fpath f of None \<Rightarrow> JNull | Some p \<Rightarrow> JArr (map JStr p))])"

definition bad_request :: "specimen \<Rightarrow> nat option \<Rightarrow> request_error \<Rightarrow> run_output" where
  "bad_request s timeout e =
     (let data = execution_only s timeout None None in
      Envelope (json_result_new False 1 (Some ''bad_request'') (Some (emessage e)))
        (data\<lparr>rd_execution := (rd_execution data)\<lparr>ex_request_failure :=
          Some (request_failure_json (request_error.failure e))\<rparr>\<rparr>) 1)"

section \<open>The reply's version\<close>

datatype version_gate = Supported | Unsupported number | Malformed message

definition compiled_profile_problem :: "json \<Rightarrow> string option" where
  "compiled_profile_problem reply =
     (if is_some (jget reply ''applied_profile'') then
        Some ''retired applied_profile field in current runner reply''
      else
        (case jget reply ''compiled_profile'' of
           None \<Rightarrow> None
         | Some capture \<Rightarrow>
             if is_null capture then None
             else if \<not> is_object capture \<or> as_u64 (jix capture ''schema_version'') \<noteq> Some 2 then
               Some ''unsupported or malformed compiled_profile schema_version''
             else if str_eq (jix capture ''status'') ''captured'' then
               (if as_str (jix capture ''producer'') \<noteq> Some ''worker'' \<or>
                   as_str (jix capture ''capture_stage'') \<noteq> Some ''before_apply''
                then Some ''compiled_profile requires worker/before_apply context'' else None)
             else if str_eq (jix capture ''status'') ''unavailable'' then
               (if \<not> is_null (jix capture ''producer'') \<or> \<not> is_null (jix capture ''capture_stage'')
                then Some ''unavailable compiled_profile cannot claim capture context'' else None)
             else Some ''invalid compiled_profile status''))"

text \<open>\<open>show_json\<close> prints a value.\<close>

definition reply_version :: "(json \<Rightarrow> string) \<Rightarrow> json \<Rightarrow> version_gate" where
  "reply_version show_json reply =
     (let noninteger = (\<lambda>other. Malformed [MText (''runner reply schema_version is not an integer: '' @ show_json other)]) in
      case jget reply ''schema_version'' of
        None \<Rightarrow> Malformed [MText ''runner reply carries no schema_version'']
      | Some (JNum n) \<Rightarrow>
          if number_is_i64 n \<or> number_is_u64 n then
            (if number_as_u64 n = Some RESPONSE_SCHEMA_VERSION then
               (case compiled_profile_problem reply of
                  Some problem \<Rightarrow> Malformed [MText problem]
                | None \<Rightarrow> Supported)
             else Unsupported n)
          else noninteger (JNum n)
      | Some other \<Rightarrow> noninteger other)"

datatype reply_admission = DeliveryFailed string | Refused string message | Admitted

definition admit_reply :: "(json \<Rightarrow> string) \<Rightarrow> runner_client_run \<Rightarrow> json option \<Rightarrow> reply_admission call" where
  "admit_reply show_json client reply =
     (case delivery_error client of
        Some e \<Rightarrow> Returned (DeliveryFailed e)
      | None \<Rightarrow>
          call_bind (client_failure client) (\<lambda>failed. Returned
            (case failed of
               Some (outcome, e) \<Rightarrow> Refused outcome [MText e]
             | None \<Rightarrow>
                 (case map_option (reply_version show_json) reply of
                    None \<Rightarrow> Admitted
                  | Some Supported \<Rightarrow> Admitted
                  | Some (Unsupported version) \<Rightarrow>
                      Refused ''unsupported_runner_response''
                        [MText ''runner reply carries response schema '', MNumber version,
                         MText (''; this controller reads only '' @ nat_digits RESPONSE_SCHEMA_VERSION)]
                  | Some (Malformed e) \<Rightarrow> Refused ''malformed_runner_response'' e))))"

definition runner_outcome :: "json option \<Rightarrow> string" where
  "runner_outcome reply =
     unwrap_or (Option.bind (Option.bind reply (\<lambda>v. jget v ''normalized_outcome'')) as_str) ''runner_output_not_json''"

section \<open>Dependencies and policy dossiers\<close>

record ('w, 'd) run_deps =
  d_app_root :: "string + path"
  d_load_manifest :: "path \<Rightarrow> 'w \<Rightarrow> (string + evidence_manifest) \<times> 'w"
  d_registry :: "string + runner_registry"
  d_policy_check :: "string \<Rightarrow> 'w \<Rightarrow> (string + policy_check_capture) \<times> 'w"
  d_client :: "string \<Rightarrow> string \<Rightarrow> nat \<Rightarrow> connection_kind \<Rightarrow> 'w \<Rightarrow> (string + runner_client_run \<times> json option) \<times> 'w"
  d_sysctl :: "string \<Rightarrow> string option"
  d_env_verify :: "string option"
  d_exists :: "path \<Rightarrow> bool"
  d_read :: "path \<Rightarrow> string + string"
  d_read_augment :: "path \<Rightarrow> string option"
  d_sha :: "string \<Rightarrow> string"
  d_verify_fs :: verify_fs
  d_import_fs :: import_fs
  d_binary_fs :: binary_fs
  d_from_str :: "string \<Rightarrow> string + json"
  d_to_pretty :: "json \<Rightarrow> string + string"
  d_to_string :: "json \<Rightarrow> string"
  d_show_part :: "msg_part \<Rightarrow> string"
  d_platform :: "'d platform"
  d_upper :: "string \<Rightarrow> string"

definition load_app_provenance ::
    "('w, 'd) run_deps \<Rightarrow> string + evidence_manifest \<Rightarrow> path \<Rightarrow> path \<Rightarrow> app_provenance option" where
  "load_app_provenance deps manifest mpath app_root =
     Option.bind (res_ok manifest) (\<lambda>m.
     Some \<lparr>evidence_manifest_path = mpath,
       evidence_verify = (if d_env_verify deps = Some ''1'' then Some (verify_manifest (d_verify_fs deps) m app_root mpath)
         else None)\<rparr>)"

definition string_source :: "json \<Rightarrow> string option" where
  "string_source request =
     Option.bind (Option.bind (jget request ''policy'') (\<lambda>p. jget p ''sbpl_source'')) as_str"

definition policy_dossier ::
    "import_fs \<Rightarrow> (string \<Rightarrow> string) \<Rightarrow> string option \<Rightarrow> augment_resolution \<Rightarrow> string option
      \<Rightarrow> policy_dossier_record \<times> request_error option" where
  "policy_dossier fs sha orig resolution sel =
     (let unchanged = (case orig of Some s \<Rightarrow> augmentation_not_requested sha (Some s) | None \<Rightarrow> augmentation_not_applicable);
          (augm, err) =
            (case resolution of
               NotPresent \<Rightarrow> (unchanged, None)
             | StrippedNoOp \<Rightarrow> (unchanged, None)
             | Applied r \<Rightarrow> (augmentation_applied r (is_some orig), None)
             | BadRequest e \<Rightarrow> (augmentation_failed sha orig (emessage e), Some e));
          imports =
            (if is_some err then imports_not_applicable (Some ''augmentation_failed'')
             else (case sel of Some s \<Rightarrow> imports_scan fs sha s | None \<Rightarrow> imports_not_applicable None)) in
      (\<lparr>pd_augmentation = augm, pd_imports = imports\<rparr>, err))"

fun actor_policy_dossiers ::
    "import_fs \<Rightarrow> (string \<Rightarrow> string) \<Rightarrow> actor_augment_resolution list \<Rightarrow> actor_dossier list \<times> request_error option" where
  "actor_policy_dossiers fs sha [] = ([], None)"
| "actor_policy_dossiers fs sha (a # rest) =
     (let (policy, err) = policy_dossier fs sha (original_source a) (ar_resolution a) (selected_source a);
          (dossiers, later) = actor_policy_dossiers fs sha rest in
      (\<lparr>ado_actor_id = ar_actor_id a, ado_mode = ar_mode a, ado_policy = policy\<rparr> # dossiers, option_or err later))"

section \<open>Fallback compilation\<close>

definition fallback_policy_check ::
    "runner_client_run \<Rightarrow> ('w \<Rightarrow> (string + policy_check_capture) \<times> 'w) \<Rightarrow> 'w \<Rightarrow> policy_check_capture option \<times> 'w" where
  "fallback_policy_check client check w =
     (if \<not> fallback_eligible client then (None, w)
      else case check w of
        (Inr c, w') \<Rightarrow> (Some c, w')
      | (Inl e, w') \<Rightarrow> (Some (policy_check_unavailable e), w'))"

fun check_actors ::
    "('w, 'd) run_deps \<Rightarrow> (string option \<times> json) list \<Rightarrow> 'w \<Rightarrow> actor_policy_check list \<times> 'w" where
  "check_actors deps [] w = ([], w)"
| "check_actors deps ((actor_id, policy) # rest) w =
     (case d_policy_check deps (d_to_string deps (JObj [(''policy'', policy)])) w of
        (r, w1) \<Rightarrow>
          (case check_actors deps rest w1 of
             (cs, w2) \<Rightarrow>
               (\<lparr>apc_actor_id = actor_id,
                 apc_policy_check = (case r of Inr c \<Rightarrow> c | Inl e \<Rightarrow> policy_check_unavailable e)\<rparr> # cs, w2)))"

definition actor_fallback_checks ::
    "('w, 'd) run_deps \<Rightarrow> runner_client_run \<Rightarrow> (string option \<times> json) list \<Rightarrow> 'w \<Rightarrow> actor_policy_check list option \<times> 'w" where
  "actor_fallback_checks deps client policies w =
     (if policies = [] \<or> \<not> fallback_eligible client then (None, w)
      else case check_actors deps policies w of (cs, w') \<Rightarrow> (Some cs, w'))"

text \<open>Both fallbacks, in the order every exit runs them.\<close>

definition fallback_checks ::
    "('w, 'd) run_deps \<Rightarrow> runner_client_run \<Rightarrow> string \<Rightarrow> (string option \<times> json) list \<Rightarrow> 'w
      \<Rightarrow> policy_check_capture option \<times> actor_policy_check list option \<times> 'w" where
  "fallback_checks deps client held policies w =
     (case fallback_policy_check client (d_policy_check deps held) w of
        (check, w1) \<Rightarrow> (check, actor_fallback_checks deps client policies w1))"

section \<open>Completion\<close>

definition completion_error :: "execution_data \<Rightarrow> message" where
  "completion_error data =
     (case Option.bind (Option.bind (ex_runner_result data) (\<lambda>v. jget v ''error'')) as_str of
        Some v \<Rightarrow> [MText v]
      | None \<Rightarrow>
          (let out = map_option run_output (ex_runner_client data) in
           case Option.bind out stdout_capture_error of
             Some v \<Rightarrow> [MText v]
           | None \<Rightarrow>
               (case Option.bind out stdout_parse_error of
                  Some v \<Rightarrow> [MText (''runner output parse error: '' @ v)]
                | None \<Rightarrow> [MText ''run did not complete successfully''])))"

definition complete_execution :: "('w, 'd) run_deps \<Rightarrow> execution_data \<Rightarrow> completed_execution call" where
  "complete_execution deps data =
     call_bind (execution_diagnostics (d_platform deps) (d_upper deps) (ex_runner_result data)) (\<lambda>diagnostics.
       let outcome = runner_outcome (ex_runner_result data);
           data' = (if outcome = ''bad_request'' then
             data\<lparr>ex_request_failure := Option.bind (ex_runner_result data) (\<lambda>r. jget r ''request_failure'')\<rparr> else data);
           k = (outcome = ''finished'');
           exit = (if k then 0 else 1) in
       Returned \<lparr>ce_data = data', ce_diagnostics = diagnostics,
         ce_result = json_result_new k exit (Some outcome) (if k then None else Some (completion_error data')),
         ce_exit_code = exit\<rparr>)"

definition execution_envelope :: "completed_execution \<Rightarrow> run_output" where
  "execution_envelope e =
     Envelope (ce_result e) \<lparr>rd_execution = ce_data e, rd_diagnostics = Some (ce_diagnostics e)\<rparr> (ce_exit_code e)"

section \<open>The run\<close>

text \<open>What a run holds when everything before the submission was admitted.\<close>

record run_plan =
  pl_target :: runner_target
  pl_held :: string
  pl_specimen :: specimen
  pl_policies :: "(string option \<times> json) list"

datatype preparation = Stopped "string + run_output" | Ready run_plan

definition actor_policies :: "json \<Rightarrow> (string option \<times> json) list" where
  "actor_policies request =
     (case Option.bind (jget request ''actors'') as_array of
        None \<Rightarrow> []
      | Some actors \<Rightarrow>
          filter_map (\<lambda>actor. map_option (\<lambda>p. (Option.bind (jget actor ''actor_id'') as_str, JObj p)) (actor_policy actor))
            actors)"

text \<open>
  Reading the request: the file, its version, the \<open>--runner-mode\<close> edit and the selector. \<open>Inl\<close> tells
  which of the two refusal envelopes the failure takes.
\<close>

definition read_request ::
    "('w, 'd) run_deps \<Rightarrow> parsed_args \<Rightarrow> (message + request_error) + json \<times> runner_selector" where
  "read_request deps parsed =
     res_bind (ok_or (request_path parsed) (Inl [MText ''missing <request.json>''])) (\<lambda>p.
     res_bind (require (d_exists deps p) (Inl [MText (''request.json not found: '' @ p)])) (\<lambda>_.
     res_bind (map_err (\<lambda>e. Inl [MText (''failed to read request.json: '' @ e)]) (d_read deps p)) (\<lambda>body.
     res_bind (map_err Inr (parse_request (d_from_str deps) body)) (\<lambda>value.
     res_bind (map_err Inr (validate_request_version value)) (\<lambda>_.
     res_bind (case runner_mode_arg parsed of
         None \<Rightarrow> Inr value
       | Some mode \<Rightarrow> map_err Inr (inject_runner_mode value mode)) (\<lambda>request.
     res_bind (map_err Inr (parse_runner_selector_value request)) (\<lambda>sel.
     Inr (request, sel))))))))"

text \<open>
  The resolved request: the augments of the legacy policy, then those of each actor, with the dossiers
  and the first refusal.
\<close>

record resolved_request =
  rq_value :: json
  rq_policy :: policy_dossier_record
  rq_actors :: "actor_dossier list option"
  rq_refusal :: "request_error option"

definition resolve_request :: "('w, 'd) run_deps \<Rightarrow> path \<Rightarrow> json \<Rightarrow> resolved_request" where
  "resolve_request deps app_root request =
     (let orig = string_source request;
          (resolution, request1) = resolve_augments (d_read_augment deps) (d_sha deps) app_root request;
          (policy, err) = policy_dossier (d_import_fs deps) (d_sha deps) orig resolution (string_source request1);
          (actor_resolutions, request2) = resolve_actor_augments (d_read_augment deps) (d_sha deps) app_root request1;
          (dossiers, actor_err) = actor_policy_dossiers (d_import_fs deps) (d_sha deps) actor_resolutions in
      \<lparr>rq_value = request2, rq_policy = policy,
       rq_actors = (if actor_resolutions = [] then None else Some dossiers),
       rq_refusal = (if actor_resolutions = [] then err else option_or err actor_err)\<rparr>)"

definition prepare ::
    "('w, 'd) run_deps \<Rightarrow> host_facts \<Rightarrow> parsed_args \<Rightarrow> path \<Rightarrow> path \<Rightarrow> string + evidence_manifest \<Rightarrow> preparation" where
  "prepare deps host parsed app_root mpath manifest =
     (let timeout = Some (timeout_ms parsed);
          provenance = load_app_provenance deps manifest mpath app_root;
          skeleton = (\<lambda>reason. (specimen_unavailable (request_path parsed) host [MText reason])
            \<lparr>sp_app_provenance := provenance\<rparr>) in
      case read_request deps parsed of
        Inl (Inl e) \<Rightarrow> Stopped (Inr (tool_error (skeleton ''no runner was selected'') timeout e))
      | Inl (Inr e) \<Rightarrow> Stopped (Inr (bad_request (skeleton ''no runner was selected: malformed request'') timeout e))
      | Inr (request, sel) \<Rightarrow>
          (let selection = resolve_runner_target_with_registry (d_show_part deps) (\<lambda>v. res_ok (d_to_pretty deps v))
                 app_root manifest sel (d_registry deps);
               rq = resolve_request deps app_root request;
               s = \<lparr>sp_request_path = request_path parsed, sp_policy = rq_policy rq, sp_host = host,
                 sp_runner_provenance = map_option runner_provenance_from_target (res_ok selection),
                 sp_app_provenance = provenance,
                 sp_binaries = (case selection of
                     Inr target \<Rightarrow> binaries_observe (d_binary_fs deps) app_root target (rq_value rq) manifest
                   | Inl e \<Rightarrow> binaries_unselected e),
                 sp_actors = rq_actors rq\<rparr> in
           case selection of
             Inl e \<Rightarrow> Stopped (Inr (tool_error s timeout e))
           | Inr target \<Rightarrow>
               (case rq_refusal rq of
                  Some e \<Rightarrow> Stopped (Inr (bad_request s timeout e))
                | None \<Rightarrow>
                    (case d_to_pretty deps (strip_runner_selector (rq_value rq)) of
                       Inl e \<Rightarrow> Stopped (Inl (''failed to encode request JSON: '' @ e))
                     | Inr held \<Rightarrow>
                         Ready \<lparr>pl_target = target, pl_held = held, pl_specimen = s,
                           pl_policies = actor_policies (rq_value rq)\<rparr>))))"

text \<open>The submission, the reply's admission and the fallback compilations.\<close>

definition refused_envelope ::
    "specimen \<Rightarrow> nat \<Rightarrow> runner_client_run \<Rightarrow> json option \<Rightarrow> policy_check_capture option \<Rightarrow> actor_policy_check list option
      \<Rightarrow> string \<Rightarrow> int \<Rightarrow> message \<Rightarrow> run_output" where
  "refused_envelope s timeout client reply check checks outcome exit e =
     (let data = execution_only s (Some timeout) (Some client) reply in
      Envelope (json_result_new False exit (Some outcome) (Some e))
        (data\<lparr>rd_execution := (rd_execution data)\<lparr>ex_policy_check := check, ex_actor_policy_checks := checks\<rparr>\<rparr>) exit)"

definition submit ::
    "('w, 'd) run_deps \<Rightarrow> nat \<Rightarrow> run_plan \<Rightarrow> 'w \<Rightarrow> (string + run_output) call \<times> 'w" where
  "submit deps timeout plan w =
     (case d_client deps (t_service_name (pl_target plan)) (pl_held plan) timeout (connection (pl_target plan)) w of
        (Inl e, w1) \<Rightarrow> (Returned (Inr (tool_error (pl_specimen plan) (Some timeout) [MText e])), w1)
      | (Inr (client, reply), w1) \<Rightarrow>
          (case admit_reply (d_to_string deps) client reply of
             Panicked \<Rightarrow> (Panicked, w1)
           | Returned admission \<Rightarrow>
               (case fallback_checks deps client (pl_held plan) (pl_policies plan) w1 of
                  (check, checks, w2) \<Rightarrow>
                    ((case admission of
                        DeliveryFailed e \<Rightarrow> Returned (Inr
                          (refused_envelope (pl_specimen plan) timeout client reply check checks ''tool_error'' 2 [MText e]))
                      | Refused outcome e \<Rightarrow> Returned (Inr
                          (refused_envelope (pl_specimen plan) timeout client reply check checks outcome 1 e))
                      | Admitted \<Rightarrow>
                          call_bind (complete_execution deps
                            \<lparr>ex_specimen = pl_specimen plan, ex_policy_check = check, ex_actor_policy_checks = checks,
                             ex_timeout_ms = Some timeout, ex_runner_client = Some client, ex_runner_result = reply,
                             ex_request_failure = None\<rparr>)
                            (\<lambda>execution. Returned (Inr (execution_envelope execution)))), w2))))"

definition run_once :: "('w, 'd) run_deps \<Rightarrow> string list \<Rightarrow> 'w \<Rightarrow> (string + run_output) call \<times> 'w" where
  "run_once deps args w =
     (let host = host_facts_collect (d_sysctl deps) in
      case parse_arguments args of
        Help \<Rightarrow> (Returned (Inr HelpOutput), w)
      | ArgError p e \<Rightarrow>
          (Returned (Inr (tool_error
             (specimen_unavailable p host [MText ''no runner was selected: invalid arguments'']) None [MText e])), w)
      | Run parsed \<Rightarrow>
          (case d_app_root deps of
             Inl e \<Rightarrow> (Returned (Inl e), w)
           | Inr app_root \<Rightarrow>
               (let mpath = manifest_path_from_app_root app_root in
                case d_load_manifest deps mpath w of
                  (manifest, w1) \<Rightarrow>
                    (case prepare deps host parsed app_root mpath manifest of
                       Stopped out \<Rightarrow> (Returned out, w1)
                     | Ready plan \<Rightarrow> submit deps (timeout_ms parsed) plan w1))))"

section \<open>The command line\<close>

text \<open>What the process prints: usage on stderr, an envelope, or an error line on stderr.\<close>

datatype printed = Usage | RunEnvelope json_result run_data | VersionEnvelope json_result | ErrorLine string

text \<open>\<open>cmd_run\<close> with the catch-all for an escaped error.\<close>

definition cmd_run :: "('w, 'd) run_deps \<Rightarrow> string list \<Rightarrow> 'w \<Rightarrow> (printed \<times> int) call \<times> 'w" where
  "cmd_run deps args w =
     (case run_once deps args w of
        (Panicked, w1) \<Rightarrow> (Panicked, w1)
      | (Returned (Inr HelpOutput), w1) \<Rightarrow> (Returned (Usage, 0), w1)
      | (Returned (Inr (Envelope result data exit)), w1) \<Rightarrow> (Returned (RunEnvelope result data, exit), w1)
      | (Returned (Inl e), w1) \<Rightarrow>
          (case tool_error_envelope (specimen_unavailable None (host_facts_collect (d_sysctl deps))
                  [MText ''the run failed before runner selection'']) None [MText e] of
             (result, data) \<Rightarrow> (Returned (RunEnvelope result data, 2), w1)))"

definition cli_run ::
    "('w, 'd) run_deps \<Rightarrow> (string list \<Rightarrow> 'w \<Rightarrow> (string + int) \<times> 'w) \<Rightarrow> string list \<Rightarrow> 'w \<Rightarrow> (printed list \<times> int) call \<times> 'w" where
  "cli_run deps cmd_runner args w =
     (case args of
        [] \<Rightarrow> (Returned ([Usage], 2), w)
      | sub # rest \<Rightarrow>
          if sub \<in> {''-h'', ''--help'', ''help''} then (Returned ([Usage], 0), w)
          else if sub \<in> {''--version'', ''version''} then
            (Returned ([VersionEnvelope (json_result_new True 0 None None)], 0), w)
          else if sub = ''run'' then
            (case cmd_run deps rest w of
               (r, w1) \<Rightarrow> (call_bind r (\<lambda>(out, exit). Returned ([out], exit)), w1))
          else if sub = ''runner'' then
            (case cmd_runner rest w of
               (Inr exit, w1) \<Rightarrow> (Returned ([], exit), w1)
             | (Inl e, w1) \<Rightarrow> (Returned ([ErrorLine e], 2), w1))
          else (Returned ([Usage], 2), w))"

section \<open>The observed run\<close>

text \<open>The dependencies with every call to one of the three recorded.\<close>

datatype run_event = Loading path | Submitting string string nat connection_kind | Compiling string

definition observed :: "('w, 'd) run_deps \<Rightarrow> ('w \<times> run_event list, 'd) run_deps" where
  "observed deps =
     \<lparr>d_app_root = d_app_root deps,
      d_load_manifest = (\<lambda>p (w, es). case d_load_manifest deps p w of (r, w') \<Rightarrow> (r, w', es @ [Loading p])),
      d_registry = d_registry deps,
      d_policy_check = (\<lambda>q (w, es). case d_policy_check deps q w of (r, w') \<Rightarrow> (r, w', es @ [Compiling q])),
      d_client = (\<lambda>s q t c (w, es). case d_client deps s q t c w of (r, w') \<Rightarrow> (r, w', es @ [Submitting s q t c])),
      d_sysctl = d_sysctl deps, d_env_verify = d_env_verify deps, d_exists = d_exists deps, d_read = d_read deps,
      d_read_augment = d_read_augment deps, d_sha = d_sha deps, d_verify_fs = d_verify_fs deps,
      d_import_fs = d_import_fs deps, d_binary_fs = d_binary_fs deps, d_from_str = d_from_str deps,
      d_to_pretty = d_to_pretty deps, d_to_string = d_to_string deps, d_show_part = d_show_part deps,
      d_platform = d_platform deps, d_upper = d_upper deps\<rparr>"

lemma observed_simps [simp]:
  "d_app_root (observed deps) = d_app_root deps" "d_registry (observed deps) = d_registry deps"
  "d_sysctl (observed deps) = d_sysctl deps" "d_env_verify (observed deps) = d_env_verify deps"
  "d_exists (observed deps) = d_exists deps" "d_read (observed deps) = d_read deps"
  "d_read_augment (observed deps) = d_read_augment deps" "d_sha (observed deps) = d_sha deps"
  "d_verify_fs (observed deps) = d_verify_fs deps" "d_import_fs (observed deps) = d_import_fs deps"
  "d_binary_fs (observed deps) = d_binary_fs deps" "d_from_str (observed deps) = d_from_str deps"
  "d_to_pretty (observed deps) = d_to_pretty deps" "d_to_string (observed deps) = d_to_string deps"
  "d_show_part (observed deps) = d_show_part deps" "d_platform (observed deps) = d_platform deps"
  "d_upper (observed deps) = d_upper deps"
  "d_load_manifest (observed deps) p (w, es) =
     (fst (d_load_manifest deps p w), snd (d_load_manifest deps p w), es @ [Loading p])"
  "d_policy_check (observed deps) q (w, es) =
     (fst (d_policy_check deps q w), snd (d_policy_check deps q w), es @ [Compiling q])"
  "d_client (observed deps) s q t c (w, es) =
     (fst (d_client deps s q t c w), snd (d_client deps s q t c w), es @ [Submitting s q t c])"
  by (simp_all add: observed_def split: prod.splits)

definition run_log :: "('w, 'd) run_deps \<Rightarrow> string list \<Rightarrow> 'w \<Rightarrow> run_event list" where
  "run_log deps args w = snd (snd (run_once (observed deps) args (w, [])))"

lemma preparation_observed:
  "read_request (observed deps) = read_request deps" "resolve_request (observed deps) = resolve_request deps"
  "load_app_provenance (observed deps) = load_app_provenance deps"
  unfolding fun_eq_iff read_request_def resolve_request_def load_app_provenance_def observed_simps by simp_all

lemma prepare_observed [simp]: "prepare (observed deps) = prepare deps"
  unfolding fun_eq_iff prepare_def preparation_observed observed_simps by simp

lemma complete_execution_observed [simp]: "complete_execution (observed deps) = complete_execution deps"
  by (intro ext) (simp add: complete_execution_def)

text \<open>The plan of a run: what is left to do after the preparation, when there is anything.\<close>

definition run_plan_of :: "('w, 'd) run_deps \<Rightarrow> string list \<Rightarrow> 'w \<Rightarrow> (nat \<times> run_plan) option" where
  "run_plan_of deps args w =
     (case (parse_arguments args, d_app_root deps) of
        (Run parsed, Inr app_root) \<Rightarrow>
          (let mpath = manifest_path_from_app_root app_root in
           case prepare deps (host_facts_collect (d_sysctl deps)) parsed app_root mpath
                  (fst (d_load_manifest deps mpath w)) of
             Ready plan \<Rightarrow> Some (timeout_ms parsed, plan)
           | Stopped _ \<Rightarrow> None)
      | _ \<Rightarrow> None)"

definition load_log :: "('w, 'd) run_deps \<Rightarrow> string list \<Rightarrow> run_event list" where
  "load_log deps args =
     (case (parse_arguments args, d_app_root deps) of
        (Run parsed, Inr app_root) \<Rightarrow> [Loading (manifest_path_from_app_root app_root)]
      | _ \<Rightarrow> [])"

definition check_requests :: "('w, 'd) run_deps \<Rightarrow> run_plan \<Rightarrow> string list" where
  "check_requests deps plan =
     pl_held plan # map (\<lambda>(actor_id, policy). d_to_string deps (JObj [(''policy'', policy)])) (pl_policies plan)"

lemma check_actors_log:
  "\<exists>cs w'. check_actors (observed deps) ps (w, es) =
     (cs, w', es @ map (\<lambda>(actor_id, policy). Compiling (d_to_string deps (JObj [(''policy'', policy)]))) ps) \<and>
     check_actors deps ps w = (cs, w')"
proof (induction ps arbitrary: w es)
  case (Cons p ps)
  obtain i q where p: "p = (i, q)" by (cases p)
  obtain r w1 where c: "d_policy_check deps (d_to_string deps (JObj [(''policy'', q)])) w = (r, w1)" by fastforce
  with p Cons.IH [of w1 "es @ [Compiling (d_to_string deps (JObj [(''policy'', q)]))]"] show ?case by auto
qed simp

lemma fallback_checks_log:
  "\<exists>check checks w'. fallback_checks (observed deps) client (pl_held plan) (pl_policies plan) (w, es) =
     (check, checks, w', es @ (if fallback_eligible client then map Compiling (check_requests deps plan) else [])) \<and>
     fallback_checks deps client (pl_held plan) (pl_policies plan) w = (check, checks, w')"
proof (cases "fallback_eligible client")
  case True
  obtain r w1 where c: "d_policy_check deps (pl_held plan) w = (r, w1)" by fastforce
  from check_actors_log [of deps "pl_policies plan" w1 "es @ [Compiling (pl_held plan)]"]
  obtain cs w2 where a:
    "check_actors (observed deps) (pl_policies plan) (w1, es @ [Compiling (pl_held plan)]) =
      (cs, w2, es @ Compiling (pl_held plan) #
        map (\<lambda>(actor_id, policy). Compiling (d_to_string deps (JObj [(''policy'', policy)]))) (pl_policies plan))"
    "check_actors deps (pl_policies plan) w1 = (cs, w2)" by auto
  have m: "map Compiling (check_requests deps plan) = Compiling (pl_held plan) #
      map (\<lambda>(actor_id, policy). Compiling (d_to_string deps (JObj [(''policy'', policy)]))) (pl_policies plan)"
    by (auto simp: check_requests_def)
  show ?thesis
    using True c a m
    by (cases r; cases "pl_policies plan = []")
      (auto simp: fallback_checks_def fallback_policy_check_def actor_fallback_checks_def)
qed (simp add: fallback_checks_def fallback_policy_check_def actor_fallback_checks_def)

text \<open>What the client answered, and whether its run permits the fallback.\<close>

definition client_answer ::
    "('w, 'd) run_deps \<Rightarrow> string list \<Rightarrow> 'w \<Rightarrow> nat \<times> run_plan \<Rightarrow> string + runner_client_run \<times> json option" where
  "client_answer deps args w p =
     (case p of (t, plan) \<Rightarrow>
        fst (d_client deps (t_service_name (pl_target plan)) (pl_held plan) t (connection (pl_target plan))
          (case d_app_root deps of
             Inr app_root \<Rightarrow> snd (d_load_manifest deps (manifest_path_from_app_root app_root) w)
           | Inl _ \<Rightarrow> w)))"

definition falls_back :: "string + runner_client_run \<times> json option \<Rightarrow> bool" where
  "falls_back r = (case r of
     Inr (client, reply) \<Rightarrow> fallback_eligible client \<and> client_failure client \<noteq> Panicked | Inl e \<Rightarrow> False)"

lemma client_failure_delivery: "delivery_error c = Some e \<Longrightarrow> client_failure c = Returned (Some (''tool_error'', e))"
  by (simp add: client_failure_def)

lemma admit_reply_Panicked:
  "admit_reply show_json client reply = Panicked \<longleftrightarrow> client_failure client = Panicked"
  by (cases "client_failure client"; cases "delivery_error client")
    (simp_all add: admit_reply_def client_failure_delivery)

lemma submit_log:
  "snd (snd (submit (observed deps) t plan (w, es))) =
     es @ Submitting (t_service_name (pl_target plan)) (pl_held plan) t (connection (pl_target plan)) #
     (if falls_back (fst (d_client deps (t_service_name (pl_target plan)) (pl_held plan) t (connection (pl_target plan)) w))
      then map Compiling (check_requests deps plan) else [])"
proof -
  obtain r w1 where c: "d_client deps (t_service_name (pl_target plan)) (pl_held plan) t (connection (pl_target plan)) w = (r, w1)"
    by fastforce
  show ?thesis
  proof (cases r)
    case (Inr cr)
    obtain client reply where cr: "cr = (client, reply)" by (cases cr)
    from fallback_checks_log [of deps client plan w1
        "es @ [Submitting (t_service_name (pl_target plan)) (pl_held plan) t (connection (pl_target plan))]"]
    show ?thesis
      using c Inr cr admit_reply_Panicked [of "d_to_string deps" client reply]
      by (cases "admit_reply (d_to_string deps) client reply") (auto simp: submit_def falls_back_def)
  qed (simp add: submit_def falls_back_def c)
qed

lemma run_log_eq:
  "run_log deps args w = load_log deps args @
     (case run_plan_of deps args w of
        None \<Rightarrow> []
      | Some (t, plan) \<Rightarrow>
          Submitting (t_service_name (pl_target plan)) (pl_held plan) t (connection (pl_target plan)) #
          (if falls_back (client_answer deps args w (t, plan)) then map Compiling (check_requests deps plan) else []))"
proof (cases "parse_arguments args")
  case (Run parsed)
  show ?thesis
  proof (cases "d_app_root deps")
    case (Inr app_root)
    show ?thesis
      using Run Inr
      by (cases "prepare deps (host_facts_collect (d_sysctl deps)) parsed app_root (manifest_path_from_app_root app_root)
          (fst (d_load_manifest deps (manifest_path_from_app_root app_root) w))")
        (simp_all add: run_log_def run_once_def load_log_def run_plan_of_def client_answer_def submit_log Let_def)
  qed (simp add: run_log_def run_once_def load_log_def run_plan_of_def Run)
qed (simp_all add: run_log_def run_once_def load_log_def run_plan_of_def)

section \<open>The protocol of a run\<close>

text \<open>
  The abstract specification: a run may load the manifest once, then submit one request, then have that
  same text compiled, and only after that the actors' policies.
\<close>

datatype run_stage = Idle | Loaded | Submitted string | Compiled

inductive run_step :: "run_stage \<Rightarrow> run_event \<Rightarrow> run_stage \<Rightarrow> bool" where
  load: "run_step Idle (Loading p) Loaded"
| submit: "run_step Loaded (Submitting s q t c) (Submitted q)"
| compile: "run_step (Submitted q) (Compiling q) Compiled"
| compile_actor: "run_step Compiled (Compiling q) Compiled"

inductive_simps run_step_simps [simp]:
  "run_step st (Loading p) st'" "run_step st (Submitting s q t c) st'" "run_step st (Compiling q) st'"

inductive run_trace :: "run_stage \<Rightarrow> run_event list \<Rightarrow> run_stage \<Rightarrow> bool" where
  finished: "run_trace st [] st"
| happened: "run_step st e st' \<Longrightarrow> run_trace st' es st'' \<Longrightarrow> run_trace st (e # es) st''"

inductive_simps run_trace_simps [simp]: "run_trace st [] st'" "run_trace st (e # es) st'"

lemma run_trace_compiled: "run_trace Compiled (map (Compiling \<circ> f) qs) Compiled"
  by (induction qs) auto

lemma fallback_excludes_success: "fallback_eligible client \<Longrightarrow> client_failure client \<noteq> Returned None"
  by (auto simp: fallback_eligible_def client_failure_def delivery_error_def split: option.splits)

lemma admit_reply_Admitted:
  "admit_reply show_json client reply = Returned Admitted \<longleftrightarrow>
     client_failure client = Returned None \<and> (case reply of None \<Rightarrow> True | Some v \<Rightarrow> reply_version show_json v = Supported)"
  by (cases "client_failure client"; cases "delivery_error client")
    (auto simp: admit_reply_def client_failure_delivery split: option.splits version_gate.splits)

lemma fallback_checks_results:
  assumes "fallback_checks deps client held policies w = (check, checks, w')"
  shows "(check \<noteq> None \<longleftrightarrow> fallback_eligible client) \<and>
    (checks \<noteq> None \<longleftrightarrow> fallback_eligible client \<and> policies \<noteq> []) \<and>
    (case checks of None \<Rightarrow> True | Some cs \<Rightarrow> map apc_actor_id cs = map fst policies)"
proof -
  have "map apc_actor_id (fst (check_actors deps ps w)) = map fst ps" for ps w
    by (induction deps ps w rule: check_actors.induct) (auto split: prod.splits)
  with assms show ?thesis
    by (auto simp: fallback_checks_def fallback_policy_check_def actor_fallback_checks_def
        split: prod.splits sum.splits if_splits option.splits)
       (metis fst_conv)+
qed

text \<open>A run with the three dependencies observed gives the same result.\<close>

lemma submit_observed: "fst (submit (observed deps) t plan (w, es)) = fst (submit deps t plan w)"
proof -
  obtain r w1 where c: "d_client deps (t_service_name (pl_target plan)) (pl_held plan) t (connection (pl_target plan)) w = (r, w1)"
    by fastforce
  show ?thesis
  proof (cases r)
    case (Inr cr)
    obtain client reply where cr: "cr = (client, reply)" by (cases cr)
    from fallback_checks_log [of deps client plan w1
        "es @ [Submitting (t_service_name (pl_target plan)) (pl_held plan) t (connection (pl_target plan))]"]
    show ?thesis
      using c Inr cr
      by (cases "admit_reply (d_to_string deps) client reply") (auto simp: submit_def split: reply_admission.splits)
  qed (simp add: submit_def c)
qed

definition early_exit :: "string + run_output \<Rightarrow> bool" where
  "early_exit out =
     ((\<exists>e. out = Inl e) \<or> out = Inr HelpOutput \<or> (\<exists>s t e. out = Inr (tool_error s t e)) \<or>
      (\<exists>s t e. out = Inr (bad_request s t e)))"

lemma early_exit_simps [simp]:
  "early_exit (Inl e)" "early_exit (Inr HelpOutput)" "early_exit (Inr (tool_error s t m))" "early_exit (Inr (bad_request s t r))"
  unfolding early_exit_def by simp_all blast+

lemma run_once_cases:
  obtains (no_run) "run_plan_of deps args w = None" "run_log deps args w = load_log deps args"
      "\<exists>out. fst (run_once deps args w) = Returned out \<and> early_exit out"
  | (submitted) t plan w1 where "run_plan_of deps args w = Some (t, plan)" "load_log deps args \<noteq> []"
      "fst (run_once deps args w) = fst (submit deps t plan w1)"
      "client_answer deps args w (t, plan) =
        fst (d_client deps (t_service_name (pl_target plan)) (pl_held plan) t (connection (pl_target plan)) w1)"
proof (cases "parse_arguments args")
  case (Run parsed)
  show ?thesis
  proof (cases "d_app_root deps")
    case (Inr app_root)
    let ?mp = "manifest_path_from_app_root app_root"
    obtain m w1 where m: "d_load_manifest deps ?mp w = (m, w1)" by fastforce
    show ?thesis
    proof (cases "prepare deps (host_facts_collect (d_sysctl deps)) parsed app_root ?mp m")
      case (Stopped out)
      then have "early_exit out"
        by (auto simp: prepare_def Let_def split: sum.splits prod.splits option.splits)
      with Run Inr m Stopped show ?thesis
        by (intro no_run) (simp_all add: run_plan_of_def run_log_eq run_once_def)
    next
      case (Ready plan)
      with Run Inr m show ?thesis
        by (intro submitted [of "timeout_ms parsed" plan w1])
          (simp_all add: run_plan_of_def load_log_def run_once_def client_answer_def)
    qed
  qed (intro no_run, simp_all add: run_plan_of_def run_log_eq run_once_def Run)
next
  case Help
  then show ?thesis by (intro no_run) (simp_all add: run_plan_of_def run_log_eq run_once_def)
next
  case (ArgError p e)
  then show ?thesis by (intro no_run) (auto simp: run_plan_of_def run_log_eq run_once_def)
qed

lemma tool_error_Envelope:
  "tool_error s t e = Envelope (json_result_new False 2 (Some ''tool_error'') (Some e)) (execution_only s t None None) 2"
  by (simp add: tool_error_def tool_error_envelope_def)

text \<open>What a stage of the protocol and the result of the run say of each other.\<close>

definition agrees :: "run_stage \<Rightarrow> (string + run_output) call \<Rightarrow> bool" where
  "agrees st r =
     (case r of
        Returned (Inr (Envelope result data exit)) \<Rightarrow>
          (ex_runner_client (rd_execution data) \<noteq> None \<longrightarrow> st \<notin> {Idle, Loaded}) \<and>
          (ex_policy_check (rd_execution data) \<noteq> None \<longleftrightarrow> st = Compiled) \<and>
          (ok result \<longrightarrow> (\<exists>q. st = Submitted q))
      | Returned _ \<Rightarrow> st \<in> {Idle, Loaded}
      | Panicked \<Rightarrow> (\<exists>q. st = Submitted q))"

lemma early_exit_agrees: "early_exit out \<Longrightarrow> st \<in> {Idle, Loaded} \<Longrightarrow> agrees st (Returned out)"
  by (auto simp: early_exit_def agrees_def tool_error_Envelope bad_request_def Let_def execution_only_def json_result_new_def)

lemma submit_agrees:
  assumes "d_client deps (t_service_name (pl_target plan)) (pl_held plan) t (connection (pl_target plan)) w = (r, w1)"
  shows "agrees (if falls_back r then Compiled else Submitted (pl_held plan)) (fst (submit deps t plan w))"
proof (cases r)
  case (Inl e)
  with assms show ?thesis
    by (simp add: submit_def falls_back_def agrees_def tool_error_Envelope execution_only_def json_result_new_def)
next
  case (Inr cr)
  obtain client reply where cr: "cr = (client, reply)" by (cases cr)
  show ?thesis
  proof (cases "admit_reply (d_to_string deps) client reply")
    case Panicked
    then have "client_failure client = Panicked" by (simp only: admit_reply_Panicked)
    with Panicked assms Inr cr show ?thesis by (simp add: submit_def falls_back_def agrees_def)
  next
    case (Returned a)
    then have np: "client_failure client \<noteq> Panicked" by (metis admit_reply_Panicked call.distinct(1))
    obtain check checks w2 where f:
      "fallback_checks deps client (pl_held plan) (pl_policies plan) w1 = (check, checks, w2)" by (metis prod_cases3)
    with fallback_checks_results [OF f] np have c: "check \<noteq> None \<longleftrightarrow> falls_back r" by (simp add: falls_back_def Inr cr)
    have adm: "\<not> falls_back r" if "a = Admitted"
      using that Returned fallback_excludes_success [of client] by (auto simp: falls_back_def Inr cr admit_reply_Admitted)
    show ?thesis
      using assms Inr cr Returned f c adm
      by (cases a; cases "execution_diagnostics (d_platform deps) (d_upper deps) reply")
        (auto simp: submit_def agrees_def refused_envelope_def execution_only_def json_result_new_def
          complete_execution_def execution_envelope_def Let_def)
  qed
qed

text \<open>
  C1: a run implements its protocol. Whatever the dependencies do, the calls a run makes are a trace of
  the abstract protocol: the manifest is loaded at most once and first, one request is submitted at most
  once and only after that, and the fallback compiler is called only after the submission, first on
  exactly the submitted text. The result agrees with the stage reached: a client record means that a
  request was submitted, a fallback capture is present exactly when the text was compiled, and a run
  that reports success submitted and never fell back.
\<close>

theorem run_refines_protocol:
  "\<exists>st. run_trace Idle (run_log deps args w) st \<and> agrees st (fst (run_once deps args w))"
proof (cases rule: run_once_cases [of deps args w])
  case no_run
  then obtain out where out: "fst (run_once deps args w) = Returned out" "early_exit out" by blast
  have "\<exists>st \<in> {Idle, Loaded}. run_trace Idle (load_log deps args) st"
    by (auto simp: load_log_def split: arguments.splits sum.splits)
  with no_run(2) out early_exit_agrees show ?thesis by metis
next
  case (submitted t plan w1)
  obtain p where l: "load_log deps args = [Loading p]"
    using submitted(2) by (auto simp: load_log_def split: arguments.splits sum.splits)
  obtain r w2 where c: "d_client deps (t_service_name (pl_target plan)) (pl_held plan) t (connection (pl_target plan)) w1 = (r, w2)"
    by fastforce
  have "run_trace Idle (run_log deps args w) (if falls_back r then Compiled else Submitted (pl_held plan))"
    using submitted(1, 4) l c by (simp add: run_log_eq check_requests_def run_trace_compiled)
  with submit_agrees [OF c] submitted(3) show ?thesis by metis
qed

section \<open>What an envelope reports\<close>

text \<open>The one way to succeed: the client failed nowhere and the reply, of the supported version, says so.\<close>

definition finished_reply :: "(json \<Rightarrow> string) \<Rightarrow> execution_data \<Rightarrow> bool" where
  "finished_reply show_json data =
     (\<exists>client v. ex_runner_client data = Some client \<and> client_failure client = Returned None \<and>
        ex_runner_result data = Some v \<and> reply_version show_json v = Supported \<and>
        jget v ''normalized_outcome'' = Some (JStr ''finished''))"

definition honest_report :: "('w, 'd) run_deps \<Rightarrow> json_result \<Rightarrow> run_data \<Rightarrow> int \<Rightarrow> bool" where
  "honest_report deps result data exit =
     (res_exit_code result = Some exit \<and> exit \<in> {0, 1, 2} \<and>
      (ok result \<longleftrightarrow> exit = 0) \<and> (res_error result = None \<longleftrightarrow> ok result) \<and>
      (ok result \<longleftrightarrow> finished_reply (d_to_string deps) (rd_execution data)) \<and>
      (exit = 2 \<longrightarrow> res_normalized_outcome result = Some ''tool_error'') \<and>
      (case rd_diagnostics data of
         Some g \<Rightarrow> execution_diagnostics (d_platform deps) (d_upper deps) (ex_runner_result (rd_execution data)) = Returned g \<and>
           res_normalized_outcome result = Some (runner_outcome (ex_runner_result (rd_execution data)))
       | None \<Rightarrow> \<not> ok result))"

lemma early_exit_honest: "early_exit (Inr (Envelope result data exit)) \<Longrightarrow> honest_report deps result data exit"
  by (auto simp: early_exit_def honest_report_def finished_reply_def tool_error_Envelope bad_request_def Let_def
      execution_only_def json_result_new_def)

lemma refused_honest:
  assumes "client_failure client \<noteq> Returned None \<or> (\<exists>v. reply = Some v \<and> reply_version (d_to_string deps) v \<noteq> Supported)"
    and "exit \<in> {1, 2}" and "exit = 2 \<longrightarrow> outcome = ''tool_error''"
    and "refused_envelope s t client reply check checks outcome exit e = Envelope result data x"
  shows "honest_report deps result data x"
  using assms
  by (auto simp: refused_envelope_def honest_report_def finished_reply_def Let_def execution_only_def json_result_new_def)

lemma completed_honest:
  assumes "client_failure client = Returned None" and "case reply of None \<Rightarrow> True | Some v \<Rightarrow> reply_version (d_to_string deps) v = Supported"
    and "complete_execution deps d = Returned execution" and "ex_runner_client d = Some client" and "ex_runner_result d = reply"
    and "execution_envelope execution = Envelope result data x"
  shows "honest_report deps result data x"
proof -
  have "runner_outcome reply = ''finished'' \<longleftrightarrow> (\<exists>v. reply = Some v \<and> jget v ''normalized_outcome'' = Some (JStr ''finished''))"
    by (cases reply; cases "jget (the reply) ''normalized_outcome''"; cases "as_str (the (jget (the reply) ''normalized_outcome''))")
      (auto simp: runner_outcome_def)
  with assms show ?thesis
    by (cases "runner_outcome reply = ''finished''")
      (auto simp: complete_execution_def execution_envelope_def honest_report_def finished_reply_def Let_def
        json_result_new_def split: if_splits)
qed

lemma submit_honest:
  assumes "fst (submit deps t plan w) = Returned (Inr (Envelope result data exit))"
  shows "honest_report deps result data exit"
proof (cases "d_client deps (t_service_name (pl_target plan)) (pl_held plan) t (connection (pl_target plan)) w")
  case (Pair r w1)
  show ?thesis
  proof (cases r)
    case (Inl e)
    with assms Pair have "Envelope result data exit = tool_error (pl_specimen plan) (Some t) [MText e]"
      by (simp add: submit_def)
    then show ?thesis using early_exit_honest early_exit_simps(3) by metis
  next
    case (Inr cr)
    obtain client reply where cr: "cr = (client, reply)" by (cases cr)
    obtain check checks w2 where f:
      "fallback_checks deps client (pl_held plan) (pl_policies plan) w1 = (check, checks, w2)" by (metis prod_cases3)
    obtain a where a: "admit_reply (d_to_string deps) client reply = Returned a"
      using assms Pair Inr cr by (cases "admit_reply (d_to_string deps) client reply") (auto simp: submit_def)
    have na: "client_failure client \<noteq> Returned None \<or> (\<exists>v. reply = Some v \<and> reply_version (d_to_string deps) v \<noteq> Supported)"
      if "a \<noteq> Admitted"
      using that a admit_reply_Admitted [of "d_to_string deps" client reply] by (auto split: option.splits)
    show ?thesis
    proof (cases a)
      case Admitted
      with a have "client_failure client = Returned None" "case reply of None \<Rightarrow> True | Some v \<Rightarrow> reply_version (d_to_string deps) v = Supported"
        by (simp_all add: admit_reply_Admitted)
      with assms Pair Inr cr f a Admitted show ?thesis
        by (auto simp: submit_def intro: completed_honest)
    next
      case (DeliveryFailed e)
      with assms Pair Inr cr f a have
        "refused_envelope (pl_specimen plan) t client reply check checks ''tool_error'' 2 [MText e] = Envelope result data exit"
        by (simp add: submit_def)
      from refused_honest [OF na _ _ this] DeliveryFailed show ?thesis by simp
    next
      case (Refused outcome e)
      with assms Pair Inr cr f a have
        "refused_envelope (pl_specimen plan) t client reply check checks outcome 1 e = Envelope result data exit"
        by (simp add: submit_def)
      from refused_honest [OF na _ _ this] Refused show ?thesis by simp
    qed
  qed
qed

text \<open>
  C3: every envelope of a run reports honestly. The exit code is the one in the result and is 0, 1 or
  2; the result is \<open>ok\<close> exactly when it is 0, and carries an error otherwise; it is \<open>ok\<close> exactly when the
  client run it contains has no failure and the reply it contains has the supported version and says
  \<open>finished\<close>; exit 2 is a controller failure; and sandbox diagnostics, where present, are those derived
  from the reply in the same envelope, whose outcome is then reported unchanged.
\<close>

theorem run_reports_honestly:
  "case fst (run_once deps args w) of
     Returned (Inr (Envelope result data exit)) \<Rightarrow> honest_report deps result data exit
   | _ \<Rightarrow> True"
proof (cases rule: run_once_cases [of deps args w])
  case no_run
  then show ?thesis by (auto split: call.splits sum.splits run_output.splits intro: early_exit_honest)
next
  case (submitted t plan w1)
  then show ?thesis by (auto split: call.splits sum.splits run_output.splits intro: submit_honest)
qed

section \<open>The submitted request\<close>

text \<open>The source of a policy object, and of an actor's.\<close>

definition actor_source :: "json \<Rightarrow> string option" where
  "actor_source actor = Option.bind (actor_policy actor) source_of"

definition applied_hash :: "policy_dossier_record \<Rightarrow> string option" where
  "applied_hash d = au_applied_sha256 (pd_augmentation d)"

lemma policy_dossier_refusal [simp]:
  "snd (policy_dossier fs sha orig res sel) = (case res of BadRequest e \<Rightarrow> Some e | _ \<Rightarrow> None)"
  by (simp add: policy_dossier_def Let_def split: augment_resolution.splits)

lemma policy_dossier_hash:
  "applied_hash (fst (policy_dossier fs sha orig res sel)) =
     (case res of NotPresent \<Rightarrow> map_option sha orig | StrippedNoOp \<Rightarrow> map_option sha orig
      | Applied a \<Rightarrow> Some (applied_sha256 a) | BadRequest e \<Rightarrow> None)"
  by (cases orig) (auto simp: policy_dossier_def Let_def applied_hash_def augmentation_not_requested_def
      augmentation_applied_def augmentation_failed_def augmentation_not_applicable_def split: augment_resolution.splits)

lemma policy_dossier_describes:
  assumes "resolve_policy_augments rd sha r p policy = (res, policy')"
    and "snd (policy_dossier fs sha (source_of policy) res sel) = None"
  shows "applied_hash (fst (policy_dossier fs sha (source_of policy) res sel)) = map_option sha (source_of policy') \<and>
    obj_get policy' ''augments'' = None"
  using resolve_policy_augments_cases [where rd = rd and sha = sha and r = r and p = p and policy = policy] assms
  by (auto simp: policy_dossier_hash source_of_def map_of_obj_remove map_of_obj_insert split: augment_resolution.splits)

lemma jget_Some_object: "jget v k = Some x \<Longrightarrow> \<exists>m. v = JObj m \<and> obj_get m k = Some x"
  by (cases v) auto

lemma set_actor_policy_source:
  assumes "actor_policy actor = Some policy"
  shows "actor_source (set_actor_policy actor policy') = source_of policy'"
proof -
  from assms obtain sandbox where s: "jget actor ''sandbox'' = Some sandbox" "jget sandbox ''policy'' = Some (JObj policy)"
    by (auto simp: actor_policy_def bind_eq_Some_conv)
  then obtain m n where "actor = JObj m" "sandbox = JObj n" by (metis jget_Some_object)
  with s show ?thesis
    by (simp add: actor_source_def actor_policy_def set_actor_policy_def jset_def map_of_obj_insert)
qed

lemma resolve_actor_described:
  assumes "resolve_actor rd sha r i actor = (a, actor')"
    and "snd (policy_dossier fs sha (original_source a) (ar_resolution a) (selected_source a)) = None"
  shows "applied_hash (fst (policy_dossier fs sha (original_source a) (ar_resolution a) (selected_source a))) =
    map_option sha (actor_source actor')"
proof (cases "actor_policy actor")
  case None
  with assms show ?thesis by (auto simp: resolve_actor_def Let_def policy_dossier_hash actor_source_def)
next
  case (Some policy)
  with assms(1) obtain res policy' where
    r: "resolve_policy_augments rd sha r [''actors'', nat_digits i, ''sandbox'', ''policy''] policy = (res, policy')"
    and a: "original_source a = source_of policy" "ar_resolution a = res" "actor' = set_actor_policy actor policy'"
    by (auto simp: resolve_actor_def Let_def split: prod.splits)
  from policy_dossier_describes [OF r] assms(2) a Some show ?thesis by (simp add: set_actor_policy_source)
qed

lemma resolve_actors_described:
  assumes "resolve_actors_from rd sha r i actors = (rs, actors')" and "snd (actor_policy_dossiers fs sha rs) = None"
  shows "map (\<lambda>d. applied_hash (ado_policy d)) (fst (actor_policy_dossiers fs sha rs)) =
    map (\<lambda>a. map_option sha (actor_source a)) actors'"
  using assms
proof (induction actors arbitrary: i rs actors')
  case (Cons actor actors)
  obtain a actor' where a: "resolve_actor rd sha r i actor = (a, actor')" by fastforce
  obtain rs1 rest1 where rest: "resolve_actors_from rd sha r (Suc i) actors = (rs1, rest1)" by fastforce
  have ok: "snd (policy_dossier fs sha (original_source a) (ar_resolution a) (selected_source a)) = None"
    using Cons.prems a rest
    by (auto simp: option_or_def simp del: policy_dossier_refusal split: prod.splits option.splits if_splits)
  then have nr: "\<not> is_refusal (ar_resolution a)" by (cases "ar_resolution a") simp_all
  have later: "snd (actor_policy_dossiers fs sha rs1) = None"
    using Cons.prems a rest nr by (auto simp: option_or_def split: prod.splits option.splits)
  show ?case
    using Cons.prems a rest nr Cons.IH [OF rest later] resolve_actor_described [OF a ok]
    by (auto split: prod.splits)
qed simp

lemma jget_strip: "f \<notin> set SELECTOR_FIELDS \<Longrightarrow> jget (strip_runner_selector v) f = jget v f"
proof -
  have "obj_get (fold obj_remove ks m) f = obj_get m f" if "f \<notin> set ks" for ks m
    using that by (induction ks arbitrary: m) (auto simp: map_of_obj_remove)
  then show "f \<notin> set SELECTOR_FIELDS \<Longrightarrow> jget (strip_runner_selector v) f = jget v f"
    by (cases v) (auto simp: strip_runner_selector_def)
qed

lemma jget_strip_selector: "f \<in> set SELECTOR_FIELDS \<Longrightarrow> jget (strip_runner_selector v) f = None"
proof -
  have gone: "obj_get (fold obj_remove ks m) f = None" if "obj_get m f = None" for ks m
    using that by (induction ks arbitrary: m) (auto simp: map_of_obj_remove)
  have "obj_get (fold obj_remove ks m) f = None" if "f \<in> set ks" for ks m
    using that gone by (induction ks arbitrary: m) (auto simp: map_of_obj_remove)
  then show "f \<in> set SELECTOR_FIELDS \<Longrightarrow> jget (strip_runner_selector v) f = None"
    by (cases v) (auto simp: strip_runner_selector_def)
qed

lemma string_source_policy:
  "string_source v = (case jget v ''policy'' of Some (JObj policy) \<Rightarrow> source_of policy | _ \<Rightarrow> None)"
  by (auto simp: string_source_def source_of_def split: option.splits json.splits)

lemma resolve_augments_described:
  assumes "resolve_augments rd sha r request = (res, request1)"
    and "snd (policy_dossier fs sha (string_source request) res sel) = None"
  shows "applied_hash (fst (policy_dossier fs sha (string_source request) res sel)) = map_option sha (string_source request1) \<and>
    Option.bind (jget request1 ''policy'') (\<lambda>p. jget p ''augments'') = None"
proof (cases "\<exists>m policy. request = JObj m \<and> obj_get m ''policy'' = Some (JObj policy)")
  case True
  then obtain m policy where m: "request = JObj m" "obj_get m ''policy'' = Some (JObj policy)" by blast
  obtain policy' where p: "resolve_policy_augments rd sha r [''policy''] policy = (res, policy')"
    "request1 = JObj (obj_insert ''policy'' (JObj policy') m)"
    using assms(1) m by (auto simp: resolve_augments_def split: prod.splits)
  from policy_dossier_describes [OF p(1), of fs sel] assms(2) m p(2) show ?thesis
    by (simp add: string_source_policy map_of_obj_insert)
next
  case False
  then have "res = NotPresent" "request1 = request" "string_source request = None"
    "Option.bind (jget request ''policy'') (\<lambda>p. jget p ''augments'') = None"
    using assms(1)
    by (cases request; auto simp: resolve_augments_def string_source_policy split: option.splits json.splits)+
  then show ?thesis by (simp add: policy_dossier_hash)
qed

lemma resolve_actor_augments_jget:
  "resolve_actor_augments rd sha r v = (rs, v') \<Longrightarrow> k \<noteq> ''actors'' \<Longrightarrow> jget v' k = jget v k"
  by (auto simp: resolve_actor_augments_def map_of_obj_insert split: json.splits option.splits prod.splits)

lemma resolve_actor_augments_described:
  assumes "resolve_actor_augments rd sha r v = (rs, v')" and "rs \<noteq> []" and "snd (actor_policy_dossiers fs sha rs) = None"
  shows "map (\<lambda>d. applied_hash (ado_policy d)) (fst (actor_policy_dossiers fs sha rs)) =
    map (\<lambda>a. map_option sha (actor_source a)) (unwrap_or (Option.bind (jget v' ''actors'') as_array) [])"
proof -
  from assms(1, 2) obtain m actors actors' where "v = JObj m" and r: "resolve_actors_from rd sha r 0 actors = (rs, actors')"
    and "v' = JObj (obj_insert ''actors'' (JArr actors') m)"
    by (auto simp: resolve_actor_augments_def split: json.splits option.splits prod.splits)
  then have "unwrap_or (Option.bind (jget v' ''actors'') as_array) [] = actors'" by (simp add: map_of_obj_insert)
  with resolve_actors_described [OF r assms(3)] show ?thesis by simp
qed

lemma resolve_request_described:
  assumes "rq_refusal (resolve_request deps app_root request) = None"
  defines "rq \<equiv> resolve_request deps app_root request"
  shows "applied_hash (rq_policy rq) = map_option (d_sha deps) (string_source (rq_value rq)) \<and>
    (case rq_actors rq of None \<Rightarrow> True
     | Some ds \<Rightarrow> map (\<lambda>d. applied_hash (ado_policy d)) ds =
         map (\<lambda>a. map_option (d_sha deps) (actor_source a)) (unwrap_or (Option.bind (jget (rq_value rq) ''actors'') as_array) [])) \<and>
    Option.bind (jget (rq_value rq) ''policy'') (\<lambda>p. jget p ''augments'') = None \<and>
    (\<forall>f. f \<notin> {''policy'', ''actors''} \<longrightarrow> jget (rq_value rq) f = jget request f)"
proof -
  obtain res request1 where r: "resolve_augments (d_read_augment deps) (d_sha deps) app_root request = (res, request1)"
    by fastforce
  obtain rs request2 where a: "resolve_actor_augments (d_read_augment deps) (d_sha deps) app_root request1 = (rs, request2)"
    by fastforce
  let ?d = "policy_dossier (d_import_fs deps) (d_sha deps) (string_source request) res (string_source request1)"
  let ?ad = "actor_policy_dossiers (d_import_fs deps) (d_sha deps) rs"
  have rq: "rq = \<lparr>rq_value = request2, rq_policy = fst ?d, rq_actors = (if rs = [] then None else Some (fst ?ad)),
      rq_refusal = (if rs = [] then snd ?d else option_or (snd ?d) (snd ?ad))\<rparr>"
    by (simp add: rq_def resolve_request_def r a Let_def split_beta del: policy_dossier_refusal)
  with assms(1) have ok: "snd ?d = None" "rs \<noteq> [] \<Longrightarrow> snd ?ad = None"
    by (auto simp: rq_def [symmetric] option_or_def simp del: policy_dossier_refusal split: if_splits option.splits)
  have other: "jget request1 f = jget request f" if "f \<noteq> ''policy''" for f
    using r that by (auto simp: resolve_augments_def map_of_obj_insert split: json.splits option.splits prod.splits)
  show ?thesis
    using resolve_augments_described [OF r ok(1)] resolve_actor_augments_described [OF a] ok(2)
      resolve_actor_augments_jget [OF a] other
    by (simp add: rq string_source_policy)
qed

lemma prepare_Ready:
  assumes "prepare deps host parsed app_root mpath manifest = Ready plan"
  obtains request sel where "read_request deps parsed = Inr (request, sel)"
    "resolve_runner_target_with_registry (d_show_part deps) (\<lambda>v. res_ok (d_to_pretty deps v)) app_root manifest sel
       (d_registry deps) = Inr (pl_target plan)"
    "rq_refusal (resolve_request deps app_root request) = None"
    "d_to_pretty deps (strip_runner_selector (rq_value (resolve_request deps app_root request))) = Inr (pl_held plan)"
    "sp_policy (pl_specimen plan) = rq_policy (resolve_request deps app_root request)"
    "sp_actors (pl_specimen plan) = rq_actors (resolve_request deps app_root request)"
  using assms by (auto simp: prepare_def Let_def split: sum.splits prod.splits option.splits)

lemma submit_specimen:
  "fst (submit deps t plan w) = Returned out \<Longrightarrow>
     (case out of Inr (Envelope result data exit) \<Rightarrow> ex_specimen (rd_execution data) = pl_specimen plan | _ \<Rightarrow> False)"
  by (auto simp: submit_def tool_error_Envelope refused_envelope_def execution_only_def complete_execution_def
      execution_envelope_def Let_def split: prod.splits sum.splits call.splits reply_admission.splits if_splits)

text \<open>
  The dossier's hashes are those of the sources in the request value: the policy's, and each actor's in
  request order.
\<close>

definition describes :: "(string \<Rightarrow> string) \<Rightarrow> specimen \<Rightarrow> json \<Rightarrow> bool" where
  "describes sha s value =
     (applied_hash (sp_policy s) = map_option sha (string_source value) \<and>
      (case sp_actors s of None \<Rightarrow> True
       | Some ds \<Rightarrow> map (\<lambda>d. applied_hash (ado_policy d)) ds =
           map (\<lambda>a. map_option sha (actor_source a)) (unwrap_or (Option.bind (jget value ''actors'') as_array) [])))"

lemma jget_strip_kept:
  "jget (strip_runner_selector v) ''policy'' = jget v ''policy''" "jget (strip_runner_selector v) ''actors'' = jget v ''actors''"
  by (rule jget_strip, simp add: SELECTOR_FIELDS_def)+

lemma string_source_strip: "string_source (strip_runner_selector v) = string_source v"
  by (simp add: string_source_policy jget_strip_kept)

lemma plan_described:
  assumes "prepare deps host parsed app_root mpath manifest = Ready plan"
  obtains request sel v where "read_request deps parsed = Inr (request, sel)"
    "resolve_runner_target_with_registry (d_show_part deps) (\<lambda>v. res_ok (d_to_pretty deps v)) app_root manifest sel
       (d_registry deps) = Inr (pl_target plan)"
    "d_to_pretty deps v = Inr (pl_held plan)" "\<forall>f \<in> set SELECTOR_FIELDS. jget v f = None"
    "\<forall>f. f \<notin> set SELECTOR_FIELDS \<longrightarrow> f \<notin> {''policy'', ''actors''} \<longrightarrow> jget v f = jget request f"
    "Option.bind (jget v ''policy'') (\<lambda>p. jget p ''augments'') = None" "describes (d_sha deps) (pl_specimen plan) v"
  using assms
proof (cases rule: prepare_Ready)
  case (1 request sel)
  note d = resolve_request_described [OF 1(3)]
  have "describes (d_sha deps) (pl_specimen plan) (strip_runner_selector (rq_value (resolve_request deps app_root request)))"
    using d unfolding describes_def 1(5, 6) string_source_strip jget_strip_kept by simp
  with 1 d show ?thesis
    by (intro that [of request sel "strip_runner_selector (rq_value (resolve_request deps app_root request))"])
      (simp_all add: jget_strip jget_strip_selector jget_strip_kept)
qed

text \<open>
  C2: what is submitted is what the request asks for and what the dossier describes. A submitted text
  is the printing of one value: the admitted request with the controller's own selector fields gone,
  every other field but the policies unchanged and no augments left to resolve; it goes to the service
  and over the connection of the target resolved for the request's selector, with the timeout of the
  command line. The envelope of that run carries the hashes of exactly the policy sources in that value,
  the actors' in request order.
\<close>

theorem submitted_request_described:
  assumes "Submitting s q t c \<in> set (run_log deps args w)"
  shows "\<exists>parsed app_root request sel target v.
    parse_arguments args = Run parsed \<and> t = timeout_ms parsed \<and> d_app_root deps = Inr app_root \<and>
    read_request deps parsed = Inr (request, sel) \<and>
    resolve_runner_target_with_registry (d_show_part deps) (\<lambda>v. res_ok (d_to_pretty deps v)) app_root
      (fst (d_load_manifest deps (manifest_path_from_app_root app_root) w)) sel (d_registry deps) = Inr target \<and>
    s = t_service_name target \<and> c = connection target \<and> d_to_pretty deps v = Inr q \<and>
    (\<forall>f. jget v f = (if f \<in> set SELECTOR_FIELDS then None else if f \<in> {''policy'', ''actors''} then jget v f else jget request f)) \<and>
    Option.bind (jget v ''policy'') (\<lambda>p. jget p ''augments'') = None \<and>
    (case fst (run_once deps args w) of
       Returned (Inr (Envelope result data exit)) \<Rightarrow> describes (d_sha deps) (ex_specimen (rd_execution data)) v
     | Returned _ \<Rightarrow> False
     | Panicked \<Rightarrow> True)"
proof (cases rule: run_once_cases [of deps args w])
  case no_run
  with assms show ?thesis by (auto simp: load_log_def split: arguments.splits sum.splits)
next
  case (submitted t' plan w1)
  from submitted(1) obtain parsed app_root where a: "parse_arguments args = Run parsed" "d_app_root deps = Inr app_root"
    "t' = timeout_ms parsed" and p: "prepare deps (host_facts_collect (d_sysctl deps)) parsed app_root
      (manifest_path_from_app_root app_root) (fst (d_load_manifest deps (manifest_path_from_app_root app_root) w)) = Ready plan"
    by (auto simp: run_plan_of_def Let_def split: arguments.splits sum.splits preparation.splits)
  have e: "s = t_service_name (pl_target plan)" "q = pl_held plan" "t = t'" "c = connection (pl_target plan)"
    using assms submitted(1) by (auto simp: run_log_eq load_log_def split: if_splits arguments.splits sum.splits)
  from p show ?thesis
  proof (cases rule: plan_described)
    case (1 request sel v)
    have r: "case fst (run_once deps args w) of
       Returned (Inr (Envelope result data exit)) \<Rightarrow> describes (d_sha deps) (ex_specimen (rd_execution data)) v
     | Returned _ \<Rightarrow> False | Panicked \<Rightarrow> True"
      using submit_specimen [of deps t' plan w1] submitted(3) 1(7)
      by (cases "fst (submit deps t' plan w1)") (auto split: sum.splits run_output.splits)
    show ?thesis
      by (rule exI [of _ parsed], rule exI [of _ app_root], rule exI [of _ request], rule exI [of _ sel],
          rule exI [of _ "pl_target plan"], rule exI [of _ v]) (use a e 1 r in auto)
  qed
qed

text \<open>A run on small dependencies: the built-in runner, one policy, and a client that cannot be started.\<close>

definition sample_run_request :: json where
  "sample_run_request =
     JObj [(''policy'', JObj [(''sbpl_source'', JStr ''(version 1)'')]), (''runner'', JObj [(''mode'', JStr ''standard'')]),
           (''schema_version'', JNum (PosInt 6))]"

definition sample_service_entry :: evidence_entry where
  "sample_service_entry =
     \<lparr>ev_id = ''svc'', ev_kind = ''xpc-service'', ev_bundle_id = Some ''com.example.PWRunner'',
      rel_path = ''Contents/XPCServices/PWRunner.xpc/Contents/MacOS/PWRunner'', ev_sha256 = None, lc_uuid = None,
      ev_entitlements = None, entitlements_error = None\<rparr>"

definition sample_deps :: "(nat, unit) run_deps" where
  "sample_deps =
     \<lparr>d_app_root = Inr ''/Applications/P.app'',
      d_load_manifest = (\<lambda>p w. (Inr \<lparr>em_schema_version = 1, entries = [sample_service_entry], em_notes = None\<rparr>, Suc w)),
      d_registry = Inl ''no registry'', d_policy_check = (\<lambda>q w. (Inl ''no helper'', w)),
      d_client = (\<lambda>s q t c w. (Inl ''failed to run pw-runner-client'', Suc w)),
      d_sysctl = (\<lambda>n. None), d_env_verify = None, d_exists = (\<lambda>p. p = ''request.json''), d_read = (\<lambda>p. Inr ''{}''),
      d_read_augment = (\<lambda>p. None), d_sha = (\<lambda>s. ''h'' @ s),
      d_verify_fs = \<lparr>vf_exists = (\<lambda>p. True), vf_sha256 = (\<lambda>p. Inr [])\<rparr>,
      d_import_fs = \<lparr>path_exists = (\<lambda>p. False), canonicalize = (\<lambda>p. None), fs_open = (\<lambda>p. Inl ''none'')\<rparr>,
      d_binary_fs = \<lparr>is_regular = (\<lambda>p. Inr False), file_sha256 = (\<lambda>p. Inl ''none'')\<rparr>,
      d_from_str = (\<lambda>s. Inr sample_run_request), d_to_pretty = (\<lambda>v. Inr ''held text''), d_to_string = (\<lambda>v. ''text''),
      d_show_part = (\<lambda>p. []), d_platform = sample_platform, d_upper = (\<lambda>s. s)\<rparr>"

lemma sample_version: "validate_request_version sample_run_request = Inr ()"
  by (simp add: sample_run_request_def validate_request_version_def fract_zero_def REQUEST_SCHEMA_VERSION_def Let_def)

lemma sample_selector_read:
  "parse_runner_selector_value sample_run_request =
     Inr \<lparr>sel_id = None, sel_service = None, required_entitlements = [], sel_mode = Some Standard\<rparr>"
  unfolding sample_run_request_def by code_simp

lemma sample_read:
  "read_request sample_deps \<lparr>request_path = Some ''request.json'', timeout_ms = 5, runner_mode_arg = None\<rparr> =
     Inr (sample_run_request, \<lparr>sel_id = None, sel_service = None, required_entitlements = [], sel_mode = Some Standard\<rparr>)"
proof -
  have "is_object sample_run_request" by (simp add: sample_run_request_def)
  then show ?thesis
    by (simp add: read_request_def sample_deps_def parse_request_def sample_version sample_selector_read)
qed

lemma sample_arguments:
  "parse_arguments [''request.json'', ''--timeout-ms'', ''5''] =
     Run \<lparr>request_path = Some ''request.json'', timeout_ms = 5, runner_mode_arg = None\<rparr>"
  by (simp add: parse_arguments_def parse_u64_def is_ascii_digit_def u64_max_def Let_def)

lemma sample_target:
  "\<exists>target. resolve_runner_target_with_registry (d_show_part sample_deps) (\<lambda>v. res_ok (d_to_pretty sample_deps v))
     ''/Applications/P.app'' (Inr \<lparr>em_schema_version = 1, entries = [sample_service_entry], em_notes = None\<rparr>)
     \<lparr>sel_id = None, sel_service = None, required_entitlements = [], sel_mode = Some Standard\<rparr> (d_registry sample_deps) = Inr target \<and>
     t_service_name target = ''com.example.PWRunner'' \<and> connection target = XpcService"
  by (simp add: resolve_runner_target_with_registry_def selector_problem_def builtin_runner_target_def unique_typed_entry_def
      sample_service_entry_def SHIPPED_SERVICE_def enforce_required_entitlements_def nul_def Let_def)

lemma sample_resolved:
  "rq_refusal (resolve_request sample_deps ''/Applications/P.app'' sample_run_request) = None"
  by (simp add: resolve_request_def sample_run_request_def resolve_augments_def resolve_policy_augments_def
      resolve_actor_augments_def Let_def split_beta)

lemma sample_prepared:
  "\<exists>plan. prepare sample_deps host \<lparr>request_path = Some ''request.json'', timeout_ms = 5, runner_mode_arg = None\<rparr>
     ''/Applications/P.app'' mpath (Inr \<lparr>em_schema_version = 1, entries = [sample_service_entry], em_notes = None\<rparr>) = Ready plan \<and>
     t_service_name (pl_target plan) = ''com.example.PWRunner'' \<and> connection (pl_target plan) = XpcService \<and>
     pl_held plan = ''held text''"
proof -
  have "d_to_pretty sample_deps v = Inr ''held text''" for v by (simp add: sample_deps_def)
  with sample_target sample_resolved sample_read show ?thesis by (auto simp: prepare_def Let_def)
qed

theorem submitted_request_described_witness:
  "Submitting ''com.example.PWRunner'' ''held text'' 5 XpcService \<in>
     set (run_log sample_deps [''request.json'', ''--timeout-ms'', ''5''] 0) \<and>
   (\<exists>parsed app_root request sel target v.
      parse_arguments [''request.json'', ''--timeout-ms'', ''5''] = Run parsed \<and> 5 = timeout_ms parsed \<and>
      d_app_root sample_deps = Inr app_root \<and> read_request sample_deps parsed = Inr (request, sel) \<and>
      ''com.example.PWRunner'' = t_service_name (target :: runner_target) \<and> XpcService = connection target \<and>
      d_to_pretty sample_deps v = Inr ''held text'' \<and> jget v ''runner'' = None \<and> jget v ''schema_version'' = jget request ''schema_version'')"
proof -
  have "Submitting ''com.example.PWRunner'' ''held text'' 5 XpcService \<in>
     set (run_log sample_deps [''request.json'', ''--timeout-ms'', ''5''] 0)"
    using sample_prepared [of "host_facts_collect (d_sysctl sample_deps)" "manifest_path_from_app_root ''/Applications/P.app''"]
    by (auto simp: run_log_eq run_plan_of_def sample_arguments Let_def) (simp_all add: sample_deps_def)
  note run = this
  from submitted_request_described [OF run] obtain parsed app_root request sel target v where
    "parse_arguments [''request.json'', ''--timeout-ms'', ''5''] = Run parsed" "5 = timeout_ms parsed"
    "d_app_root sample_deps = Inr app_root" "read_request sample_deps parsed = Inr (request, sel)"
    "''com.example.PWRunner'' = t_service_name (target :: runner_target)" "XpcService = connection target"
    "d_to_pretty sample_deps v = Inr ''held text''" and
    f: "\<forall>f. jget v f = (if f \<in> set SELECTOR_FIELDS then None else if f \<in> {''policy'', ''actors''} then jget v f else jget request f)"
    by (elim exE conjE) (rule that; assumption)
  moreover have "jget v ''runner'' = None" "jget v ''schema_version'' = jget request ''schema_version''"
    using f [rule_format, of "''runner''"] f [rule_format, of "''schema_version''"] by (simp_all add: SELECTOR_FIELDS_def)
  ultimately show ?thesis using run by blast
qed

end
