(* ===== verification/Runner_Commands.thy ===== *)
theory Runner_Commands
  imports Equipment Run_Flow
begin

text \<open>
  The commands that manage external runners (controller/src/runner_commands.rs) and the bundle
  metadata they read (controller/src/bundle.rs, plist.rs): install, list, status, verify, remove,
  validate and reconcile, each from its arguments to the envelope it prints. The host, the registry
  file and the runner client are records of operations over a world.
\<close>

section \<open>Bundle metadata\<close>

definition plist_key_string :: "'w host \<Rightarrow> 'w \<Rightarrow> path \<Rightarrow> string \<Rightarrow> string + string" where
  "plist_key_string h w plist key =
     (if \<not> h_is_utf8 h plist then Inl (''non-utf8 plist path: '' @ plist)
      else
        res_bind (map_err (\<lambda>e. ''failed to run /usr/libexec/PlistBuddy: '' @ e)
          (h_query h w ''/usr/libexec/PlistBuddy'' [''-c'', ''Print :'' @ key, plist])) (\<lambda>out.
        if \<not> success out then
          (let stderr = stderr_trimmed h out; stdout = str_trim (h_lossy h (out_stdout out)) in
           Inl (''PlistBuddy failed for '' @ plist @ '' key '' @ key @ '': '' @ (if stderr \<noteq> [] then stderr else stdout)))
        else Inr (str_trim (h_lossy h (out_stdout out)))))"

definition parse_protocol_marker :: "'w host \<Rightarrow> string \<Rightarrow> string + nat" where
  "parse_protocol_marker h bytes =
     (if \<not> h_is_utf8 h bytes then Inl ''runner protocol marker is not UTF-8''
      else
        let t = str_trim bytes in
        if t = [] \<or> \<not> list_all is_ascii_digit t then Inl ''runner protocol marker must be a nonnegative integer''
        else ok_or (parse_u32 t) ''runner protocol marker is outside the supported integer range'')"

definition protocol_marker :: "'w host \<Rightarrow> 'w \<Rightarrow> path \<Rightarrow> string + nat" where
  "protocol_marker h w plist =
     res_bind (map_err (\<lambda>e. ''cannot read runner protocol marker: '' @ e)
       (h_query h w ''/usr/bin/plutil''
         [''-extract'', ''PWRunnerProtocolVersion'', ''raw'', ''-expect'', ''integer'', ''-o'', ''-'', plist])) (\<lambda>out.
     if \<not> success out then
       Inl (''PWRunnerProtocolVersion must be an integer: '' @ h_lossy h (out_stdout out) @ h_lossy h (out_stderr out))
     else parse_protocol_marker h (out_stdout out))"

record bundle_info =
  bi_bundle_id :: string
  bi_executable :: string
  bi_package_type :: "string option"
  bi_protocol_version :: nat

definition read_bundle_info :: "'w host \<Rightarrow> 'w \<Rightarrow> path \<Rightarrow> string + bundle_info" where
  "read_bundle_info h w bundle =
     (let plist = path_join (path_join bundle ''Contents'') ''Info.plist'' in
      if \<not> h_exists h w plist then Inl (''missing Info.plist at '' @ plist)
      else
        res_bind (plist_key_string h w plist ''CFBundleIdentifier'') (\<lambda>bid.
        res_bind (plist_key_string h w plist ''CFBundleExecutable'') (\<lambda>exe.
        let package = res_ok (plist_key_string h w plist ''CFBundlePackageType'') in
        res_bind (protocol_marker h w plist) (\<lambda>version.
        Inr \<lparr>bi_bundle_id = bid, bi_executable = exe, bi_package_type = package, bi_protocol_version = version\<rparr>))))"

section \<open>Flags\<close>

definition split_once :: "char \<Rightarrow> string \<Rightarrow> (string \<times> string) option" where
  "split_once c s = (if c \<in> set s then Some (takeWhile (\<lambda>x. x \<noteq> c) s, tl (dropWhile (\<lambda>x. x \<noteq> c) s)) else None)"

text \<open>\<open>BTreeMap::insert\<close>.\<close>

fun env_insert :: "string \<Rightarrow> string \<Rightarrow> (string \<times> string) list \<Rightarrow> (string \<times> string) list" where
  "env_insert k v [] = [(k, v)]"
| "env_insert k v (p # m) =
     (if k < fst p then (k, v) # p # m else if k = fst p then (k, v) # m else p # env_insert k v m)"

record install_flags =
  fl_bundle :: "path option"
  fl_service_name :: "string option"
  fl_scope :: runner_scope
  fl_identity :: "string option"
  fl_entitlements :: "path option"
  fl_executable :: "path option"
  fl_bundle_id :: "string option"
  fl_kind :: "runner_kind option"
  fl_allow_adhoc :: bool
  fl_skip_bootstrap :: bool
  fl_env :: "(string \<times> string) list"

definition install_defaults :: install_flags where
  "install_defaults = \<lparr>fl_bundle = None, fl_service_name = None, fl_scope = User, fl_identity = None,
     fl_entitlements = None, fl_executable = None, fl_bundle_id = None, fl_kind = None, fl_allow_adhoc = False,
     fl_skip_bootstrap = False, fl_env = []\<rparr>"

definition install_kind_flag :: "string \<Rightarrow> string + runner_kind" where
  "install_kind_flag raw =
     (if raw = ''machme'' then Inl ''--kind machme is not supported; use --kind byoxpc''
      else
        res_bind (ok_or (kind_parse raw) (''invalid value for --kind: '' @ raw)) (\<lambda>k.
        if k = Standard then Inl (''runner install does not accept kind='' @ kind_as_str k) else Inr k))"

definition env_flag :: "string \<Rightarrow> string + string \<times> string" where
  "env_flag raw =
     res_bind (ok_or (split_once (CHR ''='') raw) ''invalid --env (expected KEY=VALUE)'') (\<lambda>(k, v).
     if k = [] then Inl ''invalid --env (empty key)'' else Inr (k, v))"

text \<open>One value flag: how it changes the flags read so far.\<close>

definition install_value_flag :: "string \<Rightarrow> string \<Rightarrow> install_flags \<Rightarrow> string + install_flags" where
  "install_value_flag flag v f =
     (if flag = ''--bundle'' then Inr (f\<lparr>fl_bundle := Some v\<rparr>)
      else if flag = ''--service-name'' then Inr (f\<lparr>fl_service_name := Some v\<rparr>)
      else if flag = ''--scope'' then
        res_bind (ok_or (scope_parse v) ''invalid value for --scope'') (\<lambda>s. Inr (f\<lparr>fl_scope := s\<rparr>))
      else if flag = ''--identity'' then Inr (f\<lparr>fl_identity := Some v\<rparr>)
      else if flag = ''--entitlements'' then Inr (f\<lparr>fl_entitlements := Some v\<rparr>)
      else if flag = ''--executable'' then Inr (f\<lparr>fl_executable := Some v\<rparr>)
      else if flag = ''--bundle-id'' then Inr (f\<lparr>fl_bundle_id := Some v\<rparr>)
      else if flag = ''--kind'' then res_bind (install_kind_flag v) (\<lambda>k. Inr (f\<lparr>fl_kind := Some k\<rparr>))
      else res_bind (env_flag v) (\<lambda>(k, x). Inr (f\<lparr>fl_env := env_insert k x (fl_env f)\<rparr>)))"

definition INSTALL_VALUE_FLAGS :: "string list" where
  "INSTALL_VALUE_FLAGS = [''--bundle'', ''--service-name'', ''--scope'', ''--identity'', ''--entitlements'',
     ''--executable'', ''--bundle-id'', ''--kind'', ''--env'']"

fun install_arguments :: "install_flags \<Rightarrow> string list \<Rightarrow> string + install_flags" where
  "install_arguments f [] = Inr f"
| "install_arguments f (arg # rest) =
     (if arg \<in> set INSTALL_VALUE_FLAGS then
        (case rest of
           [] \<Rightarrow> Inl (''missing value for '' @ arg)
         | v # rest' \<Rightarrow> res_bind (install_value_flag arg v f) (\<lambda>f'. install_arguments f' rest'))
      else if arg = ''--allow-adhoc'' then install_arguments (f\<lparr>fl_allow_adhoc := True\<rparr>) rest
      else if arg = ''--skip-bootstrap'' then install_arguments (f\<lparr>fl_skip_bootstrap := True\<rparr>) rest
      else Inl (''unknown argument: '' @ arg))"

text \<open>The flags of status, verify and remove: a target, and what each command adds.\<close>

record target_flags =
  tf_id :: "string option"
  tf_service_name :: "string option"
  tf_timeout_ms :: nat
  tf_skip_bootout :: bool

definition RUNNER_VERIFY_DEFAULT_TIMEOUT_MS :: nat where "RUNNER_VERIFY_DEFAULT_TIMEOUT_MS = 5000"

definition target_defaults :: target_flags where
  "target_defaults = \<lparr>tf_id = None, tf_service_name = None, tf_timeout_ms = RUNNER_VERIFY_DEFAULT_TIMEOUT_MS,
     tf_skip_bootout = False\<rparr>"

datatype target_command = StatusCommand | VerifyCommand | RemoveCommand

fun target_arguments :: "target_command \<Rightarrow> target_flags \<Rightarrow> string list \<Rightarrow> string + target_flags" where
  "target_arguments c f [] = Inr f"
| "target_arguments c f (arg # rest) =
     (if arg = ''--id'' then
        (case rest of [] \<Rightarrow> Inl ''missing value for --id'' | v # rest' \<Rightarrow> target_arguments c (f\<lparr>tf_id := Some v\<rparr>) rest')
      else if arg = ''--service-name'' then
        (case rest of [] \<Rightarrow> Inl ''missing value for --service-name''
         | v # rest' \<Rightarrow> target_arguments c (f\<lparr>tf_service_name := Some v\<rparr>) rest')
      else if c = VerifyCommand \<and> arg = ''--timeout-ms'' then
        (case rest of [] \<Rightarrow> Inl ''invalid value for --timeout-ms''
         | v # rest' \<Rightarrow>
            (case parse_u64 v of
               None \<Rightarrow> Inl ''invalid value for --timeout-ms''
             | Some n \<Rightarrow> target_arguments c (f\<lparr>tf_timeout_ms := max n 1\<rparr>) rest'))
      else if c = RemoveCommand \<and> arg = ''--skip-bootout'' then target_arguments c (f\<lparr>tf_skip_bootout := True\<rparr>) rest
      else Inl (''unknown argument: '' @ arg))"

section \<open>The commands' surroundings\<close>

text \<open>
  The registry file: its path, the lock, the load and the save. The environment of a command: the
  host, the registry, the runner client, and the texts serde_json produces.
\<close>

record 'w registry_store =
  st_path :: "string + path"
  st_lock :: "path \<Rightarrow> 'w \<Rightarrow> (string + unit) \<times> 'w"
  st_load :: "path \<Rightarrow> 'w \<Rightarrow> (string + runner_registry) \<times> 'w"
  st_save :: "path \<Rightarrow> runner_registry \<Rightarrow> 'w \<Rightarrow> (string + unit) \<times> 'w"

record 'w runner_env =
  e_host :: "'w host"
  e_store :: "'w registry_store"
  e_client :: "string \<Rightarrow> string \<Rightarrow> nat \<Rightarrow> connection_kind \<Rightarrow> 'w \<Rightarrow> (string + runner_client_run \<times> json option) \<times> 'w"
  e_serde_error :: "json \<Rightarrow> string"
  e_render :: "worker_inventory \<Rightarrow> string + string"
  e_to_pretty :: "json \<Rightarrow> string + string"
  e_show_json :: "json \<Rightarrow> string"

fun manager_text :: "path \<Rightarrow> manager_error \<Rightarrow> string" where
  "manager_text p (ProtocolMismatch v) =
     ''runner advertises protocol '' @ nat_digits v @ ''; this client requires protocol ''
     @ nat_digits RUNNER_PROTOCOL_VERSION @ ''; upgrade and reinstall the runner''"
| "manager_text p (SaveError e) = e"
| "manager_text p (InstallError e) = e"
| "manager_text p (PendingRetained e rid service) =
     manager_text p e @ ''; pending runner '' @ rid @ '' ('' @ service @ '') retained in '' @ p
     @ ''; retry runner remove --service-name '' @ service"

definition current_protocol :: "nat \<Rightarrow> string + unit" where
  "current_protocol v = map_err (manager_text []) (require_current_protocol v)"

definition load_registry_or_default :: "'w registry_store \<Rightarrow> 'w \<Rightarrow> (string + path \<times> runner_registry) \<times> 'w" where
  "load_registry_or_default st w0 =
     w_bind (st_path st, w0) (\<lambda>p w1.
     w_bind (st_load st p w1) (\<lambda>reg w2. (Inr (p, reg), w2)))"

definition load_registry_locked :: "'w registry_store \<Rightarrow> 'w \<Rightarrow> (string + path \<times> runner_registry) \<times> 'w" where
  "load_registry_locked st w0 =
     w_bind (st_path st, w0) (\<lambda>p w1.
     w_bind (st_lock st p w1) (\<lambda>_ w2.
     w_bind (st_load st p w2) (\<lambda>reg w3. (Inr (p, reg), w3))))"

record verify_data =
  vd_client :: runner_client_run
  vd_result :: "json option"
  vd_state :: runner_state
  vd_runner_id :: string
  vd_service_name :: string
  vd_runner_pid :: "int option"
  vd_outcome :: string

record validate_data =
  va_updated :: nat
  va_missing :: nat
  va_invalid :: nat
  va_failures :: "validate_failure list"

text \<open>A record as reconcile reports it: located and observed, or unlocatable.\<close>

datatype reconciled =
    Located string runner_record path string owner owner service_observation plist_observation
  | Unlocated string runner_record string

record candidate =
  ca_scope :: runner_scope
  ca_service_name :: "string option"
  ca_executable_path :: "string option"
  ca_plist_path :: path
  ca_service :: "service_observation option"
  ca_plist :: plist_observation
  ca_ownership :: string

datatype inspection_error = NoPath string | AtPath path string

datatype runner_data =
    InstallData runner_state service_observation runner_record path bool
  | RegistryData runner_registry
  | StatusData runner_record
  | VerifyData verify_data
  | RemoveData cleanup_report
  | ValidateData validate_data
  | ReconcileData path "reconciled list" "candidate list" "inspection_error list"
  | NotFoundData "string option" "string option"

datatype runner_output = RunnerUsage | RunnerEnvelope string json_result runner_data

type_synonym command_result = "string + runner_output \<times> int"

definition ok_envelope :: "string \<Rightarrow> runner_data \<Rightarrow> command_result" where
  "ok_envelope knd data = Inr (RunnerEnvelope knd (json_result_new True 0 (Some ''ok'') None) data, 0)"

definition emit_runner_not_found :: "string \<Rightarrow> string option \<Rightarrow> string option \<Rightarrow> command_result" where
  "emit_runner_not_found knd rid service =
     Inr (RunnerEnvelope knd
       (json_result_new False 2 (Some ''not_found'') (Some [MText ''runner not found in registry'']))
       (NotFoundData rid service), 2)"

section \<open>Installation\<close>

record install_source =
  is_bundle :: path
  is_info :: bundle_info
  is_executable :: path

text \<open>Before anything is touched: the flags' bundle, its metadata and its executable.\<close>

definition install_source_of :: "'w host \<Rightarrow> 'w \<Rightarrow> install_flags \<Rightarrow> string + install_source" where
  "install_source_of h w f =
     res_bind (ok_or (fl_bundle f) ''missing --bundle'') (\<lambda>given.
     res_bind (map_err (\<lambda>e. ''bundle path not found: '' @ given @ '': '' @ e) (h_canonical h w given)) (\<lambda>bundle.
     res_bind (require (h_exists h w bundle) (''bundle path not found: '' @ bundle)) (\<lambda>_.
     res_bind (let k = unwrap_or (fl_kind f) Byoxpc in
       require (k = Byoxpc) (''runner install does not accept kind='' @ kind_as_str k)) (\<lambda>_.
     res_bind (require (fl_bundle_id f = None) ''external runners use CFBundleIdentifier; remove --bundle-id'') (\<lambda>_.
     res_bind (require (fl_executable f = None) (''external runners do not accept --executable; the binary is derived from ''
       @ ''<bundle>/Contents/MacOS/<CFBundleExecutable>'')) (\<lambda>_.
     res_bind (require (h_is_dir h w bundle) (''external runners require a `.xpc` bundle directory (not a plain binary); ''
       @ ''pass --bundle <path-to-PWRunner.xpc>'')) (\<lambda>_.
     res_bind (map_err (\<lambda>e. ''failed to read '' @ bundle @ ''/Contents/Info.plist: '' @ e) (read_bundle_info h w bundle)) (\<lambda>info.
     res_bind (current_protocol (bi_protocol_version info)) (\<lambda>_.
     res_bind (require (bi_package_type info = Some ''XPC!'')
       (''external runners require CFBundlePackageType=XPC! in Info.plist (got ''
         @ h_debug h (unwrap_or (bi_package_type info) ''absent'') @ '')'')) (\<lambda>_.
     let exe = path_join (path_join (path_join bundle ''Contents'') ''MacOS'') (bi_executable info) in
     res_bind (require (h_exists h w exe) (''executable path not found: '' @ exe)) (\<lambda>_.
     Inr \<lparr>is_bundle = bundle, is_info = info, is_executable = exe\<rparr>)))))))))))"

text \<open>The re-signing the flags ask for.\<close>

definition sign_stage :: "'w runner_env \<Rightarrow> install_flags \<Rightarrow> path \<Rightarrow> 'w \<Rightarrow> (string + unit) \<times> 'w" where
  "sign_stage e f bundle w =
     (let tree = (\<lambda>ident. sign_install_tree (e_serde_error e) (e_render e) (e_host e) bundle ident (fl_entitlements f)
            (codesign_sign (e_host e)) w) in
      case fl_identity f of
        Some ident \<Rightarrow> tree ident
      | None \<Rightarrow>
          if fl_allow_adhoc f \<and> fl_entitlements f \<noteq> None then tree ''-''
          else if fl_entitlements f \<noteq> None then
            (Inl (''--entitlements requires --identity <id> or --allow-adhoc to re-sign the binary; ''
               @ ''without one of those the supplied entitlements would not be embedded''), w)
          else (Inr (), w))"

text \<open>What is read back of the signed bundle.\<close>

record install_evidence =
  ie_info :: bundle_info
  ie_signature :: runner_signature
  ie_entitlements :: runner_entitlements
  ie_worker :: "runner_signature \<times> runner_entitlements"
  ie_validator :: "runner_signature \<times> runner_entitlements"
  ie_unentitled :: "runner_signature \<times> runner_entitlements"
  ie_inventory :: worker_inventory

definition install_evidence_of :: "'w runner_env \<Rightarrow> install_flags \<Rightarrow> install_source \<Rightarrow> 'w \<Rightarrow> string + install_evidence" where
  "install_evidence_of e f src w =
     (let h = e_host e; bundle = is_bundle src; info = is_info src in
      res_bind (codesign_verify h w bundle) (\<lambda>_.
      res_bind (read_bundle_info h w bundle) (\<lambda>signed.
      res_bind (current_protocol (bi_protocol_version signed)) (\<lambda>_.
      res_bind (require (signed = info) ''runner bundle metadata changed during signing; installation refused'') (\<lambda>_.
      res_bind (codesign_metadata h w (is_executable src)) (\<lambda>sig.
      res_bind (require (\<not> adhoc sig \<or> fl_allow_adhoc f) ''runner is ad-hoc signed; pass --allow-adhoc to accept'') (\<lambda>_.
      let ents = entitlements_from_codesign h w (is_executable src) in
      res_bind (read_back h w (path_join bundle BUNDLE_WORKER_REL)) (\<lambda>worker.
      res_bind (read_back h w (path_join bundle BUNDLE_VALIDATOR_REL)) (\<lambda>validator.
      res_bind (read_back h w (path_join bundle BUNDLE_UNENTITLED_WORKER_REL)) (\<lambda>unentitled.
      res_bind (verify_equipment_inventory (e_serde_error e) h w bundle) (\<lambda>inventory.
      Inr \<lparr>ie_info = signed, ie_signature = sig, ie_entitlements = ents, ie_worker = worker, ie_validator = validator,
        ie_unentitled = unentitled, ie_inventory = inventory\<rparr>)))))))))))"

definition install_environment :: "install_flags \<Rightarrow> path \<Rightarrow> (string \<times> string) list" where
  "install_environment f bundle =
     (if map_of (fl_env f) ''XPC_SERVICE_PATH'' \<noteq> None then fl_env f
      else env_insert ''XPC_SERVICE_PATH'' bundle (fl_env f))"

definition install_plist :: "install_flags \<Rightarrow> install_source \<Rightarrow> string" where
  "install_plist f src =
     (let env = install_environment f (is_bundle src) in
      build_launchd_plist (bi_bundle_id (is_info src)) (is_executable src) (if env = [] then None else Some env) Byoxpc)"

text \<open>The record to install; \<open>now\<close> is the clock at that point.\<close>

definition install_record_of ::
    "'w host \<Rightarrow> install_flags \<Rightarrow> install_source \<Rightarrow> install_evidence \<Rightarrow> worker_inventory \<Rightarrow> string \<Rightarrow> path \<Rightarrow> string \<Rightarrow> nat \<Rightarrow> nat
      \<Rightarrow> runner_record" where
  "install_record_of h f src ev source_inventory rid ppath domain uid now =
     \<lparr>state = Pending,
      ownership = Some \<lparr>plist_path = ppath, launchd_domain = domain, owner_uid = uid,
        plist_sha256 = h_sha256_hex h (install_plist f src)\<rparr>,
      runner_id = rid, service_name = bi_bundle_id (is_info src), bundle_path = is_bundle src,
      executable_path = is_executable src, bundle_id = Some (bi_bundle_id (is_info src)), scope = fl_scope f,
      protocol_version = bi_protocol_version (ie_info ev), signature = ie_signature ev, entitlements = ie_entitlements ev,
      installed_at_unix_ms = now, kind = Some Byoxpc,
      worker_signature = Some (fst (ie_worker ev)), worker_entitlements = Some (snd (ie_worker ev)),
      unentitled_worker_signature = Some (fst (ie_unentitled ev)),
      unentitled_worker_entitlements = Some (snd (ie_unentitled ev)),
      unentitled_worker_sha256 = map_option we_sha256 (find (\<lambda>r. we_role r = ''unentitled'') (workers (ie_inventory ev))),
      worker_equipment_inventory = Some (inventory_value (ie_inventory ev)),
      source_worker_equipment_inventory = Some (inventory_value source_inventory),
      validator_signature = Some (fst (ie_validator ev)), validator_entitlements = Some (snd (ie_validator ev)),
      issuer_signature = None, issuer_entitlements = None\<rparr>"

definition plist_absent :: "'w host \<Rightarrow> 'w \<Rightarrow> path \<Rightarrow> string + unit" where
  "plist_absent h w ppath =
     (case h_metadata h w (path_components ppath) of
        Inr _ \<Rightarrow> Inl (''launchd plist already exists: '' @ ppath @ ''; inspect runner reconcile'')
      | Inl (NotFound _) \<Rightarrow> Inr ()
      | Inl (OtherIo e) \<Rightarrow> Inl (''cannot inspect launchd plist: '' @ e))"

definition install_action :: "'w host \<Rightarrow> install_flags \<Rightarrow> install_source \<Rightarrow> path \<Rightarrow> 'w \<Rightarrow> (string + unit) \<times> 'w" where
  "install_action h f src ppath w0 =
     w_bind (write_launchd_plist h ppath (install_plist f src) w0) (\<lambda>_ w1.
     if fl_skip_bootstrap f then (Inr (), w1) else launchctl_bootstrap h (fl_scope f) ppath w1)"

text \<open>The checks of the registry and the source bundle under the lock, before any signature changes.\<close>

definition install_admission ::
    "'w runner_env \<Rightarrow> install_flags \<Rightarrow> install_source \<Rightarrow> runner_registry \<Rightarrow> 'w \<Rightarrow> string + worker_inventory \<times> path" where
  "install_admission e f src reg w =
     (let h = e_host e; service = bi_bundle_id (is_info src) in
      res_bind (case conflicting_record reg service (is_bundle src) (is_executable src) of
          Some r \<Rightarrow> Inl (''service name '' @ [CHR 0x27] @ service_name r @ [CHR 0x27] @ '' is already registered as runner ''
            @ [CHR 0x27] @ runner_id r @ [CHR 0x27] @ ''; run `policy-witness runner remove --service-name ''
            @ service_name r @ ''` to remove it first'')
        | None \<Rightarrow> Inr ()) (\<lambda>_.
      res_bind (verify_equipment_inventory (e_serde_error e) h w (is_bundle src)) (\<lambda>source.
      res_bind (launchd_plist_path (h_env h) service (fl_scope f)) (\<lambda>ppath.
      res_bind (plist_absent h w ppath) (\<lambda>_. Inr (source, ppath))))))"

text \<open>The rest of the command, once the bundle is signed.\<close>

definition install_registered ::
    "'w runner_env \<Rightarrow> install_flags \<Rightarrow> install_source \<Rightarrow> worker_inventory \<Rightarrow> string \<Rightarrow> path \<Rightarrow> runner_registry \<Rightarrow> 'w
      \<Rightarrow> command_result \<times> 'w" where
  "install_registered e f src source rid rpath reg w0 =
     (let h = e_host e; service = bi_bundle_id (is_info src) in
      w_bind (install_evidence_of e f src w0, w0) (\<lambda>ev w1.
      w_bind (launchd_plist_path (h_env h) service (fl_scope f), w1) (\<lambda>ppath w2.
      w_bind (launchctl_target h w2 (fl_scope f), w2) (\<lambda>domain w3.
      w_bind (current_uid h w3, w3) (\<lambda>uid w4.
      let (now, w5) = h_now h w4;
          r = install_record_of h f src ev source rid ppath domain uid now;
          (installed, reg', w6) = install_record (native_cleanup h (st_save (e_store e) rpath)) (install_action h f src ppath) reg r w5 in
      w_bind (map_err (manager_text rpath) installed, w6) (\<lambda>r' w7.
      w_bind (launchctl_target h w7 (fl_scope f), w7) (\<lambda>domain' w8.
      (ok_envelope ''runner_install''
        (InstallData (state r') (inspect_service h w8 domain' service) r' ppath (\<not> fl_skip_bootstrap f)), w8))))))))"

definition cmd_runner_install :: "'w runner_env \<Rightarrow> string list \<Rightarrow> 'w \<Rightarrow> command_result \<times> 'w" where
  "cmd_runner_install e args w0 =
     (let h = e_host e in
      w_bind (install_arguments install_defaults args, w0) (\<lambda>f w1.
      w_bind (install_source_of h w1 f, w1) (\<lambda>src w2.
      let (drawn, w3) = h_urandom h w2 in
      w_bind (random_id drawn, w3) (\<lambda>rid w4.
      w_bind (require (fl_service_name f \<in> {None, Some (bi_bundle_id (is_info src))})
        (''byoxpc service name must match CFBundleIdentifier ('' @ bi_bundle_id (is_info src) @ '')''), w4) (\<lambda>_ w5.
      w_bind (load_registry_locked (e_store e) w5) (\<lambda>(rpath, reg) w6.
      w_bind (install_admission e f src reg w6, w6) (\<lambda>(source, ppath) w7.
      w_bind (sign_stage e f (is_bundle src) w7) (\<lambda>_ w8.
      install_registered e f src source rid rpath reg w8))))))))"

section \<open>Listing, status and verification\<close>

definition cmd_runner_list :: "'w runner_env \<Rightarrow> 'w \<Rightarrow> command_result \<times> 'w" where
  "cmd_runner_list e w0 =
     w_bind (load_registry_or_default (e_store e) w0) (\<lambda>(p, reg) w1. (ok_envelope ''runner_registry'' (RegistryData reg), w1))"

definition has_target :: "target_flags \<Rightarrow> string \<Rightarrow> string + unit" where
  "has_target f name =
     require (tf_id f \<noteq> None \<or> tf_service_name f \<noteq> None) (''runner '' @ name @ '' requires --id or --service-name'')"

definition cmd_runner_status :: "'w runner_env \<Rightarrow> string list \<Rightarrow> 'w \<Rightarrow> command_result \<times> 'w" where
  "cmd_runner_status e args w0 =
     w_bind (target_arguments StatusCommand target_defaults args, w0) (\<lambda>f w1.
     w_bind (load_registry_or_default (e_store e) w1) (\<lambda>(p, reg) w2.
     w_bind (has_target f ''status'', w2) (\<lambda>_ w3.
     (case registry_find reg (tf_id f) (tf_service_name f) of
        Some r \<Rightarrow> ok_envelope ''runner_status'' (StatusData r)
      | None \<Rightarrow> emit_runner_not_found ''runner_status'' (tf_id f) (tf_service_name f), w3))))"

definition verify_request :: json where
  "verify_request =
     JObj [(''policy'', JObj [(''format'', JStr ''sbpl''),
             (''sbpl_source'', JStr (''(version 1)'' @ [nl] @ ''(allow default)'' @ [nl]))]),
           (''probe_plan'', JArr []), (''run_kind'', JStr ''runner_verify''),
           (''schema_version'', JNum (PosInt REQUEST_SCHEMA_VERSION)), (''specimen_id'', JStr ''runner_verify'')]"

definition project_verify_reply :: "(json \<Rightarrow> string) \<Rightarrow> json option \<Rightarrow> int option \<times> string" where
  "project_verify_reply show_json reply =
     (case reply of
        None \<Rightarrow> (None, ''runner_output_not_json'')
      | Some v \<Rightarrow>
         (case reply_version show_json v of
            Supported \<Rightarrow> (Option.bind (jget v ''pid'') as_i64,
              unwrap_or (Option.bind (jget v ''normalized_outcome'') as_str) ''runner_output_not_json'')
          | Unsupported _ \<Rightarrow> (None, ''unsupported_runner_response'')
          | Malformed _ \<Rightarrow> (None, ''malformed_runner_response'')))"

text \<open>The verdict of a verification: the process id, the outcome, the exit code and the error.\<close>

definition verify_verdict ::
    "(json \<Rightarrow> string) \<Rightarrow> runner_client_run \<Rightarrow> json option \<Rightarrow> (int option \<times> string \<times> int \<times> message option) call" where
  "verify_verdict show_json client reply =
     call_bind (admit_reply show_json client reply) (\<lambda>admission. Returned
       (case admission of
          DeliveryFailed e \<Rightarrow> (None, ''tool_error'', 2, Some [MText e])
        | Refused outcome e \<Rightarrow> (None, outcome, 1, Some e)
        | Admitted \<Rightarrow>
            (case project_verify_reply show_json reply of
               (pid, outcome) \<Rightarrow> (pid, outcome, if outcome = ''finished'' then 0 else 1, None))))"

definition verify_record ::
    "'w runner_env \<Rightarrow> runner_record \<Rightarrow> nat \<Rightarrow> 'w \<Rightarrow> command_result call \<times> 'w" where
  "verify_record e r timeout w0 =
     (case e_to_pretty e verify_request of
        Inl err \<Rightarrow> (Returned (Inl (''failed to encode verify request: '' @ err)), w0)
      | Inr request \<Rightarrow>
         (case infer_record_kind r of
            Standard \<Rightarrow> (Returned (Inl ''external runners cannot be built-in kinds''), w0)
          | Byoxpc \<Rightarrow>
             (case current_protocol (protocol_version r) of
                Inl err \<Rightarrow> (Returned (Inl err), w0)
              | Inr _ \<Rightarrow>
                 (case e_client e (service_name r) request timeout (MachService (scope r = System)) w0 of
                    (Inl err, w1) \<Rightarrow> (Returned (Inl err), w1)
                  | (Inr (client, reply), w1) \<Rightarrow>
                      (call_bind (verify_verdict (e_show_json e) client reply) (\<lambda>(pid, outcome, exit, err).
                         Returned (Inr (RunnerEnvelope ''runner_verify'' (json_result_new (exit = 0) exit (Some outcome) err)
                           (VerifyData \<lparr>vd_client = client, vd_result = reply, vd_state = state r, vd_runner_id = runner_id r,
                              vd_service_name = service_name r, vd_runner_pid = pid, vd_outcome = outcome\<rparr>), exit))), w1)))))"

definition cmd_runner_verify :: "'w runner_env \<Rightarrow> string list \<Rightarrow> 'w \<Rightarrow> command_result call \<times> 'w" where
  "cmd_runner_verify e args w0 =
     (case w_bind (target_arguments VerifyCommand target_defaults args, w0) (\<lambda>f w1.
           w_bind (load_registry_or_default (e_store e) w1) (\<lambda>(p, reg) w2.
           w_bind (has_target f ''verify'', w2) (\<lambda>_ w3. (Inr (f, reg), w3)))) of
        (Inl err, w1) \<Rightarrow> (Returned (Inl err), w1)
      | (Inr (f, reg), w1) \<Rightarrow>
         (case registry_find reg (tf_id f) (tf_service_name f) of
            None \<Rightarrow> (Returned (emit_runner_not_found ''runner_verify'' (tf_id f) (tf_service_name f)), w1)
          | Some r \<Rightarrow> verify_record e r (tf_timeout_ms f) w1))"

section \<open>Removal and validation\<close>

definition cmd_runner_remove :: "'w runner_env \<Rightarrow> string list \<Rightarrow> 'w \<Rightarrow> command_result \<times> 'w" where
  "cmd_runner_remove e args w0 =
     w_bind (target_arguments RemoveCommand target_defaults args, w0) (\<lambda>f w1.
     w_bind (load_registry_locked (e_store e) w1) (\<lambda>(p, reg) w2.
     w_bind (has_target f ''remove'', w2) (\<lambda>_ w3.
     (case remove_record (native_cleanup (e_host e) (st_save (e_store e) p)) reg (tf_id f) (tf_service_name f)
             (tf_skip_bootout f) w3 of
        (Inl err, reg', w4) \<Rightarrow> (Inl (manager_text p err), w4)
      | (Inr None, reg', w4) \<Rightarrow> (emit_runner_not_found ''runner_remove'' (tf_id f) (tf_service_name f), w4)
      | (Inr (Some report), reg', w4) \<Rightarrow> (ok_envelope ''runner_remove'' (RemoveData report), w4)))))"

text \<open>One record of a validation: \<open>None\<close> for a missing executable, else its failures.\<close>

definition validate_one :: "'w runner_env \<Rightarrow> 'w \<Rightarrow> runner_record \<Rightarrow> runner_record \<times> validate_failure list option" where
  "validate_one e w r =
     (let h = e_host e in
      if \<not> h_exists h w (executable_path r) then
        (r\<lparr>signature := (signature r)\<lparr>sig_valid := False\<rparr>,
           entitlements := (entitlements r)\<lparr>ent_error := Some ''executable missing''\<rparr>\<rparr>, None)
      else
        let (r1, found) = validate_record (h_exists h w) (\<lambda>p. map_option (h_sha256_hex h) (res_ok (h_read h w p)))
              (codesign_verify h w) (codesign_verify_binary h w) (read_back h w) r;
            (r2, found2) = (case verify_equipment_inventory (e_serde_error e) h w (bundle_path r1) of
                Inr v \<Rightarrow> (r1\<lparr>worker_equipment_inventory := Some (inventory_value v)\<rparr>, found)
              | Inl err \<Rightarrow> (r1, found @ [failed_binary r1 ''equipment_inventory'' err])) in
        (if kind r2 = None then r2\<lparr>kind := Some (infer_record_kind r2)\<rparr> else r2, Some found2))"

definition cmd_runner_validate :: "'w runner_env \<Rightarrow> 'w \<Rightarrow> command_result \<times> 'w" where
  "cmd_runner_validate e w0 =
     w_bind (load_registry_locked (e_store e) w0) (\<lambda>(p, reg) w1.
     let judged = map (validate_one e w1) (runners reg);
         reg' = reg\<lparr>runners := map fst judged\<rparr>;
         failures = filter_map snd judged in
     w_bind (st_save (e_store e) p reg' w1) (\<lambda>_ w2.
     (ok_envelope ''runner_validate'' (ValidateData
        \<lparr>va_updated = length (runners reg'), va_missing = length (filter (\<lambda>j. snd j = None) judged),
         va_invalid = length (filter (\<lambda>fs. fs \<noteq> []) failures), va_failures = concat failures\<rparr>), w2)))"

section \<open>Reconciliation\<close>

definition reconcile_record :: "'w host \<Rightarrow> 'w \<Rightarrow> string \<times> runner_record \<Rightarrow> reconciled" where
  "reconcile_record h w sr =
     (case sr of (st, r) \<Rightarrow>
       (case record_location h w r of
          Inl e \<Rightarrow> Unlocated st r e
        | Inr (ppath, domain) \<Rightarrow>
            let service = inspect_service h w domain (service_name r); plist = inspect_plist h w ppath in
            Located st r ppath domain (service_owner r service) (plist_owner r plist) service plist))"

definition recorded_state :: "runner_record \<Rightarrow> string" where
  "recorded_state r = (case state r of Pending \<Rightarrow> ''pending'' | Installed \<Rightarrow> ''installed'')"

definition known_states :: "runner_registry \<Rightarrow> (string \<times> runner_record) list" where
  "known_states reg =
     map (\<lambda>r. (recorded_state r, r)) (runners reg) @ map (\<lambda>c. (''pending_cleanup'', pc_runner c)) (pending reg)"

text \<open>The directories inspected, and the failure to find the user's.\<close>

definition reconcile_directories :: "(string \<Rightarrow> string option) \<Rightarrow> (runner_scope \<times> path) list \<times> inspection_error list" where
  "reconcile_directories env =
     (case launchd_plist_path env ''placeholder'' User of
        Inr p \<Rightarrow> ([(System, ''/Library/LaunchDaemons''), (User, unwrap_or (path_parent p) [])], [])
      | Inl e \<Rightarrow> ([(System, ''/Library/LaunchDaemons'')], [NoPath e]))"

text \<open>\<open>Path::extension\<close>: after the last dot of a file name that has something before it.\<close>

definition file_extension :: "string \<Rightarrow> string option" where
  "file_extension n =
     (let r = rev n; tail = takeWhile (\<lambda>c. c \<noteq> CHR ''.'') r; front = dropWhile (\<lambda>c. c \<noteq> CHR ''.'') r in
      if n = ''..'' \<or> front = [] \<or> tl front = [] then None else Some (rev tail))"

text \<open>\<open>config.pointer("/ProgramArguments/0")\<close>, then \<open>Program\<close>.\<close>

definition first_argument :: "json \<Rightarrow> json option" where
  "first_argument config =
     (case jget config ''ProgramArguments'' of
        Some (JArr (a # _)) \<Rightarrow> Some a
      | Some (JObj m) \<Rightarrow> obj_get m ''0''
      | _ \<Rightarrow> None)"

definition config_label :: "plist_observation \<Rightarrow> string option" where
  "config_label plist = Option.bind (Option.bind (po_config plist) (\<lambda>c. jget c ''Label'')) as_str"

definition config_executable :: "plist_observation \<Rightarrow> string option" where
  "config_executable plist =
     Option.bind (Option.bind (po_config plist) (\<lambda>c. option_or (first_argument c) (jget c ''Program''))) as_str"

definition is_candidate :: "path \<Rightarrow> plist_observation \<Rightarrow> bool" where
  "is_candidate ppath plist =
     (is_some_and (config_label plist) (\<lambda>l. starts_with l ''com.policywitness.'') \<or>
      is_some_and (config_executable plist) (\<lambda>p. file_name_component (path_components p) = Some ''PWRunner'') \<or>
      (po_config plist = None \<and>
       is_some_and (file_name_component (path_components ppath)) (\<lambda>n. starts_with n ''com.policywitness.'')))"

definition is_registered :: "runner_registry \<Rightarrow> runner_scope \<Rightarrow> string option \<Rightarrow> bool" where
  "is_registered reg scp label =
     list_ex (\<lambda>r. label = Some (service_name r) \<and> scope r = scp) (runners reg @ map pc_runner (pending reg))"

definition candidate_of :: "'w host \<Rightarrow> 'w \<Rightarrow> runner_scope \<Rightarrow> path \<Rightarrow> plist_observation \<Rightarrow> candidate" where
  "candidate_of h w scp ppath plist =
     (let label = config_label plist; exe = config_executable plist in
      \<lparr>ca_scope = scp, ca_service_name = label, ca_executable_path = exe, ca_plist_path = ppath,
       ca_service = Option.bind label (\<lambda>l. map_option (\<lambda>domain. inspect_service h w domain l) (res_ok (launchctl_target h w scp))),
       ca_plist = plist,
       ca_ownership = (if po_config plist = None then ''unknown''
         else if label = None \<or> exe = None then ''ambiguous'' else ''unowned'')\<rparr>)"

definition reconcile_entry ::
    "'w host \<Rightarrow> 'w \<Rightarrow> runner_registry \<Rightarrow> runner_scope \<Rightarrow> path \<Rightarrow> string + path \<Rightarrow> candidate list \<times> inspection_error list" where
  "reconcile_entry h w reg scp directory entry =
     (case entry of
        Inl e \<Rightarrow> ([], [AtPath directory e])
      | Inr ppath \<Rightarrow>
          if Option.bind (file_name_component (path_components ppath)) file_extension \<noteq> Some ''plist'' then ([], [])
          else
            let plist = inspect_plist h w ppath;
                errors = (case po_error plist of None \<Rightarrow> [] | Some e \<Rightarrow> [AtPath ppath e]) in
            if \<not> is_candidate ppath plist \<or> is_registered reg scp (config_label plist) then ([], errors)
            else ([candidate_of h w scp ppath plist], errors))"

definition reconcile_directory ::
    "'w host \<Rightarrow> 'w \<Rightarrow> runner_registry \<Rightarrow> runner_scope \<times> path \<Rightarrow> candidate list \<times> inspection_error list" where
  "reconcile_directory h w reg sd =
     (case sd of (scp, directory) \<Rightarrow>
       (case h_read_dir h w directory of
          Inl (NotFound _) \<Rightarrow> ([], [])
        | Inl (OtherIo e) \<Rightarrow> ([], [AtPath directory e])
        | Inr listed \<Rightarrow>
            let found = map (reconcile_entry h w reg scp directory) listed in
            (concat (map fst found), concat (map snd found))))"

definition cmd_runner_reconcile :: "'w runner_env \<Rightarrow> 'w \<Rightarrow> command_result \<times> 'w" where
  "cmd_runner_reconcile e w0 =
     w_bind (load_registry_or_default (e_store e) w0) (\<lambda>(p, reg) w1.
     let h = e_host e;
         (directories, errors) = reconcile_directories (h_env h);
         found = map (reconcile_directory h w1 reg) directories in
     (ok_envelope ''runner_reconcile''
       (ReconcileData p (map (reconcile_record h w1) (known_states reg)) (concat (map fst found))
         (errors @ concat (map snd found))), w1))"

section \<open>Dispatch\<close>

text \<open>\<open>usage\<close> is the text of \<open>runner_usage\<close>.\<close>

definition cmd_runner :: "string \<Rightarrow> 'w runner_env \<Rightarrow> string list \<Rightarrow> 'w \<Rightarrow> command_result call \<times> 'w" where
  "cmd_runner usage e args w =
     (let returned = (\<lambda>(r, w'). (Returned r, w')) in
      case args of
        [] \<Rightarrow> (Returned (Inl (''missing runner command'' @ [nl, nl] @ usage)), w)
      | sub # rest \<Rightarrow>
          if sub = ''install'' then returned (cmd_runner_install e rest w)
          else if sub = ''list'' then returned (cmd_runner_list e w)
          else if sub = ''status'' then returned (cmd_runner_status e rest w)
          else if sub = ''verify'' then cmd_runner_verify e rest w
          else if sub = ''remove'' then returned (cmd_runner_remove e rest w)
          else if sub = ''validate'' then returned (cmd_runner_validate e w)
          else if sub = ''reconcile'' then
            (if rest \<noteq> [] then (Returned (Inl ''runner reconcile accepts no arguments''), w)
             else returned (cmd_runner_reconcile e w))
          else if sub \<in> {''-h'', ''--help'', ''help''} then (Returned (Inr (RunnerUsage, 0)), w)
          else (Returned (Inl (''unknown runner command: '' @ sub @ [nl, nl] @ usage)), w))"

section \<open>The environment of an installation\<close>

lemma map_of_env_insert: "map_of (env_insert k v m) = (map_of m)(k \<mapsto> v)"
  by (induction m) auto

lemma set_env_insert_fst: "fst ` set (env_insert k v m) = insert k (fst ` set m)"
  by (induction m) auto

lemma sorted_env_insert: "sorted_wrt (<) (map fst m) \<Longrightarrow> sorted_wrt (<) (map fst (env_insert k v m))"
proof (induction m)
  case (Cons p m)
  have "fst p < x" if "fst p < k" "x \<in> fst ` set (env_insert k v m)" for x
    using that Cons.prems by (auto simp: set_env_insert_fst)
  with Cons show ?case by (cases "k < fst p"; cases "k = fst p") (auto dest: order.strict_trans)
qed simp

lemma install_value_flag_env:
  "install_value_flag flag v f = Inr f' \<Longrightarrow> sorted_wrt (<) (map fst (fl_env f)) \<Longrightarrow> sorted_wrt (<) (map fst (fl_env f'))"
  by (auto simp: install_value_flag_def sorted_env_insert split: if_splits prod.splits)

lemma install_arguments_env:
  "install_arguments f args = Inr f' \<Longrightarrow> sorted_wrt (<) (map fst (fl_env f)) \<Longrightarrow> sorted_wrt (<) (map fst (fl_env f'))"
  by (induction f args rule: install_arguments.induct)
    (auto split: if_splits list.splits dest: install_value_flag_env)

lemma env_insert_not_Nil [simp]: "env_insert k v m \<noteq> []"
  by (cases m) auto

lemma install_environment_lookup:
  "map_of (install_environment f bundle) ''XPC_SERVICE_PATH'' =
     Some (unwrap_or (map_of (fl_env f) ''XPC_SERVICE_PATH'') bundle)"
  by (auto simp: install_environment_def map_of_env_insert)

lemma install_environment_sorted:
  "sorted_wrt (<) (map fst (fl_env f)) \<Longrightarrow> sorted_wrt (<) (map fst (install_environment f bundle))"
  by (simp add: install_environment_def sorted_env_insert)

lemma install_environment_not_Nil: "install_environment f bundle \<noteq> []"
  using install_environment_lookup [of f "bundle"] by auto

section \<open>What an installation leaves can be found and removed again\<close>

lemma map_of_env_config: "map_of (env_config m) k = map_option JStr (map_of m k)"
  by (induction m) (auto simp: env_config_def)

lemma plist_owner_config:
  assumes "po_presence obs = Present" and "po_regular obs"
    and "po_config obs = Some (plist_config (service_name r) (executable_path r) (Some env) Byoxpc)"
    and "env \<noteq> []" and "ownership r = Some own"
    and "po_owner_uid obs = Some (owner_uid own)" and "po_sha256 obs = Some (plist_sha256 own)"
  shows "plist_owner r obs = (if map_of env ''XPC_SERVICE_PATH'' = Some (bundle_path r) then Owned else Unowned)"
  using assms by (simp add: plist_owner_def plist_config_def plist_args_def map_of_env_config bind_eq_Some_conv)

lemma inspect_plist_read:
  assumes "h_metadata h w (path_components p) = Inr m" and "mt_regular m" and "h_read h w p = Inr bytes"
    and "plutil_json_from_bytes h w bytes = Inr v"
  shows "inspect_plist h w p = \<lparr>po_presence = Present, po_config = Some v, po_sha256 = Some (h_sha256_hex h bytes),
    po_owner_uid = Some (mt_uid m), po_regular = True, po_error = None\<rparr>"
  using assms by (simp add: inspect_plist_def unobserved_plist_def)

text \<open>\<open>plutil_reads\<close>: what \<open>plutil\<close> answers for a property list agrees with the reference reader.\<close>

definition plutil_reads :: "'w host \<Rightarrow> 'w \<Rightarrow> string \<Rightarrow> bool" where
  "plutil_reads h w bytes = (\<forall>v. read_plist bytes = Some v \<longrightarrow> plutil_json_from_bytes h w bytes = Inr v)"

text \<open>
  C12: the property list an installation writes is recognised as its own, if nothing overrides the
  service path. For flags as the command line gives them and a bundle identifier that needs no
  escaping, let the file still hold what was written, as a regular file of the installing user, and
  let \<open>plutil\<close> read property lists as the reference reader does. Then a later inspection judges it
  owned by the record exactly when the environment does not set \<open>XPC_SERVICE_PATH\<close> to another path
  than the bundle; otherwise it is judged not owned, and removal refuses it.
\<close>

theorem installed_plist_owner:
  assumes "install_arguments install_defaults args = Inr f"
    and "CHR ''<'' \<notin> set (bi_bundle_id (is_info src))" and "CHR ''&'' \<notin> set (bi_bundle_id (is_info src))"
    and "h_metadata h w (path_components ppath) = Inr m" and "mt_regular m" and "mt_uid m = uid"
    and "h_read h w ppath = Inr (install_plist f src)" and "plutil_reads h w (install_plist f src)"
  shows "plist_owner ((install_record_of h f src ev source rid ppath domain uid now)\<lparr>state := st\<rparr>) (inspect_plist h w ppath) =
    (if map_of (fl_env f) ''XPC_SERVICE_PATH'' \<in> {None, Some (is_bundle src)} then Owned else Unowned)"
proof -
  let ?env = "install_environment f (is_bundle src)"
  let ?cfg = "plist_config (bi_bundle_id (is_info src)) (is_executable src) (Some ?env) Byoxpc"
  have plist: "install_plist f src = build_launchd_plist (bi_bundle_id (is_info src)) (is_executable src) (Some ?env) Byoxpc"
    by (simp add: install_plist_def install_environment_not_Nil)
  have "sorted_wrt (<) (map fst ?env)"
    using install_environment_sorted [OF install_arguments_env [OF assms(1)]] by (simp add: install_defaults_def)
  then have "read_plist (install_plist f src) = Some ?cfg"
    unfolding plist using assms(2, 3) written_plist_read by simp
  then have "plutil_json_from_bytes h w (install_plist f src) = Inr ?cfg"
    using assms(8) by (simp add: plutil_reads_def)
  note obs = inspect_plist_read [OF assms(4, 5, 7) this]
  let ?r = "(install_record_of h f src ev source rid ppath domain uid now)\<lparr>state := st\<rparr>"
  have "plist_owner ?r (inspect_plist h w ppath) = (if map_of ?env ''XPC_SERVICE_PATH'' = Some (bundle_path ?r) then Owned else Unowned)"
    by (rule plist_owner_config [where own = "\<lparr>plist_path = ppath, launchd_domain = domain, owner_uid = uid,
          plist_sha256 = h_sha256_hex h (install_plist f src)\<rparr> :: runner_ownership"])
      (simp_all add: obs install_record_of_def install_environment_not_Nil assms(6))
  then show ?thesis
    by (cases "map_of (fl_env f) ''XPC_SERVICE_PATH''")
      (simp_all add: install_environment_lookup install_record_of_def)
qed

text \<open>
  A host that holds one regular file of user 501 at every path, a runner bundle's metadata, and reads
  property lists as specified.
\<close>

definition sample_query :: "string list \<Rightarrow> string" where
  "sample_query args =
     (if ''Print :CFBundleIdentifier'' \<in> set args then ''com.x''
      else if ''Print :CFBundleExecutable'' \<in> set args then ''r''
      else if ''Print :CFBundlePackageType'' \<in> set args then ''XPC!''
      else if ''PWRunnerProtocolVersion'' \<in> set args then ''3'' else ''501'')"

definition sample_host :: "string \<Rightarrow> unit host" where
  "sample_host content = \<lparr>
     h_env = [''HOME'' \<mapsto> ''/Users/a''], h_lossy = (\<lambda>s. s), h_is_utf8 = (\<lambda>s. True), h_debug = (\<lambda>s. s),
     h_from_slice = (\<lambda>s. ok_or (read_plist s) ''not a property list''), h_sha256_hex = (\<lambda>s. s),
     h_query = (\<lambda>w p args. Inr \<lparr>out_stdout = sample_query args, out_stderr = [], out_code = Some 0\<rparr>),
     h_pipe = (\<lambda>w p args bytes. Inr \<lparr>out_stdout = bytes, out_stderr = [], out_code = Some 0\<rparr>),
     h_metadata = (\<lambda>w f. Inr \<lparr>mt_uid = 501, mt_regular = True, mt_symlink = False, mt_len = 0, mt_mode = 0\<rparr>),
     h_read = (\<lambda>w p. Inr content), h_canonical = (\<lambda>w p. Inr p),
     h_exists = (\<lambda>w p. True), h_is_file = (\<lambda>w p. True), h_is_dir = (\<lambda>w p. True), h_read_dir = (\<lambda>w p. Inr []),
     h_action = (\<lambda>p args w. (Inl ''no'', w)), h_mkdirs = (\<lambda>p w. (Inr (), w)), h_create_new = (\<lambda>p w. (Inr (), w)),
     h_write_all = (\<lambda>p s w. (Inr (), w)), h_sync_all = (\<lambda>p w. (Inr (), w)), h_rename = (\<lambda>p q w. (Inr (), w)),
     h_unlink = (\<lambda>p w. (Inr (), w)), h_urandom = (\<lambda>w. (Inr [], w)), h_sleep = (\<lambda>t w. w), h_now = (\<lambda>w. (0, w))\<rparr>"

definition sample_source :: install_source where
  "sample_source = \<lparr>is_bundle = ''/B.xpc'', is_info = \<lparr>bi_bundle_id = ''com.x'', bi_executable = ''r'', bi_package_type = Some ''XPC!'',
     bi_protocol_version = 3\<rparr>, is_executable = ''/B.xpc/Contents/MacOS/r''\<rparr>"

lemma sample_host_plutil: "plutil_reads (sample_host c) () bytes"
  by (simp add: plutil_reads_def plutil_json_from_bytes_def sample_host_def)

theorem installed_plist_owner_witness:
  "\<forall>ev source.
     plist_owner ((install_record_of (sample_host (install_plist install_defaults sample_source)) install_defaults sample_source
         ev source ''runner-1'' ''/p'' ''gui/501'' 501 0)\<lparr>state := Installed\<rparr>)
       (inspect_plist (sample_host (install_plist install_defaults sample_source)) () ''/p'') = Owned"
proof -
  let ?h = "sample_host (install_plist install_defaults sample_source)"
  have "plist_owner ((install_record_of ?h install_defaults sample_source ev source ''runner-1'' ''/p'' ''gui/501'' 501 0)\<lparr>state := Installed\<rparr>)
      (inspect_plist ?h () ''/p'') = (if map_of (fl_env install_defaults) ''XPC_SERVICE_PATH'' \<in> {None, Some (is_bundle sample_source)}
        then Owned else Unowned)" for ev source
    by (rule installed_plist_owner [where args = "[]"
          and m = "\<lparr>mt_uid = 501, mt_regular = True, mt_symlink = False, mt_len = 0, mt_mode = 0\<rparr> :: file_meta"])
      (simp_all add: sample_host_plutil, simp_all add: sample_host_def sample_source_def)
  then show ?thesis by (simp add: install_defaults_def)
qed

text \<open>A file name proper: one component of a path.\<close>

definition simple_name :: "string \<Rightarrow> bool" where
  "simple_name n = (slash \<notin> set n \<and> n \<notin> {[], ''.'', ''..''})"

lemma components_child:
  "base \<noteq> [] \<Longrightarrow> \<not> ends_with base [slash] \<Longrightarrow> simple_name n \<Longrightarrow>
     path_components (path_join base n) = path_components base @ [Normal n]"
  by (rule path_components_child) (simp_all add: simple_name_def)

lemma ends_with_last: "s \<noteq> [] \<Longrightarrow> ends_with s [c] \<longleftrightarrow> last s = c"
  by (cases s rule: rev_cases) (auto simp: ends_with_def)

lemma path_join_end:
  assumes "simple_name n" shows "path_join b n \<noteq> []" and "ends_with (path_join b n) [slash] \<longleftrightarrow> False"
proof -
  have n: "n \<noteq> []" using assms by (simp add: simple_name_def)
  with last_in_set have n': "last n \<noteq> slash" using assms unfolding simple_name_def by metis
  from n show ne: "path_join b n \<noteq> []" by (simp add: path_join_def)
  have "last (path_join b n) = last n" using n by (simp add: path_join_def)
  with n' ne show "ends_with (path_join b n) [slash] \<longleftrightarrow> False" by (simp add: ends_with_last)
qed

lemma simple_names [simp]:
  "simple_name ''Contents''" "simple_name ''MacOS''" "simple_name ''Library''" "simple_name ''LaunchAgents''"
  by (simp_all add: simple_name_def)

lemma macos_directory: "path_join b BUNDLE_MACOS_REL = path_join (path_join b ''Contents'') ''MacOS''"
  by (simp add: BUNDLE_MACOS_REL_def path_join_def is_absolute_def ends_with_def)

lemma executable_parent:
  assumes "simple_name n"
  shows "parent_components (path_components (path_join (path_join (path_join b ''Contents'') ''MacOS'') n)) =
    Some (path_components (path_join b BUNDLE_MACOS_REL))"
  using components_child [OF path_join_end(1) _ assms, of "''MacOS''" "path_join b ''Contents''"]
  by (simp add: path_join_end parent_components_def macos_directory)

text \<open>A home directory as the environment gives it: absolute, without parent segments or a trailing separator.\<close>

definition clean_home :: "path \<Rightarrow> bool" where
  "clean_home home = (is_absolute home \<and> \<not> ends_with home [slash] \<and> ParentDir \<notin> set (path_components home))"

lemma launchd_directory:
  assumes "launchd_plist_path env service scp = Inr ppath" and "simple_name (service @ ''.plist'')"
    and "is_none_or (env ''HOME'') clean_home"
  shows "is_absolute ppath \<and> (\<exists>cs. path_components ppath = cs @ [Normal (scope_parent scp), Normal (service @ ''.plist'')] \<and>
    ParentDir \<notin> set cs)"
proof (cases scp)
  case System
  then have "ppath = path_join ''/Library/LaunchDaemons'' (service @ ''.plist'')"
    using assms(1) by (simp add: launchd_plist_path_def)
  moreover have "\<not> is_absolute (service @ ''.plist'')"
    using assms(2) by (cases "service @ ''.plist''") (auto simp: is_absolute_def simple_name_def)
  moreover have "path_components ''/Library/LaunchDaemons'' = [RootDir, Normal ''Library'', Normal ''LaunchDaemons'']"
    by (simp add: path_components_def inner_segments_def segment_def)
  ultimately show ?thesis
    using components_child [of "''/Library/LaunchDaemons''" "service @ ''.plist''"] assms(2) System
    by (simp add: path_join_def is_absolute_def ends_with_def)
next
  case User
  then obtain home where home: "env ''HOME'' = Some home" "clean_home home"
    "ppath = path_join (path_join (path_join home ''Library'') ''LaunchAgents'') (service @ ''.plist'')"
    using assms(1, 3) by (auto simp: launchd_plist_path_def split: option.splits)
  then have ne: "home \<noteq> []" by (auto simp: clean_home_def is_absolute_def)
  have plain: "\<not> is_absolute (service @ ''.plist'')"
    using assms(2) by (cases "service @ ''.plist''") (auto simp: is_absolute_def simple_name_def)
  have "is_absolute ppath"
    using home(2) plain ne unfolding home(3) by (cases home) (auto simp: path_join_def is_absolute_def clean_home_def)
  moreover have "path_components ppath =
      path_components home @ [Normal ''Library'', Normal ''LaunchAgents'', Normal (service @ ''.plist'')]"
    using home ne assms(2) by (simp add: components_child path_join_end clean_home_def)
  ultimately show ?thesis using home(2) User
    by (intro conjI exI [of _ "path_components home @ [Normal ''Library'']"]) (simp_all add: clean_home_def)
qed

lemma valid_service_simple: "valid_service_name s \<Longrightarrow> simple_name (s @ ''.plist'')"
  by (auto simp: valid_service_name_def simple_name_def list_all_iff is_ascii_alphanumeric_def is_ascii_digit_def
      is_ascii_alphabetic_def)

text \<open>
  C13: an installed record is located again exactly when its service name is one the registry accepts.
  For a bundle whose executable is a plain file name and a clean home directory, the recorded
  ownership is consistent for the same user, and the location is the property list the installation
  wrote, unless a parent directory has become a symbolic link. The installation itself does not
  check the bundle identifier it takes as the service name: a record with another character in it
  is refused by every later removal.
\<close>

theorem installed_record_located:
  assumes "install_source_of h w0 f = Inr src" and "simple_name (bi_executable (is_info src))"
    and "launchd_plist_path (h_env h) (bi_bundle_id (is_info src)) (fl_scope f) = Inr ppath"
    and "is_none_or (h_env h ''HOME'') clean_home"
    and "launchctl_target h w (fl_scope f) = Inr domain" and "current_uid h w = Inr uid"
    and "redirected (h_metadata h w) (proper_ancestors (path_components ppath)) = None"
  shows "record_location h w ((install_record_of h f src ev source rid ppath domain uid now)\<lparr>state := st\<rparr>) =
    (if valid_service_name (bi_bundle_id (is_info src)) then Inr (ppath, domain) else Inl ''invalid recorded service name'')"
proof (cases "valid_service_name (bi_bundle_id (is_info src))")
  case True
  let ?r = "(install_record_of h f src ev source rid ppath domain uid now)\<lparr>state := st\<rparr>"
  from launchd_directory [OF assms(3) valid_service_simple [OF True] assms(4)] obtain cs where
    p: "is_absolute ppath" "path_components ppath = cs @ [Normal (scope_parent (fl_scope f)), Normal (bi_bundle_id (is_info src) @ ''.plist'')]"
      "ParentDir \<notin> set cs" by blast
  have "is_executable src = path_join (path_join (path_join (is_bundle src) ''Contents'') ''MacOS'') (bi_executable (is_info src))"
    using assms(1) by (auto simp: install_source_of_def Let_def)
  then have "parent_components (path_components (is_executable src)) = Some (path_components (path_join (is_bundle src) BUNDLE_MACOS_REL))"
    using executable_parent [OF assms(2)] by simp
  with p have "ownership_consistent ?r \<lparr>plist_path = ppath, launchd_domain = domain, owner_uid = uid,
      plist_sha256 = h_sha256_hex h (install_plist f src)\<rparr> uid domain"
    by (simp add: ownership_consistent_def install_record_of_def file_name_component_def parent_components_def butlast_append)
  with True assms(5-7) show ?thesis by (simp add: record_location_def install_record_of_def)
qed (simp add: record_location_def install_record_of_def)

theorem installed_record_located_witness:
  "\<forall>ev source. record_location (sample_host [])  ()
     (install_record_of (sample_host []) (install_defaults\<lparr>fl_bundle := Some ''/B.xpc''\<rparr>) sample_source ev source ''runner-1''
       ''/Users/a/Library/LaunchAgents/com.x.plist'' ''gui/501'' 501 0\<lparr>state := Installed\<rparr>) =
     Inr (''/Users/a/Library/LaunchAgents/com.x.plist'', ''gui/501'')"
proof -
  let ?h = "sample_host []" and ?f = "install_defaults\<lparr>fl_bundle := Some ''/B.xpc''\<rparr>"
  let ?p = "''/Users/a/Library/LaunchAgents/com.x.plist''"
  have id: "current_uid ?h () = Inr 501" "launchctl_target ?h () User = Inr ''gui/501''"
    by (simp_all add: current_uid_def launchctl_target_def current_uid_string_def sample_host_def sample_query_def
        str_trim_def is_space_def is_ascii_digit_def parse_u32_def decimal_value_def)
  have src: "install_source_of ?h () ?f = Inr sample_source"
    by (simp add: install_source_of_def install_defaults_def sample_host_def sample_query_def sample_source_def
        read_bundle_info_def plist_key_string_def protocol_marker_def parse_protocol_marker_def str_trim_def is_space_def
        is_ascii_digit_def parse_u32_def decimal_value_def current_protocol_def require_current_protocol_def
        RUNNER_PROTOCOL_VERSION_def path_join_def is_absolute_def ends_with_def)
  have home: "is_none_or (h_env ?h ''HOME'') clean_home"
    by (simp add: sample_host_def clean_home_def is_absolute_def ends_with_def path_components_def inner_segments_def segment_def)
  have path: "launchd_plist_path (h_env ?h) (bi_bundle_id (is_info sample_source)) (fl_scope ?f) = Inr ?p"
    by (simp add: launchd_plist_path_def sample_host_def sample_source_def install_defaults_def path_join_def is_absolute_def ends_with_def)
  have red: "redirected (h_metadata ?h ()) fs = None" for fs
    by (induction fs) (simp_all add: sample_host_def)
  have "record_location ?h () ((install_record_of ?h ?f sample_source ev source ''runner-1'' ?p ''gui/501'' 501 0)\<lparr>state := Installed\<rparr>) =
      (if valid_service_name (bi_bundle_id (is_info sample_source)) then Inr (?p, ''gui/501'') else Inl ''invalid recorded service name'')"
    for ev source
    by (rule installed_record_located [OF src _ path home _ _ red])
      (simp_all add: id, simp_all add: id sample_source_def simple_name_def install_defaults_def)
  then show ?thesis
    by (simp add: valid_service_name_def sample_source_def is_ascii_alphanumeric_def is_ascii_alphabetic_def)
qed

section \<open>The commands\<close>

text \<open>
  a verification passes only on a finished run of the supported version. Its exit code is zero
  exactly when the request was delivered, the client reports no failure, and the reply carries the
  supported response version and the outcome \<open>finished\<close>; the process id it reports is then that
  reply's, and there is no error.
\<close>

theorem verify_verdict_exact:
  "verify_verdict show_json client reply = Returned (pid, outcome, 0, err) \<longleftrightarrow>
     delivery_error client = None \<and> client_failure client = Returned None \<and> err = None \<and> outcome = ''finished'' \<and>
     (\<exists>v. reply = Some v \<and> reply_version show_json v = Supported \<and>
       jget v ''normalized_outcome'' = Some (JStr ''finished'') \<and> pid = Option.bind (jget v ''pid'') as_i64)"
proof (cases "delivery_error client")
  case None
  show ?thesis
  proof (cases "client_failure client")
    case (Returned x)
    with None show ?thesis
      by (cases x; cases reply)
        (auto simp: verify_verdict_def admit_reply_def project_verify_reply_def unwrap_or_def bind_eq_Some_conv
          split: version_gate.splits if_splits option.splits)
  qed (simp add: verify_verdict_def admit_reply_def None)
qed (simp add: verify_verdict_def admit_reply_def)

lemma install_record_Inr:
  "install_record sys act reg r w = (Inr r', reg', w') \<Longrightarrow> r' = r\<lparr>state := Installed\<rparr>"
  by (auto simp: install_record_def Let_def split: prod.splits sum.splits)

lemma install_registered_Inr:
  assumes "install_registered e f src source rid rpath reg w0 = (Inr (out, exit), w')"
  shows "\<exists>ev ppath domain uid now obs. install_evidence_of e f src w0 = Inr ev \<and>
    launchd_plist_path (h_env (e_host e)) (bi_bundle_id (is_info src)) (fl_scope f) = Inr ppath \<and>
    launchctl_target (e_host e) w0 (fl_scope f) = Inr domain \<and> current_uid (e_host e) w0 = Inr uid \<and> exit = 0 \<and>
    out = RunnerEnvelope ''runner_install'' (json_result_new True 0 (Some ''ok'') None)
      (InstallData Installed obs
        ((install_record_of (e_host e) f src ev source rid ppath domain uid now)\<lparr>state := Installed\<rparr>) ppath (\<not> fl_skip_bootstrap f))"
proof -
  let ?h = "e_host e" and ?sys = "native_cleanup (e_host e) (st_save (e_store e) rpath)"
  obtain now w1 where n: "h_now ?h w0 = (now, w1)" by fastforce
  from assms n obtain ev ppath domain uid where g: "install_evidence_of e f src w0 = Inr ev"
      "launchd_plist_path (h_env ?h) (bi_bundle_id (is_info src)) (fl_scope f) = Inr ppath"
      "launchctl_target ?h w0 (fl_scope f) = Inr domain" "current_uid ?h w0 = Inr uid"
    by (auto simp: install_registered_def Let_def w_bind_Inr)
  let ?r = "install_record_of ?h f src ev source rid ppath domain uid now"
  obtain res reg' w2 where i: "install_record ?sys (install_action ?h f src ppath) reg ?r w1 = (res, reg', w2)"
    by (metis prod_cases3)
  from assms n g i obtain obs r' where res: "res = Inr r'" and "exit = 0"
      "out = RunnerEnvelope ''runner_install'' (json_result_new True 0 (Some ''ok'') None)
        (InstallData (state r') obs r' ppath (\<not> fl_skip_bootstrap f))"
    by (auto simp: install_registered_def Let_def w_bind_Inr ok_envelope_def)
  moreover have "r' = ?r\<lparr>state := Installed\<rparr>" by (rule install_record_Inr [OF i [unfolded res]])
  ultimately have "exit = 0"
    "out = RunnerEnvelope ''runner_install'' (json_result_new True 0 (Some ''ok'') None)
      (InstallData Installed obs (?r\<lparr>state := Installed\<rparr>) ppath (\<not> fl_skip_bootstrap f))" by simp_all
  with g show ?thesis by blast
qed

lemma install_source_of_Inr:
  assumes "install_source_of h w f = Inr src"
  shows "\<exists>given. fl_bundle f = Some given \<and> h_canonical h w given = Inr (is_bundle src)"
    "h_is_dir h w (is_bundle src)" "read_bundle_info h w (is_bundle src) = Inr (is_info src)"
    "bi_package_type (is_info src) = Some ''XPC!''" "bi_protocol_version (is_info src) = RUNNER_PROTOCOL_VERSION"
    "is_executable src = path_join (path_join (path_join (is_bundle src) ''Contents'') ''MacOS'') (bi_executable (is_info src))"
    "h_exists h w (is_executable src)" "fl_kind f \<in> {None, Some Byoxpc}" "fl_bundle_id f = None" "fl_executable f = None"
  using assms by (auto simp: install_source_of_def Let_def current_protocol_def require_current_protocol_def split: if_splits)
    (cases "fl_kind f"; simp)

text \<open>
  What a record must hold of a bundle: for each of its binaries the signature and the entitlements that
  codesign reports of that very file, and the sealed inventory that verified.
\<close>

definition measured :: "'w host \<Rightarrow> 'w \<Rightarrow> path \<Rightarrow> runner_signature option \<Rightarrow> runner_entitlements option \<Rightarrow> bool" where
  "measured h w p sig ents =
     (\<exists>s. codesign_metadata h w p = Inr s \<and> sig = Some s \<and> ents = Some (entitlements_from_codesign h w p))"

definition records_evidence :: "'w runner_env \<Rightarrow> 'w \<Rightarrow> path \<Rightarrow> path \<Rightarrow> runner_record \<Rightarrow> bool" where
  "records_evidence e w bundle exe r =
     (measured (e_host e) w exe (Some (signature r)) (Some (entitlements r)) \<and>
      measured (e_host e) w (path_join bundle ''Contents/MacOS/pw-probe-runner'') (worker_signature r) (worker_entitlements r) \<and>
      measured (e_host e) w (path_join bundle ''Contents/MacOS/sb_api_validator'') (validator_signature r) (validator_entitlements r) \<and>
      measured (e_host e) w (path_join bundle ''Contents/MacOS/pw-probe-runner-unentitled'')
        (unentitled_worker_signature r) (unentitled_worker_entitlements r) \<and>
      issuer_signature r = None \<and> issuer_entitlements r = None \<and>
      (\<exists>inventory. verify_equipment_inventory (e_serde_error e) (e_host e) w bundle = Inr inventory \<and>
         worker_equipment_inventory r = Some (inventory_value inventory) \<and>
         unentitled_worker_sha256 r = map_option we_sha256 (find (\<lambda>x. we_role x = ''unentitled'') (workers inventory))))"

lemma read_back_measured: "read_back h w p = Inr m \<Longrightarrow> measured h w p (Some (fst m)) (Some (snd m))"
  by (auto simp: read_back_def measured_def)

lemma install_evidence_gates:
  assumes "install_evidence_of e f src w = Inr ev"
  shows "codesign_verify (e_host e) w (is_bundle src) = Inr ()" "read_bundle_info (e_host e) w (is_bundle src) = Inr (is_info src)"
    "ie_info ev = is_info src" "\<not> adhoc (ie_signature ev) \<or> fl_allow_adhoc f"
  using assms by (auto simp: install_evidence_of_def Let_def)

lemma install_record_evidence:
  assumes "install_evidence_of e f src w = Inr ev"
  shows "records_evidence e w (is_bundle src) (is_executable src)
    ((install_record_of (e_host e) f src ev source rid ppath domain uid now)\<lparr>state := Installed\<rparr>)"
  using assms
  by (auto simp: install_evidence_of_def install_record_of_def records_evidence_def Let_def BUNDLE_WORKER_REL_def
      BUNDLE_VALIDATOR_REL_def BUNDLE_UNENTITLED_WORKER_REL_def dest!: read_back_measured)
    (auto simp: measured_def)

lemma install_plist_environment:
  "\<exists>env. install_plist f src = build_launchd_plist (bi_bundle_id (is_info src)) (is_executable src) (Some env) Byoxpc \<and>
     map_of env = (map_of (fl_env f))(''XPC_SERVICE_PATH'' \<mapsto> unwrap_or (map_of (fl_env f) ''XPC_SERVICE_PATH'') (is_bundle src))"
proof -
  have "map_of (install_environment f (is_bundle src)) =
      (map_of (fl_env f))(''XPC_SERVICE_PATH'' \<mapsto> unwrap_or (map_of (fl_env f) ''XPC_SERVICE_PATH'') (is_bundle src))"
    by (cases "map_of (fl_env f) ''XPC_SERVICE_PATH''") (auto simp: install_environment_def map_of_env_insert)
  then show ?thesis using install_environment_not_Nil [of f "is_bundle src"] by (auto simp: install_plist_def Let_def)
qed

text \<open>
  C11: a successful installation has passed every gate and records what was measured. If \<open>runner install\<close>
  prints an envelope, then: the flags name a directory that is a current XPC bundle with its executable
  in place, whose identifier is the requested service name; under the registry lock no record had that
  service, bundle or executable, the sealed equipment of the source verified and no property list was
  in the way; the re-signing the flags asked for succeeded; after it the bundle verified, kept its
  metadata, and is ad-hoc signed only if that was allowed. The record printed is marked installed under a
  fresh id; its identity is the bundle's; its signatures and entitlements are, binary by binary, those
  codesign reports of the host, the worker, the validator and the unentitled worker of the signed
  bundle; its inventories are the one sealed after signing and the source's; and it owns the property
  list at the service's path, by the hash of the list for this service, executable and environment.
\<close>

theorem cmd_runner_install_sound:
  assumes "cmd_runner_install e args w0 = (Inr (out, exit), w')"
  shows "exit = 0 \<and>
     (\<exists>f given bundle info exe rid w1 rpath reg w2 missing source w3 ppath domain uid env obs r.
       install_arguments install_defaults args = Inr f \<and> fl_bundle f = Some given \<and>
       h_canonical (e_host e) w0 given = Inr bundle \<and> h_is_dir (e_host e) w0 bundle \<and>
       read_bundle_info (e_host e) w0 bundle = Inr info \<and> bi_package_type info = Some ''XPC!'' \<and>
       bi_protocol_version info = RUNNER_PROTOCOL_VERSION \<and>
       exe = path_join (path_join (path_join bundle ''Contents'') ''MacOS'') (bi_executable info) \<and> h_exists (e_host e) w0 exe \<and>
       fl_kind f \<in> {None, Some Byoxpc} \<and> fl_bundle_id f = None \<and> fl_executable f = None \<and>
       fl_service_name f \<in> {None, Some (bi_bundle_id info)} \<and>
       load_registry_locked (e_store e) w1 = (Inr (rpath, reg), w2) \<and>
       conflicting_record reg (bi_bundle_id info) bundle exe = None \<and>
       verify_equipment_inventory (e_serde_error e) (e_host e) w2 bundle = Inr source \<and>
       launchd_plist_path (h_env (e_host e)) (bi_bundle_id info) (fl_scope f) = Inr ppath \<and>
       h_metadata (e_host e) w2 (path_components ppath) = Inl (NotFound missing) \<and>
       sign_stage e f bundle w2 = (Inr (), w3) \<and>
       codesign_verify (e_host e) w3 bundle = Inr () \<and> read_bundle_info (e_host e) w3 bundle = Inr info \<and>
       (\<not> adhoc (signature r) \<or> fl_allow_adhoc f) \<and>
       random_id (fst (h_urandom (e_host e) w0)) = Inr rid \<and> state r = Installed \<and> runner_id r = rid \<and>
       service_name r = bi_bundle_id info \<and> bundle_id r = Some (bi_bundle_id info) \<and> bundle_path r = bundle \<and>
       executable_path r = exe \<and> scope r = fl_scope f \<and> protocol_version r = RUNNER_PROTOCOL_VERSION \<and> kind r = Some Byoxpc \<and>
       records_evidence e w3 bundle exe r \<and> source_worker_equipment_inventory r = Some (inventory_value source) \<and>
       launchctl_target (e_host e) w3 (fl_scope f) = Inr domain \<and> current_uid (e_host e) w3 = Inr uid \<and>
       map_of env = (map_of (fl_env f))(''XPC_SERVICE_PATH'' \<mapsto> unwrap_or (map_of (fl_env f) ''XPC_SERVICE_PATH'') bundle) \<and>
       ownership r = Some \<lparr>plist_path = ppath, launchd_domain = domain, owner_uid = uid,
         plist_sha256 = h_sha256_hex (e_host e) (build_launchd_plist (bi_bundle_id info) exe (Some env) Byoxpc)\<rparr> \<and>
       out = RunnerEnvelope ''runner_install'' (json_result_new True 0 (Some ''ok'') None)
         (InstallData Installed obs r ppath (\<not> fl_skip_bootstrap f)))"
proof -
  let ?h = "e_host e"
  from assms obtain f src w1 rid rpath reg w2 source ppath w3 where
    s: "install_arguments install_defaults args = Inr f" "install_source_of ?h w0 f = Inr src"
      "fl_service_name f \<in> {None, Some (bi_bundle_id (is_info src))}"
      "load_registry_locked (e_store e) w1 = (Inr (rpath, reg), w2)" "install_admission e f src reg w2 = Inr (source, ppath)"
      "sign_stage e f (is_bundle src) w2 = (Inr (), w3)"
      "install_registered e f src source rid rpath reg w3 = (Inr (out, exit), w')" "random_id (fst (h_urandom ?h w0)) = Inr rid"
    by (cases "h_urandom ?h w0") (auto simp: cmd_runner_install_def Let_def w_bind_Inr)
  from s(5) obtain missing where a: "conflicting_record reg (bi_bundle_id (is_info src)) (is_bundle src) (is_executable src) = None"
    "verify_equipment_inventory (e_serde_error e) ?h w2 (is_bundle src) = Inr source"
    "launchd_plist_path (h_env ?h) (bi_bundle_id (is_info src)) (fl_scope f) = Inr ppath"
    "h_metadata ?h w2 (path_components ppath) = Inl (NotFound missing)"
    by (auto simp: install_admission_def plist_absent_def Let_def split: option.splits sum.splits io_failure.splits)
  from install_registered_Inr [OF s(7)] a(3) obtain ev domain uid now obs where
    g: "install_evidence_of e f src w3 = Inr ev" "launchctl_target ?h w3 (fl_scope f) = Inr domain" "current_uid ?h w3 = Inr uid"
      "exit = 0" and out: "out = RunnerEnvelope ''runner_install'' (json_result_new True 0 (Some ''ok'') None)
         (InstallData Installed obs ((install_record_of ?h f src ev source rid ppath domain uid now)\<lparr>state := Installed\<rparr>)
           ppath (\<not> fl_skip_bootstrap f))" by auto
  define r where "r = (install_record_of ?h f src ev source rid ppath domain uid now)\<lparr>state := Installed\<rparr>"
  obtain env where env: "install_plist f src = build_launchd_plist (bi_bundle_id (is_info src)) (is_executable src) (Some env) Byoxpc"
    "map_of env = (map_of (fl_env f))(''XPC_SERVICE_PATH'' \<mapsto> unwrap_or (map_of (fl_env f) ''XPC_SERVICE_PATH'') (is_bundle src))"
    using install_plist_environment by blast
  note i = install_source_of_Inr [OF s(2)] and v = install_evidence_gates [OF g(1)]
  have r: "signature r = ie_signature ev" "state r = Installed" "runner_id r = rid" "service_name r = bi_bundle_id (is_info src)"
    "bundle_id r = Some (bi_bundle_id (is_info src))" "bundle_path r = is_bundle src" "executable_path r = is_executable src"
    "scope r = fl_scope f" "protocol_version r = RUNNER_PROTOCOL_VERSION" "kind r = Some Byoxpc"
    "source_worker_equipment_inventory r = Some (inventory_value source)"
    "ownership r = Some \<lparr>plist_path = ppath, launchd_domain = domain, owner_uid = uid, plist_sha256 = h_sha256_hex ?h
       (build_launchd_plist (bi_bundle_id (is_info src)) (is_executable src) (Some env) Byoxpc)\<rparr>"
    using v(3) i(5) env(1) by (simp_all add: r_def install_record_of_def)
  have ev: "records_evidence e w3 (is_bundle src) (is_executable src) r"
    unfolding r_def by (rule install_record_evidence [OF g(1)])
  obtain given where given: "fl_bundle f = Some given" "h_canonical ?h w0 given = Inr (is_bundle src)" using i(1) by blast
  have adhoc: "\<not> adhoc (signature r) \<or> fl_allow_adhoc f" using v(4) r(1) by simp
  show ?thesis
    by (rule conjI, rule g(4), intro exI conjI)
      (rule s(1) given i(2-10) s(3, 4) a s(6) v(1, 2) adhoc s(8) r(2-12) ev g(2, 3) env(2) out [folded r_def])+
qed

text \<open>The identity of a record: what names it, locates it and lets it be removed.\<close>

definition record_identity :: "runner_record \<Rightarrow> string \<times> string \<times> path \<times> path \<times> runner_scope \<times> runner_ownership option \<times> runner_state" where
  "record_identity r = (runner_id r, service_name r, bundle_path r, executable_path r, scope r, ownership r, state r)"

lemma validate_record_identity:
  "record_identity (fst (validate_record exists_at read_sha verify_bundle verify_binary rd r)) = record_identity r"
  by (simp add: validate_record_def Let_def record_identity_def split: prod.splits)

lemma failed_binary_id [simp]: "vf_runner_id (failed_binary r b x) = runner_id r"
  by (simp add: failed_binary_def)

lemma validate_record_names:
  assumes "validate_record exists_at read_sha verify_bundle verify_binary rd r = (r', fs)" and "x \<in> set fs"
  shows "vf_runner_id x = runner_id r"
proof -
  have "fs = (case verify_bundle (bundle_path r) of Inr _ \<Rightarrow> [] | Inl e \<Rightarrow> [failed_binary r ''bundle'' e]) @
       concat (map (\<lambda>(role, p). case binary_error verify_binary rd p of None \<Rightarrow> [] | Some e \<Rightarrow> [failed_binary r role e])
         (checked_binaries exists_at r))"
    using validate_record_reports [where exists_at = exists_at and read_sha = read_sha and verify_bundle = verify_bundle
        and verify_binary = verify_binary and rd = rd and r = r] by (simp add: assms(1))
  with assms(2) show ?thesis by (auto split: sum.splits option.splits)
qed

lemma validate_one_cases:
  assumes "validate_one e w r = (r', found)"
  shows "record_identity r' = record_identity r \<and> (\<forall>fs. found = Some fs \<longrightarrow> (\<forall>x \<in> set fs. vf_runner_id x = runner_id r))"
proof (cases "h_exists (e_host e) w (executable_path r)")
  case False
  with assms show ?thesis by (auto simp: validate_one_def record_identity_def)
next
  case True
  let ?h = "e_host e"
  obtain r1 fs where v: "validate_record (h_exists ?h w) (\<lambda>p. map_option (h_sha256_hex ?h) (res_ok (h_read ?h w p)))
      (codesign_verify ?h w) (codesign_verify_binary ?h w) (read_back ?h w) r = (r1, fs)" by fastforce
  have r1: "record_identity r1 = record_identity r"
    using validate_record_identity [of "h_exists ?h w" "\<lambda>p. map_option (h_sha256_hex ?h) (res_ok (h_read ?h w p))"
        "codesign_verify ?h w" "codesign_verify_binary ?h w" "read_back ?h w" r] by (simp add: v)
  then have id: "runner_id r1 = runner_id r" by (simp add: record_identity_def)
  let ?kinded = "\<lambda>x :: runner_record. if kind x = None then x\<lparr>kind := Some (infer_record_kind x)\<rparr> else x"
  have same: "record_identity (?kinded x) = record_identity x"
    "record_identity (?kinded (x\<lparr>worker_equipment_inventory := i\<rparr>)) = record_identity x" for x i
    by (simp_all add: record_identity_def)
  show ?thesis
  proof (cases "verify_equipment_inventory (e_serde_error e) ?h w (bundle_path r1)")
    case (Inl err)
    with assms True v have "r' = ?kinded r1" "found = Some (fs @ [failed_binary r1 ''equipment_inventory'' err])"
      by (simp_all add: validate_one_def)
    then show ?thesis using validate_record_names [OF v] r1 id same(1) by auto
  next
    case (Inr sealed)
    with assms True v have "r' = ?kinded (r1\<lparr>worker_equipment_inventory := Some (inventory_value sealed)\<rparr>)" "found = Some fs"
      by (simp_all add: validate_one_def)
    then show ?thesis using validate_record_names [OF v] r1 same(2) by auto
  qed
qed

lemma validate_one_missing: "snd (validate_one e w r) = None \<longleftrightarrow> \<not> h_exists (e_host e) w (executable_path r)"
  by (simp add: validate_one_def Let_def split: prod.splits sum.splits)

lemma validate_one_identity: "record_identity (fst (validate_one e w r)) = record_identity r"
  using validate_one_cases [of e w r "fst (validate_one e w r)" "snd (validate_one e w r)"] by simp

lemma validated_identities:
  "map record_identity (map fst (map (validate_one e w) rs)) = map record_identity rs"
  by (simp add: validate_one_identity)

lemma validated_names:
  "x \<in> set (concat (filter_map snd (map (validate_one e w) rs))) \<Longrightarrow> vf_runner_id x \<in> runner_id ` set rs"
proof (induction rs)
  case (Cons r rs)
  obtain r' found where v: "validate_one e w r = (r', found)" by fastforce
  with Cons validate_one_cases [OF v] show ?case by (cases found) auto
qed simp

lemma validated_missing:
  "length (filter (\<lambda>j. snd j = None) (map (validate_one e w) rs)) =
     length (filter (\<lambda>r. \<not> h_exists (e_host e) w (executable_path r)) rs)"
  by (induction rs) (simp_all add: validate_one_missing)

lemma concat_empty_count: "concat xss = [] \<longleftrightarrow> length (filter (\<lambda>xs. xs \<noteq> []) xss) = 0"
  unfolding length_0_conv filter_empty_conv concat_eq_Nil_conv by blast

text \<open>
  a validation keeps every record's identity. Under the lock it loads the registry, saves once, and
  what it saves has the same records in the same order, with their names, paths, scope, ownership
  and state, and the same pending cleanups; only evidence is refreshed. It reports one update per
  record, as many missing runners as there are missing executables, an invalid record exactly when
  there is a failure, and failures only of registered runners. A failing load or save is the result.
\<close>

theorem cmd_runner_validate_keeps:
  "case load_registry_locked (e_store e) w0 of
     (Inl err, w1) \<Rightarrow> cmd_runner_validate e w0 = (Inl err, w1)
   | (Inr (p, reg), w1) \<Rightarrow>
       (\<exists>reg' n fs. map record_identity (runners reg') = map record_identity (runners reg) \<and>
         pending reg' = pending reg \<and> schema_version reg' = schema_version reg \<and>
         vf_runner_id ` set fs \<subseteq> runner_id ` set (runners reg) \<and> (fs = [] \<longleftrightarrow> n = 0) \<and>
         cmd_runner_validate e w0 =
           (case st_save (e_store e) p reg' w1 of
              (Inl err, w2) \<Rightarrow> (Inl err, w2)
            | (Inr _, w2) \<Rightarrow> (ok_envelope ''runner_validate'' (ValidateData \<lparr>va_updated = length (runners reg),
                va_missing = length (filter (\<lambda>r. \<not> h_exists (e_host e) w1 (executable_path r)) (runners reg)),
                va_invalid = n, va_failures = fs\<rparr>), w2)))"
proof (cases "load_registry_locked (e_store e) w0")
  case (Pair r w1)
  show ?thesis
  proof (cases r)
    case (Inr pr)
    obtain p reg where pr: "pr = (p, reg)" by fastforce
    let ?judged = "map (validate_one e w1) (runners reg)"
    let ?failures = "filter_map snd ?judged"
    have "cmd_runner_validate e w0 =
        (case st_save (e_store e) p (reg\<lparr>runners := map fst ?judged\<rparr>) w1 of
              (Inl err, w2) \<Rightarrow> (Inl err, w2)
            | (Inr _, w2) \<Rightarrow> (ok_envelope ''runner_validate'' (ValidateData \<lparr>va_updated = length (runners reg),
                va_missing = length (filter (\<lambda>r. \<not> h_exists (e_host e) w1 (executable_path r)) (runners reg)),
                va_invalid = length (filter (\<lambda>fs. fs \<noteq> []) ?failures), va_failures = concat ?failures\<rparr>), w2))"
      by (simp add: cmd_runner_validate_def Pair Inr pr Let_def validated_missing [symmetric] w_bind_def
          split: prod.splits sum.splits)
    moreover have "vf_runner_id ` set (concat ?failures) \<subseteq> runner_id ` set (runners reg)"
      using validated_names [of _ e w1 "runners reg"] by auto
    ultimately show ?thesis
      using validated_identities [of e w1 "runners reg"] concat_empty_count [of ?failures]
      by (simp only: Pair Inr pr prod.case sum.case, intro exI [of _ "reg\<lparr>runners := map fst ?judged\<rparr>"]
            exI [of _ "length (filter (\<lambda>fs. fs \<noteq> []) ?failures)"] exI [of _ "concat ?failures"])
        (simp del: map_map concat_eq_Nil_conv length_0_conv)
  qed (simp add: cmd_runner_validate_def Pair)
qed

section \<open>The commands on the registry file\<close>

text \<open>The registry file of \<open>Registry_Store\<close> as the store of the commands.\<close>

definition disk_store ::
    "(runner_registry \<Rightarrow> string + string) \<Rightarrow> (string \<Rightarrow> string + runner_registry) \<Rightarrow> (disk \<Rightarrow> string + nat list) \<Rightarrow>
     (string \<Rightarrow> string option) \<Rightarrow> ('v \<times> disk) registry_store" where
  "disk_store encode decode urandom env = \<lparr>
     st_path = runner_registry_path env,
     st_lock = (\<lambda>p (v, d). case lock_registry p d of (Inl x, d') \<Rightarrow> (Inl x, v, d') | (Inr _, d') \<Rightarrow> (Inr (), v, d')),
     st_load = (\<lambda>p (v, d). case load_registry_file decode p d of (r, d') \<Rightarrow> (r, v, d')),
     st_save = (\<lambda>p reg (v, d). case save_registry encode (urandom d) p reg d of (r, d') \<Rightarrow> (r, v, d'))\<rparr>"

text \<open>A locked load holds a lock nobody held, and what it returns was in the file under it.\<close>

lemma locked_load_on_disk:
  assumes "load_registry_locked (disk_store encode decode urandom env) (v, d) = (Inr (p, reg), v', d')"
  shows "runner_registry_path env = Inr p \<and> v' = v \<and>
    (\<exists>f d1. lock_registry p d = (Inr f, d1) \<and> f \<notin> held d \<and> f \<in> held d1 \<and> load_registry_file decode p d1 = (Inr reg, d'))"
proof -
  obtain q where q: "runner_registry_path env = Inr q"
    using assms by (auto simp: load_registry_locked_def disk_store_def w_bind_Inr)
  obtain r d1 where l: "lock_registry q d = (r, d1)" by fastforce
  from assms q l obtain f where f: "r = Inr f" by (cases r) (auto simp: load_registry_locked_def disk_store_def)
  obtain r2 d2 where ld: "load_registry_file decode q d1 = (r2, d2)" by fastforce
  from assms q l f ld have "p = q" "v' = v" "r2 = Inr reg" "d2 = d'"
    by (cases r2; simp add: load_registry_locked_def disk_store_def)+
  with q l f ld lock_registry_exclusive [of q d f d1] show ?thesis by auto
qed

text \<open>A validation that prints its report has replaced the file by the refreshed registry, atomically.\<close>

lemma validate_on_disk:
  assumes "e_store e = disk_store encode decode urandom env"
    and "load_registry_locked (e_store e) (v, d) = (Inr (p, reg), v, d1)"
    and "cmd_runner_validate e (v, d) = (Inr out, v', d2)"
  shows "\<exists>reg' bytes. map record_identity (runners reg') = map record_identity (runners reg) \<and>
    encode reg' = Inr bytes \<and> files d2 = (files d1)(path_components p := Some bytes)"
proof -
  let ?reg = "reg\<lparr>runners := map fst (map (validate_one e (v, d1)) (runners reg))\<rparr>"
  obtain r d3 where s: "save_registry encode (urandom d1) p ?reg d1 = (r, d3)" by fastforce
  from assms s have "succeeded r" "d2 = d3"
    by (auto simp: cmd_runner_validate_def w_bind_Inr disk_store_def Let_def)
  with save_registry_passes [OF s] obtain bytes where
    "encode ?reg = Inr bytes" "files d2 = (files d1)(path_components p := Some bytes)" by (cases "encode ?reg") auto
  then show ?thesis
    using validated_identities [of e "(v, d1)" "runners reg"] by (intro exI [of _ ?reg]) (simp del: map_map)
qed

subsection \<open>An installation that succeeds\<close>

definition sample_stderr :: string where
  "sample_stderr = ''CDHash='' @ replicate 40 (CHR ''a'') @ [nl] @ ''Identifier=w''"

definition sample_worker :: "string \<Rightarrow> path \<Rightarrow> worker_entry" where
  "sample_worker role rel = \<lparr>we_role = role, relative_path = rel, we_sha256 = replicate 64 (CHR ''a''),
     we_cdhash = replicate 40 (CHR ''a''), we_identifier = ''w'', we_team_id = None, entitlements_xml = EMPTY_ENTITLEMENTS_XML\<rparr>"

definition sample_inventory :: worker_inventory where
  "sample_inventory = \<lparr>wi_schema_version = 1, wi_runner_protocol = 3, worker_identity = replicate 64 (CHR ''a''),
     unsigned_worker_sha256 = replicate 64 (CHR ''a''),
     workers = [sample_worker ''selected'' BUNDLE_WORKER_REL, sample_worker ''unentitled'' BUNDLE_UNENTITLED_WORKER_REL]\<rparr>"

definition install_host :: "unit host" where
  "install_host = (sample_host [])\<lparr>
     h_from_slice := (\<lambda>s. if s = ''{}'' then Inr (inventory_value sample_inventory)
        else if s = EMPTY_ENTITLEMENTS_XML then Inr (JObj []) else Inl ''syntax''),
     h_sha256_hex := (\<lambda>s. replicate 64 (CHR ''a'')),
     h_query := (\<lambda>w p args. Inr \<lparr>out_stdout = (if ''--entitlements'' \<in> set args then [] else sample_query args),
        out_stderr = sample_stderr, out_code = Some 0\<rparr>),
     h_metadata := (\<lambda>w f. if f = path_components ''/Users/a/Library/LaunchAgents/com.x.plist'' then Inl (NotFound ''absent'')
        else Inr \<lparr>mt_uid = 501, mt_regular = True, mt_symlink = False, mt_len = 2, mt_mode = 1\<rparr>),
     h_read := (\<lambda>w p. Inr ''{}'')\<rparr>"

definition install_env :: "unit runner_env" where
  "install_env = \<lparr>e_host = install_host,
     e_store = \<lparr>st_path = Inr ''/r.json'', st_lock = (\<lambda>p w. (Inr (), w)), st_load = (\<lambda>p w. (Inr empty_registry, w)),
       st_save = (\<lambda>p reg w. (Inr (), w))\<rparr>,
     e_client = (\<lambda>s q t c w. (Inl ''none'', w)), e_serde_error = (\<lambda>j. []), e_render = (\<lambda>v. Inl []), e_to_pretty = (\<lambda>j. Inl []),
     e_show_json = (\<lambda>j. [])\<rparr>"

lemma install_host_simps [simp]:
  "h_env install_host = [''HOME'' \<mapsto> ''/Users/a'']" "h_lossy install_host s = s" "h_is_utf8 install_host s"
  "h_from_slice install_host s = (if s = ''{}'' then Inr (inventory_value sample_inventory)
      else if s = EMPTY_ENTITLEMENTS_XML then Inr (JObj []) else Inl ''syntax'')"
  "h_sha256_hex install_host s = replicate 64 (CHR ''a'')"
  "h_query install_host w p args = Inr \<lparr>out_stdout = (if ''--entitlements'' \<in> set args then [] else sample_query args),
      out_stderr = sample_stderr, out_code = Some 0\<rparr>"
  "h_pipe install_host w p args bytes = Inr \<lparr>out_stdout = bytes, out_stderr = [], out_code = Some 0\<rparr>"
  "h_metadata install_host w f = (if f = path_components ''/Users/a/Library/LaunchAgents/com.x.plist'' then Inl (NotFound ''absent'')
      else Inr \<lparr>mt_uid = 501, mt_regular = True, mt_symlink = False, mt_len = 2, mt_mode = 1\<rparr>)"
  "h_read install_host w p = Inr ''{}''" "h_canonical install_host w p = Inr p" "h_exists install_host w p"
  "h_is_dir install_host w p" "h_create_new install_host p w = (Inr (), w)" "h_mkdirs install_host p w = (Inr (), w)"
  "h_write_all install_host p s w = (Inr (), w)" "h_urandom install_host w = (Inr [], w)" "h_now install_host w = (0, w)"
  by (simp_all add: install_host_def sample_host_def)

lemma install_env_simps [simp]:
  "e_host install_env = install_host" "st_path (e_store install_env) = Inr ''/r.json''"
  "st_lock (e_store install_env) p w = (Inr (), w)" "st_load (e_store install_env) p w = (Inr empty_registry, w)"
  "st_save (e_store install_env) p reg w = (Inr (), w)"
  by (simp_all add: install_env_def)

lemma empty_xml_neq: "EMPTY_ENTITLEMENTS_XML \<noteq> ''{}''" "length EMPTY_ENTITLEMENTS_XML \<le> EQUIPMENT_ENTITLEMENT_BYTES"
  by (simp_all add: EMPTY_ENTITLEMENTS_XML_def EQUIPMENT_ENTITLEMENT_BYTES_def)

lemma sample_signature:
  "codesign_metadata install_host () p =
     Inr \<lparr>team_id = None, identity = None, cdhash = Some (replicate 40 (CHR ''a'')), sig_valid = True, adhoc = False\<rparr>"
  "signature_identifier install_host () p = Inr ''w''"
  "codesign_verify install_host () p = Inr ()" "codesign_verify_binary install_host () p = Inr ()"
  by (simp_all add: codesign_metadata_def signature_identifier_def sample_stderr_def str_lines_def strip_cr_def str_trim_def
      is_space_def metadata_line_def blank_signature_def strip_prefix_def codesign_verify_def codesign_verify_binary_def codesign_check_def
      numeral_eq_Suc)

lemma sample_entitlements: "entitlements_from_codesign install_host () p = failed_entitlements None None"
  by (simp add: entitlements_from_codesign_def)

lemma sample_plutil: "plutil_json_from_bytes install_host () EMPTY_ENTITLEMENTS_XML = Inr (JObj [])"
  by (simp add: plutil_json_from_bytes_def empty_xml_neq)

lemma sample_rows:
  "row_valid rel (sample_worker role rel)"
  by (simp add: row_valid_def sample_worker_def equipment_hex_def is_lower_hexdigit_def is_ascii_digit_def nul_free_name_def
      empty_xml_neq list_all_iff)

lemma sample_inventory_valid: "inventory_validate sample_inventory = Inr ()"
  using sample_rows
  by (simp add: inventory_validate_def sample_inventory_def EQUIPMENT_ROLES_def RUNNER_PROTOCOL_VERSION_def equipment_hex_def
      is_lower_hexdigit_def is_ascii_digit_def list_all_iff) (simp add: sample_worker_def)

lemma bundle_components:
  assumes "simple_name d" and "simple_name n"
  shows "path_components (path_join (path_join (path_join ''/B.xpc'' ''Contents'') d) n) =
    path_components ''/B.xpc'' @ [Normal ''Contents'', Normal d, Normal n]"
proof -
  have "\<not> ends_with ''/B.xpc'' [slash]" by (simp add: ends_with_def)
  then have "path_components (path_join ''/B.xpc'' ''Contents'') = path_components ''/B.xpc'' @ [Normal ''Contents'']"
    by (intro components_child) simp_all
  with assms show ?thesis by (simp add: components_child path_join_end)
qed

lemma inside_bundle:
  assumes "simple_name n"
  shows "inside install_host () (path_join (path_join (path_join ''/B.xpc'' ''Contents'') ''MacOS'') n) ''/B.xpc'' = Inr True"
  using assms by (simp add: inside_def path_starts_with_def bundle_components)

lemma bundle_relative:
  "path_join b BUNDLE_WORKER_REL = path_join (path_join (path_join b ''Contents'') ''MacOS'') ''pw-probe-runner''"
  "path_join b BUNDLE_UNENTITLED_WORKER_REL = path_join (path_join (path_join b ''Contents'') ''MacOS'') ''pw-probe-runner-unentitled''"
  "path_join b BUNDLE_EQUIPMENT_REL = path_join (path_join (path_join b ''Contents'') ''Resources'') ''worker-equipment.json''"
  by (simp_all add: BUNDLE_WORKER_REL_def BUNDLE_UNENTITLED_WORKER_REL_def BUNDLE_EQUIPMENT_REL_def path_join_def is_absolute_def ends_with_def)

lemma sample_names [simp]:
  "simple_name ''pw-probe-runner''" "simple_name ''pw-probe-runner-unentitled''" "simple_name ''Resources''"
  "simple_name ''worker-equipment.json''"
  by (simp_all add: simple_name_def)

lemma bundle_file_present:
  "path_components (path_join (path_join (path_join ''/B.xpc'' ''Contents'') d) n) \<noteq>
     path_components ''/Users/a/Library/LaunchAgents/com.x.plist''" if "simple_name d" "simple_name n"
proof -
  have "path_components ''/B.xpc'' = [RootDir, Normal ''B.xpc'']"
    "path_components ''/Users/a/Library/LaunchAgents/com.x.plist'' =
      [RootDir, Normal ''Users'', Normal ''a'', Normal ''Library'', Normal ''LaunchAgents'', Normal ''com.x.plist'']"
    by (simp_all add: path_components_def inner_segments_def segment_def)
  then show ?thesis unfolding bundle_components [OF that] by simp
qed

lemma sample_sealed:
  "(role, rel) \<in> set EQUIPMENT_ROLES \<Longrightarrow> sealed_worker install_host () ''/B.xpc'' None (sample_worker role rel)"
  by (auto simp: EQUIPMENT_ROLES_def sealed_worker_def sample_worker_def bundle_relative inside_bundle bundle_file_present
      sample_signature sample_entitlements sample_plutil failed_entitlements_def empty_xml_neq team_of_def executable_mode_def)

lemma sample_inventory_loads: "load_equipment_inventory serde_error install_host () ''/B.xpc'' = Inr sample_inventory"
proof -
  have "decode_inventory (inventory_value sample_inventory) = Some sample_inventory"
    by (rule decode_inventory_value) (simp_all add: sample_inventory_def)
  moreover have "jget (inventory_value sample_inventory) ''workers'' = Some (JArr (map entry_value (workers sample_inventory)))"
    by (simp add: inventory_value_def)
  moreover have "jget (entry_value x) ''team_id'' \<noteq> None" for x by (simp add: entry_value_def)
  moreover have "path_starts_with (path_join (path_join (path_join ''/B.xpc'' ''Contents'') ''Resources'') ''worker-equipment.json'') ''/B.xpc''"
    by (simp add: path_starts_with_def bundle_components)
  ultimately show ?thesis
    by (simp add: load_equipment_inventory_def bundle_relative bundle_file_present sample_inventory_valid
        EQUIPMENT_INVENTORY_BYTES_def list_all_iff)
qed

lemma sample_verified: "verify_equipment_inventory serde_error install_host () ''/B.xpc'' = Inr sample_inventory"
proof -
  have "list_all (sealed_worker install_host () ''/B.xpc'' None) (workers sample_inventory)"
    by (simp add: sample_inventory_def sample_sealed EQUIPMENT_ROLES_def)
  then show ?thesis
    by (simp add: verify_equipment_inventory_def sample_signature sample_inventory_loads check_workers_Inr team_of_def)
qed

lemma sample_install_source:
  "install_source_of install_host () (install_defaults\<lparr>fl_bundle := Some ''/B.xpc'', fl_skip_bootstrap := True\<rparr>) = Inr sample_source"
  by (simp add: install_source_of_def install_defaults_def sample_query_def sample_source_def
      read_bundle_info_def plist_key_string_def protocol_marker_def parse_protocol_marker_def str_trim_def is_space_def
      is_ascii_digit_def parse_u32_def decimal_value_def current_protocol_def require_current_protocol_def
      RUNNER_PROTOCOL_VERSION_def path_join_def is_absolute_def ends_with_def)

lemma sample_bundle_info: "read_bundle_info install_host () ''/B.xpc'' = Inr (is_info sample_source)"
  by (simp add: sample_query_def sample_source_def
      read_bundle_info_def plist_key_string_def protocol_marker_def parse_protocol_marker_def str_trim_def is_space_def
      is_ascii_digit_def parse_u32_def decimal_value_def path_join_def is_absolute_def ends_with_def)

lemma sample_identity: "current_uid install_host () = Inr 501" "launchctl_target install_host () User = Inr ''gui/501''"
  "launchd_plist_path [''HOME'' \<mapsto> ''/Users/a''] ''com.x'' User = Inr ''/Users/a/Library/LaunchAgents/com.x.plist''"
  by (simp_all add: current_uid_def launchctl_target_def current_uid_string_def sample_query_def
      str_trim_def is_space_def is_ascii_digit_def parse_u32_def decimal_value_def
      launchd_plist_path_def path_join_def is_absolute_def ends_with_def)

lemma sample_install_arguments:
  "install_arguments install_defaults [''--bundle'', ''/B.xpc'', ''--skip-bootstrap''] =
     Inr (install_defaults\<lparr>fl_bundle := Some ''/B.xpc'', fl_skip_bootstrap := True\<rparr>)"
  by (simp add: INSTALL_VALUE_FLAGS_def install_value_flag_def)

lemma sample_admission:
  "fl_scope f = User \<Longrightarrow> install_admission install_env f sample_source empty_registry () =
     Inr (sample_inventory, ''/Users/a/Library/LaunchAgents/com.x.plist'')"
  by (simp add: install_admission_def conflicting_record_def empty_registry_def sample_source_def sample_verified sample_identity
      plist_absent_def)

lemma sample_evidence: "\<exists>ev. install_evidence_of install_env f sample_source () = Inr ev"
proof -
  have "is_bundle sample_source = ''/B.xpc''" "current_protocol (bi_protocol_version (is_info sample_source)) = Inr ()"
    by (simp_all add: sample_source_def current_protocol_def require_current_protocol_def RUNNER_PROTOCOL_VERSION_def)
  then show ?thesis
    by (simp add: install_evidence_of_def Let_def sample_signature sample_bundle_info read_back_def sample_verified)
qed

lemma sample_installed:
  "\<exists>out. cmd_runner_install install_env [''--bundle'', ''/B.xpc'', ''--skip-bootstrap''] () = (Inr (out, 0), ())"
proof -
  let ?f = "install_defaults\<lparr>fl_bundle := Some ''/B.xpc'', fl_skip_bootstrap := True\<rparr>"
  have f: "fl_scope ?f = User" "fl_identity ?f = None" "fl_entitlements ?f = None" "fl_service_name ?f = None" "fl_skip_bootstrap ?f"
    by (simp_all add: install_defaults_def)
  obtain ev where ev: "install_evidence_of install_env ?f sample_source () = Inr ev" using sample_evidence by blast
  have id: "bi_bundle_id (is_info sample_source) = ''com.x''" by (simp add: sample_source_def)
  have sign: "sign_stage install_env ?f b () = (Inr (), ())" for b by (simp add: sign_stage_def f)
  have act: "install_action install_host ?f sample_source p () = (Inr (), ())" for p
    by (simp add: install_action_def write_launchd_plist_def w_context_def f split: option.split)
  have save: "sys_save (native_cleanup install_host (st_save (e_store install_env) p)) reg () = (Inr (), ())" for p reg
    by (simp add: native_cleanup_def)
  have reg: "\<exists>out. install_registered install_env ?f sample_source source rid p reg () = (Inr (out, 0), ())" for source rid p reg
    by (simp add: install_registered_def Let_def ev f(1) id sample_identity install_record_def save act ok_envelope_def)
  show ?thesis
    using reg by (simp add: cmd_runner_install_def Let_def sample_install_arguments sample_install_source random_id_def f id
        load_registry_locked_def sample_admission sign del: install_arguments.simps)
qed

theorem cmd_runner_install_sound_witness:
  "\<exists>out w bundle exe obs r ppath. cmd_runner_install install_env [''--bundle'', ''/B.xpc'', ''--skip-bootstrap''] () = (Inr (out, 0), ()) \<and>
     state r = Installed \<and> records_evidence install_env w bundle exe r \<and>
     out = RunnerEnvelope ''runner_install'' (json_result_new True 0 (Some ''ok'') None) (InstallData Installed obs r ppath False)"
proof -
  obtain out where o: "cmd_runner_install install_env [''--bundle'', ''/B.xpc'', ''--skip-bootstrap''] () = (Inr (out, 0), ())"
    using sample_installed by blast
  from cmd_runner_install_sound [OF o] have
    "\<exists>f w bundle exe obs r ppath. install_arguments install_defaults [''--bundle'', ''/B.xpc'', ''--skip-bootstrap''] = Inr f \<and>
      state r = Installed \<and> records_evidence install_env w bundle exe r \<and>
      out = RunnerEnvelope ''runner_install'' (json_result_new True 0 (Some ''ok'') None)
        (InstallData Installed obs r ppath (\<not> fl_skip_bootstrap f))"
    by (elim conjE exE) (intro exI conjI, assumption, assumption, assumption, assumption)
  then obtain w "bundle" exe obs r ppath where "state r = Installed" "records_evidence install_env w bundle exe r"
    "out = RunnerEnvelope ''runner_install'' (json_result_new True 0 (Some ''ok'') None) (InstallData Installed obs r ppath False)"
    by (auto simp: sample_install_arguments simp del: install_arguments.simps)
  with o show ?thesis by blast
qed

end
