(* ===== verification/Sbpl_Check.thy ===== *)
theory Sbpl_Check
  imports Sbpl_Imports Policy_Check
begin

text \<open>
  The \<open>sbpl-check\<close> helper (controller/src/bin/sbpl-check.rs): admission of a policy, the import
  inventory, and the native compilation with its allocations. The calls of libsandbox are functions on
  a world, with pointers as natural numbers and 0 for NULL; the request's decoder, the files and the
  import walk are parameters.
\<close>

section \<open>Requests and records\<close>

record check_policy =
  format :: string
  sbpl_source :: "string option"
  params :: "(string \<times> string) list option"

record check_request =
  cq_policy :: check_policy

datatype stage = ParamsCreate | ParamSet | Compile

record compile_record =
  c_stage :: stage
  c_ok :: bool
  c_error :: "string option"

record import_inventory =
  inv_records :: "import_record list"
  inv_truncated :: bool
  inv_cycle :: "string list option"
  policy_closure_sha256 :: string

record check_data =
  policy_format :: string
  policy_sha256 :: "string option"
  macos_build_version :: "string option"
  params_present :: bool
  params_count :: nat
  compile_rec :: "compile_record option"
  import_inv :: "import_inventory option"

record check_report =
  cr_result :: json_result
  cr_data :: check_data

definition NO_DIAGNOSTIC_SUMMARY :: string where
  "NO_DIAGNOSTIC_SUMMARY = ''sandbox_compile_string returned NULL without a diagnostic''"

section \<open>Admission\<close>

datatype refusal = BadCheckRequest string | PolicyTooLarge string

text \<open>\<open>CString::new\<close>: no interior NUL.\<close>

definition cstring :: "string \<Rightarrow> string option" where
  "cstring s = (if nul \<in> set s then None else Some s)"

record native_param =
  np_key :: string
  key_c :: string
  value_c :: string

record admitted_input =
  adm_source :: string
  source_c :: string
  adm_params :: "native_param list"

definition admit_param :: "string \<times> string \<Rightarrow> refusal + native_param" where
  "admit_param p =
     (case p of (key, v) \<Rightarrow>
        res_bind (ok_or (cstring key) (BadCheckRequest ''a policy.params key contains NUL'')) (\<lambda>k.
        res_bind (ok_or (cstring v) (BadCheckRequest (''policy.params value for '' @ key @ '' contains NUL''))) (\<lambda>c.
        Inr \<lparr>np_key = key, key_c = k, value_c = c\<rparr>)))"

definition admit :: "check_policy \<Rightarrow> refusal + admitted_input" where
  "admit p =
     res_bind (require (format p = ''sbpl'') (BadCheckRequest ''unsupported policy.format (expected sbpl)'')) (\<lambda>_.
     res_bind (ok_or (sbpl_source p) (BadCheckRequest ''missing policy.sbpl_source'')) (\<lambda>source.
     res_bind (require (length source \<le> MAX_SBPL_SOURCE_BYTES)
       (PolicyTooLarge (''policy.sbpl_source is '' @ nat_digits (length source) @ '' bytes; cap is ''
          @ nat_digits MAX_SBPL_SOURCE_BYTES @ '' bytes''))) (\<lambda>_.
     res_bind (ok_or (cstring source) (BadCheckRequest ''policy.sbpl_source contains NUL'')) (\<lambda>c.
     res_bind (try_map (\<lambda>i. admit_param) (unwrap_or (params p) [])) (\<lambda>ps.
     Inr \<lparr>adm_source = source, source_c = c, adm_params = ps\<rparr>)))))"

section \<open>Native compilation\<close>

record 'w native =
  n_create_params :: "'w \<Rightarrow> nat \<times> 'w"
  n_set_param :: "nat \<Rightarrow> string \<Rightarrow> string \<Rightarrow> 'w \<Rightarrow> int \<times> 'w"
  n_free_params :: "nat \<Rightarrow> 'w \<Rightarrow> 'w"
  n_compile :: "string \<Rightarrow> nat \<Rightarrow> 'w \<Rightarrow> nat \<times> nat \<times> 'w" \<comment> \<open>the profile and the error buffer\<close>
  n_error_text :: "nat \<Rightarrow> 'w \<Rightarrow> string \<times> 'w" \<comment> \<open>reading the error buffer as text\<close>
  n_free_error :: "nat \<Rightarrow> 'w \<Rightarrow> 'w"
  n_free_profile :: "nat \<Rightarrow> 'w \<Rightarrow> 'w"

text \<open>The loop over the parameters: the first nonzero result code ends it.\<close>

fun set_params :: "'w native \<Rightarrow> nat \<Rightarrow> native_param list \<Rightarrow> 'w \<Rightarrow> (native_param \<times> int) option \<times> 'w" where
  "set_params native obj [] w = (None, w)"
| "set_params native obj (p # ps) w =
     (case n_set_param native obj (key_c p) (value_c p) w of
        (status, w1) \<Rightarrow> if status \<noteq> 0 then (Some (p, status), w1) else set_params native obj ps w1)"

definition int_digits :: "int \<Rightarrow> string" where
  "int_digits i = (if i < 0 then ''-'' @ nat_digits (nat (- i)) else nat_digits (nat i))"

definition compile_source :: "'w native \<Rightarrow> admitted_input \<Rightarrow> nat \<Rightarrow> 'w \<Rightarrow> compile_record \<times> 'w" where
  "compile_source native input obj w =
     (case n_compile native (source_c input) obj w of
        (profile, err, w1) \<Rightarrow>
          (let (diagnostic, w2) =
                 (if err = 0 then (None, w1)
                  else case n_error_text native err w1 of (t, wr) \<Rightarrow> (Some t, n_free_error native err wr));
               w3 = (if profile \<noteq> 0 then n_free_profile native profile w2 else w2);
               w4 = (if obj \<noteq> 0 then n_free_params native obj w3 else w3) in
           (\<lparr>c_stage = Compile, c_ok = (profile \<noteq> 0 \<and> diagnostic = None), c_error = diagnostic\<rparr>, w4)))"

definition compile_with :: "'w native \<Rightarrow> admitted_input \<Rightarrow> 'w \<Rightarrow> compile_record \<times> 'w" where
  "compile_with native input w =
     (if adm_params input = [] then compile_source native input 0 w
      else case n_create_params native w of
        (obj, w1) \<Rightarrow>
          if obj = 0 then
            (\<lparr>c_stage = ParamsCreate, c_ok = False, c_error = Some ''sandbox_create_params returned NULL''\<rparr>, w1)
          else
            (case set_params native obj (adm_params input) w1 of
               (Some (p, status), w2) \<Rightarrow>
                 (\<lparr>c_stage = ParamSet, c_ok = False,
                   c_error = Some (''sandbox_set_param failed for '' @ np_key p @ '': rc='' @ int_digits status)\<rparr>,
                  n_free_params native obj w2)
             | (None, w2) \<Rightarrow> compile_source native input obj w2))"

definition verdict :: "compile_record \<Rightarrow> string \<times> int \<times> string option" where
  "verdict c =
     (if c_ok c then (''ok'', 0, None)
      else if c_stage c = Compile then (''compile_error'', 1, Some (unwrap_or (c_error c) NO_DIAGNOSTIC_SUMMARY))
      else (''setup_error'', 1, c_error c))"

section \<open>The check\<close>

text \<open>\<open>walk\<close> is the import walk; \<open>build\<close> the host's build version.\<close>

definition check_data_of ::
    "check_policy \<Rightarrow> string option \<Rightarrow> string option \<Rightarrow> compile_record option \<Rightarrow> import_inventory option \<Rightarrow> check_data" where
  "check_data_of p build sha c inventory =
     \<lparr>policy_format = format p, policy_sha256 = sha, macos_build_version = build, params_present = is_some (params p),
      params_count = (case params p of None \<Rightarrow> 0 | Some ps \<Rightarrow> length ps), compile_rec = c, import_inv = inventory\<rparr>"

definition check ::
    "(string \<Rightarrow> string) \<Rightarrow> string option \<Rightarrow> 'w native \<Rightarrow> (string \<Rightarrow> 'w \<Rightarrow> resolved_imports \<times> 'w) \<Rightarrow> check_request \<Rightarrow> 'w
      \<Rightarrow> check_report \<times> 'w" where
  "check sha build native walk request w =
     (case admit (cq_policy request) of
        Inl r \<Rightarrow>
          (let (outcome, e) = (case r of BadCheckRequest e \<Rightarrow> (''bad_request'', e) | PolicyTooLarge e \<Rightarrow> (''policy_too_large'', e)) in
           (\<lparr>cr_result = json_result_new False 1 (Some outcome) (Some [MText e]),
             cr_data = check_data_of (cq_policy request) build None None None\<rparr>, w))
      | Inr input \<Rightarrow>
          (case walk (adm_source input) w of
             (resolved, w1) \<Rightarrow>
               (let inventory = \<lparr>inv_records = ri_records resolved, inv_truncated = ri_truncated resolved,
                      inv_cycle = ri_cycle resolved,
                      policy_closure_sha256 = compute_closure_hash sha (adm_source input) (ri_records resolved)\<rparr>;
                    (c, w2) = compile_with native input w1;
                    (outcome, exit, e) = verdict c in
                (\<lparr>cr_result = json_result_new (exit = 0) exit (Some outcome) (map_option (\<lambda>t. [MText t]) e),
                  cr_data = check_data_of (cq_policy request) build (Some (sha (adm_source input))) (Some c) (Some inventory)\<rparr>, w2))))"

text \<open>The command line: the last \<open>--request\<close> wins; anything else ends the process.\<close>

datatype check_args = CheckHelp | CheckPath path | CheckUsage string

fun check_arguments :: "path option \<Rightarrow> string list \<Rightarrow> check_args" where
  "check_arguments p [] = (case p of Some q \<Rightarrow> CheckPath q | None \<Rightarrow> CheckUsage ''missing --request'')"
| "check_arguments p (arg # rest) =
     (if arg = ''-h'' \<or> arg = ''--help'' then CheckHelp
      else if arg = ''--request'' then
        (case rest of q # rest' \<Rightarrow> check_arguments (Some q) rest' | [] \<Rightarrow> CheckUsage ''missing value for --request'')
      else CheckUsage (''unknown argument: '' @ arg))"

text \<open>
  \<open>main\<close>: the printed report, if there is one, and the exit code. \<open>read_text\<close> reads the named file, or
  stdin for \<open>-\<close>.
\<close>

definition check_main ::
    "(string \<Rightarrow> string) \<Rightarrow> string option \<Rightarrow> 'w native \<Rightarrow> (string \<Rightarrow> 'w \<Rightarrow> resolved_imports \<times> 'w) \<Rightarrow> (path \<Rightarrow> string + string) \<Rightarrow>
     (string \<Rightarrow> string + check_request) \<Rightarrow> string list \<Rightarrow> 'w \<Rightarrow> (check_report option \<times> int) \<times> 'w" where
  "check_main sha build native walk read_text from_str args w =
     (if args = [] then ((None, 2), w)
      else case check_arguments None args of
        CheckHelp \<Rightarrow> ((None, 0), w)
      | CheckUsage _ \<Rightarrow> ((None, 2), w)
      | CheckPath p \<Rightarrow>
          (case res_bind (read_text p) from_str of
             Inl _ \<Rightarrow> ((None, 2), w)
           | Inr request \<Rightarrow>
               (case check sha build native walk request w of
                  (report, w1) \<Rightarrow> ((Some report, unwrap_or (res_exit_code (cr_result report)) 1), w1))))"

text \<open>
  What \<open>main\<close> prints for a report: its envelope, or nothing when that cannot be encoded. \<open>data_value\<close> is
  the derived serialisation of the data.
\<close>

definition check_stdout ::
    "(json \<Rightarrow> string + string) \<Rightarrow> (string \<Rightarrow> string option) \<Rightarrow> nat \<Rightarrow> (message \<Rightarrow> string) \<Rightarrow> (check_data \<Rightarrow> json) \<Rightarrow> check_report
      \<Rightarrow> string" where
  "check_stdout to_pretty build_env now show_message data_value report =
     snd (print_envelope to_pretty build_env now ''sbpl_check'' (json_result_value show_message (cr_result report))
       (data_value (cr_data report)))"

section \<open>The native calls of a check\<close>

datatype native_event =
    Created nat
  | ParamUsed nat
  | ParamsFreed nat
  | CompileCalled nat nat nat
  | ErrorRead nat
  | ErrorFreed nat
  | ProfileFreed nat

definition watched :: "'w native \<Rightarrow> ('w \<times> native_event list) native" where
  "watched n =
     \<lparr>n_create_params = (\<lambda>(w, es). case n_create_params n w of (p, w') \<Rightarrow> (p, w', es @ [Created p])),
      n_set_param = (\<lambda>p k v (w, es). case n_set_param n p k v w of (r, w') \<Rightarrow> (r, w', es @ [ParamUsed p])),
      n_free_params = (\<lambda>p (w, es). (n_free_params n p w, es @ [ParamsFreed p])),
      n_compile = (\<lambda>s p (w, es). case n_compile n s p w of (prof, err, w') \<Rightarrow> (prof, err, w', es @ [CompileCalled p prof err])),
      n_error_text = (\<lambda>e (w, es). case n_error_text n e w of (t, w') \<Rightarrow> (t, w', es @ [ErrorRead e])),
      n_free_error = (\<lambda>e (w, es). (n_free_error n e w, es @ [ErrorFreed e])),
      n_free_profile = (\<lambda>p (w, es). (n_free_profile n p w, es @ [ProfileFreed p]))\<rparr>"

text \<open>
  The account of live allocations: a use or a release of something that is not live has no account.
\<close>

datatype resource = Params nat | Profile nat | ErrorBuffer nat

definition release :: "resource \<Rightarrow> resource list \<Rightarrow> resource list option" where
  "release r live = (if r \<in> set live then Some (remove1 r live) else None)"

definition acquire :: "resource \<Rightarrow> nat \<Rightarrow> resource list \<Rightarrow> resource list" where
  "acquire r p live = (if p = 0 then live else r # live)"

fun account :: "native_event list \<Rightarrow> resource list \<Rightarrow> resource list option" where
  "account [] live = Some live"
| "account (Created p # es) live = account es (acquire (Params p) p live)"
| "account (ParamUsed p # es) live = (if Params p \<in> set live then account es live else None)"
| "account (ParamsFreed p # es) live = Option.bind (release (Params p) live) (account es)"
| "account (CompileCalled p prof err # es) live =
     (if p = 0 \<or> Params p \<in> set live
      then account es (acquire (ErrorBuffer err) err (acquire (Profile prof) prof live)) else None)"
| "account (ErrorRead e # es) live = (if ErrorBuffer e \<in> set live then account es live else None)"
| "account (ErrorFreed e # es) live = Option.bind (release (ErrorBuffer e) live) (account es)"
| "account (ProfileFreed p # es) live = Option.bind (release (Profile p) live) (account es)"

lemma account_append: "account (xs @ ys) live = Option.bind (account xs live) (account ys)"
proof (induction xs live rule: account.induct)
qed (auto split: if_splits Option.bind_splits)

text \<open>A run of the native calls that balances: the log grows by events that end where they began.\<close>

lemma set_params_log:
  "\<exists>r w' us. set_params (watched n) obj ps (w, es) = (r, w', es @ us) \<and> set_params n obj ps w = (r, w') \<and>
     set us \<subseteq> {ParamUsed obj}"
proof (induction ps arbitrary: w es)
  case (Cons p ps)
  obtain st w1 where c: "n_set_param n obj (key_c p) (value_c p) w = (st, w1)" by fastforce
  from Cons.IH [of w1 "es @ [ParamUsed obj]"] c show ?case
    by (cases "st = 0") (auto simp: watched_def)
qed simp

lemma account_uses: "set us \<subseteq> {ParamUsed p} \<Longrightarrow> Params p \<in> set live \<Longrightarrow> account us live = Some live"
  by (induction us) auto

lemma compile_source_log:
  "\<exists>c w' us. compile_source (watched n) input obj (w, es) = (c, w', es @ us) \<and> compile_source n input obj w = (c, w') \<and>
     account us (if obj = 0 then [] else [Params obj]) = Some []"
proof -
  obtain prof err w1 where c: "n_compile n (source_c input) obj w = (prof, err, w1)" by (metis prod_cases3)
  obtain t w2 where t: "n_error_text n err w1 = (t, w2)" by fastforce
  show ?thesis
    using c t
    by (cases "obj = 0"; cases "err = 0"; cases "prof = 0")
      (auto simp: compile_source_def watched_def release_def acquire_def Let_def)
qed

lemma compile_with_log:
  "\<exists>c w' us. compile_with (watched n) input (w, es) = (c, w', es @ us) \<and> compile_with n input w = (c, w') \<and>
     account us [] = Some []"
proof (cases "adm_params input = []")
  case True
  with compile_source_log [of n input 0 w es] show ?thesis by (auto simp: compile_with_def)
next
  case False
  obtain obj w1 where c: "n_create_params n w = (obj, w1)" by fastforce
  show ?thesis
  proof (cases "obj = 0")
    case True
    with False c show ?thesis by (auto simp: compile_with_def watched_def acquire_def)
  next
    case nz: False
    obtain r w2 us where s: "set_params (watched n) obj (adm_params input) (w1, es @ [Created obj]) = (r, w2, es @ Created obj # us)"
      "set_params n obj (adm_params input) w1 = (r, w2)" "set us \<subseteq> {ParamUsed obj}"
      using set_params_log [of n obj "adm_params input" w1 "es @ [Created obj]"] by auto
    from s(3) have u: "account us [Params obj] = Some [Params obj]" by (simp add: account_uses)
    have w: "n_create_params (watched n) (w, es) = (obj, w1, es @ [Created obj])" using c by (simp add: watched_def)
    show ?thesis
    proof (cases r)
      case None
      obtain cr w3 vs where "compile_source (watched n) input obj (w2, es @ Created obj # us) = (cr, w3, (es @ Created obj # us) @ vs)"
        "compile_source n input obj w2 = (cr, w3)" "account vs [Params obj] = Some []"
        using compile_source_log [of n input obj w2 "es @ Created obj # us"] nz by auto
      with False c w s(1, 2) nz u None show ?thesis
        by (auto simp: compile_with_def account_append acquire_def)
    next
      case (Some x)
      with False c w s(1, 2) nz u show ?thesis
        by (cases x) (auto simp: compile_with_def account_append acquire_def release_def watched_def)
    qed
  qed
qed

section \<open>Properties\<close>

text \<open>The same check with the native calls recorded.\<close>

definition check_log ::
    "(string \<Rightarrow> string) \<Rightarrow> string option \<Rightarrow> 'w native \<Rightarrow> (string \<Rightarrow> 'w \<Rightarrow> resolved_imports \<times> 'w) \<Rightarrow> check_request \<Rightarrow> 'w
      \<Rightarrow> native_event list" where
  "check_log sha build n walk request w =
     snd (snd (check sha build (watched n) (\<lambda>s (w, es). case walk s w of (r, w') \<Rightarrow> (r, w', es)) request (w, [])))"

text \<open>
  C17: the helper's use of libsandbox is memory-safe on every path. Whatever the native calls return, each
  parameter set, profile and error buffer it acquires is released exactly once, is used only while it is
  live and nothing is left over; a NULL is neither used nor released. An input refusal makes no native
  call and no import walk at all.
\<close>

theorem check_memory_safe:
  "account (check_log sha build n walk request w) [] = Some [] \<and>
   (case admit (cq_policy request) of
      Inl r \<Rightarrow> check_log sha build n walk request w = [] \<and> snd (check sha build n walk request w) = w
    | Inr input \<Rightarrow> True)"
proof (cases "admit (cq_policy request)")
  case (Inl r)
  then show ?thesis by (simp add: check_log_def check_def Let_def split: prod.splits refusal.splits)
next
  case (Inr input)
  obtain resolved w1 where r: "walk (adm_source input) w = (resolved, w1)" by fastforce
  obtain c w2 us where "compile_with (watched n) input (w1, []) = (c, w2, us)" "account us [] = Some []"
    using compile_with_log [of n input w1 "[]"] by auto
  with Inr r show ?thesis by (auto simp: check_log_def check_def Let_def split: prod.splits)
qed

text \<open>The outcome a check must have, by the stage it ends in.\<close>

definition check_outcome :: "'w native \<Rightarrow> (string \<Rightarrow> 'w \<Rightarrow> resolved_imports \<times> 'w) \<Rightarrow> check_request \<Rightarrow> 'w \<Rightarrow> string" where
  "check_outcome n walk request w =
     (case admit (cq_policy request) of
        Inl (BadCheckRequest e) \<Rightarrow> ''bad_request''
      | Inl (PolicyTooLarge e) \<Rightarrow> ''policy_too_large''
      | Inr input \<Rightarrow>
          (let c = fst (compile_with n input (snd (walk (adm_source input) w))) in
           if c_ok c then ''ok'' else if c_stage c = Compile then ''compile_error'' else ''setup_error''))"

lemma check_result_outcome:
  "res_normalized_outcome (cr_result (fst (check sha build n walk request w))) = Some (check_outcome n walk request w) \<and>
   res_exit_code (cr_result (fst (check sha build n walk request w))) = Some (if check_outcome n walk request w = ''ok'' then 0 else 1)"
  by (auto simp: check_def check_outcome_def verdict_def json_result_new_def Let_def
      split: sum.splits refusal.splits prod.splits if_splits)

lemma helper_says_unique: "helper_says v s \<Longrightarrow> helper_says v s' \<Longrightarrow> s = s'"
  by (auto simp: helper_says_def)

lemma helper_envelope_says:
  assumes "res_normalized_outcome r = Some s" and "s \<noteq> []"
  shows "helper_says (envelope_value env now ''sbpl_check'' (json_result_value show_message r) data) s"
proof -
  let ?j = "json_result_value show_message r"
  have get: "jget (envelope_value env now ''sbpl_check'' ?j data) k =
      map_option sort_value (obj_get [(''data'', data), (''result'', ?j), (''build'', build_stamp_value env),
        (''generated_at_unix_ms'', JNum (PosInt now)), (''kind'', JStr ''sbpl_check''),
        (''schema_version'', JNum (PosInt SCHEMA_VERSION))] k)" for k
    unfolding envelope_value_def by (subst jget_sort_value, rule strict_keys_insert_all, simp) (simp add: obj_get_insert_all)
  have strict: "strict_keys [(''errno'', a), (''error'', b), (''exit_code'', c), (''normalized_outcome'', d), (''ok'', e),
      (''rc'', f), (''stderr'', g), (''stdout'', h)]" for a b c d e f g h :: json
    unfolding strict_keys_def by code_simp
  have "jget (sort_value ?j) ''normalized_outcome'' = Some (JStr s)"
    unfolding json_result_value_def by (subst jget_sort_value, rule strict) (simp add: assms(1) opt_json_def)
  then show ?thesis unfolding helper_says_def get by (simp add: assms(2) SCHEMA_VERSION_def)
qed

text \<open>
  C18: the controller's fallback reads a helper's output one way only, and gets back the verdict the
  helper decided. Reading any output: more than 8 MiB is a capture error, no output a tool error, output
  that is not JSON a parse error; JSON is retained, and the status is its outcome exactly when it is an
  envelope of the helper's kind and this version with a nonempty outcome, else an invalid reply. Reading
  what the helper prints for a request it can decode: whatever the native calls, the walk, the clock and
  the build, the process ends with code 0 exactly for the outcome \<open>ok\<close>, and up to 8 MiB the status is the
  outcome of the stage the check ended in and the retained envelope is the printed one, its keys
  ascending at every level; the one thing relied on is that the JSON crate reads this text back.
\<close>

theorem helper_verdict_read_back:
  fixes sha build n walk request w build_env now show_message data_value
  defines "report \<equiv> fst (check sha build n walk request w)"
  defines "env \<equiv> envelope_value build_env now ''sbpl_check'' (json_result_value show_message (cr_result report)) (data_value (cr_data report))"
  assumes "to_pretty env = Inr t" and "from_slice (t @ [CHR 0x0A]) = Inr env"
    and "read_text ''-'' = Inr body" and "from_str body = Inr request"
  shows "(let c = parse_policy_check_output lossy from_slice any in
      tool_exit_code c = unwrap_or (out_code any) 1 \<and>
      (if 8 * 1024 * 1024 < length (out_stdout any) then pc_status c = ''capture_error'' \<and> pc_envelope c = None
       else if out_stdout any = [] then pc_status c = ''tool_error'' \<and> pc_envelope c = None
       else (case from_slice (out_stdout any) of
           Inl _ \<Rightarrow> pc_status c = ''parse_error'' \<and> pc_envelope c = None
         | Inr v \<Rightarrow> pc_envelope c = Some v \<and>
             (helper_says v (pc_status c) \<or> (\<nexists>s. helper_says v s) \<and> pc_status c = ''invalid_reply'')))) \<and>
    (\<exists>exit w'. check_main sha build n walk read_text from_str [''--request'', ''-''] w = ((Some report, exit), w') \<and>
      (exit = 0 \<longleftrightarrow> check_outcome n walk request w = ''ok'') \<and>
      (let stdout = check_stdout to_pretty build_env now show_message data_value report;
           c = parse_policy_check_output lossy from_slice \<lparr>out_stdout = stdout, out_stderr = stderr, out_code = Some exit\<rparr> in
       tool_exit_code c = exit \<and>
       (if length stdout \<le> 8 * 1024 * 1024
        then pc_status c = check_outcome n walk request w \<and> pc_envelope c = Some env \<and> canonical env
        else pc_status c = ''capture_error'' \<and> pc_envelope c = None)))"
proof -
  have res: "res_normalized_outcome (cr_result report) = Some (check_outcome n walk request w)"
    "res_exit_code (cr_result report) = Some (if check_outcome n walk request w = ''ok'' then 0 else 1)"
    using check_result_outcome [of sha build n walk request w] by (simp_all add: report_def)
  have out: "check_stdout to_pretty build_env now show_message data_value report = t @ [CHR 0x0A]"
    using assms(3) by (simp add: check_stdout_def print_envelope_def render_envelope_def env_def)
  have "check_outcome n walk request w \<noteq> []"
    by (auto simp: check_outcome_def Let_def split: sum.splits refusal.splits)
  then have says: "helper_says env s \<longleftrightarrow> s = check_outcome n walk request w" for s
    using helper_envelope_says [OF res(1)] helper_says_unique unfolding env_def by blast
  have main: "\<exists>w'. check_main sha build n walk read_text from_str [''--request'', ''-''] w =
      ((Some report, if check_outcome n walk request w = ''ok'' then 0 else 1), w')"
    using res(2) assms(5, 6) by (cases "check sha build n walk request w") (simp add: check_main_def report_def)
  have "canonical env" by (simp add: env_def envelope_value_def canonical_sort_value)
  then show ?thesis
    using main policy_check_status [of lossy from_slice any, OF refl]
      policy_check_status [of lossy from_slice "\<lparr>out_stdout = t @ [CHR 0x0A], out_stderr = stderr,
        out_code = Some (if check_outcome n walk request w = ''ok'' then 0 else 1)\<rparr>", OF refl]
    unfolding out Let_def by (auto simp: assms(4) says not_less split: if_splits)
qed

text \<open>A helper whose libsandbox compiles everything, asked about an empty policy.\<close>

definition sample_native :: "unit native" where
  "sample_native = \<lparr>n_create_params = (\<lambda>w. (1, w)), n_set_param = (\<lambda>p k v w. (0, w)), n_free_params = (\<lambda>p w. w),
     n_compile = (\<lambda>s p w. (1, 0, w)), n_error_text = (\<lambda>e w. ([], w)), n_free_error = (\<lambda>e w. w), n_free_profile = (\<lambda>p w. w)\<rparr>"

definition sample_walk :: "string \<Rightarrow> unit \<Rightarrow> resolved_imports \<times> unit" where
  "sample_walk s w = (\<lparr>ri_records = [], ri_truncated = False, ri_exceeded = None, ri_nonliteral = False, ri_cycle = None,
     ri_failure = None\<rparr>, w)"

definition sample_check :: check_request where
  "sample_check = \<lparr>cq_policy = \<lparr>format = ''sbpl'', sbpl_source = Some [], params = None\<rparr>\<rparr>"

definition sample_envelope :: json where
  "sample_envelope = envelope_value (\<lambda>k. None) 0 ''sbpl_check''
     (json_result_value (\<lambda>m. []) (cr_result (fst (check id None sample_native sample_walk sample_check ())))) JNull"

theorem helper_verdict_read_back_witness:
  "pc_status (parse_policy_check_output id (\<lambda>s. Inr sample_envelope) \<lparr>out_stdout = ''{}'' @ [CHR 0x0A], out_stderr = [], out_code = Some 0\<rparr>) = ''ok'' \<and>
   check_outcome sample_native sample_walk sample_check () = ''ok''"
proof -
  have o: "check_outcome sample_native sample_walk sample_check () = ''ok''"
    by (simp add: check_outcome_def sample_check_def admit_def cstring_def MAX_SBPL_SOURCE_BYTES_def compile_with_def
        compile_source_def sample_native_def sample_walk_def Let_def)
  have s: "check_stdout (\<lambda>v. Inr ''{}'') (\<lambda>k. None) 0 (\<lambda>m. []) (\<lambda>d. JNull) r = ''{}'' @ [CHR 0x0A]" for r
    by (simp add: check_stdout_def print_envelope_def render_envelope_def)
  from helper_verdict_read_back [where sha = id and build = None and n = sample_native and walk = sample_walk and
      request = sample_check and w = "()" and build_env = "\<lambda>k. None" and now = 0 and show_message = "\<lambda>m. []" and
      data_value = "\<lambda>d. JNull" and to_pretty = "\<lambda>v. Inr ''{}''" and t = "''{}''" and from_slice = "\<lambda>s. Inr sample_envelope" and
      read_text = "\<lambda>p. Inr []" and body = "[]" and from_str = "\<lambda>t. Inr sample_check" and lossy = id and stderr = "[]"] o
  show ?thesis unfolding s by (auto simp: sample_envelope_def Let_def)
qed

end
