(* ===== verification/Spec2Isabelle.thy ===== *)
theory Spec2Isabelle
  imports Runner_Commands Sbpl_Check
begin

text \<open>
  \<^bold>\<open>PolicyWitness: the controller.\<close>

  PolicyWitness runs a specimen under a sandbox policy and reports what was observed. Its controller
  (the Rust crate controller/src/) reads a request, resolves the policy and the runner, submits the
  request to a runner process through a client, admits or refuses the reply, derives diagnostics from
  the reply's evidence, and prints one JSON envelope. It also manages external runners: a registry on
  disk, code signatures, launchd property lists. This development models the controller; the runner
  itself (Swift and C, on the other side of an XPC boundary) is seen only through its replies.

  \<^bold>\<open>How the model is written.\<close> A Rust function is a HOL function of the same name where Isabelle
  allows it. A \<open>Result\<close> is a sum with \<open>Inl\<close> the error, an early return is a branch, a panic is the value
  \<open>Panicked\<close>, a struct is a record, an enum a datatype. Strings are byte strings. JSON values are the
  datatype \<open>json\<close> with objects in key order. Code outside the repository (the operating system, codesign,
  launchctl, plutil, libsandbox, serde_json's text functions, SHA-256) is an argument or a record of
  operations over an arbitrary world; what a theorem needs of it is a hypothesis with a witness.

  \<^bold>\<open>The theories, bottom up.\<close>

  \<^item> Prelude, Json, Paths: results, options, slices, byte strings; JSON values and maps (the locales
    \<open>key_map\<close> and \<open>ordered_key_map\<close>, interpreted by the object maps); paths by components.
  \<^item> Sbpl_Lex (sbpl_lex.rs): the import scanner, byte by byte; scanning printed imports gives them back.
  \<^item> Sbpl_Imports (sbpl_imports.rs): the depth-first import walk and the closure hash. The walk is
    bounded, lists nothing twice and accounts for every problem, through the locale \<open>walk_property\<close>; two
    hashed payloads agree exactly when the sources and the resolved files with their hashes do.
  \<^item> Requests (request_patch.rs, runner_select.rs): request errors, the version gate, the runner
    selector, accepted exactly when every spelling of every field can be read.
  \<^item> Augments (augments.rs): policy augments, confined to their directory and spliced exactly.
  \<^item> Runner_Select (runner_select.rs, evidence.rs, app_layout.rs): runner targets, the entitlement gate, the
    evidence manifest.
  \<^item> Delivery (utils.rs): the request writer, a loop that may not end and so is a partial function, and the
    bounded capture of a child's output. The writer is specified by the log of the pipe's answers. Base64, Runner_Client (runner_client.rs): the strict decoder and
    the validation of what the client captured; a reply is reported exactly from a complete capture.
  \<^item> Disposition, Exec_Evidence, Extension_Evidence, Diagnostics (disposition.rs), Actor_Evidence
    (actor_evidence.rs): what a reply's evidence must satisfy and what is concluded from it. Accepted
    evidence is sound: dispositions rest on raw facts, gates on reaped actors, handles are consumed before
    they are released, and an envelope is valid exactly when nothing was found. Deriving the
    diagnostics panics on exactly one shape of reply.
  \<^item> Envelope (json_contract.rs), Policy_Check (policy_check.rs, app_layout.rs), Sbpl_Check
    (bin/sbpl-check.rs): the envelope and its key order, the helper that compiles a policy on its own, and
    the controller's reading of what it prints: every output has one classification, and the verdict
    comes back. The helper releases every allocation once.
  \<^item> Dossier (dossier.rs), Run_Flow (run_flow.rs, cli.rs): the record of what was run, and the run from
    arguments to envelope. A run refines an abstract protocol of calls (load, submit, fall back).
  \<^item> Runner_Registry (runner_manager.rs): registry records and the install and remove transactions over the
    operations of \<open>CleanupSystem\<close>, observed through a log. Removal is crash-safe, acts only on what it has
    observed to be owned, and waits at most 1000 ms in 21 reads.
  \<^item> Registry_Store (runner_manager.rs): the registry file. The disk answers each call as a script says and
    remembers every state, so that a crash at any point is one of the states quantified over. A save is
    atomic; the removal transaction on this disk leaves the text of its log's durable registry (the
    locale \<open>cleanup_invariant\<close>, interpreted on the logged system with the disk).
  \<^item> Launchd_Plist (runner_manager.rs): the property list of a runner, with a reader as its specification.
  \<^item> Runner_Host (runner_manager.rs): the commands run and the reading of their output, the location and
    inspection of a property list, the production cleanup operations.
  \<^item> Equipment (runner_manager.rs): the sealed worker inventory, the signing order, re-validation.
  \<^item> Runner_Commands (runner_commands.rs, bundle.rs, plist.rs): the runner subcommands. An installation
    passes every gate before it acts and records what codesign reports of each binary, and what it
    writes is recognised again, with the two exceptions
    the theorems \<open>installed_plist_owner\<close> and \<open>installed_record_located\<close> state.

  \<^bold>\<open>Bounds and fuel.\<close> The constants are the source's. The import walk recurses on the remaining depth
  and terminates by its measure; the teardown wait by its budget. Fuel appears only in the reference
  reader of property lists, twice the number of tags plus two, and \<open>written_plist_read\<close> shows that it
  suffices for every written document. The request writer retries interruptions without a bound; that
  it returns is proved for writers that stop interrupting (\<open>write_request_delivers\<close>).

  \<^bold>\<open>Simplifications.\<close> Operating-system strings are taken to be UTF-8, so that the text of a path is the
  path; \<open>trim\<close> removes ASCII white space; the host's queries are functions of the world at the time of the
  query. The disk of Registry_Store has no links, and
  a flush has no effect a reader can see. The lock is released with the process, which is not
  modelled.

  \<^bold>\<open>Not modelled.\<close> The runner and its probes (Swift, C), test code, fixtures and integration tests; the
  sysctl calls of host_facts.rs and the digest crate (parameters); the text of usage messages and of
  printed JSON (serde_json's printer is a parameter); main.rs, which only calls the dispatch.
\<close>

end
